(* ===== verification/Prelude.thy ===== *)
theory Prelude
  imports Main "HOL-Library.AList" "HOL-Library.Word" "HOL-Library.Char_ord"
    "HOL-Library.List_Lexorder" "HOL-Library.Multiset"
begin

text \<open>
  Shared vocabulary of the development: gRPC status errors and the result of a call, handlers as
  state-passing functions, Go maps as association lists, and the order in which the Go runtime
  ranges over a map. The lemmas here are the ones every component uses.
\<close>

named_theorems handler_simps \<open>unfolding of the combinators handlers are built from\<close>
named_theorems map_simps \<open>lookup, store and delete on Go maps\<close>

section \<open>Errors and results\<close>

text \<open>
  The status codes the code returns (package codes of grpc), with \<open>Unknown\<close> for the code that
  \<open>status.Code\<close> gives an error that is not a status.
\<close>

datatype Code = InvalidArgument | NotFound | AlreadyExists | PermissionDenied | Aborted
  | Internal | Unavailable | Unimplemented | Unknown

text \<open>
  A message is kept as the pieces its format string joins: plain text, and the arguments of a
  \<open>%q\<close> verb before quoting (\<open>strconv.Quote\<close> is not rendered).
\<close>

datatype piece = Txt string | Quoted string

type_synonym msg = "piece list"

text \<open>
  \<open>Status\<close> is a gRPC status error with its code, its message and the field violations attached
  as details; \<open>GoError\<close> is an error made by \<open>fmt.Errorf\<close>.
\<close>

datatype err = Status Code msg "(string \<times> msg) list" | GoError msg

fun status_Code :: "err \<Rightarrow> Code" where
  "status_Code (Status c m d) = c"
| "status_Code (GoError m) = Unknown"

definition errorf :: "Code \<Rightarrow> string \<Rightarrow> err" where
  "errorf c s = Status c [Txt s] []"

lemma status_Code_errorf [simp]: "status_Code (errorf c s) = c"
  by (simp add: errorf_def)

lemma errorf_eq_iff [simp]: "errorf c s = errorf c' s' \<longleftrightarrow> c = c' \<and> s = s'"
  by (simp add: errorf_def)

text \<open>\<open>err.Error()\<close>: gRPC prefixes a status message with the name of its code.\<close>

fun code_String :: "Code \<Rightarrow> string" where
  "code_String InvalidArgument = ''InvalidArgument''"
| "code_String NotFound = ''NotFound''"
| "code_String AlreadyExists = ''AlreadyExists''"
| "code_String PermissionDenied = ''PermissionDenied''"
| "code_String Aborted = ''Aborted''"
| "code_String Internal = ''Internal''"
| "code_String Unavailable = ''Unavailable''"
| "code_String Unimplemented = ''Unimplemented''"
| "code_String Unknown = ''Unknown''"

fun err_Error :: "err \<Rightarrow> msg" where
  "err_Error (Status c m d) = Txt (''rpc error: code = '' @ code_String c @ '' desc = '') # m"
| "err_Error (GoError m) = m"

text \<open>
  What a call gives back: a value, an error, or a panic that no one recovers.
\<close>

datatype 'a result = Ok 'a | Err err | Panic string

fun is_ok :: "'a result \<Rightarrow> bool" where
  "is_ok (Ok a) = True"
| "is_ok (Err e) = False"
| "is_ok (Panic p) = False"

fun is_panic :: "'a result \<Rightarrow> bool" where
  "is_panic (Ok a) = False"
| "is_panic (Err e) = False"
| "is_panic (Panic p) = True"

fun map_result :: "('a \<Rightarrow> 'b) \<Rightarrow> 'a result \<Rightarrow> 'b result" where
  "map_result f (Ok a) = Ok (f a)"
| "map_result f (Err e) = Err e"
| "map_result f (Panic p) = Panic p"

lemma is_ok_iff: "is_ok r \<longleftrightarrow> (\<exists>a. r = Ok a)"
  by (cases r) auto

lemma is_panic_map_result [simp]: "is_panic (map_result f r) = is_panic r"
  by (cases r) auto

section \<open>Handlers: state passing with early return\<close>

text \<open>
  An operation takes the state and returns a result with the new state. \<open>seq\<close> is Go's
  \<open>x, err := f(); if err != nil { return nil, err }\<close>: an error or a panic ends the handler with
  the state reached so far.
\<close>

type_synonym ('s, 'a) op = "'s \<Rightarrow> 'a result \<times> 's"

definition seq :: "('s, 'a) op \<Rightarrow> ('a \<Rightarrow> ('s, 'b) op) \<Rightarrow> ('s, 'b) op" where
  "seq m f s = (case m s of
      (Ok a, s') \<Rightarrow> f a s'
    | (Err e, s') \<Rightarrow> (Err e, s')
    | (Panic p, s') \<Rightarrow> (Panic p, s'))"

definition give :: "'a result \<Rightarrow> ('s, 'a) op" where
  "give r s = (r, s)"

lemma give_apply [simp, handler_simps]: "give r s = (r, s)"
  by (simp add: give_def)

lemma seq_give [simp, handler_simps]:
  "seq (give (Ok a)) f s = f a s"
  "seq (give (Err e)) f s = (Err e, s)"
  "seq (give (Panic p)) f s = (Panic p, s)"
  by (simp_all add: seq_def)

lemma seq_Ok: "m s = (Ok a, s') \<Longrightarrow> seq m f s = f a s'"
  by (simp add: seq_def)

lemma seq_Err: "m s = (Err e, s') \<Longrightarrow> seq m f s = (Err e, s')"
  by (simp add: seq_def)

text \<open>A relation between the states before and after that every step keeps, kept by a sequence.\<close>

lemma seq_rel:
  assumes "\<And>s. R s (snd (m s))" and "\<And>a s. R s (snd (f a s))"
    and "\<And>x y z. R x y \<Longrightarrow> R y z \<Longrightarrow> R x z"
  shows "R s (snd (seq m f s))"
proof -
  obtain r s' where m: "m s = (r, s')" by (cases "m s")
  have "R s s'" using assms(1) [of s] m by simp
  then show ?thesis
    using assms(2,3) m by (cases r) (auto simp: seq_def)
qed

text \<open>The invariant rule: if both parts keep \<open>P\<close>, so does the sequence.\<close>

lemma seq_inv:
  assumes "\<And>r s'. m s = (r, s') \<Longrightarrow> P s'" and "\<And>a s'. P s' \<Longrightarrow> P (snd (f a s'))"
  shows "P (snd (seq m f s))"
proof -
  obtain r s' where m: "m s = (r, s')" by (cases "m s")
  then have "P s'" by (rule assms(1))
  then show ?thesis
    using assms(2) m by (cases r) (auto simp: seq_def)
qed

text \<open>And if no part panics, neither does the sequence.\<close>

lemma seq_no_panic:
  assumes "\<not> is_panic (fst (m s))" and "\<And>a s'. \<not> is_panic (fst (f a s'))"
  shows "\<not> is_panic (fst (seq m f s))"
proof -
  obtain r s' where m: "m s = (r, s')" by (cases "m s")
  then show ?thesis
    using assms by (cases r) (auto simp: seq_def)
qed

section \<open>Go maps\<close>

text \<open>
  A Go map with string keys is an association list whose keys are distinct: \<open>map_of m k\<close> is
  \<open>v, ok := m[k]\<close>, \<open>AList.update k v m\<close> is \<open>m[k] = v\<close>, \<open>AList.delete k m\<close> is
  \<open>delete(m, k)\<close> and \<open>length m\<close> is \<open>len(m)\<close>.
\<close>

type_synonym 'v gomap = "(string \<times> 'v) list"

declare AList.update_conv' [map_simps] AList.delete_conv' [map_simps]

text \<open>
  A table holds every resource under its own full resource name, once.
\<close>

definition wf_table :: "('r \<Rightarrow> string) \<Rightarrow> 'r gomap \<Rightarrow> bool" where
  "wf_table nm m \<longleftrightarrow> distinct (map fst m) \<and> (\<forall>(k, r) \<in> set m. nm r = k)"

lemma wf_table_Nil [simp]: "wf_table nm []"
  by (simp add: wf_table_def)

lemma wf_table_distinct: "wf_table nm m \<Longrightarrow> distinct (map fst m)"
  by (simp add: wf_table_def)

lemma wf_table_name: "wf_table nm m \<Longrightarrow> map_of m k = Some r \<Longrightarrow> nm r = k"
  by (auto simp: wf_table_def dest: map_of_SomeD)

lemma wf_table_mem:
  assumes "wf_table nm m"
  shows "r \<in> set (map snd m) \<longleftrightarrow> map_of m (nm r) = Some r"
proof
  assume "r \<in> set (map snd m)"
  then obtain k where "(k, r) \<in> set m" by auto
  moreover from this have "nm r = k" using assms by (auto simp: wf_table_def)
  ultimately show "map_of m (nm r) = Some r"
    using wf_table_distinct [OF assms] by simp
next
  assume "map_of m (nm r) = Some r"
  then show "r \<in> set (map snd m)" by (force dest: map_of_SomeD)
qed

lemma set_update_sub: "x \<in> set (AList.update k v m) \<Longrightarrow> x = (k, v) \<or> x \<in> set m"
  by (induction m) (auto split: if_splits)

lemma wf_table_update [intro]:
  assumes "wf_table nm m" and "nm r = k"
  shows "wf_table nm (AList.update k r m)"
  using assms by (auto simp: wf_table_def AList.distinct_update dest!: set_update_sub)

lemma set_delete_sub: "x \<in> set (AList.delete k m) \<Longrightarrow> x \<in> set m \<and> fst x \<noteq> k"
  by (auto simp: AList.delete_eq)

lemma wf_table_delete [intro]: "wf_table nm m \<Longrightarrow> wf_table nm (AList.delete k m)"
  by (auto simp: wf_table_def AList.distinct_delete dest!: set_delete_sub)

lemma delete_update_fresh:
  "map_of m k = None \<Longrightarrow> AList.delete k (AList.update k v m) = m"
  by (simp add: AList.delete_update_same map_of_eq_None_iff)

lemma length_update_fresh:
  "map_of m k = None \<Longrightarrow> length (AList.update k v m) = Suc (length m)"
  by (induction m) (auto split: if_splits)

section \<open>Ranging over a map\<close>

text \<open>
  \<open>for k, v := range m\<close> visits every entry once, in an order the language leaves open. The
  order is an argument: a function that permutes the keys.
\<close>

type_synonym order = "string list \<Rightarrow> string list"

definition range_map :: "order \<Rightarrow> 'v gomap \<Rightarrow> (string \<times> 'v) list" where
  "range_map ord m = List.map_filter (\<lambda>k. map_option (Pair k) (map_of m k)) (ord (map fst m))"

definition iter_order :: "order \<Rightarrow> bool" where
  "iter_order ord \<longleftrightarrow> (\<forall>ks. mset (ord ks) = mset ks)"

lemma iter_order_mset: "iter_order ord \<Longrightarrow> mset (ord ks) = mset ks"
  by (simp add: iter_order_def)

lemma iter_order_id [simp]: "iter_order (\<lambda>ks. ks)" and iter_order_rev [simp]: "iter_order rev"
  by (simp_all add: iter_order_def)

lemma map_filter_id_keys:
  "(\<And>k. k \<in> set ks \<Longrightarrow> f k = Some (g k)) \<Longrightarrow> List.map_filter f ks = map g ks"
  by (induction ks) (auto simp: List.map_filter_def)

lemma mset_range_map:
  assumes "distinct (map fst m)" and "iter_order ord"
  shows "mset (range_map ord m) = mset m"
proof -
  let ?g = "\<lambda>k. (k, the (map_of m k))"
  have keys: "mset (ord (map fst m)) = mset (map fst m)"
    using assms(2) by (rule iter_order_mset)
  then have sets: "set (ord (map fst m)) = set (map fst m)"
    by (metis set_mset_mset)
  have "range_map ord m = map ?g (ord (map fst m))"
    unfolding range_map_def
  proof (rule map_filter_id_keys)
    fix k assume "k \<in> set (ord (map fst m))"
    then have "k \<in> fst ` set m" using sets by simp
    then obtain v where "map_of m k = Some v" by (metis map_of_eq_None_iff option.exhaust)
    then show "map_option (Pair k) (map_of m k) = Some (?g k)" by simp
  qed
  then have "mset (range_map ord m) = image_mset ?g (mset (ord (map fst m)))"
    by simp
  also have "\<dots> = mset (map ?g (map fst m))"
    by (simp only: keys mset_map)
  also have "map ?g (map fst m) = m"
    using assms(1) by (auto intro!: map_idI simp: o_def)
  finally show ?thesis .
qed

lemma find_distinct_map:
  assumes "distinct (map (f \<circ> fst) xs)" and "(k, v) \<in> set xs"
  shows "find (\<lambda>x. f (fst x) = f k) xs = Some (k, v)"
  using assms by (induction xs) (force simp: image_image)+

lemma set_range_map:
  "distinct (map fst m) \<Longrightarrow> iter_order ord \<Longrightarrow> set (range_map ord m) = set m"
  by (metis mset_range_map set_mset_mset)

text \<open>The entries of a table whose keys satisfy a predicate, in iteration order: each once.\<close>

lemma wf_table_listed:
  assumes "wf_table nm m" and "iter_order ord"
  shows "set (map snd (filter (\<lambda>(k, r). P k) (range_map ord m))) = {r. map_of m (nm r) = Some r \<and> P (nm r)}"
    and "distinct (map snd (filter (\<lambda>(k, r). P k) (range_map ord m)))"
proof -
  let ?l = "filter (\<lambda>(k, r). P k) (range_map ord m)"
  note d = wf_table_distinct [OF assms(1)]
  have set: "set (range_map ord m) = set m" by (rule set_range_map [OF d assms(2)])
  have nm: "nm r = k \<and> map_of m k = Some r" if "(k, r) \<in> set m" for k r
    using that assms(1) d by (auto simp: wf_table_def)
  show "set (map snd ?l) = {r. map_of m (nm r) = Some r \<and> P (nm r)}"
    (is "_ = ?listed")
  proof (intro equalityI subsetI)
    fix r
    show "r \<in> ?listed" if "r \<in> set (map snd ?l)" using that nm by (auto simp: set)
    assume "r \<in> ?listed"
    then have "(nm r, r) \<in> set ?l" by (auto simp: set dest: map_of_SomeD)
    then show "r \<in> set (map snd ?l)" by (metis imageI set_map snd_conv)
  qed
  have "mset (map fst (range_map ord m)) = mset (map fst m)"
    using mset_range_map [OF d assms(2)] by simp
  then have "distinct (map fst (range_map ord m))" using d by (metis mset_eq_imp_distinct_iff)
  then have "distinct (map fst ?l)" by (rule distinct_map_filter)
  moreover have "map fst ?l = map nm (map snd ?l)" using nm set by auto
  ultimately show "distinct (map snd ?l)" by (metis distinct_map)
qed

lemma distinct_singleton_iff: "distinct l \<and> set l = {x} \<longleftrightarrow> l = [x]"
  by (cases l; cases "tl l") auto


section \<open>Sorting\<close>

text \<open>
  \<open>sort.Slice\<close> is not stable, so with equal keys its result is any sorted permutation. The
  slices sorted here are collected from a map, in the order \<open>ord\<close> leaves open; a stable sort
  after an arbitrary order has the same possible results, so \<open>sort_key\<close> models it. With
  distinct keys the order of the range is forgotten.
\<close>

lemma filter_one: "distinct xs \<Longrightarrow> k \<in> set xs \<Longrightarrow> filter (\<lambda>x. x = k) xs = [k]"
  by (induction xs) (auto simp: filter_empty_conv)

lemma sort_key_unique:
  fixes f :: "'a \<Rightarrow> 'k :: linorder"
  assumes "mset xs = mset ys" and "distinct (map f xs)"
  shows "sort_key f xs = sort_key f ys"
proof (rule properties_for_sort_key)
  show "mset (sort_key f ys) = mset xs" using assms(1) by simp
  show "sorted (map f (sort_key f ys))" by simp
  have "inj_on f (set xs)" using assms(2) by (simp add: distinct_map)
  have dx: "distinct xs" using assms(2) by (simp add: distinct_map)
  fix k assume "k \<in> set (sort_key f ys)"
  then have k: "k \<in> set xs" using assms(1) by (metis set_mset_mset set_sort)
  have one: "filter (\<lambda>x. f k = f x) zs = [k]" if "mset zs = mset xs" for zs
  proof -
    have "set zs = set xs" using that by (metis set_mset_mset)
    moreover have "distinct zs" using that dx by (metis mset_eq_imp_distinct_iff)
    moreover have "filter (\<lambda>x. f k = f x) zs = filter (\<lambda>x. x = k) zs"
      using \<open>inj_on f (set xs)\<close> k \<open>set zs = set xs\<close>
      by (intro filter_cong) (auto dest: inj_onD)
    ultimately show ?thesis using k by (simp add: filter_one)
  qed
  show "filter (\<lambda>x. f k = f x) (sort_key f ys) = filter (\<lambda>x. f k = f x) xs"
    using one [of "sort_key f ys"] one [of xs] assms(1) by simp
qed

lemma distinct_map_mset: "mset xs = mset ys \<Longrightarrow> distinct (map f xs) \<longleftrightarrow> distinct (map f ys)"
  by (metis mset_eq_imp_distinct_iff mset_map)

section \<open>Folding a list of writes\<close>

text \<open>
  The loop over an update mask is a \<open>fold\<close> of field writes: what no write touches stays, and a
  field that every write either copies or leaves is copied or left.
\<close>

lemma fold_frame: "(\<And>x y. g (f x y) = g y) \<Longrightarrow> g (fold f xs y) = g y"
  by (induction xs arbitrary: y) auto

lemma fold_copies:
  assumes "\<And>x y. x \<in> T \<Longrightarrow> g (f x y) = c" and "\<And>x y. x \<notin> T \<Longrightarrow> g (f x y) = g y"
  shows "g (fold f xs y) = (if set xs \<inter> T = {} then g y else c)"
proof (induction xs arbitrary: y)
  case (Cons x xs)
  then show ?case using assms by (cases "x \<in> T") auto
qed simp

end
