(* ===== verification/GoStrings.thy ===== *)
theory GoStrings
  imports Prelude
begin

text \<open>
  The parts of Go's standard packages \<open>strings\<close>, \<open>strconv\<close>, \<open>fmt\<close> and \<open>encoding/hex\<close> that the
  code uses, on byte strings. A Go \<open>int\<close> is a 64-bit word read as two's complement.
\<close>

type_synonym goint = "64 word"

section \<open>Prefixes, substrings, splitting\<close>

definition HasPrefix :: "string \<Rightarrow> string \<Rightarrow> bool" where
  "HasPrefix s p = (take (length p) s = p)"

definition TrimPrefix :: "string \<Rightarrow> string \<Rightarrow> string" where
  "TrimPrefix s p = (if HasPrefix s p then drop (length p) s else s)"

fun Contains :: "string \<Rightarrow> string \<Rightarrow> bool" where
  "Contains [] sub = (sub = [])"
| "Contains (c # s) sub = (HasPrefix (c # s) sub \<or> Contains s sub)"

text \<open>\<open>strings.LastIndex\<close>, with \<open>None\<close> for its -1.\<close>

fun LastIndex :: "string \<Rightarrow> string \<Rightarrow> nat option" where
  "LastIndex [] sep = (if sep = [] then Some 0 else None)"
| "LastIndex (c # s) sep = (case LastIndex s sep of
     Some i \<Rightarrow> Some (Suc i)
   | None \<Rightarrow> if HasPrefix (c # s) sep then Some 0 else None)"

text \<open>\<open>strings.Split\<close> with a one-byte separator.\<close>

fun Split :: "string \<Rightarrow> char \<Rightarrow> string list" where
  "Split [] sep = [[]]"
| "Split (c # s) sep =
     (if c = sep then [] # Split s sep
      else (case Split s sep of [] \<Rightarrow> [[c]] | seg # segs \<Rightarrow> (c # seg) # segs))"

lemma HasPrefix_iff: "HasPrefix s p \<longleftrightarrow> (\<exists>t. s = p @ t)"
  unfolding HasPrefix_def by (metis append_eq_conv_conj)

lemma HasPrefix_append [simp]: "HasPrefix (p @ t) p"
  by (simp add: HasPrefix_def)

lemma HasPrefix_append_long: "length p \<le> length s \<Longrightarrow> HasPrefix (s @ t) p = HasPrefix s p"
  by (simp add: HasPrefix_def)

lemma HasPrefix_Nil [simp]: "HasPrefix s []"
  by (simp add: HasPrefix_def)

lemma TrimPrefix_append [simp]: "TrimPrefix (p @ t) p = t"
  by (simp add: TrimPrefix_def)

lemma TrimPrefix_other: "\<not> HasPrefix s p \<Longrightarrow> TrimPrefix s p = s"
  by (simp add: TrimPrefix_def)

lemma Contains_iff: "Contains s sub \<longleftrightarrow> (\<exists>u v. s = u @ sub @ v)"
proof (induction s)
  case (Cons c s)
  have "(\<exists>u v. c # s = u @ sub @ v) \<longleftrightarrow> HasPrefix (c # s) sub \<or> (\<exists>u v. s = u @ sub @ v)"
    by (auto simp: HasPrefix_iff Cons_eq_append_conv)
  with Cons show ?case by simp
qed simp

lemma Contains_set: "Contains s sub \<Longrightarrow> c \<in> set sub \<Longrightarrow> c \<in> set s"
  by (auto simp: Contains_iff)

lemma LastIndex_None: "LastIndex s sep = None \<longleftrightarrow> \<not> Contains s sep"
  by (induction s) (auto simp: HasPrefix_def split: option.splits)

lemma LastIndex_Some: "LastIndex s sep = Some i \<Longrightarrow> s = take i s @ sep @ drop (i + length sep) s"
proof (induction s arbitrary: i)
  case (Cons c s)
  show ?case
  proof (cases "LastIndex s sep")
    case None
    with Cons.prems show ?thesis
      by (auto simp: HasPrefix_iff split: if_splits)
  next
    case (Some j)
    with Cons show ?thesis by auto
  qed
qed (auto split: if_splits)

text \<open>When the separator does not occur across or after a known occurrence, that one is the last.\<close>

lemma LastIndex_append:
  assumes "\<not> Contains (tl sep @ t) sep" and "sep \<noteq> []"
  shows "LastIndex (s @ sep @ t) sep = Some (length s)"
proof (induction s)
  case Nil
  obtain c sep' where sep: "sep = c # sep'" using assms(2) by (cases sep) auto
  have "LastIndex (sep' @ t) sep = None" using assms(1) sep by (simp add: LastIndex_None)
  then show ?case using sep HasPrefix_append [of sep t] by simp
qed simp

lemma Contains_single: "Contains s [c] \<longleftrightarrow> c \<in> set s"
  by (induction s) (auto simp: HasPrefix_def)

lemma LastIndex_char: "c \<notin> set t \<Longrightarrow> LastIndex (s @ c # t) [c] = Some (length s)"
  using LastIndex_append [of "[c]" t s] by (simp add: Contains_single)

lemma Contains_mem: "Contains s sub \<Longrightarrow> set sub \<subseteq> set s"
  by (auto simp: Contains_iff)

lemma Contains_append_same_char:
  "c \<notin> set t \<Longrightarrow> last sub = c \<Longrightarrow> sub \<noteq> [] \<Longrightarrow> Contains (s @ t) sub \<Longrightarrow> Contains s sub"
proof -
  assume a: "c \<notin> set t" "last sub = c" "sub \<noteq> []" "Contains (s @ t) sub"
  then obtain u v where eq: "s @ t = u @ sub @ v" by (auto simp: Contains_iff)
  obtain sub' where sub: "sub = sub' @ [c]" using a(2,3) by (metis append_butlast_last_id)
  from eq sub have "s @ t = (u @ sub') @ c # v" by simp
  then consider us where "s = u @ sub' @ us" "us @ t = c # v"
    | us where "s @ us = u @ sub'" "t = us @ c # v"
    unfolding append_eq_append_conv2 by (metis append.assoc)
  then show "Contains s sub"
  proof cases
    case 1
    then show ?thesis using a(1) sub
      by (cases us) (auto simp: Contains_iff)
  next
    case 2
    then show ?thesis using a(1) by auto
  qed
qed

lemma Split_not_Nil [simp]: "Split s sep \<noteq> []"
  by (induction s) (auto split: list.splits)

lemma Split_no_sep: "sep \<notin> set s \<Longrightarrow> Split s sep = [s]"
  by (induction s) auto

lemma Split_append_sep: "Split (s @ sep # t) sep = Split s sep @ Split t sep"
  by (induction s) (auto split: list.splits)

text \<open>Splitting loses nothing: joining the segments with the separator gives the string back.\<close>

fun Join :: "string list \<Rightarrow> char \<Rightarrow> string" where
  "Join [] sep = []"
| "Join [x] sep = x"
| "Join (x # y # zs) sep = x @ sep # Join (y # zs) sep"

lemma Join_Cons: "xs \<noteq> [] \<Longrightarrow> Join (x # xs) sep = x @ sep # Join xs sep"
  by (cases xs) auto

lemma Join_Split [simp]: "Join (Split s sep) sep = s"
proof (induction s)
  case (Cons c s)
  obtain seg segs where spl: "Split s sep = seg # segs"
    by (metis Split_not_Nil list.exhaust)
  show ?case
  proof (cases segs)
    case Nil
    then show ?thesis using Cons spl by simp
  next
    case (Cons y ys)
    then show ?thesis using \<open>Join (Split s sep) sep = s\<close> spl by simp
  qed
qed simp

lemma Split_segments: "x \<in> set (Split s sep) \<Longrightarrow> sep \<notin> set x"
  by (induction s arbitrary: x) (fastforce split: if_splits list.splits)+

lemma last_Split: "sep \<notin> set t \<Longrightarrow> last (Split (s @ sep # t) sep) = t"
  by (simp add: Split_append_sep Split_no_sep)

section \<open>Case folding and trimming\<close>

definition lower_char :: "char \<Rightarrow> char" where
  "lower_char c = (let n = of_char c :: nat in
     if 65 \<le> n \<and> n \<le> 90 then char_of (n + 32) else c)"

text \<open>
  \<open>strings.ToLower\<close> up to the non-ASCII part of its result: ASCII letters, and the two letters
  outside ASCII whose lower case is ASCII (U+0130, C4 B0, gives i; U+212A, E2 84 AA, gives k).
  Other non-ASCII bytes stay as they are. The callers only compare the result with ASCII
  constants, where this is exact.
\<close>

fun ToLower :: "string \<Rightarrow> string" where
  "ToLower [] = []"
| "ToLower [a] = [lower_char a]"
| "ToLower [a, b] = (if a = CHR 0xC4 \<and> b = CHR 0xB0 then ''i'' else [lower_char a, lower_char b])"
| "ToLower (a # b # c # s) =
     (if a = CHR 0xC4 \<and> b = CHR 0xB0 then CHR ''i'' # ToLower (c # s)
      else if a = CHR 0xE2 \<and> b = CHR 0x84 \<and> c = CHR 0xAA then CHR ''k'' # ToLower s
      else lower_char a # ToLower (b # c # s))"

text \<open>The UTF-8 encodings of the code points with Unicode's White\_Space property.\<close>

definition space_encodings :: "string list" where
  "space_encodings =
     [[CHR 0x09], [CHR 0x0A], [CHR 0x0B], [CHR 0x0C], [CHR 0x0D], [CHR 0x20],
      [CHR 0xC2, CHR 0x85], [CHR 0xC2, CHR 0xA0], [CHR 0xE1, CHR 0x9A, CHR 0x80],
      [CHR 0xE2, CHR 0x80, CHR 0x80], [CHR 0xE2, CHR 0x80, CHR 0x81],
      [CHR 0xE2, CHR 0x80, CHR 0x82], [CHR 0xE2, CHR 0x80, CHR 0x83],
      [CHR 0xE2, CHR 0x80, CHR 0x84], [CHR 0xE2, CHR 0x80, CHR 0x85],
      [CHR 0xE2, CHR 0x80, CHR 0x86], [CHR 0xE2, CHR 0x80, CHR 0x87],
      [CHR 0xE2, CHR 0x80, CHR 0x88], [CHR 0xE2, CHR 0x80, CHR 0x89],
      [CHR 0xE2, CHR 0x80, CHR 0x8A], [CHR 0xE2, CHR 0x80, CHR 0xA8],
      [CHR 0xE2, CHR 0x80, CHR 0xA9], [CHR 0xE2, CHR 0x80, CHR 0xAF],
      [CHR 0xE2, CHR 0x81, CHR 0x9F], [CHR 0xE3, CHR 0x80, CHR 0x80]]"

function trim_left :: "string list \<Rightarrow> string \<Rightarrow> string" where
  "trim_left ps s = (case find (\<lambda>p. p \<noteq> [] \<and> HasPrefix s p) ps of
     None \<Rightarrow> s
   | Some p \<Rightarrow> trim_left ps (drop (length p) s))"
  by pat_completeness auto
termination
proof (relation "measure (\<lambda>(ps, s). length s)")
  fix ps :: "string list" and s p
  assume "find (\<lambda>p. p \<noteq> [] \<and> HasPrefix s p) ps = Some p"
  then have "p \<noteq> []" and "HasPrefix s p" by (auto simp: find_Some_iff)
  then have "0 < length p" and "length p \<le> length s"
    by (auto simp: HasPrefix_iff)
  then have "length s - length p < length s" by linarith
  then show "((ps, drop (length p) s), (ps, s)) \<in> measure (\<lambda>(ps, s). length s)"
    by simp
qed simp

declare trim_left.simps [simp del]

definition TrimSpace :: "string \<Rightarrow> string" where
  "TrimSpace s =
     rev (trim_left (map rev space_encodings) (rev (trim_left space_encodings s)))"

text \<open>A string between two printable ASCII characters has nothing to trim.\<close>

lemma trim_left_none:
  assumes "list_all (\<lambda>p. of_char (hd p) \<notin> {33..126 :: nat}) ps" and "of_char c \<in> {33..126 :: nat}"
  shows "trim_left ps (c # s) = c # s"
proof -
  have "find (\<lambda>p. p \<noteq> [] \<and> HasPrefix (c # s) p) ps = None"
    using assms by (fastforce simp: find_None_iff HasPrefix_iff list_all_iff Cons_eq_append_conv)
  then show ?thesis by (subst trim_left.simps) simp
qed

lemma TrimSpace_id:
  assumes "of_char c \<in> {33..126 :: nat}" and "of_char d \<in> {33..126 :: nat}"
  shows "TrimSpace (c # m @ [d]) = c # m @ [d]"
proof -
  have "list_all (\<lambda>p. of_char (hd p) \<notin> {33..126 :: nat}) space_encodings"
    "list_all (\<lambda>p. of_char (hd p) \<notin> {33..126 :: nat}) (map rev space_encodings)"
    by (simp_all add: space_encodings_def)
  then show ?thesis
    using assms by (simp add: TrimSpace_def trim_left_none)
qed

text \<open>\<open>strings.Trim\<close> and \<open>strings.TrimRight\<close> with a cutset of ASCII characters.\<close>

definition TrimRight :: "string \<Rightarrow> string \<Rightarrow> string" where
  "TrimRight s cutset = rev (dropWhile (\<lambda>c. c \<in> set cutset) (rev s))"

definition Trim :: "string \<Rightarrow> string \<Rightarrow> string" where
  "Trim s cutset = TrimRight (dropWhile (\<lambda>c. c \<in> set cutset) s) cutset"

lemma TrimRight_no_trailing: "s = [] \<or> last s \<notin> set cutset \<Longrightarrow> TrimRight s cutset = s"
  by (cases s rule: rev_cases) (auto simp: TrimRight_def)

lemma TrimRight_result: "TrimRight s cutset = [] \<or> last (TrimRight s cutset) \<notin> set cutset"
  unfolding TrimRight_def
  by (metis (no_types, lifting) dropWhile_eq_Nil_conv hd_dropWhile last_rev rev.simps(1) set_rev
      dropWhile_eq_self_iff)

lemma Trim_quotes:
  assumes "s \<noteq> []" "hd s \<notin> set cs" "last s \<notin> set cs" "q \<in> set cs"
  shows "Trim ([q] @ s @ [q]) cs = s"
proof -
  obtain a m where s: "s = a # m" using assms(1) by (cases s) auto
  have "dropWhile (\<lambda>c. c \<in> set cs) ([q] @ s @ [q]) = s @ [q]"
    using assms s by simp
  moreover have "TrimRight (s @ [q]) cs = s"
    using assms TrimRight_no_trailing [of s cs] by (simp add: TrimRight_def)
  ultimately show ?thesis by (simp add: Trim_def)
qed

section \<open>Decimal and hexadecimal numbers\<close>

definition digit :: "nat \<Rightarrow> char" where
  "digit d = char_of (48 + d)"

definition digit_val :: "char \<Rightarrow> nat option" where
  "digit_val c = (let n = of_char c in if 48 \<le> n \<and> n \<le> 57 then Some (n - 48) else None)"

fun nat_digits :: "nat \<Rightarrow> string" where
  "nat_digits n = (if n < 10 then [digit n] else nat_digits (n div 10) @ [digit (n mod 10)])"

declare nat_digits.simps [simp del]

fun parse_digits :: "nat \<Rightarrow> string \<Rightarrow> nat option" where
  "parse_digits n [] = Some n"
| "parse_digits n (c # s) = (case digit_val c of
     None \<Rightarrow> None
   | Some d \<Rightarrow> parse_digits (10 * n + d) s)"

text \<open>
  \<open>strconv.Atoi\<close>: an optional sign, then one or more decimal digits, in the range of a 64-bit
  int. \<open>None\<close> is its error.
\<close>

definition Atoi :: "string \<Rightarrow> goint option" where
  "Atoi s =
     (let neg = HasPrefix s ''-'';
          ds = (if HasPrefix s ''-'' \<or> HasPrefix s ''+'' then drop 1 s else s)
      in if ds = [] then None
         else (case parse_digits 0 ds of
             None \<Rightarrow> None
           | Some n \<Rightarrow>
               (let v = (if neg then - int n else int n)
                in if - (2 ^ 63) \<le> v \<and> v < 2 ^ 63 then Some (word_of_int v) else None)))"

definition Itoa :: "goint \<Rightarrow> string" where
  "Itoa w = (if sint w < 0 then CHR ''-'' # nat_digits (nat (- sint w))
             else nat_digits (nat (sint w)))"

definition hex_digit :: "nat \<Rightarrow> char" where
  "hex_digit d = (if d < 10 then char_of (48 + d) else char_of (87 + d))"

fun hex_digits :: "nat \<Rightarrow> string" where
  "hex_digits n = (if n < 16 then [hex_digit n] else hex_digits (n div 16) @ [hex_digit (n mod 16)])"

declare hex_digits.simps [simp del]

text \<open>\<open>hex.EncodeToString\<close>.\<close>

definition EncodeToString :: "8 word list \<Rightarrow> string" where
  "EncodeToString bs = concat (map (\<lambda>b. [hex_digit (unat b div 16), hex_digit (unat b mod 16)]) bs)"

lemma digit_val_digit [simp]: "d < 10 \<Longrightarrow> digit_val (digit d) = Some d"
  by (simp add: digit_val_def digit_def Let_def)

lemma parse_digits_append:
  "parse_digits n (s @ t) = (case parse_digits n s of None \<Rightarrow> None | Some m \<Rightarrow> parse_digits m t)"
  by (induction s arbitrary: n) (auto split: option.splits)

lemma parse_nat_digits [simp]: "parse_digits 0 (nat_digits n) = Some n"
proof (induction n rule: nat_digits.induct)
  case (1 n)
  show ?case
  proof (cases "n < 10")
    case True
    then show ?thesis by (simp add: nat_digits.simps [of n])
  next
    case False
    with "1.IH" show ?thesis
      by (simp add: nat_digits.simps [of n] parse_digits_append)
  qed
qed

lemma hd_nat_digits: "\<exists>d s. nat_digits n = digit d # s \<and> d < 10"
proof (induction n rule: nat_digits.induct)
  case (1 n)
  then show ?case
    by (cases "n < 10") (auto simp: nat_digits.simps [of n])
qed

lemma nat_digits_not_Nil [simp]: "nat_digits n \<noteq> []"
  using hd_nat_digits [of n] by auto

lemma of_char_digit: "d < 10 \<Longrightarrow> of_char (digit d) = (48 + d :: nat)"
  by (simp add: digit_def)

lemma digit_no_sign: "d < 10 \<Longrightarrow> digit d \<noteq> CHR ''-'' \<and> digit d \<noteq> CHR ''+''"
  by (auto dest!: arg_cong [where f = "of_char :: char \<Rightarrow> nat"] simp: of_char_digit)

lemma nat_digits_no_sign [simp]:
  "\<not> HasPrefix (nat_digits n) ''-''" "\<not> HasPrefix (nat_digits n) ''+''"
  using hd_nat_digits [of n] digit_no_sign by (auto simp: HasPrefix_def)

text \<open>\<open>Atoi\<close> reads back what \<open>Itoa\<close> prints, for every int.\<close>

lemma Atoi_Itoa [simp]: "Atoi (Itoa w) = Some w"
proof -
  have b: "- (2 ^ 63) \<le> sint w" "sint w < 2 ^ 63"
    using sint_ge [of w] sint_lt [of w] by simp_all
  show ?thesis
  proof (cases "sint w < 0")
    case True
    then show ?thesis using b by (simp add: Atoi_def Itoa_def HasPrefix_def)
  next
    case False
    then show ?thesis using b by (simp add: Atoi_def Itoa_def Let_def)
  qed
qed

lemma Itoa_not_Nil [simp]: "Itoa w \<noteq> []"
  by (simp add: Itoa_def)

lemma Itoa_inject [simp]: "Itoa v = Itoa w \<longleftrightarrow> v = w"
  by (metis Atoi_Itoa option.inject)

lemma length_EncodeToString [simp]: "length (EncodeToString bs) = 2 * length bs"
  by (induction bs) (simp_all add: EncodeToString_def)

lemma of_char_hex_digit:
  "d < 16 \<Longrightarrow> of_char (hex_digit d) = (if d < 10 then 48 + d else 87 + d :: nat)"
  by (simp add: hex_digit_def)

lemma hex_digit_inject:
  assumes "d < 16" "d' < 16"
  shows "hex_digit d = hex_digit d' \<longleftrightarrow> d = d'"
proof
  assume "hex_digit d = hex_digit d'"
  then have "of_char (hex_digit d) = (of_char (hex_digit d') :: nat)" by simp
  then show "d = d'"
    using assms by (simp add: of_char_hex_digit split: if_splits)
qed simp

lemma EncodeToString_inject [simp]: "EncodeToString bs = EncodeToString cs \<longleftrightarrow> bs = cs"
proof
  have byte: "b = c"
    if "unat b div 16 = unat c div 16" "unat b mod 16 = unat c mod 16" for b c :: "8 word"
    using that by (metis div_mult_mod_eq word_unat_eq_iff)
  have bound: "unat b div 16 < 16" for b :: "8 word"
    using unsigned_less [of b, where ?'a = nat] by simp
  show "EncodeToString bs = EncodeToString cs \<Longrightarrow> bs = cs"
  proof (induction bs arbitrary: cs)
    case Nil
    then show ?case by (cases cs) (auto simp: EncodeToString_def)
  next
    case (Cons b bs)
    then show ?case
      by (cases cs) (auto simp: EncodeToString_def hex_digit_inject bound intro: byte)
  qed
qed simp

end
