(* ===== verification/Messages.thy ===== *)
theory Messages
  imports GoStrings
begin

text \<open>
  The protobuf messages the code passes around, as records: the fields some line of the source
  reads or writes, under the Go field names with a prefix per message, and one field
  \<open>Other\<close> that stands for the encoding of all remaining fields, which the code only copies with
  the message. A message of value type stands for the pointed-to message: the code clones
  (\<open>proto.Clone\<close>) whatever enters or leaves a map, so no two values share memory. A pointer that
  may be nil is an option; nested messages the code never looks into are kept encoded.
\<close>

type_synonym encoded = string

record timestamp =
  ts_Seconds :: int
  ts_Nanos :: int

text \<open>
  \<open>GetCreateTime().AsTime()\<close>, as the nanoseconds since the epoch; a nil timestamp is the epoch.
  \<open>a.After(b)\<close> is \<open>AsTime b < AsTime a\<close>.
\<close>

fun AsTime :: "timestamp option \<Rightarrow> int" where
  "AsTime None = 0"
| "AsTime (Some t) = ts_Seconds t * 1000000000 + ts_Nanos t"

record StateCondition =
  sc_Code :: int
  sc_Message :: string

record EventFilter =
  ef_Attribute :: string
  ef_Value :: string
  ef_Operator :: string

text \<open>
  The oneof of \<open>Destination\<close>: the two kinds the dispatcher handles, the kinds it does not
  (cloud function, GKE, workflow), and no kind set.
\<close>

datatype Destination =
    HttpEndpoint string
  | CloudRun (cr_Service: string) (cr_Path: string) (cr_Region: string)
  | OtherDestination encoded
  | NoDescriptor

record Trigger =
  tr_Name :: string
  tr_Uid :: string
  tr_CreateTime :: "timestamp option"
  tr_UpdateTime :: "timestamp option"
  tr_EventFilters :: "EventFilter list"
  tr_ServiceAccount :: string
  tr_Destination :: "Destination option"
  tr_Labels :: "string gomap"
  tr_Channel :: string
  tr_Conditions :: "StateCondition gomap"
  tr_Etag :: string
  tr_Other :: encoded

record EventType =
  et_Type :: string
  et_Description :: string

record Provider =
  pv_Name :: string
  pv_DisplayName :: string
  pv_EventTypes :: "EventType list"

text \<open>Protobuf enums are open: an unknown number is kept.\<close>

datatype Channel_State = STATE_UNSPECIFIED | PENDING | ACTIVE | INACTIVE | OtherState int

record Channel =
  ch_Name :: string
  ch_Uid :: string
  ch_CreateTime :: "timestamp option"
  ch_UpdateTime :: "timestamp option"
  ch_State :: Channel_State
  ch_ActivationToken :: string
  ch_CryptoKeyName :: string
  ch_Labels :: "string gomap"
  ch_Other :: encoded

record ChannelConnection =
  cc_Name :: string
  cc_Uid :: string
  cc_CreateTime :: "timestamp option"
  cc_UpdateTime :: "timestamp option"
  cc_ActivationToken :: string
  cc_Other :: encoded

record GoogleChannelConfig =
  gc_Name :: string
  gc_UpdateTime :: "timestamp option"
  gc_CryptoKeyName :: string
  gc_Labels :: "string gomap"
  gc_Other :: encoded

record MessageBus =
  mb_Name :: string
  mb_Uid :: string
  mb_Etag :: string
  mb_CreateTime :: "timestamp option"
  mb_UpdateTime :: "timestamp option"
  mb_Labels :: "string gomap"
  mb_Annotations :: "string gomap"
  mb_DisplayName :: string
  mb_CryptoKeyName :: string
  mb_LoggingConfig :: "encoded option"
  mb_Other :: encoded

record Enrollment =
  en_Name :: string
  en_Uid :: string
  en_Etag :: string
  en_CreateTime :: "timestamp option"
  en_UpdateTime :: "timestamp option"
  en_Labels :: "string gomap"
  en_Annotations :: "string gomap"
  en_DisplayName :: string
  en_CelMatch :: string
  en_MessageBus :: string
  en_Destination :: string
  en_Other :: encoded

record Pipeline =
  pl_Name :: string
  pl_Uid :: string
  pl_Etag :: string
  pl_CreateTime :: "timestamp option"
  pl_UpdateTime :: "timestamp option"
  pl_Labels :: "string gomap"
  pl_Annotations :: "string gomap"
  pl_DisplayName :: string
  pl_Destinations :: "encoded list"
  pl_Mediations :: "encoded list"
  pl_CryptoKeyName :: string
  pl_InputPayloadFormat :: "encoded option"
  pl_LoggingConfig :: "encoded option"
  pl_RetryPolicy :: "encoded option"
  pl_Other :: encoded

record GoogleApiSource =
  gs_Name :: string
  gs_Uid :: string
  gs_Etag :: string
  gs_CreateTime :: "timestamp option"
  gs_UpdateTime :: "timestamp option"
  gs_Labels :: "string gomap"
  gs_Annotations :: "string gomap"
  gs_DisplayName :: string
  gs_Destination :: string
  gs_CryptoKeyName :: string
  gs_LoggingConfig :: "encoded option"
  gs_Other :: encoded

record OperationMetadata =
  om_CreateTime :: timestamp
  om_EndTime :: timestamp
  om_Target :: string
  om_Verb :: string
  om_ApiVersion :: string

text \<open>What \<open>anypb.New\<close> is given: the messages the code packs into an \<open>Any\<close>.\<close>

datatype any_msg = AnyTrigger Trigger | AnyChannel Channel
  | AnyChannelConnection ChannelConnection | AnyMessageBus MessageBus
  | AnyEnrollment Enrollment | AnyPipeline Pipeline | AnyGoogleApiSource GoogleApiSource
  | AnyEmpty | AnyMetadata OperationMetadata

text \<open>
  What one call reads from outside the program: the caller's principal
  (\<open>emulatorauth.ExtractPrincipalFromContext\<close>), the answer of the IAM emulator to a principal, a
  resource and a permission (an error message, or whether access is allowed), whether
  \<open>WithDetails\<close> can attach details to a status, the clock in storage and in the operation store,
  the values \<open>rand.Uint64\<close> gives \<open>newUID\<close> (its first and second use) and \<open>newEtag\<close>, the bytes
  or the error of \<open>crypto/rand.Read\<close>, the error of \<open>anypb.New\<close> on a message (\<open>None\<close>: it packs),
  and the order in which the runtime ranges over a map.
\<close>

record env =
  e_principal :: string
  e_iam :: "string \<Rightarrow> string \<Rightarrow> string \<Rightarrow> string + bool"
  e_details :: bool
  e_now :: timestamp
  e_uid :: "64 word"
  e_token :: "64 word"
  e_etag :: "64 word"
  e_op_now :: timestamp
  e_rand :: "string + (nat \<Rightarrow> 8 word)"
  e_anypb :: "any_msg \<Rightarrow> string option"
  e_order :: order

text \<open>
  The request messages. Requests of the same shape share a record; a field a particular request
  lacks is one its handler does not read.
\<close>

record GetRequest =
  gr_Name :: string

record ListRequest =
  lr_Parent :: string
  lr_PageSize :: "32 word"
  lr_PageToken :: string
  lr_OrderBy :: string
  lr_Filter :: string

record 'r CreateRequest =
  cq_Parent :: string
  cq_Id :: string
  cq_Resource :: "'r option"
  cq_ValidateOnly :: bool

record 'r UpdateRequest =
  uq_Resource :: "'r option"
  uq_UpdateMask :: "string list option"
  uq_ValidateOnly :: bool
  uq_AllowMissing :: bool

record DeleteRequest =
  dq_Name :: string
  dq_Etag :: string
  dq_AllowMissing :: bool
  dq_ValidateOnly :: bool

text \<open>A getter on a nil message gives the zero value.\<close>

definition nilsafe :: "'r option \<Rightarrow> ('r \<Rightarrow> string) \<Rightarrow> string" where
  "nilsafe r f = (case r of None \<Rightarrow> [] | Some x \<Rightarrow> f x)"

lemma nilsafe_simps [simp]: "nilsafe None f = []" "nilsafe (Some x) f = f x"
  by (simp_all add: nilsafe_def)

end
