(* ===== verification/Helpers.thy ===== *)
theory Helpers
  imports Messages
begin

text \<open>
  internal/server/storage\_helpers.go: the resource ID check, pagination over an integer offset,
  and the random identifiers; and the name helpers of internal/server/server.go.
\<close>

section \<open>Resource IDs\<close>

definition is_lower :: "char \<Rightarrow> bool" where
  "is_lower c = (let n = of_char c :: nat in 97 \<le> n \<and> n \<le> 122)"

definition is_id_end :: "char \<Rightarrow> bool" where
  "is_id_end c = (let n = of_char c :: nat in 97 \<le> n \<and> n \<le> 122 \<or> 48 \<le> n \<and> n \<le> 57)"

definition is_id_char :: "char \<Rightarrow> bool" where
  "is_id_char c = (is_id_end c \<or> c = CHR ''-'')"

text \<open>
  \<open>resourceIDRe\<close>, \<open>^[a-z]([a-z0-9\-]{0,61}[a-z0-9])?$\<close>, as a matcher: a lower-case letter, then
  nothing, or up to 61 ID characters and an alphanumeric one.
\<close>

definition resourceIDRe :: "string \<Rightarrow> bool" where
  "resourceIDRe s = (case s of
     [] \<Rightarrow> False
   | c # rest \<Rightarrow> is_lower c \<and>
       (rest = [] \<or>
        (length (butlast rest) \<le> 61 \<and> list_all is_id_char (butlast rest) \<and> is_id_end (last rest))))"

definition validateResourceID :: "string \<Rightarrow> string \<Rightarrow> unit result" where
  "validateResourceID rid field =
     (if \<not> resourceIDRe rid
      then Err (Status InvalidArgument
        [Txt (field @ '' must match ^[a-z]([a-z0-9-]{0,61}[a-z0-9])?$, got ''), Quoted rid] [])
      else Ok ())"

section \<open>Pagination\<close>

text \<open>
  \<open>items[lo:hi]\<close>, which panics out of range. \<open>cap(items)\<close> bounds \<open>hi\<close> in Go; the slices
  here are bounded by their length.
\<close>

definition slice :: "'a list \<Rightarrow> goint \<Rightarrow> goint \<Rightarrow> 'a list result" where
  "slice items lo hi =
     (if 0 \<le> sint lo \<and> sint lo \<le> sint hi \<and> sint hi \<le> int (length items)
      then Ok (take (nat (sint hi) - nat (sint lo)) (drop (nat (sint lo)) items))
      else Panic ''slice bounds out of range'')"

definition page_offset :: "string \<Rightarrow> goint result" where
  "page_offset pageToken =
     (if pageToken = [] then Ok 0
      else (case Atoi pageToken of
          None \<Rightarrow> Err (errorf InvalidArgument ''invalid page_token'')
        | Some n \<Rightarrow> if n <s 0 then Err (errorf InvalidArgument ''invalid page_token'') else Ok n))"

definition page_size :: "32 word \<Rightarrow> goint" where
  "page_size pageSize =
     (let size = scast pageSize in if size \<le>s 0 \<or> 100 <s size then 100 else size)"

definition PaginatePage :: "'a list \<Rightarrow> string \<Rightarrow> 32 word \<Rightarrow> ('a list \<times> string) result" where
  "PaginatePage items pageToken pageSize =
     (case page_offset pageToken of
        Err e \<Rightarrow> Err e
      | Panic p \<Rightarrow> Panic p
      | Ok offset \<Rightarrow>
          (let len = word_of_nat (length items) :: goint;
               size = page_size pageSize;
               end0 = offset + size;
               end1 = (if len <s end0 then len else end0);
               nextToken = (if end1 <s len then Itoa end1 else [])
           in if len \<le>s offset then Ok ([], nextToken)
              else map_result (\<lambda>page. (page, nextToken)) (slice items offset end1)))"

section \<open>Random identifiers\<close>

definition newUID :: "64 word \<Rightarrow> string" where
  "newUID w = hex_digits (unat w)"

definition newEtag :: "64 word \<Rightarrow> string" where
  "newEtag w = hex_digits (unat w)"

section \<open>Resource names (server.go)\<close>

definition requireField :: "string \<Rightarrow> string \<Rightarrow> unit result" where
  "requireField v fieldName =
     (if v = [] then Err (errorf InvalidArgument (fieldName @ '' is required'')) else Ok ())"

definition parentFromName :: "string \<Rightarrow> string" where
  "parentFromName name = (case LastIndex name ''/triggers/'' of None \<Rightarrow> name | Some i \<Rightarrow> take i name)"

definition parentFromResource :: "string \<Rightarrow> string" where
  "parentFromResource name = (case LastIndex name ''/'' of
      None \<Rightarrow> name
    | Some i \<Rightarrow> (let name1 = take i name in
        case LastIndex name1 ''/'' of None \<Rightarrow> name1 | Some j \<Rightarrow> take j name1))"

definition isNotFound :: "err \<Rightarrow> bool" where
  "isNotFound e = (status_Code e = NotFound)"

definition lastSegment :: "string \<Rightarrow> string" where
  "lastSegment name = (case LastIndex name ''/'' of None \<Rightarrow> name | Some i \<Rightarrow> drop (i + 1) name)"

lemma requireField_simps [simp]:
  "requireField [] f = Err (errorf InvalidArgument (f @ '' is required''))"
  "v \<noteq> [] \<Longrightarrow> requireField v f = Ok ()"
  by (simp_all add: requireField_def)

lemma requireField_no_panic [simp]: "\<not> is_panic (requireField v f)"
  by (simp add: requireField_def)

lemma validateResourceID_no_panic [simp]: "\<not> is_panic (validateResourceID v f)"
  by (simp add: validateResourceID_def)

lemma lastSegment_join: "CHR ''/'' \<notin> set rid \<Longrightarrow> lastSegment (p @ CHR ''/'' # rid) = rid"
  by (simp add: lastSegment_def LastIndex_char)

text \<open>For a name with a slash-free ID under a slash-free collection, the parent comes back.\<close>

lemma parentFromResource_join:
  assumes "CHR ''/'' \<notin> set rid" "CHR ''/'' \<notin> set coll"
  shows "parentFromResource (p @ CHR ''/'' # coll @ CHR ''/'' # rid) = p"
  using LastIndex_char [OF assms(1), of "p @ CHR ''/'' # coll"] LastIndex_char [OF assms(2), of p]
  by (simp add: parentFromResource_def)

lemma parentFromName_join:
  assumes "CHR ''/'' \<notin> set rid"
  shows "parentFromName (p @ ''/triggers/'' @ rid) = p"
proof -
  have "\<not> Contains (tl ''/triggers/'' @ rid) ''/triggers/''"
  proof
    assume "Contains (tl ''/triggers/'' @ rid) ''/triggers/''"
    then have "Contains (tl ''/triggers/'') ''/triggers/''"
      by (rule Contains_append_same_char [OF assms, rotated 2]) simp_all
    then show False by (simp add: HasPrefix_def)
  qed
  then have "LastIndex (p @ ''/triggers/'' @ rid) ''/triggers/'' = Some (length p)"
    by (rule LastIndex_append) simp
  then show ?thesis by (simp add: parentFromName_def)
qed

section \<open>Valid IDs\<close>

lemma resourceIDRe_no_slash: "resourceIDRe s \<Longrightarrow> CHR ''/'' \<notin> set s"
proof
  assume r: "resourceIDRe s" and "CHR ''/'' \<in> set s"
  then obtain c rest where s: "s = c # rest" by (cases s) auto
  have "\<not> is_lower (CHR ''/'')" and "\<not> is_id_char (CHR ''/'')" and "\<not> is_id_end (CHR ''/'')"
    by (simp_all add: is_lower_def is_id_char_def is_id_end_def)
  moreover have "CHR ''/'' = c \<or> CHR ''/'' \<in> set (butlast rest) \<or> (rest \<noteq> [] \<and> CHR ''/'' = last rest)"
    using \<open>CHR ''/'' \<in> set s\<close> s by (cases rest rule: rev_cases) auto
  ultimately show False
    using r s by (auto simp: resourceIDRe_def list_all_iff split: if_splits)
qed

lemma resourceIDRe_length: "resourceIDRe s \<Longrightarrow> 1 \<le> length s \<and> length s \<le> 63"
  by (auto simp: resourceIDRe_def split: list.splits)

section \<open>What pagination computes\<close>

lemma sint_scast_page: "sint (scast (w :: 32 word) :: goint) = sint w"
  using sint_ge [of w] sint_lt [of w]
  by (simp add: signed_scast_eq signed_take_bit_int_eq_self)

lemma page_size_bounds: "1 \<le> sint (page_size ps) \<and> sint (page_size ps) \<le> 100"
  by (auto simp: page_size_def Let_def word_sle_eq word_sless_alt)

lemma page_size_in_range: "1 \<le> sint ps \<Longrightarrow> sint ps \<le> 100 \<Longrightarrow> sint (page_size ps) = sint ps"
  by (auto simp: page_size_def Let_def word_sle_eq word_sless_alt sint_scast_page)

lemma page_size_default: "sint ps \<le> 0 \<or> 100 < sint ps \<Longrightarrow> page_size ps = 100"
  by (auto simp: page_size_def Let_def word_sle_eq word_sless_alt sint_scast_page)

lemma sint_word_of_nat: "n < 2 ^ 63 \<Longrightarrow> sint (word_of_nat n :: goint) = int n"
  by (simp add: signed_of_nat signed_take_bit_int_eq_self)

lemma page_size_as_nat: "page_size ps = word_of_nat (nat (sint (page_size ps)))"
  using page_size_bounds [of ps] by simp

text \<open>
  The page at an offset that leaves room for the addition: the next \<open>size\<close> items, and the offset
  after them as the next token unless the list is exhausted.
\<close>

lemma PaginatePage_at:
  fixes items :: "'a list" and ps :: "32 word"
  assumes "length items < 2 ^ 63" and "n + 100 < 2 ^ 63"
    and "page_offset tok = Ok (word_of_nat n)"
  defines "k \<equiv> nat (sint (page_size ps))"
  shows "PaginatePage items tok ps =
    Ok (take k (drop n items), if n + k < length items then Itoa (word_of_nat (n + k)) else [])"
proof -
  have k: "1 \<le> k" "k \<le> 100" using page_size_bounds [of ps] unfolding k_def by linarith+
  have size: "page_size ps = word_of_nat k" unfolding k_def by (rule page_size_as_nat)
  have end0: "word_of_nat n + page_size ps = (word_of_nat (n + k) :: goint)"
    by (simp add: size)
  have sn: "sint (word_of_nat n :: goint) = int n"
    and snk: "sint (word_of_nat (n + k) :: goint) = int (n + k)"
    and sl: "sint (word_of_nat (length items) :: goint) = int (length items)"
    using assms(1,2) k by (auto intro!: sint_word_of_nat simp del: of_nat_add)
  show ?thesis
  proof (cases "n < length items")
    case True
    then show ?thesis
      using k by (auto simp: PaginatePage_def assms(3) Let_def end0 word_sle_eq word_sless_alt
          sn snk sl slice_def simp del: of_nat_add)
  next
    case False
    then show ?thesis
      using k by (auto simp: PaginatePage_def assms(3) Let_def end0 word_sle_eq word_sless_alt
          sn snk sl slice_def simp del: of_nat_add)
  qed
qed

lemma page_offset_Itoa:
  "n < 2 ^ 63 \<Longrightarrow> page_offset (Itoa (word_of_nat n)) = Ok (word_of_nat n)"
  by (simp add: page_offset_def word_sless_alt sint_word_of_nat)

lemma page_offset_cases:
  "page_offset tok = Err (errorf InvalidArgument ''invalid page_token'') \<or>
   (\<exists>off. page_offset tok = Ok off \<and> 0 \<le> sint off)"
  by (auto simp: page_offset_def word_sless_alt split: option.splits)

text \<open>No token and no size makes the slice panic: the offset is checked before slicing.\<close>

lemma PaginatePage_past_end:
  assumes "length items < 2 ^ 63" and "page_offset tok = Ok off" and "int (length items) \<le> sint off"
  shows "\<exists>nxt. PaginatePage items tok ps = Ok ([], nxt)"
  using assms by (simp add: PaginatePage_def Let_def word_sle_eq sint_word_of_nat)

lemma PaginatePage_no_panic:
  assumes "length items + 100 < 2 ^ 63"
  shows "\<not> is_panic (PaginatePage items tok ps)"
proof (cases "page_offset tok")
  case (Ok off)
  then have off: "0 \<le> sint off" using page_offset_cases [of tok] by auto
  show ?thesis
  proof (cases "int (length items) \<le> sint off")
    case True
    then show ?thesis using PaginatePage_past_end [of items tok off ps] Ok assms by auto
  next
    case False
    then have "nat (sint off) + 100 < 2 ^ 63" using assms off by linarith
    moreover have "off = word_of_nat (nat (sint off))" using off by simp
    ultimately show ?thesis
      using PaginatePage_at [of items "nat (sint off)" tok ps] Ok assms by simp
  qed
qed (use page_offset_cases [of tok] in \<open>auto simp: PaginatePage_def\<close>)

section \<open>Walking through the pages\<close>

text \<open>
  The loop of a client: ask for the page at a token, follow the next token until it is empty.
\<close>

fun walk :: "nat \<Rightarrow> (string \<Rightarrow> ('a list \<times> string) result) \<Rightarrow> string \<Rightarrow> 'a list option" where
  "walk 0 f tok = None"
| "walk (Suc n) f tok = (case f tok of
      Ok (page, nxt) \<Rightarrow> (if nxt = [] then Some page else map_option ((@) page) (walk n f nxt))
    | Err e \<Rightarrow> None
    | Panic p \<Rightarrow> None)"

lemma walk_from:
  fixes items :: "'a list" and ps :: "32 word"
  assumes "length items + 200 < 2 ^ 63" and "page_offset tok = Ok (word_of_nat m)"
    and "m \<le> length items" and "length items - m < n"
  shows "walk n (\<lambda>tok. PaginatePage items tok ps) tok = Some (drop m items)"
  using assms(2-4)
proof (induction n arbitrary: tok m)
  case (Suc n)
  define k where "k = nat (sint (page_size ps))"
  have k: "1 \<le> k" "k \<le> 100" using page_size_bounds [of ps] unfolding k_def by linarith+
  have page: "PaginatePage items tok ps =
      Ok (take k (drop m items), if m + k < length items then Itoa (word_of_nat (m + k)) else [])"
    unfolding k_def using assms(1) Suc.prems by (intro PaginatePage_at) auto
  show ?case
  proof (cases "m + k < length items")
    case True
    then have "walk n (\<lambda>tok. PaginatePage items tok ps) (Itoa (word_of_nat (m + k))) =
        Some (drop (m + k) items)"
      using assms(1) Suc.prems k by (intro Suc.IH page_offset_Itoa) auto
    then show ?thesis
      using True page by (simp add: add.commute flip: drop_drop)
  next
    case False
    then show ?thesis using page by simp
  qed
qed simp

lemma walk_PaginatePage:
  assumes "length items + 200 < 2 ^ 63" and "length items < n"
  shows "walk n (\<lambda>tok. PaginatePage items tok ps) [] = Some items"
  using walk_from [of items "[]" 0 n ps] assms by (simp add: page_offset_def)

end
