(* ===== verification/Tables.thy ===== *)
theory Tables
  imports Helpers
begin

text \<open>
  The contract the storage keeps for every family of resources, as locales. The handlers of the
  server rely on these laws only; the storage theories interpret them on the operations of each
  family.
\<close>

section \<open>Create, get, delete\<close>

definition alreadyExists :: "string \<Rightarrow> string \<Rightarrow> err" where
  "alreadyExists kind name = errorf AlreadyExists (kind @ '' ['' @ name @ ''] already exists'')"

definition notFound :: "string \<Rightarrow> string \<Rightarrow> err" where
  "notFound kind name = errorf NotFound (kind @ '' ['' @ name @ ''] not found'')"

lemma isNotFound_notFound [simp]: "isNotFound (notFound kind name)"
  by (simp add: isNotFound_def notFound_def)

lemma not_isNotFound_alreadyExists [simp]: "\<not> isNotFound (alreadyExists kind name)"
  by (simp add: isNotFound_def alreadyExists_def)

text \<open>
  \<open>tab\<close> is the family's map, \<open>nm\<close> the name field of its messages, \<open>coll\<close> the collection segment
  of its resource names with the slashes around it, and \<open>kind\<close> the word its errors use.
\<close>

locale resource_table =
  fixes tab :: "'s \<Rightarrow> 'r gomap" and nm :: "'r \<Rightarrow> string" and coll :: string and kind :: string
    and create :: "env \<Rightarrow> string \<Rightarrow> string \<Rightarrow> 'r \<Rightarrow> 's \<Rightarrow> 'r result \<times> 's"
    and get :: "string \<Rightarrow> 's \<Rightarrow> 'r result"
    and remove :: "string \<Rightarrow> 's \<Rightarrow> unit result \<times> 's"
  assumes create_taken: "map_of (tab s) (p @ coll @ i) = Some x \<Longrightarrow>
      create e p i r s = (Err (alreadyExists kind (p @ coll @ i)), s)"
    and create_free: "map_of (tab s) (p @ coll @ i) = None \<Longrightarrow>
      \<exists>r' s'. create e p i r s = (Ok r', s') \<and> nm r' = p @ coll @ i \<and>
        tab s' = AList.update (p @ coll @ i) r' (tab s)"
    and get_law: "get n s = (case map_of (tab s) n of None \<Rightarrow> Err (notFound kind n) | Some r \<Rightarrow> Ok r)"
    and remove_missing: "map_of (tab s) n = None \<Longrightarrow> remove n s = (Err (notFound kind n), s)"
    and remove_present: "map_of (tab s) n = Some r \<Longrightarrow>
      \<exists>s'. remove n s = (Ok (), s') \<and> tab s' = AList.delete n (tab s)"
begin

lemma create_Ok_iff: "is_ok (fst (create e p i r s)) \<longleftrightarrow> map_of (tab s) (p @ coll @ i) = None"
  using create_taken [of s p i _ e r] create_free [of s p i e r]
  by (cases "map_of (tab s) (p @ coll @ i)") auto

lemma create_Ok:
  assumes "create e p i r s = (Ok r', s')"
  shows "nm r' = p @ coll @ i" and "map_of (tab s) (p @ coll @ i) = None"
    and "tab s' = AList.update (p @ coll @ i) r' (tab s)"
proof -
  show free: "map_of (tab s) (p @ coll @ i) = None"
    using create_Ok_iff [of e p i r s] assms by simp
  show "nm r' = p @ coll @ i" "tab s' = AList.update (p @ coll @ i) r' (tab s)"
    using create_free [OF free, of e r] assms by auto
qed

text \<open>A created resource is read back as it was returned, and exactly once created.\<close>

lemma create_then_get: "create e p i r s = (Ok r', s') \<Longrightarrow> get (nm r') s' = Ok r'"
  using create_Ok [of e p i r s r' s'] by (simp add: get_law map_simps)

lemma create_twice:
  "create e p i r s = (Ok r', s') \<Longrightarrow>
     create e2 p i r2 s' = (Err (alreadyExists kind (nm r')), s')"
  using create_Ok [of e p i r s r' s'] create_taken [of s' p i r' e2 r2] by (simp add: map_simps)

lemma create_get_other:
  "create e p i r s = (Ok r', s') \<Longrightarrow> n \<noteq> nm r' \<Longrightarrow> get n s' = get n s"
  using create_Ok [of e p i r s r' s'] by (simp add: get_law map_simps)

text \<open>A deleted resource is gone, the others stay, and its name is free again.\<close>

lemma remove_Ok:
  assumes "remove n s = (Ok (), s')"
  shows "\<exists>r. map_of (tab s) n = Some r" and "tab s' = AList.delete n (tab s)"
proof -
  show r: "\<exists>r. map_of (tab s) n = Some r"
    using assms remove_missing [of s n] by (cases "map_of (tab s) n") auto
  show "tab s' = AList.delete n (tab s)"
    using r assms remove_present [of s n] by auto
qed

lemma remove_then_get: "remove n s = (Ok (), s') \<Longrightarrow> get n s' = Err (notFound kind n)"
  using remove_Ok [of n s s'] by (simp add: get_law map_simps)

lemma remove_get_other: "remove n s = (Ok (), s') \<Longrightarrow> m \<noteq> n \<Longrightarrow> get m s' = get m s"
  using remove_Ok [of n s s'] by (simp add: get_law map_simps)

lemma remove_Ok_iff: "is_ok (fst (remove n s)) \<longleftrightarrow> is_ok (get n s)"
  using remove_missing [of s n] remove_present [of s n]
  by (cases "map_of (tab s) n") (auto simp: get_law)

lemma create_then_remove:
  assumes "create e p i r s = (Ok r', s')"
  shows "\<exists>s''. remove (nm r') s' = (Ok (), s'') \<and> tab s'' = tab s"
proof -
  note c = create_Ok [OF assms]
  have "map_of (tab s') (nm r') = Some r'" using c by (simp add: map_simps)
  then obtain s'' where "remove (nm r') s' = (Ok (), s'')" "tab s'' = AList.delete (nm r') (tab s')"
    using remove_present by blast
  then show ?thesis using c by (simp add: delete_update_fresh)
qed

text \<open>Both keep the table well formed, whatever the outcome.\<close>

lemma create_wf: "wf_table nm (tab s) \<Longrightarrow> wf_table nm (tab (snd (create e p i r s)))"
  using create_taken [of s p i _ e r] create_free [of s p i e r]
  by (cases "map_of (tab s) (p @ coll @ i)") auto

lemma remove_wf: "wf_table nm (tab s) \<Longrightarrow> wf_table nm (tab (snd (remove n s)))"
  using remove_missing [of s n] remove_present [of s n]
  by (cases "map_of (tab s) n") auto

lemma get_Err: "get n s = Err x \<Longrightarrow> isNotFound x \<and> map_of (tab s) n = None"
  by (auto simp: get_law split: option.splits)

lemma get_Ok: "get n s = Ok r \<longleftrightarrow> map_of (tab s) n = Some r"
  by (auto simp: get_law split: option.splits)

lemma get_no_panic: "\<not> is_panic (get n s)"
  by (auto simp: get_law split: option.splits)

lemma create_no_panic: "\<not> is_panic (fst (create e p i r s))"
  using create_taken [of s p i _ e r] create_free [of s p i e r]
  by (cases "map_of (tab s) (p @ coll @ i)") auto

lemma remove_no_panic: "\<not> is_panic (fst (remove n s))"
  using remove_missing [of s n] remove_present [of s n]
  by (cases "map_of (tab s) n") auto

end

section \<open>Update\<close>

text \<open>
  An update rewrites the entry under the message's name in place. It may fail after it has begun
  to write (the enrollment's immutable field); the law leaves the result open, but not the name,
  nor that a missing resource leaves the table alone.
\<close>

locale mutable_table = resource_table +
  fixes update :: "env \<Rightarrow> 'b \<Rightarrow> string list option \<Rightarrow> 'a \<Rightarrow> 'b result \<times> 'a"
  assumes update_missing: "map_of (tab s) (nm r) = None \<Longrightarrow>
      update e r um s = (Err (notFound kind (nm r)), s)"
    and update_present: "map_of (tab s) (nm r) = Some old \<Longrightarrow>
      \<exists>new. nm new = nm old \<and> tab (snd (update e r um s)) = AList.update (nm r) new (tab s) \<and>
        (fst (update e r um s) = Ok new \<or>
         (\<exists>x. fst (update e r um s) = Err x \<and> \<not> isNotFound x))"
begin

lemma update_wf: "wf_table nm (tab s) \<Longrightarrow> wf_table nm (tab (snd (update e r um s)))"
proof (cases "map_of (tab s) (nm r)")
  case (Some old)
  assume wf: "wf_table nm (tab s)"
  then show ?thesis
    using update_present [OF Some, of e um] wf_table_name [OF wf Some]
    by (auto intro: wf_table_update)
qed (simp add: update_missing)

lemma update_no_panic: "\<not> is_panic (fst (update e r um s))"
  using update_missing [of s r e um] update_present [of s r _ e um]
  by (cases "map_of (tab s) (nm r)") auto

text \<open>An error that is NotFound means exactly that nothing was there.\<close>

lemma update_NotFound:
  assumes "update e r um s = (Err x, s')" and "isNotFound x"
  shows "map_of (tab s) (nm r) = None" and "s' = s"
proof -
  show none: "map_of (tab s) (nm r) = None"
    using update_present [of s r _ e um] assms
    by (cases "map_of (tab s) (nm r)") auto
  show "s' = s" using update_missing [OF none, of e um] assms(1) by simp
qed

lemma update_then_get:
  assumes "update e r um s = (Ok new, s')" and "wf_table nm (tab s)"
  shows "nm new = nm r" and "get (nm r) s' = Ok new"
proof -
  obtain old where old: "map_of (tab s) (nm r) = Some old"
    using update_missing [of s r e um] assms(1) by (cases "map_of (tab s) (nm r)") auto
  then have "nm old = nm r" using assms(2) by (rule wf_table_name [rotated])
  then show "nm new = nm r" "get (nm r) s' = Ok new"
    using update_present [OF old, of e um] assms(1) by (auto simp: get_law map_simps)
qed

lemma update_get_other:
  "n \<noteq> nm r \<Longrightarrow> get n (snd (update e r um s)) = get n s"
  using update_missing [of s r e um] update_present [of s r _ e um]
  by (cases "map_of (tab s) (nm r)") (auto simp: get_law map_simps)

end

section \<open>Listing\<close>

text \<open>
  Collecting the entries of a map whose key has a prefix, in the order of the range; and the
  \<open>switch\<close> on the \<open>orderBy\<close> argument that sorts them.
\<close>

definition collect :: "order \<Rightarrow> string \<Rightarrow> 'r gomap \<Rightarrow> 'r list" where
  "collect ord prefix m = map snd (filter (\<lambda>(name, r). HasPrefix name prefix) (range_map ord m))"

definition by_create_time :: "string \<Rightarrow> bool" where
  "by_create_time orderBy = (TrimSpace (ToLower orderBy) = ''create_time desc'')"

definition sortByOrder ::
  "('r \<Rightarrow> string) \<Rightarrow> ('r \<Rightarrow> timestamp option) \<Rightarrow> string \<Rightarrow> 'r list \<Rightarrow> 'r list" where
  "sortByOrder nm ctime orderBy all =
     (if by_create_time orderBy then sort_key (\<lambda>r. - AsTime (ctime r)) all
      else sort_key nm all)"

lemma mset_sortByOrder [simp]: "mset (sortByOrder nm ctime ob xs) = mset xs"
  by (simp add: sortByOrder_def)

definition children :: "('r \<Rightarrow> string) \<Rightarrow> string \<Rightarrow> 'r gomap \<Rightarrow> 'r list" where
  "children nm prefix m = filter (\<lambda>r. HasPrefix (nm r) prefix) (map snd m)"

lemma mset_collect:
  assumes "wf_table nm m" and "iter_order ord"
  shows "mset (collect ord prefix m) = mset (children nm prefix m)"
proof -
  have "mset (collect ord prefix m) =
      image_mset snd (filter_mset (\<lambda>(k, r). HasPrefix k prefix) (mset (range_map ord m)))"
    by (simp add: collect_def case_prod_unfold)
  also have "mset (range_map ord m) = mset m"
    using assms by (intro mset_range_map wf_table_distinct)
  also have "image_mset snd (filter_mset (\<lambda>(k, r). HasPrefix k prefix) (mset m)) =
      mset (map snd (filter (\<lambda>(k, r). HasPrefix k prefix) m))"
    by (simp add: case_prod_unfold)
  also have "map snd (filter (\<lambda>(k, r). HasPrefix k prefix) m) = children nm prefix m"
    using assms(1) unfolding children_def wf_table_def filter_map
    by (intro arg_cong [where f = "map snd"] filter_cong) auto
  finally show ?thesis .
qed

lemma distinct_children: "wf_table nm m \<Longrightarrow> distinct (map nm (children nm prefix m))"
proof -
  assume wf: "wf_table nm m"
  then have "map nm (map snd m) = map fst m"
    by (auto simp: wf_table_def)
  then have "distinct (map nm (map snd m))" using wf by (simp add: wf_table_def del: map_map)
  then show ?thesis unfolding children_def by (rule distinct_map_filter)
qed

text \<open>Sorting by name forgets the order of the range.\<close>

lemma sort_collect:
  assumes "wf_table nm m" and "iter_order ord"
  shows "sort_key nm (collect ord prefix m) = sort_key nm (children nm prefix m)"
  using sort_key_unique [OF mset_collect [OF assms]] distinct_children [OF assms(1)]
    distinct_map_mset [OF mset_collect [OF assms]] by blast

lemma length_children: "length (children nm prefix m) \<le> length m"
  unfolding children_def using length_filter_le [of _ "map snd m"] by simp

text \<open>
  What a list method promises: the pages of the children of the parent, each once; sorted by
  name, or newest first when asked. \<open>tokens\<close> left aside, the page function is \<open>PaginatePage\<close>.
\<close>

locale listed_table =
  fixes tab :: "'s \<Rightarrow> 'r gomap" and nm :: "'r \<Rightarrow> string" and coll :: string
    and ctime :: "'r \<Rightarrow> timestamp option"
    and listing :: "env \<Rightarrow> string \<Rightarrow> 32 word \<Rightarrow> string \<Rightarrow> string \<Rightarrow> 's \<Rightarrow> ('r list \<times> string) result"
  assumes listing_law: "wf_table nm (tab s) \<Longrightarrow> iter_order (e_order e) \<Longrightarrow>
      \<exists>xs. mset xs = mset (children nm (p @ coll) (tab s)) \<and>
        (if by_create_time ob then sorted (map (\<lambda>r. - AsTime (ctime r)) xs) else sorted (map nm xs)) \<and>
        (\<forall>ps tok. listing e p ps tok ob s = PaginatePage xs tok ps)"
begin

text \<open>The listing by name does not depend on the order the runtime ranges in.\<close>

lemma listing_by_name:
  assumes "wf_table nm (tab s)" "iter_order (e_order e)" "\<not> by_create_time ob"
  shows "listing e p ps tok ob s =
    PaginatePage (sort_key nm (children nm (p @ coll) (tab s))) tok ps"
proof -
  obtain xs where xs: "mset xs = mset (children nm (p @ coll) (tab s))" "sorted (map nm xs)"
    "\<And>ps tok. listing e p ps tok ob s = PaginatePage xs tok ps"
    using listing_law [OF assms(1,2), of p ob] assms(3) by auto
  have "distinct (map nm xs)"
    using distinct_children [OF assms(1)] distinct_map_mset [OF xs(1)] by blast
  then have "sort_key nm xs = sort_key nm (children nm (p @ coll) (tab s))"
    using xs(1) by (rule sort_key_unique [rotated])
  moreover have "sort_key nm xs = xs" using xs(2) by (rule sort_key_id_if_sorted)
  ultimately show ?thesis using xs(3) by simp
qed

text \<open>Following the tokens from the first page gives every child of the parent, each once.\<close>

lemma listing_walk:
  assumes "wf_table nm (tab s)" "iter_order (e_order e)" "length (tab s) + 200 < 2 ^ 63"
    and "length (tab s) < n"
  shows "\<exists>xs. walk n (\<lambda>tok. listing e p ps tok ob s) [] = Some xs \<and>
    mset xs = mset (children nm (p @ coll) (tab s))"
proof -
  obtain xs where xs: "mset xs = mset (children nm (p @ coll) (tab s))"
    "\<And>ps tok. listing e p ps tok ob s = PaginatePage xs tok ps"
    using listing_law [OF assms(1,2), of p ob] by auto
  have "length xs \<le> length (tab s)"
    using xs(1) length_children [of nm "p @ coll" "tab s"] by (metis size_mset)
  then have "walk n (\<lambda>tok. PaginatePage xs tok ps) [] = Some xs"
    using assms(3,4) by (intro walk_PaginatePage) auto
  then show ?thesis using xs by auto
qed

lemma listing_no_panic:
  assumes "wf_table nm (tab s)" "iter_order (e_order e)" "length (tab s) + 100 < 2 ^ 63"
  shows "\<not> is_panic (listing e p ps tok ob s)"
proof -
  obtain xs where xs: "mset xs = mset (children nm (p @ coll) (tab s))"
    "\<And>ps tok. listing e p ps tok ob s = PaginatePage xs tok ps"
    using listing_law [OF assms(1,2), of p ob] by auto
  have "length xs \<le> length (tab s)"
    using xs(1) length_children [of nm "p @ coll" "tab s"] by (metis size_mset)
  then show ?thesis
    using xs(2) PaginatePage_no_panic [of xs tok ps] assms(3) by simp
qed

end

text \<open>The pattern all but one of the list methods follow meets the law.\<close>

lemma listing_pattern:
  assumes "wf_table nm m" "iter_order ord"
  shows "\<exists>xs. mset xs = mset (children nm prefix m) \<and>
    (if by_create_time ob then sorted (map (\<lambda>r. - AsTime (ctime r)) xs) else sorted (map nm xs)) \<and>
    (\<forall>ps tok. PaginatePage (sortByOrder nm ctime ob (collect ord prefix m)) tok ps = PaginatePage xs tok ps)"
  using mset_collect [OF assms, of prefix]
  by (intro exI [of _ "sortByOrder nm ctime ob (collect ord prefix m)"])
    (simp add: sortByOrder_def)

end
