(* ===== verification/Storage.thy ===== *)
theory Storage
  imports Tables
begin

text \<open>
  internal/server/storage.go: the in-memory store, its triggers and its providers. Every method
  runs under the store's lock, so a method is one atomic step on the state.
\<close>

record Storage =
  triggers :: "Trigger gomap"
  providers :: "Provider gomap"
  channels :: "Channel gomap"
  channelConnections :: "ChannelConnection gomap"
  googleChannelConfigs :: "GoogleChannelConfig gomap"
  messageBuses :: "MessageBus gomap"
  enrollments :: "Enrollment gomap"
  pipelines :: "Pipeline gomap"
  googleApiSources :: "GoogleApiSource gomap"

section \<open>Seeding\<close>

definition defaultProviders :: "(string \<times> string \<times> (string \<times> string) list) list" where
  "defaultProviders =
    [(''pubsub.googleapis.com'', ''Cloud Pub/Sub'',
      [(''google.cloud.pubsub.topic.v1.messagePublished'',
        ''A message is published to a Pub/Sub topic.'')]),
     (''storage.googleapis.com'', ''Cloud Storage'',
      [(''google.cloud.storage.object.v1.finalized'', ''An object is created or overwritten.''),
       (''google.cloud.storage.object.v1.archived'',
        ''A live version of an object is archived or deleted.''),
       (''google.cloud.storage.object.v1.deleted'', ''An object is permanently deleted.''),
       (''google.cloud.storage.object.v1.metadataUpdated'',
        ''The metadata of an existing object changes.'')]),
     (''run.googleapis.com'', ''Cloud Run'',
      [(''google.cloud.run.job.v1.executed'', ''A Cloud Run job execution finishes.'')]),
     (''cloudfunctions.googleapis.com'', ''Cloud Functions'',
      [(''google.cloud.functions.function.v2.created'', ''A Cloud Functions function is created.''),
       (''google.cloud.functions.function.v2.updated'', ''A Cloud Functions function is updated.''),
       (''google.cloud.functions.function.v2.deleted'', ''A Cloud Functions function is deleted.'')]),
     (''cloudscheduler.googleapis.com'', ''Cloud Scheduler'',
      [(''google.cloud.scheduler.job.v1.executed'', ''A Cloud Scheduler job is executed.'')])]"

definition seedProvider ::
  "string \<times> string \<times> (string \<times> string) list \<Rightarrow> Provider gomap \<Rightarrow> Provider gomap" where
  "seedProvider p m = (case p of (pid, displayName, eventTypes) \<Rightarrow>
     let name = ''projects/-/locations/-/providers/'' @ pid;
         et = map (\<lambda>(typeURI, description). \<lparr>et_Type = typeURI, et_Description = description\<rparr>) eventTypes
     in AList.update name \<lparr>pv_Name = name, pv_DisplayName = displayName, pv_EventTypes = et\<rparr> m)"

definition NewStorage :: Storage where
  "NewStorage = \<lparr>triggers = [], providers = fold seedProvider defaultProviders [], channels = [],
     channelConnections = [], googleChannelConfigs = [], messageBuses = [], enrollments = [],
     pipelines = [], googleApiSources = []\<rparr>"

section \<open>Triggers\<close>

definition readyCondition :: "StateCondition gomap" where
  "readyCondition = [(''Ready'', \<lparr>sc_Code = 0, sc_Message = []\<rparr>)]"

definition CreateTrigger :: "env \<Rightarrow> string \<Rightarrow> string \<Rightarrow> Trigger \<Rightarrow> (Storage, Trigger) op" where
  "CreateTrigger e parent triggerID trigger s =
     (let name = parent @ ''/triggers/'' @ triggerID
      in case map_of (triggers s) name of
           Some x \<Rightarrow> (Err (alreadyExists ''Trigger'' name), s)
         | None \<Rightarrow>
             (let now = Some (e_now e);
                  uid = newUID (e_uid e);
                  stored = trigger\<lparr>tr_Name := name, tr_Uid := uid, tr_CreateTime := now,
                    tr_UpdateTime := now, tr_Etag := newEtag (e_etag e),
                    tr_Conditions := readyCondition\<rparr>
              in (Ok stored, s\<lparr>triggers := AList.update name stored (triggers s)\<rparr>)))"

definition GetTrigger :: "string \<Rightarrow> Storage \<Rightarrow> Trigger result" where
  "GetTrigger name s = (case map_of (triggers s) name of
      None \<Rightarrow> Err (notFound ''Trigger'' name)
    | Some stored \<Rightarrow> Ok stored)"

definition setTriggerAll :: "Trigger \<Rightarrow> Trigger \<Rightarrow> Trigger" where
  "setTriggerAll trigger stored =
     stored\<lparr>tr_Labels := tr_Labels trigger, tr_Destination := tr_Destination trigger,
       tr_EventFilters := tr_EventFilters trigger, tr_ServiceAccount := tr_ServiceAccount trigger,
       tr_Channel := tr_Channel trigger\<rparr>"

definition setTriggerField :: "Trigger \<Rightarrow> string \<Rightarrow> Trigger \<Rightarrow> Trigger" where
  "setTriggerField trigger path stored =
     (if path = ''labels'' then stored\<lparr>tr_Labels := tr_Labels trigger\<rparr>
      else if path = ''destination'' then stored\<lparr>tr_Destination := tr_Destination trigger\<rparr>
      else if path = ''event_filters'' then stored\<lparr>tr_EventFilters := tr_EventFilters trigger\<rparr>
      else if path = ''service_account'' then stored\<lparr>tr_ServiceAccount := tr_ServiceAccount trigger\<rparr>
      else if path = ''channel'' then stored\<lparr>tr_Channel := tr_Channel trigger\<rparr>
      else if path = ''*'' then setTriggerAll trigger stored
      else stored)"

definition UpdateTrigger :: "env \<Rightarrow> Trigger \<Rightarrow> string list option \<Rightarrow> (Storage, Trigger) op" where
  "UpdateTrigger e trigger updateMask s =
     (case map_of (triggers s) (tr_Name trigger) of
        None \<Rightarrow> (Err (notFound ''Trigger'' (tr_Name trigger)), s)
      | Some stored0 \<Rightarrow>
          (let stored1 = (case updateMask of
                 Some paths \<Rightarrow> fold (setTriggerField trigger) paths stored0
               | None \<Rightarrow> setTriggerAll trigger stored0);
               stored = stored1\<lparr>tr_UpdateTime := Some (e_now e), tr_Etag := newEtag (e_etag e),
                 tr_Conditions := readyCondition\<rparr>
           in (Ok stored, s\<lparr>triggers := AList.update (tr_Name trigger) stored (triggers s)\<rparr>)))"

definition DeleteTrigger :: "string \<Rightarrow> (Storage, unit) op" where
  "DeleteTrigger name s = (case map_of (triggers s) name of
      None \<Rightarrow> (Err (notFound ''Trigger'' name), s)
    | Some x \<Rightarrow> (Ok (), s\<lparr>triggers := AList.delete name (triggers s)\<rparr>))"

definition applyTriggerFilter :: "Trigger list \<Rightarrow> string \<Rightarrow> Trigger list" where
  "applyTriggerFilter ts flt0 =
     (let flt = TrimSpace flt0
      in if \<not> HasPrefix flt ''trigger_id='' then ts
         else (let tid = Trim (TrimPrefix flt ''trigger_id='') [CHR 0x22, CHR 0x27]
               in filter (\<lambda>t. let parts = Split (tr_Name t) (CHR ''/'')
                              in 0 < length parts \<and> last parts = tid) ts))"

definition ListTriggers :: "env \<Rightarrow> string \<Rightarrow> 32 word \<Rightarrow> string \<Rightarrow> string \<Rightarrow> string \<Rightarrow> Storage \<Rightarrow>
    (Trigger list \<times> string) result" where
  "ListTriggers e parent pageSize pageToken orderBy flt s =
     (let prefix = parent @ ''/triggers/'';
          all0 = collect (e_order e) prefix (triggers s);
          all1 = (if flt \<noteq> [] then applyTriggerFilter all0 flt else all0)
      in PaginatePage (sortByOrder tr_Name tr_CreateTime orderBy all1) pageToken pageSize)"

definition ListAllTriggers :: "env \<Rightarrow> string \<Rightarrow> Storage \<Rightarrow> Trigger list result" where
  "ListAllTriggers e parent s =
     (let prefix = parent @ ''/triggers/'' in Ok (collect (e_order e) prefix (triggers s)))"

section \<open>Providers\<close>

definition cloneProvider :: "Provider \<Rightarrow> string \<Rightarrow> Provider" where
  "cloneProvider p realName = p\<lparr>pv_Name := realName\<rparr>"

definition extractProviderID :: "string \<Rightarrow> string" where
  "extractProviderID name = (case LastIndex name ''/providers/'' of
      None \<Rightarrow> []
    | Some idx \<Rightarrow> drop (idx + length ''/providers/'') name)"

definition GetProvider :: "string \<Rightarrow> Storage \<Rightarrow> Provider result" where
  "GetProvider name s =
     (case map_of (providers s) name of
        Some p \<Rightarrow> Ok (cloneProvider p name)
      | None \<Rightarrow>
          (let providerID = extractProviderID name
           in if providerID = [] then Err (notFound ''Provider'' name)
              else (let syntheticKey = ''projects/-/locations/-/providers/'' @ providerID
                    in case map_of (providers s) syntheticKey of
                         Some p \<Rightarrow> Ok (cloneProvider p name)
                       | None \<Rightarrow> Err (notFound ''Provider'' name))))"

definition ListProviders :: "env \<Rightarrow> string \<Rightarrow> 32 word \<Rightarrow> string \<Rightarrow> string \<Rightarrow> string \<Rightarrow> Storage \<Rightarrow>
    (Provider list \<times> string) result" where
  "ListProviders e parent pageSize pageToken flt orderBy s =
     (let keep = filter (\<lambda>(key, p). extractProviderID key \<noteq> []) (range_map (e_order e) (providers s));
          all = map (\<lambda>(key, p). cloneProvider p (parent @ ''/providers/'' @ extractProviderID key)) keep
      in PaginatePage (sort_key pv_Name all) pageToken pageSize)"

section \<open>Testing helpers\<close>

definition Clear :: "Storage \<Rightarrow> Storage" where
  "Clear s = s\<lparr>triggers := []\<rparr>"

definition TriggerCount :: "Storage \<Rightarrow> nat" where
  "TriggerCount s = length (triggers s)"

section \<open>The trigger table\<close>

lemmas trigger_ops = CreateTrigger_def GetTrigger_def DeleteTrigger_def UpdateTrigger_def

lemma setTriggerAll_sel [simp]:
  "tr_Name (setTriggerAll t x) = tr_Name x" "tr_Uid (setTriggerAll t x) = tr_Uid x"
  "tr_CreateTime (setTriggerAll t x) = tr_CreateTime x" "tr_Other (setTriggerAll t x) = tr_Other x"
  "tr_Labels (setTriggerAll t x) = tr_Labels t" "tr_Destination (setTriggerAll t x) = tr_Destination t"
  "tr_EventFilters (setTriggerAll t x) = tr_EventFilters t"
  "tr_ServiceAccount (setTriggerAll t x) = tr_ServiceAccount t"
  "tr_Channel (setTriggerAll t x) = tr_Channel t"
  by (simp_all add: setTriggerAll_def)

lemma setTriggerField_frame [simp]:
  "tr_Name (setTriggerField t p x) = tr_Name x" "tr_Uid (setTriggerField t p x) = tr_Uid x"
  "tr_CreateTime (setTriggerField t p x) = tr_CreateTime x"
  "tr_Other (setTriggerField t p x) = tr_Other x"
  by (simp_all add: setTriggerField_def)

lemma fold_setTriggerField_frame [simp]:
  "tr_Name (fold (setTriggerField t) ps x) = tr_Name x"
  "tr_Uid (fold (setTriggerField t) ps x) = tr_Uid x"
  "tr_CreateTime (fold (setTriggerField t) ps x) = tr_CreateTime x"
  "tr_Other (fold (setTriggerField t) ps x) = tr_Other x"
  by (rule fold_frame, simp)+

lemma fold_setTriggerField_copies:
  "tr_Labels (fold (setTriggerField t) ps x) =
    (if set ps \<inter> {''labels'', ''*''} = {} then tr_Labels x else tr_Labels t)"
  "tr_Destination (fold (setTriggerField t) ps x) =
    (if set ps \<inter> {''destination'', ''*''} = {} then tr_Destination x else tr_Destination t)"
  "tr_EventFilters (fold (setTriggerField t) ps x) =
    (if set ps \<inter> {''event_filters'', ''*''} = {} then tr_EventFilters x else tr_EventFilters t)"
  "tr_ServiceAccount (fold (setTriggerField t) ps x) =
    (if set ps \<inter> {''service_account'', ''*''} = {} then tr_ServiceAccount x else tr_ServiceAccount t)"
  "tr_Channel (fold (setTriggerField t) ps x) =
    (if set ps \<inter> {''channel'', ''*''} = {} then tr_Channel x else tr_Channel t)"
  by (rule fold_copies; auto simp: setTriggerField_def)+

interpretation trig: mutable_table triggers tr_Name "''/triggers/''" "''Trigger''"
  CreateTrigger GetTrigger DeleteTrigger UpdateTrigger
  by unfold_locales (auto simp: trigger_ops Let_def split: option.splits)

interpretation trigs: listed_table triggers tr_Name "''/triggers/''" tr_CreateTime
  "\<lambda>e p ps tok ob s. ListTriggers e p ps tok ob [] s"
  by unfold_locales (simp add: ListTriggers_def Let_def listing_pattern)

section \<open>Providers under any location\<close>

lemma extractProviderID_join:
  "CHR ''/'' \<notin> set pid \<Longrightarrow> extractProviderID (p @ ''/providers/'' @ pid) = pid"
proof -
  assume pid: "CHR ''/'' \<notin> set pid"
  have "\<not> Contains (tl ''/providers/'' @ pid) ''/providers/''"
  proof
    assume "Contains (tl ''/providers/'' @ pid) ''/providers/''"
    then have "Contains (tl ''/providers/'') ''/providers/''"
      by (rule Contains_append_same_char [OF pid, rotated 2]) simp_all
    then show False by (simp add: HasPrefix_def)
  qed
  then have "LastIndex (p @ ''/providers/'' @ pid) ''/providers/'' = Some (length p)"
    by (rule LastIndex_append) simp
  then show ?thesis by (simp add: extractProviderID_def)
qed

lemma seeded_providers:
  "map fst (providers NewStorage) =
     map (\<lambda>(pid, rest). ''projects/-/locations/-/providers/'' @ pid) defaultProviders"
  by code_simp

end
