(* ===== verification/StorageChannel.thy ===== *)
theory StorageChannel
  imports Storage
begin

text \<open>
  internal/server/storage\_channel.go: channels, channel connections, and the Google channel config,
  a singleton per location that is made on first access.
\<close>

section \<open>Channels\<close>

definition CreateChannel :: "env \<Rightarrow> string \<Rightarrow> string \<Rightarrow> Channel \<Rightarrow> (Storage, Channel) op" where
  "CreateChannel e parent channelID ch s =
     (let name = parent @ ''/channels/'' @ channelID
      in case map_of (channels s) name of
           Some x \<Rightarrow> (Err (alreadyExists ''Channel'' name), s)
         | None \<Rightarrow>
             (let now = Some (e_now e);
                  uid = newUID (e_uid e);
                  stored = ch\<lparr>ch_Name := name, ch_Uid := uid, ch_CreateTime := now,
                    ch_UpdateTime := now, ch_State := PENDING,
                    ch_ActivationToken := newUID (e_token e)\<rparr>
              in (Ok stored, s\<lparr>channels := AList.update name stored (channels s)\<rparr>)))"

definition GetChannel :: "string \<Rightarrow> Storage \<Rightarrow> Channel result" where
  "GetChannel name s = (case map_of (channels s) name of
      None \<Rightarrow> Err (notFound ''Channel'' name)
    | Some stored \<Rightarrow> Ok stored)"

definition GetChannelExists :: "string \<Rightarrow> Storage \<Rightarrow> bool result" where
  "GetChannelExists name s = Ok (map_of (channels s) name \<noteq> None)"

definition setChannelAll :: "Channel \<Rightarrow> Channel \<Rightarrow> Channel" where
  "setChannelAll ch stored =
     stored\<lparr>ch_Labels := ch_Labels ch, ch_CryptoKeyName := ch_CryptoKeyName ch,
       ch_State := ch_State ch\<rparr>"

definition setChannelField :: "Channel \<Rightarrow> string \<Rightarrow> Channel \<Rightarrow> Channel" where
  "setChannelField ch path stored =
     (if path = ''labels'' then stored\<lparr>ch_Labels := ch_Labels ch\<rparr>
      else if path = ''crypto_key_name'' then stored\<lparr>ch_CryptoKeyName := ch_CryptoKeyName ch\<rparr>
      else if path = ''state'' then stored\<lparr>ch_State := ch_State ch\<rparr>
      else if path = ''*'' then setChannelAll ch stored
      else stored)"

definition UpdateChannel :: "env \<Rightarrow> Channel \<Rightarrow> string list option \<Rightarrow> (Storage, Channel) op" where
  "UpdateChannel e ch um s =
     (case map_of (channels s) (ch_Name ch) of
        None \<Rightarrow> (Err (notFound ''Channel'' (ch_Name ch)), s)
      | Some stored0 \<Rightarrow>
          (let stored1 = (case um of
                 Some paths \<Rightarrow> fold (setChannelField ch) paths stored0
               | None \<Rightarrow> setChannelAll ch stored0);
               stored = stored1\<lparr>ch_UpdateTime := Some (e_now e)\<rparr>
           in (Ok stored, s\<lparr>channels := AList.update (ch_Name ch) stored (channels s)\<rparr>)))"

definition DeleteChannel :: "string \<Rightarrow> (Storage, unit) op" where
  "DeleteChannel name s = (case map_of (channels s) name of
      None \<Rightarrow> (Err (notFound ''Channel'' name), s)
    | Some x \<Rightarrow> (Ok (), s\<lparr>channels := AList.delete name (channels s)\<rparr>))"

definition ListChannels :: "env \<Rightarrow> string \<Rightarrow> 32 word \<Rightarrow> string \<Rightarrow> string \<Rightarrow> Storage \<Rightarrow>
    (Channel list \<times> string) result" where
  "ListChannels e parent pageSize pageToken orderBy s =
     (let prefix = parent @ ''/channels/'';
          all = collect (e_order e) prefix (channels s)
      in PaginatePage (sortByOrder ch_Name ch_CreateTime orderBy all) pageToken pageSize)"

section \<open>Channel connections\<close>

definition CreateChannelConnection ::
  "env \<Rightarrow> string \<Rightarrow> string \<Rightarrow> ChannelConnection \<Rightarrow> (Storage, ChannelConnection) op" where
  "CreateChannelConnection e parent connID conn s =
     (let name = parent @ ''/channelConnections/'' @ connID
      in case map_of (channelConnections s) name of
           Some x \<Rightarrow> (Err (alreadyExists ''ChannelConnection'' name), s)
         | None \<Rightarrow>
             (let now = Some (e_now e);
                  uid = newUID (e_uid e);
                  stored = conn\<lparr>cc_ActivationToken := [], cc_Name := name, cc_Uid := uid,
                    cc_CreateTime := now, cc_UpdateTime := now\<rparr>
              in (Ok stored,
                  s\<lparr>channelConnections := AList.update name stored (channelConnections s)\<rparr>)))"

definition GetChannelConnection :: "string \<Rightarrow> Storage \<Rightarrow> ChannelConnection result" where
  "GetChannelConnection name s = (case map_of (channelConnections s) name of
      None \<Rightarrow> Err (notFound ''ChannelConnection'' name)
    | Some stored \<Rightarrow> Ok stored)"

definition DeleteChannelConnection :: "string \<Rightarrow> (Storage, unit) op" where
  "DeleteChannelConnection name s = (case map_of (channelConnections s) name of
      None \<Rightarrow> (Err (notFound ''ChannelConnection'' name), s)
    | Some x \<Rightarrow> (Ok (), s\<lparr>channelConnections := AList.delete name (channelConnections s)\<rparr>))"

definition ListChannelConnections :: "env \<Rightarrow> string \<Rightarrow> 32 word \<Rightarrow> string \<Rightarrow> Storage \<Rightarrow>
    (ChannelConnection list \<times> string) result" where
  "ListChannelConnections e parent pageSize pageToken s =
     (let prefix = parent @ ''/channelConnections/'';
          all = collect (e_order e) prefix (channelConnections s)
      in PaginatePage (sort_key cc_Name all) pageToken pageSize)"

section \<open>Google channel configs\<close>

text \<open>
  \<open>GetGoogleChannelConfig\<close> has two critical sections: a read under the shared lock, and, when it
  missed, a second look and the initialisation under the exclusive lock. Between the two, other
  methods may run. The two sections are definitions of their own; the method called alone is their
  composition.
\<close>

definition peekGoogleChannelConfig :: "string \<Rightarrow> Storage \<Rightarrow> GoogleChannelConfig option" where
  "peekGoogleChannelConfig name s = map_of (googleChannelConfigs s) name"

definition initGoogleChannelConfig ::
  "env \<Rightarrow> string \<Rightarrow> (Storage, GoogleChannelConfig) op" where
  "initGoogleChannelConfig e name s =
     (case map_of (googleChannelConfigs s) name of
        Some stored \<Rightarrow> (Ok stored, s)
      | None \<Rightarrow>
          (let defaultCfg = \<lparr>gc_Name = name, gc_UpdateTime = Some (e_now e),
                 gc_CryptoKeyName = [], gc_Labels = [], gc_Other = []\<rparr>
           in (Ok defaultCfg,
               s\<lparr>googleChannelConfigs := AList.update name defaultCfg (googleChannelConfigs s)\<rparr>)))"

definition GetGoogleChannelConfig :: "env \<Rightarrow> string \<Rightarrow> (Storage, GoogleChannelConfig) op" where
  "GetGoogleChannelConfig e name s =
     (case peekGoogleChannelConfig name s of
        Some stored \<Rightarrow> (Ok stored, s)
      | None \<Rightarrow> initGoogleChannelConfig e name s)"

definition setConfigAll :: "GoogleChannelConfig \<Rightarrow> GoogleChannelConfig \<Rightarrow> GoogleChannelConfig" where
  "setConfigAll cfg stored =
     stored\<lparr>gc_CryptoKeyName := gc_CryptoKeyName cfg, gc_Labels := gc_Labels cfg\<rparr>"

definition setConfigField ::
  "GoogleChannelConfig \<Rightarrow> string \<Rightarrow> GoogleChannelConfig \<Rightarrow> GoogleChannelConfig" where
  "setConfigField cfg path stored =
     (if path = ''crypto_key_name'' then stored\<lparr>gc_CryptoKeyName := gc_CryptoKeyName cfg\<rparr>
      else if path = ''labels'' then stored\<lparr>gc_Labels := gc_Labels cfg\<rparr>
      else if path = ''*'' then setConfigAll cfg stored
      else stored)"

definition UpdateGoogleChannelConfig ::
  "env \<Rightarrow> GoogleChannelConfig \<Rightarrow> string list option \<Rightarrow> (Storage, GoogleChannelConfig) op" where
  "UpdateGoogleChannelConfig e cfg um s =
     (let name = gc_Name cfg
      in if name = []
         then (Err (errorf InvalidArgument ''google_channel_config.name is required''), s)
         else (let stored0 = (case map_of (googleChannelConfigs s) name of
                     Some stored \<Rightarrow> stored
                   | None \<Rightarrow> \<lparr>gc_Name = name, gc_UpdateTime = None, gc_CryptoKeyName = [],
                       gc_Labels = [], gc_Other = []\<rparr>);
                   stored1 = (case um of
                     Some paths \<Rightarrow> fold (setConfigField cfg) paths stored0
                   | None \<Rightarrow> setConfigAll cfg stored0);
                   stored = stored1\<lparr>gc_UpdateTime := Some (e_now e)\<rparr>
               in (Ok stored,
                   s\<lparr>googleChannelConfigs := AList.update name stored (googleChannelConfigs s)\<rparr>)))"

section \<open>The tables of this file\<close>

lemmas channel_ops = CreateChannel_def GetChannel_def DeleteChannel_def UpdateChannel_def
lemmas connection_ops = CreateChannelConnection_def GetChannelConnection_def
  DeleteChannelConnection_def

lemma setChannelField_frame [simp]:
  "ch_Name (setChannelAll c x) = ch_Name x" "ch_Name (setChannelField c p x) = ch_Name x"
  "ch_Uid (setChannelAll c x) = ch_Uid x" "ch_Uid (setChannelField c p x) = ch_Uid x"
  "ch_CreateTime (setChannelAll c x) = ch_CreateTime x"
  "ch_CreateTime (setChannelField c p x) = ch_CreateTime x"
  "ch_ActivationToken (setChannelAll c x) = ch_ActivationToken x"
  "ch_ActivationToken (setChannelField c p x) = ch_ActivationToken x"
  by (simp_all add: setChannelField_def setChannelAll_def)

lemma fold_setChannelField_frame [simp]:
  "ch_Name (fold (setChannelField c) ps x) = ch_Name x"
  "ch_Uid (fold (setChannelField c) ps x) = ch_Uid x"
  "ch_CreateTime (fold (setChannelField c) ps x) = ch_CreateTime x"
  "ch_ActivationToken (fold (setChannelField c) ps x) = ch_ActivationToken x"
  by (rule fold_frame, simp)+

lemma setConfigField_frame [simp]:
  "gc_Name (setConfigAll c x) = gc_Name x" "gc_Name (setConfigField c p x) = gc_Name x"
  by (simp_all add: setConfigField_def setConfigAll_def)

lemma fold_setConfigField_frame [simp]: "gc_Name (fold (setConfigField c) ps x) = gc_Name x"
  by (rule fold_frame) simp

interpretation chan: mutable_table channels ch_Name "''/channels/''" "''Channel''"
  CreateChannel GetChannel DeleteChannel UpdateChannel
  by unfold_locales (auto simp: channel_ops Let_def split: option.splits)

interpretation chans: listed_table channels ch_Name "''/channels/''" ch_CreateTime ListChannels
  by unfold_locales (simp add: ListChannels_def Let_def listing_pattern)

interpretation conn: resource_table channelConnections cc_Name "''/channelConnections/''"
  "''ChannelConnection''" CreateChannelConnection GetChannelConnection DeleteChannelConnection
  by unfold_locales (auto simp: connection_ops Let_def split: option.splits)

text \<open>Connections are always listed by name; the order of the range does not show.\<close>

lemma ListChannelConnections_by_name:
  assumes "wf_table cc_Name (channelConnections s)" "iter_order (e_order e)"
  shows "ListChannelConnections e p ps tok s =
    PaginatePage (sort_key cc_Name (children cc_Name (p @ ''/channelConnections/'')
      (channelConnections s))) tok ps"
  by (simp add: ListChannelConnections_def sort_collect [OF assms])

section \<open>A stable default config\<close>

lemma GetGoogleChannelConfig_then:
  assumes "GetGoogleChannelConfig e n s = (Ok c, s')"
  shows "map_of (googleChannelConfigs s') n = Some c"
  using assms unfolding GetGoogleChannelConfig_def peekGoogleChannelConfig_def initGoogleChannelConfig_def
  by (auto simp: Let_def map_simps split: option.splits)

lemma GetGoogleChannelConfig_total: "\<exists>c s'. GetGoogleChannelConfig e n s = (Ok c, s')"
  by (simp add: GetGoogleChannelConfig_def initGoogleChannelConfig_def Let_def split: option.split)

lemma GetGoogleChannelConfig_present:
  "map_of (googleChannelConfigs s) n = Some c \<Longrightarrow> GetGoogleChannelConfig e n s = (Ok c, s)"
  by (simp add: GetGoogleChannelConfig_def peekGoogleChannelConfig_def)

lemma GetGoogleChannelConfig_wf:
  "wf_table gc_Name (googleChannelConfigs s) \<Longrightarrow>
     wf_table gc_Name (googleChannelConfigs (snd (GetGoogleChannelConfig e n s)))"
  unfolding GetGoogleChannelConfig_def peekGoogleChannelConfig_def initGoogleChannelConfig_def
  by (auto simp: Let_def split: option.splits)

lemma UpdateGoogleChannelConfig_wf:
  "wf_table gc_Name (googleChannelConfigs s) \<Longrightarrow>
     wf_table gc_Name (googleChannelConfigs (snd (UpdateGoogleChannelConfig e c um s)))"
  unfolding UpdateGoogleChannelConfig_def
  by (auto simp: Let_def dest: wf_table_name split: option.splits intro!: wf_table_update)

end
