(* ===== verification/StorageMessageBus.thy ===== *)
theory StorageMessageBus
  imports Storage
begin

text \<open>
  internal/server/storage\_messagebus.go: message buses and enrollments.
\<close>

section \<open>Message buses\<close>

definition CreateMessageBus :: "env \<Rightarrow> string \<Rightarrow> string \<Rightarrow> MessageBus \<Rightarrow> (Storage, MessageBus) op" where
  "CreateMessageBus e parent busID mb s =
     (let name = parent @ ''/messageBuses/'' @ busID
      in case map_of (messageBuses s) name of
           Some x \<Rightarrow> (Err (alreadyExists ''MessageBus'' name), s)
         | None \<Rightarrow>
             (let now = Some (e_now e);
                  uid = newUID (e_uid e);
                  etag = newEtag (e_etag e);
                  stored = mb\<lparr>mb_Name := name, mb_Uid := uid, mb_Etag := etag,
                    mb_CreateTime := now, mb_UpdateTime := now\<rparr>
              in (Ok stored, s\<lparr>messageBuses := AList.update name stored (messageBuses s)\<rparr>)))"

definition GetMessageBus :: "string \<Rightarrow> Storage \<Rightarrow> MessageBus result" where
  "GetMessageBus name s = (case map_of (messageBuses s) name of
      None \<Rightarrow> Err (notFound ''MessageBus'' name)
    | Some stored \<Rightarrow> Ok stored)"

definition setMessageBusAll :: "MessageBus \<Rightarrow> MessageBus \<Rightarrow> MessageBus" where
  "setMessageBusAll mb stored =
     stored\<lparr>mb_Labels := mb_Labels mb, mb_Annotations := mb_Annotations mb,
       mb_DisplayName := mb_DisplayName mb, mb_CryptoKeyName := mb_CryptoKeyName mb,
       mb_LoggingConfig := mb_LoggingConfig mb\<rparr>"

definition setMessageBusField :: "MessageBus \<Rightarrow> string \<Rightarrow> MessageBus \<Rightarrow> MessageBus" where
  "setMessageBusField mb path stored =
     (if path = ''*'' then setMessageBusAll mb stored
      else if path = ''labels'' then stored\<lparr>mb_Labels := mb_Labels mb\<rparr>
      else if path = ''annotations'' then stored\<lparr>mb_Annotations := mb_Annotations mb\<rparr>
      else if path = ''display_name'' then stored\<lparr>mb_DisplayName := mb_DisplayName mb\<rparr>
      else if path = ''crypto_key_name'' then stored\<lparr>mb_CryptoKeyName := mb_CryptoKeyName mb\<rparr>
      else if path = ''logging_config'' then stored\<lparr>mb_LoggingConfig := mb_LoggingConfig mb\<rparr>
      else stored)"

definition UpdateMessageBus ::
  "env \<Rightarrow> MessageBus \<Rightarrow> string list option \<Rightarrow> (Storage, MessageBus) op" where
  "UpdateMessageBus e mb updateMask s =
     (case map_of (messageBuses s) (mb_Name mb) of
        None \<Rightarrow> (Err (notFound ''MessageBus'' (mb_Name mb)), s)
      | Some stored0 \<Rightarrow>
          (let stored1 = (case updateMask of
                 Some paths \<Rightarrow> fold (setMessageBusField mb) paths stored0
               | None \<Rightarrow> setMessageBusAll mb stored0);
               stored = stored1\<lparr>mb_UpdateTime := Some (e_now e), mb_Etag := newEtag (e_etag e)\<rparr>
           in (Ok stored, s\<lparr>messageBuses := AList.update (mb_Name mb) stored (messageBuses s)\<rparr>)))"

definition DeleteMessageBus :: "string \<Rightarrow> (Storage, unit) op" where
  "DeleteMessageBus name s = (case map_of (messageBuses s) name of
      None \<Rightarrow> (Err (notFound ''MessageBus'' name), s)
    | Some x \<Rightarrow> (Ok (), s\<lparr>messageBuses := AList.delete name (messageBuses s)\<rparr>))"

definition ListMessageBuses :: "env \<Rightarrow> string \<Rightarrow> 32 word \<Rightarrow> string \<Rightarrow> string \<Rightarrow> Storage \<Rightarrow>
    (MessageBus list \<times> string) result" where
  "ListMessageBuses e parent pageSize pageToken orderBy s =
     (let prefix = parent @ ''/messageBuses/'';
          all = collect (e_order e) prefix (messageBuses s)
      in PaginatePage (sortByOrder mb_Name mb_CreateTime orderBy all) pageToken pageSize)"

definition ListMessageBusEnrollments :: "env \<Rightarrow> string \<Rightarrow> 32 word \<Rightarrow> string \<Rightarrow> Storage \<Rightarrow>
    (string list \<times> string) result" where
  "ListMessageBusEnrollments e busName pageSize pageToken s =
     (let all = map fst (filter (\<lambda>(name, en). en_MessageBus en = busName)
                           (range_map (e_order e) (enrollments s)))
      in PaginatePage (sort all) pageToken pageSize)"

section \<open>Enrollments\<close>

definition CreateEnrollment :: "env \<Rightarrow> string \<Rightarrow> string \<Rightarrow> Enrollment \<Rightarrow> (Storage, Enrollment) op" where
  "CreateEnrollment e parent enrollmentID en s =
     (let name = parent @ ''/enrollments/'' @ enrollmentID
      in case map_of (enrollments s) name of
           Some x \<Rightarrow> (Err (alreadyExists ''Enrollment'' name), s)
         | None \<Rightarrow>
             (let now = Some (e_now e);
                  uid = newUID (e_uid e);
                  etag = newEtag (e_etag e);
                  stored = en\<lparr>en_Name := name, en_Uid := uid, en_Etag := etag,
                    en_CreateTime := now, en_UpdateTime := now\<rparr>
              in (Ok stored, s\<lparr>enrollments := AList.update name stored (enrollments s)\<rparr>)))"

definition GetEnrollment :: "string \<Rightarrow> Storage \<Rightarrow> Enrollment result" where
  "GetEnrollment name s = (case map_of (enrollments s) name of
      None \<Rightarrow> Err (notFound ''Enrollment'' name)
    | Some stored \<Rightarrow> Ok stored)"

definition setEnrollmentAll :: "Enrollment \<Rightarrow> Enrollment \<Rightarrow> Enrollment" where
  "setEnrollmentAll en stored =
     stored\<lparr>en_Labels := en_Labels en, en_Annotations := en_Annotations en,
       en_DisplayName := en_DisplayName en, en_CelMatch := en_CelMatch en,
       en_Destination := en_Destination en\<rparr>"

text \<open>
  One case of the \<open>switch\<close>: the entry after the write, or \<open>None\<close> for the return on the
  immutable \<open>message_bus\<close>.
\<close>

definition setEnrollmentField :: "Enrollment \<Rightarrow> string \<Rightarrow> Enrollment \<Rightarrow> Enrollment option" where
  "setEnrollmentField en path stored =
     (if path = ''*'' then Some (setEnrollmentAll en stored)
      else if path = ''labels'' then Some (stored\<lparr>en_Labels := en_Labels en\<rparr>)
      else if path = ''annotations'' then Some (stored\<lparr>en_Annotations := en_Annotations en\<rparr>)
      else if path = ''display_name'' then Some (stored\<lparr>en_DisplayName := en_DisplayName en\<rparr>)
      else if path = ''cel_match'' then Some (stored\<lparr>en_CelMatch := en_CelMatch en\<rparr>)
      else if path = ''message_bus'' then None
      else if path = ''destination'' then Some (stored\<lparr>en_Destination := en_Destination en\<rparr>)
      else Some stored)"

text \<open>
  The loop over the paths writes into the stored message in place, so a return in the middle
  leaves the writes made before it: the flag tells whether the loop ran to its end.
\<close>

fun setEnrollmentPaths :: "Enrollment \<Rightarrow> string list \<Rightarrow> Enrollment \<Rightarrow> bool \<times> Enrollment" where
  "setEnrollmentPaths en [] stored = (True, stored)"
| "setEnrollmentPaths en (path # paths) stored = (case setEnrollmentField en path stored of
     None \<Rightarrow> (False, stored)
   | Some stored' \<Rightarrow> setEnrollmentPaths en paths stored')"

definition UpdateEnrollment ::
  "env \<Rightarrow> Enrollment \<Rightarrow> string list option \<Rightarrow> (Storage, Enrollment) op" where
  "UpdateEnrollment e en updateMask s =
     (case map_of (enrollments s) (en_Name en) of
        None \<Rightarrow> (Err (notFound ''Enrollment'' (en_Name en)), s)
      | Some stored0 \<Rightarrow>
          (case (case updateMask of
                   Some paths \<Rightarrow> setEnrollmentPaths en paths stored0
                 | None \<Rightarrow> (True, setEnrollmentAll en stored0)) of
             (False, stored) \<Rightarrow>
               (Err (errorf InvalidArgument ''field message_bus is immutable and cannot be updated''),
                s\<lparr>enrollments := AList.update (en_Name en) stored (enrollments s)\<rparr>)
           | (True, stored1) \<Rightarrow>
               (let stored = stored1\<lparr>en_UpdateTime := Some (e_now e), en_Etag := newEtag (e_etag e)\<rparr>
                in (Ok stored,
                    s\<lparr>enrollments := AList.update (en_Name en) stored (enrollments s)\<rparr>))))"

definition DeleteEnrollment :: "string \<Rightarrow> (Storage, unit) op" where
  "DeleteEnrollment name s = (case map_of (enrollments s) name of
      None \<Rightarrow> (Err (notFound ''Enrollment'' name), s)
    | Some x \<Rightarrow> (Ok (), s\<lparr>enrollments := AList.delete name (enrollments s)\<rparr>))"

definition ListEnrollments :: "env \<Rightarrow> string \<Rightarrow> 32 word \<Rightarrow> string \<Rightarrow> string \<Rightarrow> Storage \<Rightarrow>
    (Enrollment list \<times> string) result" where
  "ListEnrollments e parent pageSize pageToken orderBy s =
     (let prefix = parent @ ''/enrollments/'';
          all = collect (e_order e) prefix (enrollments s)
      in PaginatePage (sortByOrder en_Name en_CreateTime orderBy all) pageToken pageSize)"

section \<open>The tables of this file\<close>

lemmas bus_ops = CreateMessageBus_def GetMessageBus_def DeleteMessageBus_def UpdateMessageBus_def
lemmas enrollment_ops = CreateEnrollment_def GetEnrollment_def DeleteEnrollment_def
  UpdateEnrollment_def

lemma setMessageBusField_frame [simp]:
  "mb_Name (setMessageBusAll m x) = mb_Name x" "mb_Name (setMessageBusField m p x) = mb_Name x"
  by (simp_all add: setMessageBusField_def setMessageBusAll_def)

lemma fold_setMessageBusField_frame [simp]:
  "mb_Name (fold (setMessageBusField m) ps x) = mb_Name x"
  by (rule fold_frame) simp

lemma setEnrollmentAll_frame [simp]:
  "en_Name (setEnrollmentAll n x) = en_Name x"
  "en_MessageBus (setEnrollmentAll n x) = en_MessageBus x"
  "en_Uid (setEnrollmentAll n x) = en_Uid x"
  "en_Etag (setEnrollmentAll n x) = en_Etag x"
  "en_UpdateTime (setEnrollmentAll n x) = en_UpdateTime x"
  by (simp_all add: setEnrollmentAll_def)

lemma setEnrollmentField_frame:
  "setEnrollmentField n p x = Some y \<Longrightarrow> en_Name y = en_Name x \<and> en_MessageBus y = en_MessageBus x
     \<and> en_Uid y = en_Uid x \<and> en_Etag y = en_Etag x \<and> en_UpdateTime y = en_UpdateTime x"
  by (auto simp: setEnrollmentField_def split: if_splits)

lemma setEnrollmentField_None: "setEnrollmentField n p x = None \<longleftrightarrow> p = ''message_bus''"
  by (simp add: setEnrollmentField_def)

lemma setEnrollmentPaths_frame:
  "setEnrollmentPaths n ps x = (b, y) \<Longrightarrow> en_Name y = en_Name x \<and> en_MessageBus y = en_MessageBus x
     \<and> en_Uid y = en_Uid x \<and> en_Etag y = en_Etag x \<and> en_UpdateTime y = en_UpdateTime x"
  by (induction n ps x rule: setEnrollmentPaths.induct)
    (auto split: option.splits dest: setEnrollmentField_frame)

lemma setEnrollmentPaths_complete:
  "fst (setEnrollmentPaths n ps x) \<longleftrightarrow> ''message_bus'' \<notin> set ps"
  by (induction n ps x rule: setEnrollmentPaths.induct)
    (auto simp: setEnrollmentField_None setEnrollmentField_None [THEN iffD2, OF refl]
      split: option.splits)

interpretation bus: mutable_table messageBuses mb_Name "''/messageBuses/''" "''MessageBus''"
  CreateMessageBus GetMessageBus DeleteMessageBus UpdateMessageBus
  by unfold_locales (auto simp: bus_ops Let_def split: option.splits)

interpretation buses: listed_table messageBuses mb_Name "''/messageBuses/''" mb_CreateTime
  ListMessageBuses
  by unfold_locales (simp add: ListMessageBuses_def Let_def listing_pattern)

lemma UpdateEnrollment_present:
  assumes "map_of (enrollments s) (en_Name r) = Some old"
  shows "\<exists>new. en_Name new = en_Name old \<and> en_MessageBus new = en_MessageBus old \<and>
    enrollments (snd (UpdateEnrollment e r um s)) = AList.update (en_Name r) new (enrollments s) \<and>
    (fst (UpdateEnrollment e r um s) = Ok new \<or>
     (\<exists>x. fst (UpdateEnrollment e r um s) = Err x \<and> \<not> isNotFound x))"
proof (cases um)
  case None
  then show ?thesis using assms by (simp add: UpdateEnrollment_def Let_def)
next
  case (Some paths)
  obtain b y where y: "setEnrollmentPaths r paths old = (b, y)"
    by (cases "setEnrollmentPaths r paths old")
  with Some assms show ?thesis
    using setEnrollmentPaths_frame [OF y]
    by (cases b) (auto simp: UpdateEnrollment_def Let_def isNotFound_def)
qed

interpretation enr: mutable_table enrollments en_Name "''/enrollments/''" "''Enrollment''"
  CreateEnrollment GetEnrollment DeleteEnrollment UpdateEnrollment
proof unfold_locales
  show "map_of (enrollments s) (en_Name r) = Some old \<Longrightarrow>
    \<exists>new. en_Name new = en_Name old \<and>
      enrollments (snd (UpdateEnrollment e r um s)) = AList.update (en_Name r) new (enrollments s) \<and>
      (fst (UpdateEnrollment e r um s) = Ok new \<or>
       (\<exists>x. fst (UpdateEnrollment e r um s) = Err x \<and> \<not> isNotFound x))" for s r old e um
    using UpdateEnrollment_present by blast
qed (auto simp: enrollment_ops Let_def split: option.splits)

interpretation enrs: listed_table enrollments en_Name "''/enrollments/''" en_CreateTime
  ListEnrollments
  by unfold_locales (simp add: ListEnrollments_def Let_def listing_pattern)

end
