(* ===== verification/StoragePipeline.thy ===== *)
theory StoragePipeline
  imports Storage
begin

text \<open>
  internal/server/storage\_pipeline.go: pipelines and Google API sources.
\<close>

section \<open>Pipelines\<close>

definition CreatePipeline :: "env \<Rightarrow> string \<Rightarrow> string \<Rightarrow> Pipeline \<Rightarrow> (Storage, Pipeline) op" where
  "CreatePipeline e parent pipelineID pl s =
     (let name = parent @ ''/pipelines/'' @ pipelineID
      in case map_of (pipelines s) name of
           Some x \<Rightarrow> (Err (alreadyExists ''Pipeline'' name), s)
         | None \<Rightarrow>
             (let now = Some (e_now e);
                  uid = newUID (e_uid e);
                  etag = newEtag (e_etag e);
                  stored = pl\<lparr>pl_Name := name, pl_Uid := uid, pl_CreateTime := now,
                    pl_UpdateTime := now, pl_Etag := etag\<rparr>
              in (Ok stored, s\<lparr>pipelines := AList.update name stored (pipelines s)\<rparr>)))"

definition GetPipeline :: "string \<Rightarrow> Storage \<Rightarrow> Pipeline result" where
  "GetPipeline name s = (case map_of (pipelines s) name of
      None \<Rightarrow> Err (notFound ''Pipeline'' name)
    | Some stored \<Rightarrow> Ok stored)"

definition setPipelineAll :: "Pipeline \<Rightarrow> Pipeline \<Rightarrow> Pipeline" where
  "setPipelineAll pl stored =
     stored\<lparr>pl_Labels := pl_Labels pl, pl_Annotations := pl_Annotations pl,
       pl_DisplayName := pl_DisplayName pl, pl_Destinations := pl_Destinations pl,
       pl_Mediations := pl_Mediations pl, pl_CryptoKeyName := pl_CryptoKeyName pl,
       pl_InputPayloadFormat := pl_InputPayloadFormat pl, pl_LoggingConfig := pl_LoggingConfig pl,
       pl_RetryPolicy := pl_RetryPolicy pl\<rparr>"

definition setPipelineField :: "Pipeline \<Rightarrow> string \<Rightarrow> Pipeline \<Rightarrow> Pipeline" where
  "setPipelineField pl path stored =
     (if path = ''*'' then setPipelineAll pl stored
      else if path = ''labels'' then stored\<lparr>pl_Labels := pl_Labels pl\<rparr>
      else if path = ''annotations'' then stored\<lparr>pl_Annotations := pl_Annotations pl\<rparr>
      else if path = ''display_name'' then stored\<lparr>pl_DisplayName := pl_DisplayName pl\<rparr>
      else if path = ''destinations'' then stored\<lparr>pl_Destinations := pl_Destinations pl\<rparr>
      else if path = ''mediations'' then stored\<lparr>pl_Mediations := pl_Mediations pl\<rparr>
      else if path = ''crypto_key_name'' then stored\<lparr>pl_CryptoKeyName := pl_CryptoKeyName pl\<rparr>
      else if path = ''input_payload_format'' then
        stored\<lparr>pl_InputPayloadFormat := pl_InputPayloadFormat pl\<rparr>
      else if path = ''logging_config'' then stored\<lparr>pl_LoggingConfig := pl_LoggingConfig pl\<rparr>
      else if path = ''retry_policy'' then stored\<lparr>pl_RetryPolicy := pl_RetryPolicy pl\<rparr>
      else stored)"

definition UpdatePipeline :: "env \<Rightarrow> Pipeline \<Rightarrow> string list option \<Rightarrow> (Storage, Pipeline) op" where
  "UpdatePipeline e pl um s =
     (case map_of (pipelines s) (pl_Name pl) of
        None \<Rightarrow> (Err (notFound ''Pipeline'' (pl_Name pl)), s)
      | Some stored0 \<Rightarrow>
          (let stored1 = (case um of
                 Some paths \<Rightarrow> fold (setPipelineField pl) paths stored0
               | None \<Rightarrow> setPipelineAll pl stored0);
               stored = stored1\<lparr>pl_UpdateTime := Some (e_now e), pl_Etag := newEtag (e_etag e)\<rparr>
           in (Ok stored, s\<lparr>pipelines := AList.update (pl_Name pl) stored (pipelines s)\<rparr>)))"

definition DeletePipeline :: "string \<Rightarrow> (Storage, unit) op" where
  "DeletePipeline name s = (case map_of (pipelines s) name of
      None \<Rightarrow> (Err (notFound ''Pipeline'' name), s)
    | Some x \<Rightarrow> (Ok (), s\<lparr>pipelines := AList.delete name (pipelines s)\<rparr>))"

definition ListPipelines :: "env \<Rightarrow> string \<Rightarrow> 32 word \<Rightarrow> string \<Rightarrow> string \<Rightarrow> Storage \<Rightarrow>
    (Pipeline list \<times> string) result" where
  "ListPipelines e parent pageSize pageToken orderBy s =
     (let prefix = parent @ ''/pipelines/'';
          all = collect (e_order e) prefix (pipelines s)
      in PaginatePage (sortByOrder pl_Name pl_CreateTime orderBy all) pageToken pageSize)"

section \<open>Google API sources\<close>

definition CreateGoogleApiSource ::
  "env \<Rightarrow> string \<Rightarrow> string \<Rightarrow> GoogleApiSource \<Rightarrow> (Storage, GoogleApiSource) op" where
  "CreateGoogleApiSource e parent sourceID src s =
     (let name = parent @ ''/googleApiSources/'' @ sourceID
      in case map_of (googleApiSources s) name of
           Some x \<Rightarrow> (Err (alreadyExists ''GoogleApiSource'' name), s)
         | None \<Rightarrow>
             (let now = Some (e_now e);
                  uid = newUID (e_uid e);
                  etag = newEtag (e_etag e);
                  stored = src\<lparr>gs_Name := name, gs_Uid := uid, gs_CreateTime := now,
                    gs_UpdateTime := now, gs_Etag := etag\<rparr>
              in (Ok stored, s\<lparr>googleApiSources := AList.update name stored (googleApiSources s)\<rparr>)))"

definition GetGoogleApiSource :: "string \<Rightarrow> Storage \<Rightarrow> GoogleApiSource result" where
  "GetGoogleApiSource name s = (case map_of (googleApiSources s) name of
      None \<Rightarrow> Err (notFound ''GoogleApiSource'' name)
    | Some stored \<Rightarrow> Ok stored)"

definition setSourceAll :: "GoogleApiSource \<Rightarrow> GoogleApiSource \<Rightarrow> GoogleApiSource" where
  "setSourceAll src stored =
     stored\<lparr>gs_Labels := gs_Labels src, gs_Annotations := gs_Annotations src,
       gs_DisplayName := gs_DisplayName src, gs_Destination := gs_Destination src,
       gs_CryptoKeyName := gs_CryptoKeyName src, gs_LoggingConfig := gs_LoggingConfig src\<rparr>"

definition setSourceField :: "GoogleApiSource \<Rightarrow> string \<Rightarrow> GoogleApiSource \<Rightarrow> GoogleApiSource" where
  "setSourceField src path stored =
     (if path = ''*'' then setSourceAll src stored
      else if path = ''labels'' then stored\<lparr>gs_Labels := gs_Labels src\<rparr>
      else if path = ''annotations'' then stored\<lparr>gs_Annotations := gs_Annotations src\<rparr>
      else if path = ''display_name'' then stored\<lparr>gs_DisplayName := gs_DisplayName src\<rparr>
      else if path = ''destination'' then stored\<lparr>gs_Destination := gs_Destination src\<rparr>
      else if path = ''crypto_key_name'' then stored\<lparr>gs_CryptoKeyName := gs_CryptoKeyName src\<rparr>
      else if path = ''logging_config'' then stored\<lparr>gs_LoggingConfig := gs_LoggingConfig src\<rparr>
      else stored)"

definition UpdateGoogleApiSource ::
  "env \<Rightarrow> GoogleApiSource \<Rightarrow> string list option \<Rightarrow> (Storage, GoogleApiSource) op" where
  "UpdateGoogleApiSource e src um s =
     (case map_of (googleApiSources s) (gs_Name src) of
        None \<Rightarrow> (Err (notFound ''GoogleApiSource'' (gs_Name src)), s)
      | Some stored0 \<Rightarrow>
          (let stored1 = (case um of
                 Some paths \<Rightarrow> fold (setSourceField src) paths stored0
               | None \<Rightarrow> setSourceAll src stored0);
               stored = stored1\<lparr>gs_UpdateTime := Some (e_now e), gs_Etag := newEtag (e_etag e)\<rparr>
           in (Ok stored,
               s\<lparr>googleApiSources := AList.update (gs_Name src) stored (googleApiSources s)\<rparr>)))"

definition DeleteGoogleApiSource :: "string \<Rightarrow> (Storage, unit) op" where
  "DeleteGoogleApiSource name s = (case map_of (googleApiSources s) name of
      None \<Rightarrow> (Err (notFound ''GoogleApiSource'' name), s)
    | Some x \<Rightarrow> (Ok (), s\<lparr>googleApiSources := AList.delete name (googleApiSources s)\<rparr>))"

definition ListGoogleApiSources :: "env \<Rightarrow> string \<Rightarrow> 32 word \<Rightarrow> string \<Rightarrow> string \<Rightarrow> Storage \<Rightarrow>
    (GoogleApiSource list \<times> string) result" where
  "ListGoogleApiSources e parent pageSize pageToken orderBy s =
     (let prefix = parent @ ''/googleApiSources/'';
          all = collect (e_order e) prefix (googleApiSources s)
      in PaginatePage (sortByOrder gs_Name gs_CreateTime orderBy all) pageToken pageSize)"

section \<open>The tables of this file\<close>

lemmas pipeline_ops = CreatePipeline_def GetPipeline_def DeletePipeline_def UpdatePipeline_def
lemmas source_ops = CreateGoogleApiSource_def GetGoogleApiSource_def DeleteGoogleApiSource_def
  UpdateGoogleApiSource_def

lemma setPipelineField_frame [simp]:
  "pl_Name (setPipelineAll q x) = pl_Name x" "pl_Name (setPipelineField q p x) = pl_Name x"
  by (simp_all add: setPipelineField_def setPipelineAll_def)

lemma fold_setPipelineField_frame [simp]: "pl_Name (fold (setPipelineField q) ps x) = pl_Name x"
  by (rule fold_frame) simp

lemma setSourceField_frame [simp]:
  "gs_Name (setSourceAll q x) = gs_Name x" "gs_Name (setSourceField q p x) = gs_Name x"
  by (simp_all add: setSourceField_def setSourceAll_def)

lemma fold_setSourceField_frame [simp]: "gs_Name (fold (setSourceField q) ps x) = gs_Name x"
  by (rule fold_frame) simp

interpretation pipe: mutable_table pipelines pl_Name "''/pipelines/''" "''Pipeline''"
  CreatePipeline GetPipeline DeletePipeline UpdatePipeline
  by unfold_locales (auto simp: pipeline_ops Let_def split: option.splits)

interpretation pipes: listed_table pipelines pl_Name "''/pipelines/''" pl_CreateTime ListPipelines
  by unfold_locales (simp add: ListPipelines_def Let_def listing_pattern)

interpretation src: mutable_table googleApiSources gs_Name "''/googleApiSources/''"
  "''GoogleApiSource''" CreateGoogleApiSource GetGoogleApiSource DeleteGoogleApiSource
  UpdateGoogleApiSource
  by unfold_locales (auto simp: source_ops Let_def split: option.splits)

interpretation srcs: listed_table googleApiSources gs_Name "''/googleApiSources/''" gs_CreateTime
  ListGoogleApiSources
  by unfold_locales (simp add: ListGoogleApiSources_def Let_def listing_pattern)

end
