(* ===== verification/StorageInv.thy ===== *)
theory StorageInv
  imports StorageChannel StorageMessageBus StoragePipeline
begin

text \<open>
  The invariant of the whole store: every family keeps each resource once, under its own full
  name. One lemma per method that changes state; the methods that only read keep it trivially.
\<close>

definition storage_inv :: "Storage \<Rightarrow> bool" where
  "storage_inv s \<longleftrightarrow> wf_table tr_Name (triggers s) \<and> wf_table pv_Name (providers s) \<and>
     wf_table ch_Name (channels s) \<and> wf_table cc_Name (channelConnections s) \<and>
     wf_table gc_Name (googleChannelConfigs s) \<and> wf_table mb_Name (messageBuses s) \<and>
     wf_table en_Name (enrollments s) \<and> wf_table pl_Name (pipelines s) \<and>
     wf_table gs_Name (googleApiSources s)"

named_theorems storage_inv_rules \<open>every method keeps the invariant of the store\<close>

lemma seedProvider_wf: "wf_table pv_Name m \<Longrightarrow> wf_table pv_Name (seedProvider p m)"
  by (cases p) (auto simp: seedProvider_def Let_def)

lemma fold_seedProvider_wf: "wf_table pv_Name m \<Longrightarrow> wf_table pv_Name (fold seedProvider ps m)"
  by (induction ps arbitrary: m) (auto simp: seedProvider_wf)

lemma storage_inv_NewStorage [storage_inv_rules]: "storage_inv NewStorage"
  by (simp add: storage_inv_def NewStorage_def fold_seedProvider_wf)

lemma storage_inv_triggers [storage_inv_rules]:
  assumes "storage_inv s"
  shows "storage_inv (snd (CreateTrigger e p i r s))"
    and "storage_inv (snd (UpdateTrigger e r um s))"
    and "storage_inv (snd (DeleteTrigger n s))"
    and "storage_inv (Clear s)"
  using assms trig.create_wf [of s e p i r] trig.update_wf [of s e r um] trig.remove_wf [of s n]
  by (auto simp: storage_inv_def trigger_ops Clear_def Let_def split: option.splits)

lemma storage_inv_channels [storage_inv_rules]:
  assumes "storage_inv s"
  shows "storage_inv (snd (CreateChannel e p i r s))"
    and "storage_inv (snd (UpdateChannel e r um s))"
    and "storage_inv (snd (DeleteChannel n s))"
  using assms chan.create_wf [of s e p i r] chan.update_wf [of s e r um] chan.remove_wf [of s n]
  by (auto simp: storage_inv_def channel_ops Let_def split: option.splits)

lemma storage_inv_connections [storage_inv_rules]:
  assumes "storage_inv s"
  shows "storage_inv (snd (CreateChannelConnection e p i r s))"
    and "storage_inv (snd (DeleteChannelConnection n s))"
  using assms conn.create_wf [of s e p i r] conn.remove_wf [of s n]
  by (auto simp: storage_inv_def connection_ops Let_def split: option.splits)

lemma storage_inv_configs [storage_inv_rules]:
  assumes "storage_inv s"
  shows "storage_inv (snd (GetGoogleChannelConfig e n s))"
    and "storage_inv (snd (UpdateGoogleChannelConfig e c um s))"
proof -
  show "storage_inv (snd (GetGoogleChannelConfig e n s))"
    using assms GetGoogleChannelConfig_wf [of s e n]
    by (auto simp: storage_inv_def GetGoogleChannelConfig_def initGoogleChannelConfig_def Let_def
        split: option.splits)
  show "storage_inv (snd (UpdateGoogleChannelConfig e c um s))"
    using assms UpdateGoogleChannelConfig_wf [of s e c um]
    by (simp add: storage_inv_def UpdateGoogleChannelConfig_def Let_def)
qed

lemma storage_inv_buses [storage_inv_rules]:
  assumes "storage_inv s"
  shows "storage_inv (snd (CreateMessageBus e p i r s))"
    and "storage_inv (snd (UpdateMessageBus e r um s))"
    and "storage_inv (snd (DeleteMessageBus n s))"
  using assms bus.create_wf [of s e p i r] bus.update_wf [of s e r um] bus.remove_wf [of s n]
  by (auto simp: storage_inv_def bus_ops Let_def split: option.splits)

lemma UpdateEnrollment_tables:
  "\<exists>m. snd (UpdateEnrollment e r um s) = s\<lparr>enrollments := m\<rparr>"
  unfolding UpdateEnrollment_def
  by (auto simp: Let_def split: option.splits prod.splits bool.splits
      intro: exI [of _ "enrollments s"])

lemma storage_inv_enrollments [storage_inv_rules]:
  assumes "storage_inv s"
  shows "storage_inv (snd (CreateEnrollment e p i r s))"
    and "storage_inv (snd (UpdateEnrollment e r um s))"
    and "storage_inv (snd (DeleteEnrollment n s))"
proof -
  show "storage_inv (snd (CreateEnrollment e p i r s))" "storage_inv (snd (DeleteEnrollment n s))"
    using assms enr.create_wf [of s e p i r] enr.remove_wf [of s n]
    by (auto simp: storage_inv_def CreateEnrollment_def DeleteEnrollment_def Let_def
        split: option.splits)
  obtain m where "snd (UpdateEnrollment e r um s) = s\<lparr>enrollments := m\<rparr>"
    using UpdateEnrollment_tables by blast
  then show "storage_inv (snd (UpdateEnrollment e r um s))"
    using assms enr.update_wf [of s e r um] by (simp add: storage_inv_def)
qed

lemma storage_inv_pipelines [storage_inv_rules]:
  assumes "storage_inv s"
  shows "storage_inv (snd (CreatePipeline e p i r s))"
    and "storage_inv (snd (UpdatePipeline e r um s))"
    and "storage_inv (snd (DeletePipeline n s))"
  using assms pipe.create_wf [of s e p i r] pipe.update_wf [of s e r um] pipe.remove_wf [of s n]
  by (auto simp: storage_inv_def pipeline_ops Let_def split: option.splits)

lemma storage_inv_sources [storage_inv_rules]:
  assumes "storage_inv s"
  shows "storage_inv (snd (CreateGoogleApiSource e p i r s))"
    and "storage_inv (snd (UpdateGoogleApiSource e r um s))"
    and "storage_inv (snd (DeleteGoogleApiSource n s))"
  using assms src.create_wf [of s e p i r] src.update_wf [of s e r um] src.remove_wf [of s n]
  by (auto simp: storage_inv_def source_ops Let_def split: option.splits)

end
