(* ===== verification/Lro.thy ===== *)
theory Lro
  imports Helpers
begin

text \<open>
  internal/lro/store.go: the store of long-running operations. Every operation is created done,
  with its response, and stays until it is deleted. The five RPCs of the Operations service are
  methods of the store; \<open>CreateDone\<close> is what the resource handlers call.
\<close>

record Operation =
  op_Name :: string
  op_Done :: bool
  op_Metadata :: any_msg
  op_Response :: any_msg

record Store =
  ops :: "Operation gomap"

definition NewStore :: Store where
  "NewStore = \<lparr>ops = []\<rparr>"

definition randomHex :: "env \<Rightarrow> nat \<Rightarrow> string + string" where
  "randomHex e n = (case e_rand e of
      Inl m \<Rightarrow> Inl m
    | Inr b \<Rightarrow> Inr (EncodeToString (map b [0..<n])))"

definition CreateDone ::
  "env \<Rightarrow> string \<Rightarrow> any_msg \<Rightarrow> string \<Rightarrow> string \<Rightarrow> (Store, Operation) op" where
  "CreateDone e parent resource verb target s =
     (case randomHex e 16 of
        Inl m \<Rightarrow> (Err (GoError [Txt (''lro: generate uuid: '' @ m)]), s)
      | Inr uuid \<Rightarrow>
          (let name = parent @ ''/operations/'' @ uuid
           in case e_anypb e resource of
                Some m \<Rightarrow> (Err (GoError [Txt (''lro: pack resource into anypb: '' @ m)]), s)
              | None \<Rightarrow>
                  (let now = e_op_now e;
                       meta = AnyMetadata
                         \<lparr>om_CreateTime = now, om_EndTime = now, om_Target = target,
                          om_Verb = verb, om_ApiVersion = ''v1''\<rparr>
                   in case e_anypb e meta of
                        Some m \<Rightarrow> (Err (GoError [Txt (''lro: pack metadata into anypb: '' @ m)]), s)
                      | None \<Rightarrow>
                          (let opn = \<lparr>op_Name = name, op_Done = True, op_Metadata = meta,
                                     op_Response = resource\<rparr>
                           in (Ok opn, s\<lparr>ops := AList.update name opn (ops s)\<rparr>)))))"

definition GetOperation :: "GetRequest \<Rightarrow> Store \<Rightarrow> Operation result" where
  "GetOperation req s =
     (let name = TrimPrefix (gr_Name req) ''operations/''
      in case map_of (ops s) name of
           None \<Rightarrow> Err (errorf NotFound (''operation ['' @ name @ ''] not found''))
         | Some opn \<Rightarrow> Ok opn)"

definition DeleteOperation :: "GetRequest \<Rightarrow> (Store, unit) op" where
  "DeleteOperation req s =
     (let name = TrimPrefix (gr_Name req) ''operations/''
      in case map_of (ops s) name of
           None \<Rightarrow> (Err (errorf NotFound (''operation ['' @ name @ ''] not found'')), s)
         | Some opn \<Rightarrow> (Ok (), s\<lparr>ops := AList.delete name (ops s)\<rparr>))"

definition CancelOperation :: "GetRequest \<Rightarrow> (Store, unit) op" where
  "CancelOperation req s = (Ok (), s)"

definition ListOperations :: "env \<Rightarrow> GetRequest \<Rightarrow> Store \<Rightarrow> Operation list result" where
  "ListOperations e req s =
     (let prefix = TrimPrefix (gr_Name req) ''operations/''
      in Ok (map snd (filter (\<lambda>(name, opn). prefix = [] \<or> HasPrefix name prefix)
                       (range_map (e_order e) (ops s)))))"

definition WaitOperation :: "GetRequest \<Rightarrow> Store \<Rightarrow> Operation result" where
  "WaitOperation req s = GetOperation \<lparr>gr_Name = gr_Name req\<rparr> s"

section \<open>What the store keeps\<close>

text \<open>
  The invariant of the store: every operation is stored once, under its own name, and is done.
\<close>

definition store_inv :: "Store \<Rightarrow> bool" where
  "store_inv s \<longleftrightarrow> wf_table op_Name (ops s) \<and> (\<forall>(k, opn) \<in> set (ops s). op_Done opn)"

lemma store_inv_NewStore [simp]: "store_inv NewStore"
  by (simp add: store_inv_def NewStore_def)

lemma store_inv_CreateDone:
  "store_inv s \<Longrightarrow> store_inv (snd (CreateDone e parent r verb target s))"
  unfolding store_inv_def CreateDone_def
  by (auto simp: Let_def split: sum.splits option.splits dest!: set_update_sub)

lemma store_inv_DeleteOperation: "store_inv s \<Longrightarrow> store_inv (snd (DeleteOperation req s))"
  unfolding store_inv_def DeleteOperation_def
  by (auto simp: Let_def split: option.splits dest!: set_delete_sub)

lemma CreateDone_no_panic [simp]: "\<not> is_panic (fst (CreateDone e p r v t s))"
  by (simp add: CreateDone_def Let_def split: sum.split option.split)

text \<open>
  Success and failure of \<open>CreateDone\<close>: it succeeds exactly when the random bytes are there and
  both messages pack; then the operation is the store's entry under its name. On failure the store
  is untouched.
\<close>

lemma CreateDone_Ok:
  assumes "CreateDone e parent r verb target s = (Ok opn, s')"
  shows "\<exists>b. e_rand e = Inr b \<and> op_Name opn = parent @ ''/operations/'' @ EncodeToString (map b [0..<16])"
    and "op_Done opn" and "op_Response opn = r"
    and "\<exists>t. op_Metadata opn = AnyMetadata \<lparr>om_CreateTime = t, om_EndTime = t, om_Target = target,
           om_Verb = verb, om_ApiVersion = ''v1''\<rparr>"
    and "s' = s\<lparr>ops := AList.update (op_Name opn) opn (ops s)\<rparr>"
  using assms unfolding CreateDone_def randomHex_def
  by (auto simp: Let_def split: sum.splits option.splits)

lemma CreateDone_Err:
  "CreateDone e parent r verb target s = (Err x, s') \<Longrightarrow> s' = s \<and> status_Code x = Unknown"
  unfolding CreateDone_def by (auto simp: Let_def split: sum.splits option.splits)

definition lro_works :: "env \<Rightarrow> bool" where
  "lro_works e \<longleftrightarrow> (\<exists>b. e_rand e = Inr b) \<and> (\<forall>m. e_anypb e m = None)"

lemma CreateDone_works:
  assumes "lro_works e"
  shows "\<exists>opn. CreateDone e parent r verb target s =
    (Ok opn, s\<lparr>ops := AList.update (op_Name opn) opn (ops s)\<rparr>)"
proof -
  obtain b where "e_rand e = Inr b" "\<And>m. e_anypb e m = None"
    using assms by (auto simp: lro_works_def)
  then show ?thesis by (simp add: CreateDone_def randomHex_def Let_def)
qed

lemma GetOperation_stored:
  "map_of (ops s) n = Some opn \<Longrightarrow> \<not> HasPrefix n ''operations/'' \<Longrightarrow>
     GetOperation \<lparr>gr_Name = n\<rparr> s = Ok opn"
  "map_of (ops s) n = Some opn \<Longrightarrow> GetOperation \<lparr>gr_Name = ''operations/'' @ n\<rparr> s = Ok opn"
  by (simp_all add: GetOperation_def TrimPrefix_other del: append.simps)

section \<open>The interface to the operation store\<close>

text \<open>
  What a client of the Operations API relies on: a successful creation makes a finished operation
  that carries the given response and can be fetched, with or without the prefix the REST gateway
  adds; an error leaves the store as it was.
\<close>

locale operation_store =
  fixes create :: "env \<Rightarrow> string \<Rightarrow> any_msg \<Rightarrow> string \<Rightarrow> string \<Rightarrow> 's \<Rightarrow> Operation result \<times> 's"
    and fetch :: "GetRequest \<Rightarrow> 's \<Rightarrow> Operation result"
    and remove :: "GetRequest \<Rightarrow> 's \<Rightarrow> unit result \<times> 's"
  assumes create_done: "create e p r v t s = (Ok opn, s') \<Longrightarrow> op_Done opn \<and> op_Response opn = r"
    and create_named: "create e p r v t s = (Ok opn, s') \<Longrightarrow> \<exists>u. op_Name opn = p @ ''/operations/'' @ u"
    and create_fetch: "create e p r v t s = (Ok opn, s') \<Longrightarrow> n = op_Name opn \<Longrightarrow>
      \<not> HasPrefix n ''operations/'' \<Longrightarrow> fetch \<lparr>gr_Name = n\<rparr> s' = Ok opn"
    and create_fetch_rest: "create e p r v t s = (Ok opn, s') \<Longrightarrow>
      fetch \<lparr>gr_Name = ''operations/'' @ op_Name opn\<rparr> s' = Ok opn"
    and create_fail: "create e p r v t s = (Err x, s') \<Longrightarrow> s' = s"
    and remove_fetch: "remove q s = (Ok (), s') \<Longrightarrow> \<exists>x. fetch q s' = Err x \<and> status_Code x = NotFound"
    and remove_twice: "remove q s = (Ok (), s') \<Longrightarrow> \<exists>x. remove q s' = (Err x, s')"
begin

text \<open>An operation under a project is found by its own name, as clients poll it.\<close>

lemma create_poll:
  assumes "create e p r v t s = (Ok opn, s')" and "\<not> HasPrefix (p @ ''/operations/'') ''operations/''"
  shows "fetch \<lparr>gr_Name = op_Name opn\<rparr> s' = Ok opn"
proof -
  obtain u where u: "op_Name opn = p @ ''/operations/'' @ u"
    using create_named [OF assms(1)] by blast
  have "HasPrefix (op_Name opn) ''operations/'' = HasPrefix (p @ ''/operations/'') ''operations/''"
    unfolding u append.assoc [symmetric] by (rule HasPrefix_append_long) simp
  with assms show ?thesis by (auto intro: create_fetch)
qed

lemma create_finished: "create e p r v t s = (Ok opn, s') \<Longrightarrow> op_Done opn"
  using create_done by blast

end

interpretation lro: operation_store CreateDone GetOperation DeleteOperation
proof unfold_locales
  fix e p r v t s opn s' n
  assume c: "CreateDone e p r v t s = (Ok opn, s')"
  note Ok = CreateDone_Ok [OF c]
  show "op_Done opn \<and> op_Response opn = r" using Ok by simp
  show "\<exists>u. op_Name opn = p @ ''/operations/'' @ u" using Ok(1) by blast
  have stored: "map_of (ops s') (op_Name opn) = Some opn"
    using Ok(5) by (simp add: map_simps)
  show "n = op_Name opn \<Longrightarrow> \<not> HasPrefix n ''operations/'' \<Longrightarrow> GetOperation \<lparr>gr_Name = n\<rparr> s' = Ok opn"
    using stored by (simp add: GetOperation_stored)
  show "GetOperation \<lparr>gr_Name = ''operations/'' @ op_Name opn\<rparr> s' = Ok opn"
    using stored by (rule GetOperation_stored(2))
next
  show "CreateDone e p r v t s = (Err x, s') \<Longrightarrow> s' = s" for e p r v t s x s'
    using CreateDone_Err by blast
  show "DeleteOperation q s = (Ok (), s') \<Longrightarrow> \<exists>x. GetOperation q s' = Err x \<and> status_Code x = NotFound"
    for q s s'
    by (auto simp: DeleteOperation_def GetOperation_def Let_def map_simps split: option.splits)
  show "DeleteOperation q s = (Ok (), s') \<Longrightarrow> \<exists>x. DeleteOperation q s' = (Err x, s')" for q s s'
    by (auto simp: DeleteOperation_def Let_def map_simps split: option.splits)
qed

end
