(* ===== verification/Authz.thy ===== *)
theory Authz
  imports GoStrings
begin

text \<open>
  internal/authz/permissions.go: the IAM permission of each RPC.
\<close>

record PermissionCheck =
  Permission :: string

definition permissionMap :: "PermissionCheck gomap" where
  "permissionMap = map (\<lambda>(rpc, p). (rpc, \<lparr>Permission = p\<rparr>))
    [(''GetTrigger'', ''eventarc.triggers.get''),
     (''ListTriggers'', ''eventarc.triggers.list''),
     (''CreateTrigger'', ''eventarc.triggers.create''),
     (''UpdateTrigger'', ''eventarc.triggers.update''),
     (''DeleteTrigger'', ''eventarc.triggers.delete''),
     (''GetProvider'', ''eventarc.providers.get''),
     (''ListProviders'', ''eventarc.providers.list''),
     (''GetChannel'', ''eventarc.channels.get''),
     (''ListChannels'', ''eventarc.channels.list''),
     (''CreateChannel'', ''eventarc.channels.create''),
     (''UpdateChannel'', ''eventarc.channels.update''),
     (''DeleteChannel'', ''eventarc.channels.delete''),
     (''GetChannelConnection'', ''eventarc.channelConnections.get''),
     (''ListChannelConnections'', ''eventarc.channelConnections.list''),
     (''CreateChannelConnection'', ''eventarc.channelConnections.create''),
     (''DeleteChannelConnection'', ''eventarc.channelConnections.delete''),
     (''GetGoogleChannelConfig'', ''eventarc.googleChannelConfigs.get''),
     (''UpdateGoogleChannelConfig'', ''eventarc.googleChannelConfigs.update''),
     (''GetMessageBus'', ''eventarc.messageBuses.get''),
     (''ListMessageBuses'', ''eventarc.messageBuses.list''),
     (''ListMessageBusEnrollments'', ''eventarc.messageBuses.listEnrollments''),
     (''CreateMessageBus'', ''eventarc.messageBuses.create''),
     (''UpdateMessageBus'', ''eventarc.messageBuses.update''),
     (''DeleteMessageBus'', ''eventarc.messageBuses.delete''),
     (''GetEnrollment'', ''eventarc.enrollments.get''),
     (''ListEnrollments'', ''eventarc.enrollments.list''),
     (''CreateEnrollment'', ''eventarc.enrollments.create''),
     (''UpdateEnrollment'', ''eventarc.enrollments.update''),
     (''DeleteEnrollment'', ''eventarc.enrollments.delete''),
     (''GetPipeline'', ''eventarc.pipelines.get''),
     (''ListPipelines'', ''eventarc.pipelines.list''),
     (''CreatePipeline'', ''eventarc.pipelines.create''),
     (''UpdatePipeline'', ''eventarc.pipelines.update''),
     (''DeletePipeline'', ''eventarc.pipelines.delete''),
     (''GetGoogleApiSource'', ''eventarc.googleApiSources.get''),
     (''ListGoogleApiSources'', ''eventarc.googleApiSources.list''),
     (''CreateGoogleApiSource'', ''eventarc.googleApiSources.create''),
     (''UpdateGoogleApiSource'', ''eventarc.googleApiSources.update''),
     (''DeleteGoogleApiSource'', ''eventarc.googleApiSources.delete'')]"

definition GetPermission :: "string \<Rightarrow> PermissionCheck option" where
  "GetPermission operation = map_of permissionMap operation"

definition NormalizeParentForCreate :: "string \<Rightarrow> string" where
  "NormalizeParentForCreate parent = TrimRight parent ''/''"

text \<open>No RPC is listed twice, and no two RPCs share a permission.\<close>

lemma permissionMap_length: "length permissionMap = 39"
  by (simp add: permissionMap_def)

lemma permissionMap_distinct_rpcs: "distinct (map fst permissionMap)"
  by code_simp

lemma permissionMap_distinct_permissions: "distinct (map (Permission \<circ> snd) permissionMap)"
  by code_simp

end
