(* ===== verification/HandlerLogic.thy ===== *)
theory HandlerLogic
  imports Prelude
begin

text \<open>
  A small program logic for handlers: which parts leave the state alone, which keep an invariant and
  do not panic, which change the state only when they succeed, and what holds of a result. Each
  notion has a rule for every combinator, so a handler is proved by applying the rules to its body.
\<close>

text \<open>
  \<open>x, err := f(); if err != nil { ... }\<close>, where the handler looks at the error itself. The state is
  the one \<open>f\<close> has left.
\<close>

definition catch :: "('s, 'a) op \<Rightarrow> (err \<Rightarrow> ('s, 'b) op) \<Rightarrow> ('a \<Rightarrow> ('s, 'b) op) \<Rightarrow> ('s, 'b) op" where
  "catch m h f s = (case m s of
      (Ok a, s') \<Rightarrow> f a s'
    | (Err x, s') \<Rightarrow> h x s'
    | (Panic p, s') \<Rightarrow> (Panic p, s'))"

section \<open>Parts that only read\<close>

definition pure :: "('s, 'a) op \<Rightarrow> bool" where
  "pure m \<longleftrightarrow> (\<forall>s. snd (m s) = s)"

named_theorems pure_rules \<open>parts of handlers that leave the state alone\<close>

lemma pure_state: "pure m \<Longrightarrow> m s = (r, s') \<Longrightarrow> s' = s"
  by (metis pure_def snd_conv)

lemma pure_give [pure_rules]: "pure (give r)"
  by (simp add: pure_def)

lemma pure_seq [pure_rules]:
  assumes "pure m" and "\<And>a. pure (f a)"
  shows "pure (seq m f)"
  unfolding pure_def
proof
  fix s
  obtain r s' where m: "m s = (r, s')" by (cases "m s")
  then have "s' = s" using assms(1) by (rule pure_state [rotated])
  with m show "snd (seq m f s) = s"
    using assms(2) by (cases r) (auto simp: seq_def pure_def)
qed

lemma pure_if [pure_rules]: "pure m \<Longrightarrow> pure n \<Longrightarrow> pure (if b then m else n)"
  by simp

lemma pure_option [pure_rules]:
  "pure m \<Longrightarrow> (\<And>x. pure (f x)) \<Longrightarrow> pure (case v of None \<Rightarrow> m | Some x \<Rightarrow> f x)"
  by (cases v) simp_all

section \<open>Parts that keep an invariant and do not panic\<close>

definition safe :: "('s \<Rightarrow> bool) \<Rightarrow> ('s, 'a) op \<Rightarrow> bool" where
  "safe P m \<longleftrightarrow> (\<forall>s. P s \<longrightarrow> P (snd (m s)) \<and> \<not> is_panic (fst (m s)))"

named_theorems safe_rules \<open>parts of handlers that keep the invariant and do not panic\<close>

lemma safeD: "safe P m \<Longrightarrow> P s \<Longrightarrow> P (snd (m s))" "safe P m \<Longrightarrow> P s \<Longrightarrow> \<not> is_panic (fst (m s))"
  by (simp_all add: safe_def)

lemma safe_pure: "pure m \<Longrightarrow> (\<And>s. P s \<Longrightarrow> \<not> is_panic (fst (m s))) \<Longrightarrow> safe P m"
  by (simp add: safe_def pure_def)

lemma safe_give [safe_rules]: "\<not> is_panic r \<Longrightarrow> safe P (give r)"
  by (simp add: safe_def)

lemma safe_result [safe_rules]: "safe P (give (Ok a))" "safe P (give (Err x))"
  by (simp_all add: safe_def)

lemma safe_catch [safe_rules]:
  assumes "safe P m" and "\<And>x. safe P (h x)" and "\<And>a. safe P (f a)"
  shows "safe P (catch m h f)"
  unfolding safe_def
proof (intro allI impI)
  fix s assume "P s"
  obtain r s' where m: "m s = (r, s')" by (cases "m s")
  then have "P s'" "\<not> is_panic r" using assms(1) \<open>P s\<close> by (auto simp: safe_def)
  then show "P (snd (catch m h f s)) \<and> \<not> is_panic (fst (catch m h f s))"
    using assms(2,3) m by (cases r) (auto simp: catch_def safe_def)
qed

lemma seq_catch: "seq m f = catch m (\<lambda>x. give (Err x)) f"
  by (intro ext) (simp add: seq_def catch_def split: prod.split result.split)

lemma safe_seq [safe_rules]: "safe P m \<Longrightarrow> (\<And>a. safe P (f a)) \<Longrightarrow> safe P (seq m f)"
  unfolding seq_catch by (intro safe_rules)

lemma safe_if [safe_rules]:
  "(b \<Longrightarrow> safe P m) \<Longrightarrow> (\<not> b \<Longrightarrow> safe P n) \<Longrightarrow> safe P (if b then m else n)"
  by simp

lemma safe_option [safe_rules]:
  "safe P m \<Longrightarrow> (\<And>x. safe P (f x)) \<Longrightarrow> safe P (case v of None \<Rightarrow> m | Some x \<Rightarrow> f x)"
  by (cases v) simp_all

section \<open>Parts that change the state only when they succeed\<close>

definition atomic :: "('s, 'a) op \<Rightarrow> bool" where
  "atomic m \<longleftrightarrow> (\<forall>s x s'. m s = (Err x, s') \<longrightarrow> s' = s)"

definition succeeds :: "('s, 'a) op \<Rightarrow> bool" where
  "succeeds m \<longleftrightarrow> (\<forall>s. is_ok (fst (m s)))"

named_theorems atomic_rules \<open>parts of handlers without an effect when they fail\<close>

lemma succeeds_give: "succeeds (give (Ok a))"
  by (simp add: succeeds_def)

lemma atomic_pure: "pure m \<Longrightarrow> atomic m"
  by (simp add: atomic_def pure_state)

lemma atomic_succeeds: "succeeds m \<Longrightarrow> atomic m"
  unfolding atomic_def succeeds_def by (metis fst_conv is_ok.simps(2))

lemma atomic_give [atomic_rules]: "atomic (give r)"
  by (rule atomic_pure) (rule pure_give)

lemma atomic_if [atomic_rules]: "atomic m \<Longrightarrow> atomic n \<Longrightarrow> atomic (if b then m else n)"
  by simp

lemma atomic_option [atomic_rules]:
  "atomic m \<Longrightarrow> (\<And>x. atomic (f x)) \<Longrightarrow> atomic (case v of None \<Rightarrow> m | Some x \<Rightarrow> f x)"
  by (cases v) simp_all

text \<open>A part that only reads may come first; a part that cannot fail may come last.\<close>

lemma atomic_catch_read:
  assumes "pure m" and "\<And>x. atomic (h x)" and "\<And>a. atomic (f a)"
  shows "atomic (catch m h f)"
  unfolding atomic_def
proof (intro allI impI)
  fix s x s' assume c: "catch m h f s = (Err x, s')"
  obtain r s1 where m: "m s = (r, s1)" by (cases "m s")
  then have "s1 = s" using assms(1) by (rule pure_state [rotated])
  with m c show "s' = s"
    using assms(2,3) by (cases r) (auto simp: catch_def atomic_def)
qed

lemma atomic_catch_commit:
  assumes "atomic m" and "\<And>x. atomic (h x)" and "\<And>a. succeeds (f a)"
  shows "atomic (catch m h f)"
  unfolding atomic_def
proof (intro allI impI)
  fix s x s' assume c: "catch m h f s = (Err x, s')"
  obtain r s1 where m: "m s = (r, s1)" by (cases "m s")
  show "s' = s"
  proof (cases r)
    case (Ok a)
    then have "f a s1 = (Err x, s')" using m c by (simp add: catch_def)
    then show ?thesis using assms(3) [of a] unfolding succeeds_def by (metis fst_conv is_ok.simps(2))
  next
    case (Err y)
    then have "s1 = s" using m assms(1) by (simp add: atomic_def)
    moreover have "h y s1 = (Err x, s')" using Err m c by (simp add: catch_def)
    ultimately show ?thesis using assms(2) by (auto simp: atomic_def)
  next
    case (Panic p)
    then show ?thesis using m c by (simp add: catch_def)
  qed
qed

lemma atomic_seq_read: "pure m \<Longrightarrow> (\<And>a. atomic (f a)) \<Longrightarrow> atomic (seq m f)"
  unfolding seq_catch by (intro atomic_catch_read atomic_give)

lemma atomic_seq_commit: "atomic m \<Longrightarrow> (\<And>a. succeeds (f a)) \<Longrightarrow> atomic (seq m f)"
  unfolding seq_catch by (intro atomic_catch_commit atomic_give)

section \<open>Taking a successful run apart\<close>

lemma seq_OkE:
  assumes "seq m f s = (Ok b, s')"
  obtains a s1 where "m s = (Ok a, s1)" and "f a s1 = (Ok b, s')"
  using assms by (auto simp: seq_def split: prod.splits result.splits)

lemma catch_OkE:
  assumes "catch m h f s = (Ok b, s')"
  obtains (ok) a s1 where "m s = (Ok a, s1)" and "f a s1 = (Ok b, s')"
  | (err) x s1 where "m s = (Err x, s1)" and "h x s1 = (Ok b, s')"
  using assms by (auto simp: catch_def split: prod.splits result.splits)

lemma give_OkE:
  assumes "give r s = (Ok a, s')"
  obtains "r = Ok a" and "s' = s"
  using assms by simp

section \<open>What holds of a result\<close>

definition yields :: "('a \<Rightarrow> 's \<Rightarrow> bool) \<Rightarrow> ('s, 'a) op \<Rightarrow> bool" where
  "yields Q m \<longleftrightarrow> (\<forall>s a s'. m s = (Ok a, s') \<longrightarrow> Q a s')"

named_theorems yields_rules \<open>what holds of the result of a handler\<close>

lemma yields_Err [yields_rules]: "yields Q (give (Err x))"
  by (simp add: yields_def)

lemma yields_catch [yields_rules]:
  assumes "\<And>x. yields Q (h x)" and "\<And>a. yields Q (f a)"
  shows "yields Q (catch m h f)"
  unfolding yields_def
proof (intro allI impI)
  fix s a s' assume c: "catch m h f s = (Ok a, s')"
  obtain r s1 where m: "m s = (r, s1)" by (cases "m s")
  with c show "Q a s'" using assms by (cases r) (auto simp: catch_def yields_def)
qed

lemma yields_seq [yields_rules]: "(\<And>a. yields Q (f a)) \<Longrightarrow> yields Q (seq m f)"
  unfolding seq_catch by (intro yields_rules)

lemma yields_if [yields_rules]:
  "yields Q m \<Longrightarrow> yields Q n \<Longrightarrow> yields Q (if b then m else n)"
  by simp

lemma yields_option [yields_rules]:
  "yields Q m \<Longrightarrow> (\<And>x. yields Q (f x)) \<Longrightarrow> yields Q (case v of None \<Rightarrow> m | Some x \<Rightarrow> f x)"
  by (cases v) simp_all

end
