(* ===== verification/ServerCore.thy ===== *)
theory ServerCore
  imports StorageInv Lro Authz HandlerLogic
begin

text \<open>
  internal/server/server.go, up to the first RPC: the server's state, the permission check, and the
  shapes the handlers are composed from. A handler is a state-passing function on the server; it
  reads and writes storage and the operation store only through their methods.
\<close>

text \<open>
  \<open>iamClient\<close> is whether the pointer is non-nil; the client itself is code of another module, and
  what it answers is \<open>e_iam\<close> of the call.
\<close>

record Server =
  storage :: Storage
  lroStore :: Store
  iamClient :: bool
  iamMode :: string

text \<open>
  \<open>NewServer\<close> reads the mode from the environment; whether a mode is enabled and whether the client
  connects is decided by the auth module (\<open>is_enabled\<close>, \<open>connect\<close>).
\<close>

definition NewServer :: "(string \<Rightarrow> bool) \<Rightarrow> (string \<Rightarrow> string option) \<Rightarrow> string \<Rightarrow> Server result" where
  "NewServer is_enabled connect mode =
     (let s = \<lparr>storage = NewStorage, lroStore = NewStore, iamClient = False, iamMode = mode\<rparr>
      in if is_enabled mode
         then (case connect mode of
                 Some m \<Rightarrow> Err (GoError [Txt (''failed to connect to IAM emulator: '' @ m)])
               | None \<Rightarrow> Ok (s\<lparr>iamClient := True\<rparr>))
         else Ok s)"

definition IAMMode :: "Server \<Rightarrow> string" where
  "IAMMode s = iamMode s"

section \<open>Permissions\<close>

definition checkPermission :: "env \<Rightarrow> Server \<Rightarrow> string \<Rightarrow> string \<Rightarrow> unit result" where
  "checkPermission e s permission resource =
     (if \<not> iamClient s then Ok ()
      else (let principal = e_principal e
            in if principal = [] \<and> iamMode s = ''permissive''
               then Err (errorf PermissionDenied
                 ''permissive mode requires authentication: no principal in request'')
               else (case e_iam e principal resource permission of
                   Inl errMsg \<Rightarrow>
                     (if Contains errMsg ''connection refused'' \<or> Contains errMsg ''Unavailable''
                      then Err (errorf Unavailable
                        (''IAM_MODE is active but no IAM emulator is reachable. '' @
                         ''Start the IAM emulator or set IAM_MODE=off.''))
                      else Err (errorf Internal (''IAM check failed: '' @ errMsg)))
                 | Inr allowed \<Rightarrow>
                     (if \<not> allowed
                      then (let displayPrincipal =
                                  (if principal = [] then ''(no principal)'' else principal)
                            in Err (errorf PermissionDenied
                              (''Permission denied: principal '' @ [CHR 0x27] @ displayPrincipal @
                               [CHR 0x27] @ '' lacks '' @ [CHR 0x27] @ permission @ [CHR 0x27] @
                               '' on resource '' @ [CHR 0x27] @ resource @ [CHR 0x27])))
                      else Ok ()))))"

definition perm :: "string \<Rightarrow> string result" where
  "perm operation = (case GetPermission operation of
      None \<Rightarrow> Panic (''authz: unknown operation: '' @ operation)
    | Some p \<Rightarrow> Ok (Permission p))"

section \<open>The parts of a handler\<close>

text \<open>
  \<open>require\<close> and \<open>authorize\<close> are the guards at the head of a handler, \<open>query\<close> a read of storage,
  \<open>apply_op\<close> a method of storage that may write, \<open>done_op\<close> the finished operation a mutating handler
  returns.
\<close>

definition require :: "string \<Rightarrow> string \<Rightarrow> (Server, unit) op" where
  "require v fieldName = give (requireField v fieldName)"

definition authorize :: "env \<Rightarrow> string \<Rightarrow> string \<Rightarrow> (Server, unit) op" where
  "authorize e operation resource s = (case perm operation of
      Ok p \<Rightarrow> (checkPermission e s p resource, s)
    | Err x \<Rightarrow> (Err x, s)
    | Panic m \<Rightarrow> (Panic m, s))"

definition query :: "(Storage \<Rightarrow> 'a result) \<Rightarrow> (Server, 'a) op" where
  "query f s = (f (storage s), s)"

definition apply_op :: "(Storage, 'a) op \<Rightarrow> (Server, 'a) op" where
  "apply_op f s = (case f (storage s) of (r, st) \<Rightarrow> (r, s\<lparr>storage := st\<rparr>))"

definition done_op :: "env \<Rightarrow> string \<Rightarrow> any_msg \<Rightarrow> string \<Rightarrow> string \<Rightarrow> (Server, Operation) op" where
  "done_op e parent resource verb target s =
     (case CreateDone e parent resource verb target (lroStore s) of
        (r, st) \<Rightarrow> (r, s\<lparr>lroStore := st\<rparr>))"

text \<open>The error of the etag check; \<open>%q\<close> quotes both etags.\<close>

definition etagMismatch :: "string \<Rightarrow> string \<Rightarrow> err" where
  "etagMismatch reqEtag stored =
     Status Aborted [Txt ''etag mismatch: provided '', Quoted reqEtag, Txt '' does not match stored '',
       Quoted stored] []"

text \<open>A nil message that a handler has not excluded is dereferenced when storage writes to its clone.\<close>

definition deref :: "'r option \<Rightarrow> ('s, 'r) op" where
  "deref r = give (case r of None \<Rightarrow> Panic ''invalid memory address or nil pointer dereference''
                   | Some x \<Rightarrow> Ok x)"

section \<open>How the parts behave\<close>

lemma perm_Ok: "map_of permissionMap operation = Some p \<Longrightarrow> perm operation = Ok (Permission p)"
  by (simp add: perm_def GetPermission_def)

lemma perm_all: "list_all (\<lambda>(rpc, p). perm rpc = Ok (Permission p)) permissionMap"
  using permissionMap_distinct_rpcs by (auto simp: list_all_iff intro: perm_Ok map_of_is_SomeI)

text \<open>The permission each RPC asks for, as one equation per RPC.\<close>

lemmas perm_simps [simp] = perm_all [unfolded permissionMap_def list.map list.pred_inject prod.case
  PermissionCheck.select_convs simp_thms]

lemma authorize_apply:
  "perm operation = Ok p \<Longrightarrow> authorize e operation r s = (checkPermission e s p r, s)"
  by (simp add: authorize_def)

lemma require_apply [handler_simps]:
  "require v f s = ((if v = [] then Err (errorf InvalidArgument (f @ '' is required'')) else Ok ()), s)"
  by (simp add: require_def requireField_def)

lemma query_apply [handler_simps]: "query f s = (f (storage s), s)"
  by (simp add: query_def)

lemma deref_apply [handler_simps, simp]: "deref (Some x) s = (Ok x, s)"
  by (simp add: deref_def)

lemma deref_state [simp]: "snd (deref r s) = s"
  by (simp add: deref_def)

lemma checkPermission_no_panic [simp]: "\<not> is_panic (checkPermission e s p r)"
  by (simp add: checkPermission_def Let_def split: sum.split)

lemma checkPermission_off: "\<not> iamClient s \<Longrightarrow> checkPermission e s p r = Ok ()"
  by (simp add: checkPermission_def)

lemma pure_require [pure_rules]: "pure (require v f)"
  by (simp add: require_def pure_give)

lemma pure_authorize [pure_rules]: "pure (authorize e operation r)"
  by (simp add: pure_def authorize_def split: result.split)

lemma pure_query [pure_rules]: "pure (query f)"
  by (simp add: pure_def query_def)

lemma pure_deref [pure_rules]: "pure (deref r)"
  by (simp add: deref_def pure_give)

text \<open>No guard panics, as long as the RPC is registered with a permission.\<close>

lemma safe_require [safe_rules]: "safe P (require v f)"
  by (simp add: require_def safe_give)

lemma safe_authorize [safe_rules]: "perm operation = Ok p \<Longrightarrow> safe P (authorize e operation r)"
  by (simp add: safe_def authorize_apply)

text \<open>Past the check that the message names a resource, the message is there.\<close>

lemma safe_seq_require [safe_rules]:
  assumes "v \<noteq> [] \<Longrightarrow> safe P (f ())"
  shows "safe P (seq (require v n) f)"
  using assms by (cases "v = []") (auto simp: safe_def seq_def require_apply)

lemma safe_deref [safe_rules]: "safe P (deref (Some x))"
  by (simp add: deref_def safe_give)

lemma safe_deref_named [safe_rules]: "nilsafe r f \<noteq> [] \<Longrightarrow> safe P (deref r)"
  by (cases r) (simp_all add: safe_deref)

lemma safe_query [safe_rules]:
  "(\<And>s. P s \<Longrightarrow> \<not> is_panic (f (storage s))) \<Longrightarrow> safe P (query f)"
  by (simp add: safe_def query_def)

lemma safe_apply_op [safe_rules]:
  "(\<And>s. P s \<Longrightarrow> P (s\<lparr>storage := snd (f (storage s))\<rparr>)) \<Longrightarrow>
   (\<And>s. P s \<Longrightarrow> \<not> is_panic (fst (f (storage s)))) \<Longrightarrow> safe P (apply_op f)"
  by (simp add: safe_def apply_op_def case_prod_unfold)

lemma safe_done_op [safe_rules]:
  "(\<And>s. P s \<Longrightarrow> P (s\<lparr>lroStore := snd (CreateDone e p r v t (lroStore s))\<rparr>)) \<Longrightarrow>
   safe P (done_op e p r v t)"
  using CreateDone_no_panic [of e p r v t]
  by (simp add: safe_def done_op_def case_prod_unfold)

lemma atomic_apply_op: "atomic f \<Longrightarrow> atomic (apply_op f)"
  by (auto simp: atomic_def apply_op_def split: prod.splits)

lemma atomic_done_op [atomic_rules]: "atomic (done_op e p r v t)"
  by (auto simp: atomic_def done_op_def dest: CreateDone_Err split: prod.splits)

lemma succeeds_done_op: "lro_works e \<Longrightarrow> succeeds (done_op e p r v t)"
proof -
  assume works: "lro_works e"
  have "is_ok (fst (CreateDone e p r v t st))" for st
    using CreateDone_works [OF works, of p r v t st] by auto
  then show ?thesis by (simp add: succeeds_def done_op_def case_prod_unfold)
qed

lemma authorize_state [simp]: "snd (authorize e p r s) = s"
  by (simp add: authorize_def split: result.split)

lemma require_state [simp]: "snd (require v f s) = s"
  by (simp add: require_apply)

lemma query_state [simp]: "snd (query f s) = s"
  by (simp add: query_def)

lemma done_op_storage [simp]: "storage (snd (done_op e p r v t s)) = storage s"
  by (simp add: done_op_def split: prod.split)

lemma apply_op_lro [simp]: "lroStore (snd (apply_op f s)) = lroStore s"
  by (simp add: apply_op_def split: prod.split)

text \<open>Only the configuration matters to a permission check, and no handler changes it.\<close>

lemma checkPermission_storage [simp]:
  "checkPermission e (s\<lparr>storage := st\<rparr>) = checkPermission e s"
  "checkPermission e (s\<lparr>lroStore := ls\<rparr>) = checkPermission e s"
  by (intro ext; simp add: checkPermission_def)+

lemma done_op_Ok:
  assumes "done_op e p r v t s = (Ok opn, s')"
  shows "op_Done opn" and "op_Response opn = r"
    and "\<exists>u. op_Name opn = p @ ''/operations/'' @ u"
    and "s' = s\<lparr>lroStore := lroStore s\<lparr>ops := AList.update (op_Name opn) opn (ops (lroStore s))\<rparr>\<rparr>"
proof -
  obtain st where c: "CreateDone e p r v t (lroStore s) = (Ok opn, st)" "s' = s\<lparr>lroStore := st\<rparr>"
    using assms by (auto simp: done_op_def split: prod.splits)
  show "op_Done opn" and "op_Response opn = r" and "\<exists>u. op_Name opn = p @ ''/operations/'' @ u"
    using CreateDone_Ok [OF c(1)] by auto
  show "s' = s\<lparr>lroStore := lroStore s\<lparr>ops := AList.update (op_Name opn) opn (ops (lroStore s))\<rparr>\<rparr>"
    using CreateDone_Ok(5) [OF c(1)] c(2) by simp
qed

lemma apply_op_OkE:
  assumes "apply_op f s = (Ok a, s')"
  obtains st where "f (storage s) = (Ok a, st)" and "s' = s\<lparr>storage := st\<rparr>"
  using assms by (auto simp: apply_op_def split: prod.splits)

lemma apply_op_ErrE:
  assumes "apply_op f s = (Err x, s')"
  obtains st where "f (storage s) = (Err x, st)" and "s' = s\<lparr>storage := st\<rparr>"
  using assms by (auto simp: apply_op_def split: prod.splits)

lemma authorize_OkE:
  assumes "authorize e operation r s = (Ok (), s')"
  obtains "s' = s"
  using assms by (auto simp: authorize_def split: result.splits)

lemma deref_OkE:
  assumes "deref r s = (Ok x, s')"
  obtains "r = Some x" and "s' = s"
  using assms by (auto simp: deref_def split: option.splits)

lemma validateResourceID_Ok [simp]: "validateResourceID i f = Ok () \<longleftrightarrow> resourceIDRe i"
  by (simp add: validateResourceID_def)

lemma require_OkE:
  assumes "require v f s = (Ok a, s')"
  obtains "v \<noteq> []" and "s' = s"
  using assms by (auto simp: require_apply split: if_splits)

lemma query_OkE:
  assumes "query f s = (Ok a, s')"
  obtains "f (storage s) = Ok a" and "s' = s"
  using assms unfolding query_def by (elim Pair_inject) (rule that, assumption, erule sym)

lemma query_ErrE:
  assumes "query f s = (Err x, s')"
  obtains "f (storage s) = Err x" and "s' = s"
  using assms unfolding query_def by (elim Pair_inject) (rule that, assumption, erule sym)

lemmas handler_runs = seq_OkE catch_OkE give_OkE apply_op_OkE apply_op_ErrE authorize_OkE deref_OkE
  require_OkE query_OkE query_ErrE

section \<open>The invariant of the server\<close>

definition server_inv :: "Server \<Rightarrow> bool" where
  "server_inv s \<longleftrightarrow> storage_inv (storage s) \<and> store_inv (lroStore s)"

lemma server_inv_NewServer: "NewServer ena conn mode = Ok s \<Longrightarrow> server_inv s"
  by (auto simp: NewServer_def Let_def server_inv_def storage_inv_NewStorage
      split: if_splits option.splits)

lemma server_inv_lro: "server_inv s \<Longrightarrow> server_inv (s\<lparr>lroStore := snd (CreateDone e p r v t (lroStore s))\<rparr>)"
  by (simp add: server_inv_def store_inv_CreateDone)

lemma server_inv_storage: "(storage_inv (storage s) \<Longrightarrow> storage_inv st) \<Longrightarrow> server_inv s \<Longrightarrow>
    server_inv (s\<lparr>storage := st\<rparr>)"
  by (simp add: server_inv_def)

text \<open>The length of every listed map is a Go int with room for two pages: more than memory holds.\<close>

definition pageable :: "nat \<Rightarrow> bool" where
  "pageable n \<longleftrightarrow> n + 200 < 2 ^ 63"

definition small :: "Server \<Rightarrow> bool" where
  "small s \<longleftrightarrow> (let st = storage s in pageable (length (triggers st)) \<and>
     pageable (length (providers st)) \<and> pageable (length (channels st)) \<and>
     pageable (length (channelConnections st)) \<and> pageable (length (messageBuses st)) \<and>
     pageable (length (enrollments st)) \<and> pageable (length (pipelines st)) \<and>
     pageable (length (googleApiSources st)))"

end
