(* ===== verification/ServerApi.thy ===== *)
theory ServerApi
  imports ServerCore
begin

text \<open>
  What the handlers of a family promise a client, over the laws of the family's table: locales
  that the theories of the handlers interpret.
\<close>

text \<open>
  \<open>wrap\<close> packs a message into an operation, \<open>getPerm\<close> is the permission of the read, \<open>parentOf\<close> the
  parent of a resource name. The laws give the successful runs of the handlers in terms of the
  methods of storage.
\<close>

locale resource_api =
  resource_table tab nm coll kind create get remove
  for tab :: "Storage \<Rightarrow> 'r gomap" and nm :: "'r \<Rightarrow> string" and coll kind create get remove +
  fixes wrap :: "'r \<Rightarrow> any_msg" and getPerm :: string and parentOf :: "string \<Rightarrow> string"
    and getR :: "env \<Rightarrow> GetRequest \<Rightarrow> (Server, 'r) op"
    and createR :: "env \<Rightarrow> 'r CreateRequest \<Rightarrow> (Server, Operation) op"
    and deleteR :: "env \<Rightarrow> DeleteRequest \<Rightarrow> (Server, Operation) op"
    and creates :: "'r CreateRequest \<Rightarrow> bool" and deletes :: "DeleteRequest \<Rightarrow> bool"
  assumes get_rpc: "gr_Name gq \<noteq> [] \<Longrightarrow> checkPermission e s getPerm (gr_Name gq) = Ok () \<Longrightarrow>
      getR e gq s = (get (gr_Name gq) (storage s), s)"
    and create_rpc: "createR e cq s = (Ok opn, s') \<Longrightarrow> creates cq \<Longrightarrow>
      \<exists>x r st t. cq_Resource cq = Some x \<and> resourceIDRe (cq_Id cq) \<and>
        create e (cq_Parent cq) (cq_Id cq) x (storage s) = (Ok r, st) \<and>
        done_op e (cq_Parent cq) (wrap r) ''create'' t (s\<lparr>storage := st\<rparr>) = (Ok opn, s')"
    and delete_rpc: "deleteR e dq s = (Ok opn, s') \<Longrightarrow> deletes dq \<Longrightarrow>
      \<exists>a st t. done_op e (parentOf (dq_Name dq)) a ''delete'' t (s\<lparr>storage := st\<rparr>) = (Ok opn, s') \<and>
        dq_Name dq \<noteq> [] \<and>
        ((remove (dq_Name dq) (storage s) = (Ok (), st) \<and>
          (\<exists>r. get (dq_Name dq) (storage s) = Ok r \<and> a = wrap r)) \<or>
         (map_of (tab (storage s)) (dq_Name dq) = None \<and> st = storage s \<and> a = AnyEmpty))"
    and coll_slash: "\<exists>c. coll = CHR ''/'' # c"
begin

text \<open>
  Create: the finished operation carries the stored message, which a read under its name returns;
  no other name is touched; the operation is in the store.
\<close>

lemma create_rpc_visible:
  assumes "createR e q s = (Ok opn, s')" and "creates q"
  shows "\<exists>r. op_Done opn \<and> op_Response opn = wrap r \<and> nm r = cq_Parent q @ coll @ cq_Id q \<and>
    resourceIDRe (cq_Id q) \<and> map_of (ops (lroStore s')) (op_Name opn) = Some opn \<and>
    map_of (tab (storage s)) (nm r) = None \<and>
    (\<forall>e2. checkPermission e2 s getPerm (nm r) = Ok () \<longrightarrow> getR e2 \<lparr>gr_Name = nm r\<rparr> s' = (Ok r, s')) \<and>
    (\<forall>n. n \<noteq> nm r \<longrightarrow> get n (storage s') = get n (storage s))"
proof -
  obtain x r st t where c: "cq_Resource q = Some x" "resourceIDRe (cq_Id q)"
    "create e (cq_Parent q) (cq_Id q) x (storage s) = (Ok r, st)"
    "done_op e (cq_Parent q) (wrap r) ''create'' t (s\<lparr>storage := st\<rparr>) = (Ok opn, s')"
    using create_rpc [OF assms] by blast
  note d = done_op_Ok [OF c(4)]
  have st: "storage s' = st" and perm: "checkPermission e2 s' = checkPermission e2 s" for e2
    using d(4) by simp_all
  have "nm r \<noteq> []" using create_Ok(1) [OF c(3)] coll_slash by auto
  then have "getR e2 \<lparr>gr_Name = nm r\<rparr> s' = (Ok r, s')"
    if "checkPermission e2 s getPerm (nm r) = Ok ()" for e2
    using get_rpc [of "\<lparr>gr_Name = nm r\<rparr>" e2 s'] that perm st create_then_get [OF c(3)] by simp
  moreover have "map_of (ops (lroStore s')) (op_Name opn) = Some opn"
    using d(4) by (simp add: map_simps)
  ultimately show ?thesis
    using create_Ok [OF c(3)] create_get_other [OF c(3)] c(2) d(1,2) st by auto
qed

text \<open>Delete: afterwards nothing is under the name, whether or not something was.\<close>

lemma delete_rpc_gone:
  assumes "deleteR e q s = (Ok opn, s')" and "deletes q"
  shows "op_Done opn \<and> map_of (ops (lroStore s')) (op_Name opn) = Some opn \<and>
    (\<forall>e2. checkPermission e2 s getPerm (dq_Name q) = Ok () \<longrightarrow>
      getR e2 \<lparr>gr_Name = dq_Name q\<rparr> s' = (Err (notFound kind (dq_Name q)), s')) \<and>
    (\<forall>n. n \<noteq> dq_Name q \<longrightarrow> get n (storage s') = get n (storage s))"
proof -
  obtain a st t where d0: "done_op e (parentOf (dq_Name q)) a ''delete'' t (s\<lparr>storage := st\<rparr>) = (Ok opn, s')"
    "dq_Name q \<noteq> []"
    and gone: "remove (dq_Name q) (storage s) = (Ok (), st) \<or>
      (map_of (tab (storage s)) (dq_Name q) = None \<and> st = storage s)"
    using delete_rpc [OF assms] by blast
  note d = done_op_Ok [OF d0(1)]
  have st: "storage s' = st" and perm: "checkPermission e2 s' = checkPermission e2 s" for e2
    using d(4) by simp_all
  have "get (dq_Name q) st = Err (notFound kind (dq_Name q))"
    using gone remove_then_get by (auto simp: get_law)
  moreover have "get n st = get n (storage s)" if "n \<noteq> dq_Name q" for n
    using gone remove_get_other that by auto
  moreover have "map_of (ops (lroStore s')) (op_Name opn) = Some opn"
    using d(4) by (simp add: map_simps)
  ultimately show ?thesis
    using d(1) st perm d0(2) get_rpc [of "\<lparr>gr_Name = dq_Name q\<rparr>" _ s'] by simp
qed

end

text \<open>
  The families that can be updated. A NotFound from the update falls through to a creation when
  the request allows it.
\<close>

locale mutable_api =
  resource_api tab nm coll kind create get remove wrap getPerm parentOf getR createR deleteR
    creates deletes +
  mutable_table tab nm coll kind create get remove update
  for tab :: "Storage \<Rightarrow> 'r gomap" and nm :: "'r \<Rightarrow> string" and coll kind create get remove
    wrap getPerm parentOf getR createR deleteR creates deletes update +
  fixes updateR :: "env \<Rightarrow> 'r UpdateRequest \<Rightarrow> (Server, Operation) op"
  assumes update_rpc: "updateR e q s = (Ok opn, s') \<Longrightarrow> \<not> uq_ValidateOnly q \<Longrightarrow>
      \<exists>x r st t. uq_Resource q = Some x \<and> nm x \<noteq> [] \<and>
        (update e x (uq_UpdateMask q) (storage s) = (Ok r, st) \<or>
         (uq_AllowMissing q \<and> map_of (tab (storage s)) (nm x) = None \<and>
          create e (parentOf (nm x)) (lastSegment (nm x)) x (storage s) = (Ok r, st))) \<and>
        done_op e (parentOf (nm x)) (wrap r) ''update'' t (s\<lparr>storage := st\<rparr>) = (Ok opn, s')"
    and parentOf_join: "CHR ''/'' \<notin> set i \<Longrightarrow> parentOf (p @ coll @ i) = p"
    and lastSegment_coll: "CHR ''/'' \<notin> set i \<Longrightarrow> lastSegment (p @ coll @ i) = i"
begin

text \<open>
  Update or upsert of a resource with a proper name: the operation carries the message that a read
  under that very name then returns, and no other name is touched.
\<close>

lemma update_rpc_visible:
  assumes "updateR e q s = (Ok opn, s')" and "\<not> uq_ValidateOnly q"
    and "uq_Resource q = Some x" and "nm x = p @ coll @ i" and "CHR ''/'' \<notin> set i"
    and "wf_table nm (tab (storage s))"
  shows "\<exists>r. op_Done opn \<and> op_Response opn = wrap r \<and> nm r = nm x \<and>
    (map_of (tab (storage s)) (nm x) = None \<longrightarrow> uq_AllowMissing q) \<and>
    (\<forall>e2. checkPermission e2 s getPerm (nm x) = Ok () \<longrightarrow> getR e2 \<lparr>gr_Name = nm x\<rparr> s' = (Ok r, s')) \<and>
    (\<forall>n. n \<noteq> nm x \<longrightarrow> get n (storage s') = get n (storage s))"
proof -
  obtain r st t where u: "nm x \<noteq> []"
    "update e x (uq_UpdateMask q) (storage s) = (Ok r, st) \<or>
     (uq_AllowMissing q \<and> create e p i x (storage s) = (Ok r, st))"
    "done_op e (parentOf (nm x)) (wrap r) ''update'' t (s\<lparr>storage := st\<rparr>) = (Ok opn, s')"
    using update_rpc [OF assms(1,2)] assms(3,4,5) parentOf_join lastSegment_coll by auto
  note d = done_op_Ok [OF u(3)]
  have s': "storage s' = st" "checkPermission e2 s' = checkPermission e2 s" for e2
    using d(4) by simp_all
  have "nm r = nm x \<and> get (nm x) st = Ok r \<and> (\<forall>n. n \<noteq> nm x \<longrightarrow> get n st = get n (storage s)) \<and>
      (map_of (tab (storage s)) (nm x) = None \<longrightarrow> uq_AllowMissing q)"
  proof (cases "update e x (uq_UpdateMask q) (storage s) = (Ok r, st)")
    case True
    have "map_of (tab (storage s)) (nm x) \<noteq> None"
      using True update_missing [of "storage s" x e "uq_UpdateMask q"] by auto
    moreover have "n \<noteq> nm x \<longrightarrow> get n st = get n (storage s)" for n
      using update_get_other [of n x e "uq_UpdateMask q" "storage s"] True by simp
    ultimately show ?thesis
      using update_then_get [OF True assms(6)] by auto
  next
    case False
    then have c: "create e p i x (storage s) = (Ok r, st)" "uq_AllowMissing q" using u(2) by auto
    show ?thesis
      using create_Ok(1) [OF c(1)] create_then_get [OF c(1)] create_get_other [OF c(1)] c(2) assms(4)
      by simp
  qed
  then show ?thesis
    using d(1,2) s' u(1) get_rpc [of "\<lparr>gr_Name = nm x\<rparr>" _ s']
    by (intro exI [of _ r]) simp
qed

end

end
