(* ===== verification/ServerTrigger.thy ===== *)
theory ServerTrigger
  imports ServerApi
begin

text \<open>
  internal/server/server.go: the trigger and provider RPCs. A handler is named after its RPC with
  the suffix \<open>\_rpc\<close>, since the method of storage it calls has the RPC's own name.
\<close>

section \<open>Triggers\<close>

definition GetTrigger_rpc :: "env \<Rightarrow> GetRequest \<Rightarrow> (Server, Trigger) op" where
  "GetTrigger_rpc e req =
     seq (require (gr_Name req) ''name'') (\<lambda>_.
     seq (authorize e ''GetTrigger'' (gr_Name req)) (\<lambda>_.
     query (GetTrigger (gr_Name req))))"

definition ListTriggers_rpc ::
  "env \<Rightarrow> ListRequest \<Rightarrow> (Server, Trigger list \<times> string) op" where
  "ListTriggers_rpc e req =
     seq (require (lr_Parent req) ''parent'') (\<lambda>_.
     seq (authorize e ''ListTriggers'' (lr_Parent req)) (\<lambda>_.
     query (ListTriggers e (lr_Parent req) (lr_PageSize req) (lr_PageToken req)
       (lr_OrderBy req) (lr_Filter req))))"

text \<open>
  The field violations \<open>CreateTrigger\<close> collects, in order; the status carries the first one as its
  message and, when they can be attached, all of them as details.
\<close>

definition triggerViolations :: "Trigger CreateRequest \<Rightarrow> (string \<times> msg) list" where
  "triggerViolations req =
     (if cq_Parent req = [] then [(''parent'', [Txt ''parent is required''])] else []) @
     (if cq_Id req = [] then [(''triggerId'', [Txt ''triggerId is required''])]
      else (case validateResourceID (cq_Id req) ''trigger_id'' of
              Err x \<Rightarrow> [(''triggerId'', err_Error x)]
            | _ \<Rightarrow> [])) @
     (case cq_Resource req of
        None \<Rightarrow> [(''trigger'', [Txt ''trigger is required''])]
      | Some t \<Rightarrow>
          (if tr_Destination t = None
           then [(''trigger.destination'', [Txt ''trigger.destination is required''])] else []) @
          (if tr_EventFilters t = []
           then [(''trigger.eventFilters'', [Txt ''trigger.event_filters must not be empty''])]
           else []))"

definition CreateTrigger_rpc :: "env \<Rightarrow> Trigger CreateRequest \<Rightarrow> (Server, Operation) op" where
  "CreateTrigger_rpc e req =
     (case triggerViolations req of
        v # vs \<Rightarrow> give (Err (Status InvalidArgument (snd v) (if e_details e then v # vs else [])))
      | [] \<Rightarrow>
          seq (authorize e ''CreateTrigger'' (cq_Parent req)) (\<lambda>_.
          seq (deref (cq_Resource req)) (\<lambda>trigger.
          if cq_ValidateOnly req
          then (let synthetic = trigger\<lparr>tr_Name := cq_Parent req @ ''/triggers/'' @ cq_Id req\<rparr>
                in done_op e (cq_Parent req) (AnyTrigger synthetic) ''create'' (tr_Name synthetic))
          else seq (apply_op (CreateTrigger e (cq_Parent req) (cq_Id req) trigger)) (\<lambda>created.
               done_op e (cq_Parent req) (AnyTrigger created) ''create'' (tr_Name created)))))"

definition UpdateTrigger_rpc ::
  "env \<Rightarrow> Trigger UpdateRequest \<Rightarrow> (Server, Operation) op" where
  "UpdateTrigger_rpc e req =
     (let name = nilsafe (uq_Resource req) tr_Name; parent = parentFromName name
      in seq (require name ''trigger.name'') (\<lambda>_.
         seq (authorize e ''UpdateTrigger'' name) (\<lambda>_.
         if uq_ValidateOnly req
         then seq (query (GetTrigger name)) (\<lambda>existing.
              done_op e parent (AnyTrigger existing) ''update'' name)
         else seq (deref (uq_Resource req)) (\<lambda>trigger.
              seq (catch (apply_op (UpdateTrigger e trigger (uq_UpdateMask req)))
                     (\<lambda>err. if uq_AllowMissing req \<and> isNotFound err
                            then apply_op (CreateTrigger e parent (lastSegment name) trigger)
                            else give (Err err))
                     (\<lambda>updated. give (Ok updated)))
                (\<lambda>updated. done_op e parent (AnyTrigger updated) ''update'' name)))))"

definition DeleteTrigger_rpc :: "env \<Rightarrow> DeleteRequest \<Rightarrow> (Server, Operation) op" where
  "DeleteTrigger_rpc e req =
     (let name = dq_Name req; parent = parentFromName name
      in seq (require name ''name'') (\<lambda>_.
         seq (authorize e ''DeleteTrigger'' name) (\<lambda>_.
         if dq_ValidateOnly req
         then seq (query (GetTrigger name)) (\<lambda>_. done_op e parent AnyEmpty ''delete'' name)
         else catch (query (GetTrigger name))
           (\<lambda>err. if dq_AllowMissing req \<and> isNotFound err
                  then done_op e parent AnyEmpty ''delete'' name
                  else give (Err err))
           (\<lambda>existing.
              if dq_Etag req \<noteq> [] \<and> tr_Etag existing \<noteq> dq_Etag req
              then give (Err (etagMismatch (dq_Etag req) (tr_Etag existing)))
              else seq (apply_op (DeleteTrigger name)) (\<lambda>_.
                   done_op e parent (AnyTrigger existing) ''delete'' name)))))"

section \<open>Providers\<close>

definition GetProvider_rpc :: "env \<Rightarrow> GetRequest \<Rightarrow> (Server, Provider) op" where
  "GetProvider_rpc e req =
     seq (require (gr_Name req) ''name'') (\<lambda>_.
     seq (authorize e ''GetProvider'' (gr_Name req)) (\<lambda>_.
     query (GetProvider (gr_Name req))))"

definition ListProviders_rpc ::
  "env \<Rightarrow> ListRequest \<Rightarrow> (Server, Provider list \<times> string) op" where
  "ListProviders_rpc e req =
     seq (require (lr_Parent req) ''parent'') (\<lambda>_.
     seq (authorize e ''ListProviders'' (lr_Parent req)) (\<lambda>_.
     query (ListProviders e (lr_Parent req) (lr_PageSize req) (lr_PageToken req)
       (lr_Filter req) (lr_OrderBy req))))"

section \<open>What the handlers promise\<close>

text \<open>A request without violations names a parent and a valid ID, and carries a complete trigger.\<close>

lemma triggerViolations_Nil:
  "triggerViolations q = [] \<longleftrightarrow> cq_Parent q \<noteq> [] \<and> resourceIDRe (cq_Id q) \<and>
     (\<exists>t. cq_Resource q = Some t \<and> tr_Destination t \<noteq> None \<and> tr_EventFilters t \<noteq> [])"
  by (auto simp: triggerViolations_def validateResourceID_def resourceIDRe_def
      split: option.splits if_splits list.splits)

interpretation trig_api: mutable_api triggers tr_Name "''/triggers/''" "''Trigger''"
  CreateTrigger GetTrigger DeleteTrigger AnyTrigger "''eventarc.triggers.get''"
  parentFromName GetTrigger_rpc CreateTrigger_rpc DeleteTrigger_rpc
  "\<lambda>q. \<not> cq_ValidateOnly q" "\<lambda>q. \<not> dq_ValidateOnly q" UpdateTrigger UpdateTrigger_rpc
  apply unfold_locales
  subgoal by (simp add: GetTrigger_rpc_def seq_def require_apply query_apply authorize_apply)
  subgoal unfolding CreateTrigger_rpc_def
    by (auto elim!: handler_runs simp: triggerViolations_Nil split: list.splits if_splits) blast+
  subgoal unfolding DeleteTrigger_rpc_def
    by (auto elim!: handler_runs simp: Let_def split: if_splits) (blast dest: trig.get_Err)+
  subgoal by simp
  subgoal unfolding UpdateTrigger_rpc_def
    by (auto elim!: handler_runs simp: Let_def split: if_splits) (blast dest: trig.update_NotFound)+
  subgoal using parentFromName_join by simp
  subgoal using lastSegment_join [of _ "_ @ ''/triggers''"] by simp
  done

end
