(* ===== verification/ServerChannel.thy ===== *)
theory ServerChannel
  imports ServerApi
begin

text \<open>
  internal/server/server.go: the RPCs of channels, channel connections and Google channel configs.
\<close>

section \<open>Channels\<close>

definition GetChannel_rpc :: "env \<Rightarrow> GetRequest \<Rightarrow> (Server, Channel) op" where
  "GetChannel_rpc e req =
     seq (require (gr_Name req) ''name'') (\<lambda>_.
     seq (authorize e ''GetChannel'' (gr_Name req)) (\<lambda>_.
     query (GetChannel (gr_Name req))))"

definition ListChannels_rpc ::
  "env \<Rightarrow> ListRequest \<Rightarrow> (Server, Channel list \<times> string) op" where
  "ListChannels_rpc e req =
     seq (require (lr_Parent req) ''parent'') (\<lambda>_.
     seq (authorize e ''ListChannels'' (lr_Parent req)) (\<lambda>_.
     query (ListChannels e (lr_Parent req) (lr_PageSize req) (lr_PageToken req)
       (lr_OrderBy req))))"

definition CreateChannel_rpc ::
  "env \<Rightarrow> Channel CreateRequest \<Rightarrow> (Server, Operation) op" where
  "CreateChannel_rpc e req =
     seq (require (cq_Parent req) ''parent'') (\<lambda>_.
     seq (require (cq_Id req) ''channel_id'') (\<lambda>_.
     seq (give (validateResourceID (cq_Id req) ''channel_id'')) (\<lambda>_.
     case cq_Resource req of
       None \<Rightarrow> give (Err (errorf InvalidArgument ''channel is required''))
     | Some channel \<Rightarrow>
         seq (authorize e ''CreateChannel'' (cq_Parent req)) (\<lambda>_.
         if cq_ValidateOnly req
         then (let synthetic = channel\<lparr>ch_Name := cq_Parent req @ ''/channels/'' @ cq_Id req\<rparr>
               in done_op e (cq_Parent req) (AnyChannel synthetic) ''create'' (ch_Name synthetic))
         else seq (apply_op (CreateChannel e (cq_Parent req) (cq_Id req) channel)) (\<lambda>created.
              done_op e (cq_Parent req) (AnyChannel created) ''create'' (ch_Name created))))))"

definition UpdateChannel_rpc ::
  "env \<Rightarrow> Channel UpdateRequest \<Rightarrow> (Server, Operation) op" where
  "UpdateChannel_rpc e req =
     (let name = nilsafe (uq_Resource req) ch_Name; parent = parentFromResource name
      in seq (require name ''channel.name'') (\<lambda>_.
         seq (authorize e ''UpdateChannel'' name) (\<lambda>_.
         if uq_ValidateOnly req
         then seq (query (GetChannel name)) (\<lambda>existing.
              done_op e parent (AnyChannel existing) ''update'' name)
         else seq (deref (uq_Resource req)) (\<lambda>channel.
              seq (apply_op (UpdateChannel e channel (uq_UpdateMask req))) (\<lambda>updated.
              done_op e parent (AnyChannel updated) ''update'' (ch_Name updated))))))"

definition DeleteChannel_rpc :: "env \<Rightarrow> DeleteRequest \<Rightarrow> (Server, Operation) op" where
  "DeleteChannel_rpc e req =
     (let name = dq_Name req; parent = parentFromResource name
      in seq (require name ''name'') (\<lambda>_.
         seq (authorize e ''DeleteChannel'' name) (\<lambda>_.
         if dq_ValidateOnly req
         then seq (query (GetChannel name)) (\<lambda>_. done_op e parent AnyEmpty ''delete'' name)
         else seq (query (GetChannel name)) (\<lambda>existing.
              seq (apply_op (DeleteChannel name)) (\<lambda>_.
              done_op e parent (AnyChannel existing) ''delete'' (ch_Name existing))))))"

section \<open>Channel connections\<close>

definition GetChannelConnection_rpc :: "env \<Rightarrow> GetRequest \<Rightarrow> (Server, ChannelConnection) op" where
  "GetChannelConnection_rpc e req =
     seq (require (gr_Name req) ''name'') (\<lambda>_.
     seq (authorize e ''GetChannelConnection'' (gr_Name req)) (\<lambda>_.
     query (GetChannelConnection (gr_Name req))))"

definition ListChannelConnections_rpc ::
  "env \<Rightarrow> ListRequest \<Rightarrow> (Server, ChannelConnection list \<times> string) op" where
  "ListChannelConnections_rpc e req =
     seq (require (lr_Parent req) ''parent'') (\<lambda>_.
     seq (authorize e ''ListChannelConnections'' (lr_Parent req)) (\<lambda>_.
     query (ListChannelConnections e (lr_Parent req) (lr_PageSize req) (lr_PageToken req))))"

definition CreateChannelConnection_rpc ::
  "env \<Rightarrow> ChannelConnection CreateRequest \<Rightarrow> (Server, Operation) op" where
  "CreateChannelConnection_rpc e req =
     seq (require (cq_Parent req) ''parent'') (\<lambda>_.
     seq (require (cq_Id req) ''channel_connection_id'') (\<lambda>_.
     seq (give (validateResourceID (cq_Id req) ''channel_connection_id'')) (\<lambda>_.
     case cq_Resource req of
       None \<Rightarrow> give (Err (errorf InvalidArgument ''channel_connection is required''))
     | Some conn \<Rightarrow>
         seq (authorize e ''CreateChannelConnection'' (cq_Parent req)) (\<lambda>_.
         seq (apply_op (CreateChannelConnection e (cq_Parent req) (cq_Id req) conn)) (\<lambda>created.
              done_op e (cq_Parent req) (AnyChannelConnection created) ''create'' (cc_Name created))))))"

definition DeleteChannelConnection_rpc :: "env \<Rightarrow> DeleteRequest \<Rightarrow> (Server, Operation) op" where
  "DeleteChannelConnection_rpc e req =
     (let name = dq_Name req; parent = parentFromResource name
      in seq (require name ''name'') (\<lambda>_.
         seq (authorize e ''DeleteChannelConnection'' name) (\<lambda>_.
         seq (query (GetChannelConnection name)) (\<lambda>existing.
              seq (apply_op (DeleteChannelConnection name)) (\<lambda>_.
              done_op e parent (AnyChannelConnection existing) ''delete'' (cc_Name existing))))))"

section \<open>Google channel configs\<close>

text \<open>Reading a config may make it, so this read is a method that writes.\<close>

definition GetGoogleChannelConfig_rpc ::
  "env \<Rightarrow> GetRequest \<Rightarrow> (Server, GoogleChannelConfig) op" where
  "GetGoogleChannelConfig_rpc e req =
     seq (require (gr_Name req) ''name'') (\<lambda>_.
     seq (authorize e ''GetGoogleChannelConfig'' (gr_Name req)) (\<lambda>_.
     apply_op (GetGoogleChannelConfig e (gr_Name req))))"

definition UpdateGoogleChannelConfig_rpc ::
  "env \<Rightarrow> GoogleChannelConfig UpdateRequest \<Rightarrow> (Server, GoogleChannelConfig) op" where
  "UpdateGoogleChannelConfig_rpc e req =
     (case uq_Resource req of
        None \<Rightarrow> give (Err (errorf InvalidArgument ''google_channel_config is required''))
      | Some cfg \<Rightarrow>
          if gc_Name cfg = []
          then give (Err (errorf InvalidArgument ''google_channel_config.name is required''))
          else seq (authorize e ''UpdateGoogleChannelConfig'' (gc_Name cfg)) (\<lambda>_.
               apply_op (UpdateGoogleChannelConfig e cfg (uq_UpdateMask req))))"

section \<open>What the handlers promise\<close>

interpretation chan_api: mutable_api channels ch_Name "''/channels/''" "''Channel''"
  CreateChannel GetChannel DeleteChannel AnyChannel "''eventarc.channels.get''"
  parentFromResource GetChannel_rpc CreateChannel_rpc DeleteChannel_rpc
  "\<lambda>q. \<not> cq_ValidateOnly q" "\<lambda>q. \<not> dq_ValidateOnly q" UpdateChannel UpdateChannel_rpc
  apply unfold_locales
  subgoal by (simp add: GetChannel_rpc_def seq_def require_apply query_apply authorize_apply)
  subgoal unfolding CreateChannel_rpc_def
    by (auto elim!: handler_runs split: option.splits if_splits) blast+
  subgoal unfolding DeleteChannel_rpc_def
    by (auto elim!: handler_runs simp: Let_def split: if_splits) (blast dest: chan.get_Err)+
  subgoal by simp
  subgoal unfolding UpdateChannel_rpc_def
    by (auto elim!: handler_runs simp: Let_def split: if_splits) (blast dest: chan.update_NotFound)+
  subgoal using parentFromResource_join [of _ "''channels''"] by simp
  subgoal using lastSegment_join [of _ "_ @ ''/channels''"] by simp
  done

interpretation conn_api: resource_api channelConnections cc_Name "''/channelConnections/''" "''ChannelConnection''"
  CreateChannelConnection GetChannelConnection DeleteChannelConnection AnyChannelConnection "''eventarc.channelConnections.get''"
  parentFromResource GetChannelConnection_rpc CreateChannelConnection_rpc DeleteChannelConnection_rpc
  "\<lambda>q. True" "\<lambda>q. True"
  apply unfold_locales
  subgoal by (simp add: GetChannelConnection_rpc_def seq_def require_apply query_apply authorize_apply)
  subgoal unfolding CreateChannelConnection_rpc_def
    by (auto elim!: handler_runs split: option.splits if_splits) blast+
  subgoal unfolding DeleteChannelConnection_rpc_def
    by (auto elim!: handler_runs simp: Let_def split: if_splits) (blast dest: conn.get_Err)+
  subgoal by simp
  done

end
