(* ===== verification/ServerBus.thy ===== *)
theory ServerBus
  imports ServerApi
begin

text \<open>
  internal/server/server.go: the RPCs of message buses and enrollments.
\<close>

section \<open>Message buses\<close>

definition GetMessageBus_rpc :: "env \<Rightarrow> GetRequest \<Rightarrow> (Server, MessageBus) op" where
  "GetMessageBus_rpc e req =
     seq (require (gr_Name req) ''name'') (\<lambda>_.
     seq (authorize e ''GetMessageBus'' (gr_Name req)) (\<lambda>_.
     query (GetMessageBus (gr_Name req))))"

definition ListMessageBuses_rpc ::
  "env \<Rightarrow> ListRequest \<Rightarrow> (Server, MessageBus list \<times> string) op" where
  "ListMessageBuses_rpc e req =
     seq (require (lr_Parent req) ''parent'') (\<lambda>_.
     seq (authorize e ''ListMessageBuses'' (lr_Parent req)) (\<lambda>_.
     query (ListMessageBuses e (lr_Parent req) (lr_PageSize req) (lr_PageToken req)
       (lr_OrderBy req))))"

definition ListMessageBusEnrollments_rpc ::
  "env \<Rightarrow> ListRequest \<Rightarrow> (Server, string list \<times> string) op" where
  "ListMessageBusEnrollments_rpc e req =
     seq (require (lr_Parent req) ''parent'') (\<lambda>_.
     seq (authorize e ''ListMessageBusEnrollments'' (lr_Parent req)) (\<lambda>_.
     query (ListMessageBusEnrollments e (lr_Parent req) (lr_PageSize req) (lr_PageToken req))))"

definition CreateMessageBus_rpc ::
  "env \<Rightarrow> MessageBus CreateRequest \<Rightarrow> (Server, Operation) op" where
  "CreateMessageBus_rpc e req =
     seq (require (cq_Parent req) ''parent'') (\<lambda>_.
     seq (require (cq_Id req) ''message_bus_id'') (\<lambda>_.
     seq (give (validateResourceID (cq_Id req) ''message_bus_id'')) (\<lambda>_.
     case cq_Resource req of
       None \<Rightarrow> give (Err (errorf InvalidArgument ''message_bus is required''))
     | Some mb \<Rightarrow>
         seq (authorize e ''CreateMessageBus'' (cq_Parent req)) (\<lambda>_.
         if cq_ValidateOnly req
         then (let synthetic = mb\<lparr>mb_Name := cq_Parent req @ ''/messageBuses/'' @ cq_Id req\<rparr>
               in done_op e (cq_Parent req) (AnyMessageBus synthetic) ''create'' (mb_Name synthetic))
         else seq (apply_op (CreateMessageBus e (cq_Parent req) (cq_Id req) mb)) (\<lambda>created.
              done_op e (cq_Parent req) (AnyMessageBus created) ''create'' (mb_Name created))))))"

definition UpdateMessageBus_rpc ::
  "env \<Rightarrow> MessageBus UpdateRequest \<Rightarrow> (Server, Operation) op" where
  "UpdateMessageBus_rpc e req =
     (let name = nilsafe (uq_Resource req) mb_Name; parent = parentFromResource name
      in seq (require name ''message_bus.name'') (\<lambda>_.
         seq (authorize e ''UpdateMessageBus'' name) (\<lambda>_.
         if uq_ValidateOnly req
         then seq (query (GetMessageBus name)) (\<lambda>existing.
              done_op e parent (AnyMessageBus existing) ''update'' name)
         else seq (deref (uq_Resource req)) (\<lambda>mb.
              seq (catch (apply_op (UpdateMessageBus e mb (uq_UpdateMask req)))
                     (\<lambda>err. if uq_AllowMissing req \<and> isNotFound err
                            then apply_op (CreateMessageBus e parent (lastSegment name) mb)
                            else give (Err err))
                     (\<lambda>updated. give (Ok updated)))
                (\<lambda>updated. done_op e parent (AnyMessageBus updated) ''update'' name)))))"

definition DeleteMessageBus_rpc :: "env \<Rightarrow> DeleteRequest \<Rightarrow> (Server, Operation) op" where
  "DeleteMessageBus_rpc e req =
     (let name = dq_Name req; parent = parentFromResource name
      in seq (require name ''name'') (\<lambda>_.
         seq (authorize e ''DeleteMessageBus'' name) (\<lambda>_.
         if dq_ValidateOnly req
         then seq (query (GetMessageBus name)) (\<lambda>_. done_op e parent AnyEmpty ''delete'' name)
         else catch (query (GetMessageBus name))
           (\<lambda>err. if dq_AllowMissing req \<and> isNotFound err
                  then done_op e parent AnyEmpty ''delete'' name
                  else give (Err err))
           (\<lambda>existing.
              if dq_Etag req \<noteq> [] \<and> mb_Etag existing \<noteq> dq_Etag req
              then give (Err (etagMismatch (dq_Etag req) (mb_Etag existing)))
              else seq (apply_op (DeleteMessageBus name)) (\<lambda>_.
                   done_op e parent (AnyMessageBus existing) ''delete'' name)))))"

section \<open>Enrollments\<close>

definition GetEnrollment_rpc :: "env \<Rightarrow> GetRequest \<Rightarrow> (Server, Enrollment) op" where
  "GetEnrollment_rpc e req =
     seq (require (gr_Name req) ''name'') (\<lambda>_.
     seq (authorize e ''GetEnrollment'' (gr_Name req)) (\<lambda>_.
     query (GetEnrollment (gr_Name req))))"

definition ListEnrollments_rpc ::
  "env \<Rightarrow> ListRequest \<Rightarrow> (Server, Enrollment list \<times> string) op" where
  "ListEnrollments_rpc e req =
     seq (require (lr_Parent req) ''parent'') (\<lambda>_.
     seq (authorize e ''ListEnrollments'' (lr_Parent req)) (\<lambda>_.
     query (ListEnrollments e (lr_Parent req) (lr_PageSize req) (lr_PageToken req)
       (lr_OrderBy req))))"

definition CreateEnrollment_rpc ::
  "env \<Rightarrow> Enrollment CreateRequest \<Rightarrow> (Server, Operation) op" where
  "CreateEnrollment_rpc e req =
     seq (require (cq_Parent req) ''parent'') (\<lambda>_.
     seq (require (cq_Id req) ''enrollment_id'') (\<lambda>_.
     seq (give (validateResourceID (cq_Id req) ''enrollment_id'')) (\<lambda>_.
     case cq_Resource req of
       None \<Rightarrow> give (Err (errorf InvalidArgument ''enrollment is required''))
     | Some en \<Rightarrow>
         if en_CelMatch en = [] then give (Err (errorf InvalidArgument ''enrollment.cel_match is required''))
         else
         seq (authorize e ''CreateEnrollment'' (cq_Parent req)) (\<lambda>_.
         if cq_ValidateOnly req
         then (let synthetic = en\<lparr>en_Name := cq_Parent req @ ''/enrollments/'' @ cq_Id req\<rparr>
               in done_op e (cq_Parent req) (AnyEnrollment synthetic) ''create'' (en_Name synthetic))
         else seq (apply_op (CreateEnrollment e (cq_Parent req) (cq_Id req) en)) (\<lambda>created.
              done_op e (cq_Parent req) (AnyEnrollment created) ''create'' (en_Name created))))))"

definition UpdateEnrollment_rpc ::
  "env \<Rightarrow> Enrollment UpdateRequest \<Rightarrow> (Server, Operation) op" where
  "UpdateEnrollment_rpc e req =
     (let name = nilsafe (uq_Resource req) en_Name; parent = parentFromResource name
      in seq (require name ''enrollment.name'') (\<lambda>_.
         seq (authorize e ''UpdateEnrollment'' name) (\<lambda>_.
         if uq_ValidateOnly req
         then seq (query (GetEnrollment name)) (\<lambda>existing.
              done_op e parent (AnyEnrollment existing) ''update'' name)
         else seq (deref (uq_Resource req)) (\<lambda>en.
              seq (catch (apply_op (UpdateEnrollment e en (uq_UpdateMask req)))
                     (\<lambda>err. if uq_AllowMissing req \<and> isNotFound err
                            then apply_op (CreateEnrollment e parent (lastSegment name) en)
                            else give (Err err))
                     (\<lambda>updated. give (Ok updated)))
                (\<lambda>updated. done_op e parent (AnyEnrollment updated) ''update'' name)))))"

definition DeleteEnrollment_rpc :: "env \<Rightarrow> DeleteRequest \<Rightarrow> (Server, Operation) op" where
  "DeleteEnrollment_rpc e req =
     (let name = dq_Name req; parent = parentFromResource name
      in seq (require name ''name'') (\<lambda>_.
         seq (authorize e ''DeleteEnrollment'' name) (\<lambda>_.
         if dq_ValidateOnly req
         then seq (query (GetEnrollment name)) (\<lambda>_. done_op e parent AnyEmpty ''delete'' name)
         else catch (query (GetEnrollment name))
           (\<lambda>err. if dq_AllowMissing req \<and> isNotFound err
                  then done_op e parent AnyEmpty ''delete'' name
                  else give (Err err))
           (\<lambda>existing.
              if dq_Etag req \<noteq> [] \<and> en_Etag existing \<noteq> dq_Etag req
              then give (Err (etagMismatch (dq_Etag req) (en_Etag existing)))
              else seq (apply_op (DeleteEnrollment name)) (\<lambda>_.
                   done_op e parent (AnyEnrollment existing) ''delete'' name)))))"

section \<open>What the handlers promise\<close>

interpretation bus_api: mutable_api messageBuses mb_Name "''/messageBuses/''" "''MessageBus''"
  CreateMessageBus GetMessageBus DeleteMessageBus AnyMessageBus "''eventarc.messageBuses.get''"
  parentFromResource GetMessageBus_rpc CreateMessageBus_rpc DeleteMessageBus_rpc
  "\<lambda>q. \<not> cq_ValidateOnly q" "\<lambda>q. \<not> dq_ValidateOnly q" UpdateMessageBus UpdateMessageBus_rpc
  apply unfold_locales
  subgoal by (simp add: GetMessageBus_rpc_def seq_def require_apply query_apply authorize_apply)
  subgoal unfolding CreateMessageBus_rpc_def
    by (auto elim!: handler_runs split: option.splits if_splits) blast+
  subgoal unfolding DeleteMessageBus_rpc_def
    by (auto elim!: handler_runs simp: Let_def split: if_splits) (blast dest: bus.get_Err)+
  subgoal by simp
  subgoal unfolding UpdateMessageBus_rpc_def
    by (auto elim!: handler_runs simp: Let_def split: if_splits) (blast dest: bus.update_NotFound)+
  subgoal using parentFromResource_join [of _ "''messageBuses''"] by simp
  subgoal using lastSegment_join [of _ "_ @ ''/messageBuses''"] by simp
  done

interpretation enr_api: mutable_api enrollments en_Name "''/enrollments/''" "''Enrollment''"
  CreateEnrollment GetEnrollment DeleteEnrollment AnyEnrollment "''eventarc.enrollments.get''"
  parentFromResource GetEnrollment_rpc CreateEnrollment_rpc DeleteEnrollment_rpc
  "\<lambda>q. \<not> cq_ValidateOnly q" "\<lambda>q. \<not> dq_ValidateOnly q" UpdateEnrollment UpdateEnrollment_rpc
  apply unfold_locales
  subgoal by (simp add: GetEnrollment_rpc_def seq_def require_apply query_apply authorize_apply)
  subgoal unfolding CreateEnrollment_rpc_def
    by (auto elim!: handler_runs split: option.splits if_splits) blast+
  subgoal unfolding DeleteEnrollment_rpc_def
    by (auto elim!: handler_runs simp: Let_def split: if_splits) (blast dest: enr.get_Err)+
  subgoal by simp
  subgoal unfolding UpdateEnrollment_rpc_def
    by (auto elim!: handler_runs simp: Let_def split: if_splits) (blast dest: enr.update_NotFound)+
  subgoal using parentFromResource_join [of _ "''enrollments''"] by simp
  subgoal using lastSegment_join [of _ "_ @ ''/enrollments''"] by simp
  done

end
