(* ===== verification/ServerPipeline.thy ===== *)
theory ServerPipeline
  imports ServerApi
begin

text \<open>
  internal/server/server.go: the RPCs of pipelines and Google API sources.
\<close>

section \<open>Pipelines\<close>

definition GetPipeline_rpc :: "env \<Rightarrow> GetRequest \<Rightarrow> (Server, Pipeline) op" where
  "GetPipeline_rpc e req =
     seq (require (gr_Name req) ''name'') (\<lambda>_.
     seq (authorize e ''GetPipeline'' (gr_Name req)) (\<lambda>_.
     query (GetPipeline (gr_Name req))))"

definition ListPipelines_rpc ::
  "env \<Rightarrow> ListRequest \<Rightarrow> (Server, Pipeline list \<times> string) op" where
  "ListPipelines_rpc e req =
     seq (require (lr_Parent req) ''parent'') (\<lambda>_.
     seq (authorize e ''ListPipelines'' (lr_Parent req)) (\<lambda>_.
     query (ListPipelines e (lr_Parent req) (lr_PageSize req) (lr_PageToken req)
       (lr_OrderBy req))))"

definition CreatePipeline_rpc ::
  "env \<Rightarrow> Pipeline CreateRequest \<Rightarrow> (Server, Operation) op" where
  "CreatePipeline_rpc e req =
     seq (require (cq_Parent req) ''parent'') (\<lambda>_.
     seq (require (cq_Id req) ''pipeline_id'') (\<lambda>_.
     seq (give (validateResourceID (cq_Id req) ''pipeline_id'')) (\<lambda>_.
     case cq_Resource req of
       None \<Rightarrow> give (Err (errorf InvalidArgument ''pipeline is required''))
     | Some pl \<Rightarrow>
         if pl_Destinations pl = [] then give (Err (errorf InvalidArgument ''pipeline.destinations must not be empty''))
         else
         seq (authorize e ''CreatePipeline'' (cq_Parent req)) (\<lambda>_.
         if cq_ValidateOnly req
         then (let synthetic = pl\<lparr>pl_Name := cq_Parent req @ ''/pipelines/'' @ cq_Id req\<rparr>
               in done_op e (cq_Parent req) (AnyPipeline synthetic) ''create'' (pl_Name synthetic))
         else seq (apply_op (CreatePipeline e (cq_Parent req) (cq_Id req) pl)) (\<lambda>created.
              done_op e (cq_Parent req) (AnyPipeline created) ''create'' (pl_Name created))))))"

definition UpdatePipeline_rpc ::
  "env \<Rightarrow> Pipeline UpdateRequest \<Rightarrow> (Server, Operation) op" where
  "UpdatePipeline_rpc e req =
     (let name = nilsafe (uq_Resource req) pl_Name; parent = parentFromResource name
      in seq (require name ''pipeline.name'') (\<lambda>_.
         seq (authorize e ''UpdatePipeline'' name) (\<lambda>_.
         if uq_ValidateOnly req
         then seq (query (GetPipeline name)) (\<lambda>existing.
              done_op e parent (AnyPipeline existing) ''update'' name)
         else seq (deref (uq_Resource req)) (\<lambda>pl.
              seq (catch (apply_op (UpdatePipeline e pl (uq_UpdateMask req)))
                     (\<lambda>err. if uq_AllowMissing req \<and> isNotFound err
                            then apply_op (CreatePipeline e parent (lastSegment name) pl)
                            else give (Err err))
                     (\<lambda>updated. give (Ok updated)))
                (\<lambda>updated. done_op e parent (AnyPipeline updated) ''update'' name)))))"

definition DeletePipeline_rpc :: "env \<Rightarrow> DeleteRequest \<Rightarrow> (Server, Operation) op" where
  "DeletePipeline_rpc e req =
     (let name = dq_Name req; parent = parentFromResource name
      in seq (require name ''name'') (\<lambda>_.
         seq (authorize e ''DeletePipeline'' name) (\<lambda>_.
         if dq_ValidateOnly req
         then seq (query (GetPipeline name)) (\<lambda>_. done_op e parent AnyEmpty ''delete'' name)
         else catch (query (GetPipeline name))
           (\<lambda>err. if dq_AllowMissing req \<and> isNotFound err
                  then done_op e parent AnyEmpty ''delete'' name
                  else give (Err err))
           (\<lambda>existing.
              if dq_Etag req \<noteq> [] \<and> pl_Etag existing \<noteq> dq_Etag req
              then give (Err (etagMismatch (dq_Etag req) (pl_Etag existing)))
              else seq (apply_op (DeletePipeline name)) (\<lambda>_.
                   done_op e parent (AnyPipeline existing) ''delete'' name)))))"

section \<open>Google API sources\<close>

definition GetGoogleApiSource_rpc :: "env \<Rightarrow> GetRequest \<Rightarrow> (Server, GoogleApiSource) op" where
  "GetGoogleApiSource_rpc e req =
     seq (require (gr_Name req) ''name'') (\<lambda>_.
     seq (authorize e ''GetGoogleApiSource'' (gr_Name req)) (\<lambda>_.
     query (GetGoogleApiSource (gr_Name req))))"

definition ListGoogleApiSources_rpc ::
  "env \<Rightarrow> ListRequest \<Rightarrow> (Server, GoogleApiSource list \<times> string) op" where
  "ListGoogleApiSources_rpc e req =
     seq (require (lr_Parent req) ''parent'') (\<lambda>_.
     seq (authorize e ''ListGoogleApiSources'' (lr_Parent req)) (\<lambda>_.
     query (ListGoogleApiSources e (lr_Parent req) (lr_PageSize req) (lr_PageToken req)
       (lr_OrderBy req))))"

definition CreateGoogleApiSource_rpc ::
  "env \<Rightarrow> GoogleApiSource CreateRequest \<Rightarrow> (Server, Operation) op" where
  "CreateGoogleApiSource_rpc e req =
     seq (require (cq_Parent req) ''parent'') (\<lambda>_.
     seq (require (cq_Id req) ''google_api_source_id'') (\<lambda>_.
     seq (give (validateResourceID (cq_Id req) ''google_api_source_id'')) (\<lambda>_.
     case cq_Resource req of
       None \<Rightarrow> give (Err (errorf InvalidArgument ''google_api_source is required''))
     | Some source \<Rightarrow>
         if gs_Destination source = [] then give (Err (errorf InvalidArgument ''google_api_source.destination is required''))
         else
         seq (authorize e ''CreateGoogleApiSource'' (cq_Parent req)) (\<lambda>_.
         if cq_ValidateOnly req
         then (let synthetic = source\<lparr>gs_Name := cq_Parent req @ ''/googleApiSources/'' @ cq_Id req\<rparr>
               in done_op e (cq_Parent req) (AnyGoogleApiSource synthetic) ''create'' (gs_Name synthetic))
         else seq (apply_op (CreateGoogleApiSource e (cq_Parent req) (cq_Id req) source)) (\<lambda>created.
              done_op e (cq_Parent req) (AnyGoogleApiSource created) ''create'' (gs_Name created))))))"

definition UpdateGoogleApiSource_rpc ::
  "env \<Rightarrow> GoogleApiSource UpdateRequest \<Rightarrow> (Server, Operation) op" where
  "UpdateGoogleApiSource_rpc e req =
     (let name = nilsafe (uq_Resource req) gs_Name; parent = parentFromResource name
      in seq (require name ''google_api_source.name'') (\<lambda>_.
         seq (authorize e ''UpdateGoogleApiSource'' name) (\<lambda>_.
         if uq_ValidateOnly req
         then seq (query (GetGoogleApiSource name)) (\<lambda>existing.
              done_op e parent (AnyGoogleApiSource existing) ''update'' name)
         else seq (deref (uq_Resource req)) (\<lambda>source.
              seq (catch (apply_op (UpdateGoogleApiSource e source (uq_UpdateMask req)))
                     (\<lambda>err. if uq_AllowMissing req \<and> isNotFound err
                            then apply_op (CreateGoogleApiSource e parent (lastSegment name) source)
                            else give (Err err))
                     (\<lambda>updated. give (Ok updated)))
                (\<lambda>updated. done_op e parent (AnyGoogleApiSource updated) ''update'' name)))))"

definition DeleteGoogleApiSource_rpc :: "env \<Rightarrow> DeleteRequest \<Rightarrow> (Server, Operation) op" where
  "DeleteGoogleApiSource_rpc e req =
     (let name = dq_Name req; parent = parentFromResource name
      in seq (require name ''name'') (\<lambda>_.
         seq (authorize e ''DeleteGoogleApiSource'' name) (\<lambda>_.
         if dq_ValidateOnly req
         then seq (query (GetGoogleApiSource name)) (\<lambda>_. done_op e parent AnyEmpty ''delete'' name)
         else catch (query (GetGoogleApiSource name))
           (\<lambda>err. if dq_AllowMissing req \<and> isNotFound err
                  then done_op e parent AnyEmpty ''delete'' name
                  else give (Err err))
           (\<lambda>existing.
              if dq_Etag req \<noteq> [] \<and> gs_Etag existing \<noteq> dq_Etag req
              then give (Err (etagMismatch (dq_Etag req) (gs_Etag existing)))
              else seq (apply_op (DeleteGoogleApiSource name)) (\<lambda>_.
                   done_op e parent (AnyGoogleApiSource existing) ''delete'' name)))))"

section \<open>What the handlers promise\<close>

interpretation pipe_api: mutable_api pipelines pl_Name "''/pipelines/''" "''Pipeline''"
  CreatePipeline GetPipeline DeletePipeline AnyPipeline "''eventarc.pipelines.get''"
  parentFromResource GetPipeline_rpc CreatePipeline_rpc DeletePipeline_rpc
  "\<lambda>q. \<not> cq_ValidateOnly q" "\<lambda>q. \<not> dq_ValidateOnly q" UpdatePipeline UpdatePipeline_rpc
  apply unfold_locales
  subgoal by (simp add: GetPipeline_rpc_def seq_def require_apply query_apply authorize_apply)
  subgoal unfolding CreatePipeline_rpc_def
    by (auto elim!: handler_runs split: option.splits if_splits) blast+
  subgoal unfolding DeletePipeline_rpc_def
    by (auto elim!: handler_runs simp: Let_def split: if_splits) (blast dest: pipe.get_Err)+
  subgoal by simp
  subgoal unfolding UpdatePipeline_rpc_def
    by (auto elim!: handler_runs simp: Let_def split: if_splits) (blast dest: pipe.update_NotFound)+
  subgoal using parentFromResource_join [of _ "''pipelines''"] by simp
  subgoal using lastSegment_join [of _ "_ @ ''/pipelines''"] by simp
  done

interpretation src_api: mutable_api googleApiSources gs_Name "''/googleApiSources/''" "''GoogleApiSource''"
  CreateGoogleApiSource GetGoogleApiSource DeleteGoogleApiSource AnyGoogleApiSource "''eventarc.googleApiSources.get''"
  parentFromResource GetGoogleApiSource_rpc CreateGoogleApiSource_rpc DeleteGoogleApiSource_rpc
  "\<lambda>q. \<not> cq_ValidateOnly q" "\<lambda>q. \<not> dq_ValidateOnly q" UpdateGoogleApiSource UpdateGoogleApiSource_rpc
  apply unfold_locales
  subgoal by (simp add: GetGoogleApiSource_rpc_def seq_def require_apply query_apply authorize_apply)
  subgoal unfolding CreateGoogleApiSource_rpc_def
    by (auto elim!: handler_runs split: option.splits if_splits) blast+
  subgoal unfolding DeleteGoogleApiSource_rpc_def
    by (auto elim!: handler_runs simp: Let_def split: if_splits) (blast dest: src.get_Err)+
  subgoal by simp
  subgoal unfolding UpdateGoogleApiSource_rpc_def
    by (auto elim!: handler_runs simp: Let_def split: if_splits) (blast dest: src.update_NotFound)+
  subgoal using parentFromResource_join [of _ "''googleApiSources''"] by simp
  subgoal using lastSegment_join [of _ "_ @ ''/googleApiSources''"] by simp
  done

end
