(* ===== verification/Server.thy ===== *)
theory Server
  imports ServerTrigger ServerChannel ServerBus ServerPipeline
begin

text \<open>
  The services that internal/server/grpc.go registers, as one function from a request to a
  response: the Eventarc service of server.go and the Operations service of internal/lro/store.go.
  The third service, the Publisher, is in its own theory. What every RPC shares is proved here.
\<close>

section \<open>Requests and responses\<close>

datatype 'r rpc = GetRPC GetRequest | ListRPC ListRequest | CreateRPC "'r CreateRequest"
  | UpdateRPC "'r UpdateRequest" | DeleteRPC DeleteRequest

datatype Request =
    TriggerRPC "Trigger rpc" | ChannelRPC "Channel rpc" | MessageBusRPC "MessageBus rpc"
  | EnrollmentRPC "Enrollment rpc" | PipelineRPC "Pipeline rpc"
  | GoogleApiSourceRPC "GoogleApiSource rpc"
  | GetProviderRPC GetRequest | ListProvidersRPC ListRequest
  | GetChannelConnectionRPC GetRequest | ListChannelConnectionsRPC ListRequest
  | CreateChannelConnectionRPC "ChannelConnection CreateRequest"
  | DeleteChannelConnectionRPC DeleteRequest
  | GetGoogleChannelConfigRPC GetRequest
  | UpdateGoogleChannelConfigRPC "GoogleChannelConfig UpdateRequest"
  | ListMessageBusEnrollmentsRPC ListRequest
  | GetOperationRPC GetRequest | ListOperationsRPC GetRequest | DeleteOperationRPC GetRequest
  | CancelOperationRPC GetRequest | WaitOperationRPC GetRequest

datatype Response =
    TriggerResp Trigger | ChannelResp Channel | MessageBusResp MessageBus
  | EnrollmentResp Enrollment | PipelineResp Pipeline | GoogleApiSourceResp GoogleApiSource
  | ProviderResp Provider | ChannelConnectionResp ChannelConnection
  | GoogleChannelConfigResp GoogleChannelConfig
  | TriggersResp "Trigger list" string | ChannelsResp "Channel list" string
  | MessageBusesResp "MessageBus list" string | EnrollmentsResp "Enrollment list" string
  | PipelinesResp "Pipeline list" string | GoogleApiSourcesResp "GoogleApiSource list" string
  | ProvidersResp "Provider list" string | ChannelConnectionsResp "ChannelConnection list" string
  | EnrollmentNamesResp "string list" string
  | OperationResp Operation | OperationsResp "Operation list" | EmptyResp

definition answer :: "('a \<Rightarrow> 'b) \<Rightarrow> (Server, 'a) op \<Rightarrow> (Server, 'b) op" where
  "answer f m s = (case m s of (r, s') \<Rightarrow> (map_result f r, s'))"

text \<open>The methods of the operation store, on the server's state.\<close>

definition lro_query :: "(Store \<Rightarrow> 'a result) \<Rightarrow> (Server, 'a) op" where
  "lro_query f s = (f (lroStore s), s)"

definition lro_op :: "(Store, 'a) op \<Rightarrow> (Server, 'a) op" where
  "lro_op f s = (case f (lroStore s) of (r, st) \<Rightarrow> (r, s\<lparr>lroStore := st\<rparr>))"

section \<open>Dispatch\<close>

fun handleTrigger :: "env \<Rightarrow> Trigger rpc \<Rightarrow> (Server, Response) op" where
  "handleTrigger e (GetRPC q) = answer TriggerResp (GetTrigger_rpc e q)"
| "handleTrigger e (ListRPC q) = answer (case_prod TriggersResp) (ListTriggers_rpc e q)"
| "handleTrigger e (CreateRPC q) = answer OperationResp (CreateTrigger_rpc e q)"
| "handleTrigger e (UpdateRPC q) = answer OperationResp (UpdateTrigger_rpc e q)"
| "handleTrigger e (DeleteRPC q) = answer OperationResp (DeleteTrigger_rpc e q)"

fun handleChannel :: "env \<Rightarrow> Channel rpc \<Rightarrow> (Server, Response) op" where
  "handleChannel e (GetRPC q) = answer ChannelResp (GetChannel_rpc e q)"
| "handleChannel e (ListRPC q) = answer (case_prod ChannelsResp) (ListChannels_rpc e q)"
| "handleChannel e (CreateRPC q) = answer OperationResp (CreateChannel_rpc e q)"
| "handleChannel e (UpdateRPC q) = answer OperationResp (UpdateChannel_rpc e q)"
| "handleChannel e (DeleteRPC q) = answer OperationResp (DeleteChannel_rpc e q)"

fun handleMessageBus :: "env \<Rightarrow> MessageBus rpc \<Rightarrow> (Server, Response) op" where
  "handleMessageBus e (GetRPC q) = answer MessageBusResp (GetMessageBus_rpc e q)"
| "handleMessageBus e (ListRPC q) = answer (case_prod MessageBusesResp) (ListMessageBuses_rpc e q)"
| "handleMessageBus e (CreateRPC q) = answer OperationResp (CreateMessageBus_rpc e q)"
| "handleMessageBus e (UpdateRPC q) = answer OperationResp (UpdateMessageBus_rpc e q)"
| "handleMessageBus e (DeleteRPC q) = answer OperationResp (DeleteMessageBus_rpc e q)"

fun handleEnrollment :: "env \<Rightarrow> Enrollment rpc \<Rightarrow> (Server, Response) op" where
  "handleEnrollment e (GetRPC q) = answer EnrollmentResp (GetEnrollment_rpc e q)"
| "handleEnrollment e (ListRPC q) = answer (case_prod EnrollmentsResp) (ListEnrollments_rpc e q)"
| "handleEnrollment e (CreateRPC q) = answer OperationResp (CreateEnrollment_rpc e q)"
| "handleEnrollment e (UpdateRPC q) = answer OperationResp (UpdateEnrollment_rpc e q)"
| "handleEnrollment e (DeleteRPC q) = answer OperationResp (DeleteEnrollment_rpc e q)"

fun handlePipeline :: "env \<Rightarrow> Pipeline rpc \<Rightarrow> (Server, Response) op" where
  "handlePipeline e (GetRPC q) = answer PipelineResp (GetPipeline_rpc e q)"
| "handlePipeline e (ListRPC q) = answer (case_prod PipelinesResp) (ListPipelines_rpc e q)"
| "handlePipeline e (CreateRPC q) = answer OperationResp (CreatePipeline_rpc e q)"
| "handlePipeline e (UpdateRPC q) = answer OperationResp (UpdatePipeline_rpc e q)"
| "handlePipeline e (DeleteRPC q) = answer OperationResp (DeletePipeline_rpc e q)"

fun handleGoogleApiSource :: "env \<Rightarrow> GoogleApiSource rpc \<Rightarrow> (Server, Response) op" where
  "handleGoogleApiSource e (GetRPC q) = answer GoogleApiSourceResp (GetGoogleApiSource_rpc e q)"
| "handleGoogleApiSource e (ListRPC q) = answer (case_prod GoogleApiSourcesResp) (ListGoogleApiSources_rpc e q)"
| "handleGoogleApiSource e (CreateRPC q) = answer OperationResp (CreateGoogleApiSource_rpc e q)"
| "handleGoogleApiSource e (UpdateRPC q) = answer OperationResp (UpdateGoogleApiSource_rpc e q)"
| "handleGoogleApiSource e (DeleteRPC q) = answer OperationResp (DeleteGoogleApiSource_rpc e q)"

fun handle :: "env \<Rightarrow> Request \<Rightarrow> (Server, Response) op" where
  "handle e (TriggerRPC q) = handleTrigger e q"
| "handle e (ChannelRPC q) = handleChannel e q"
| "handle e (MessageBusRPC q) = handleMessageBus e q"
| "handle e (EnrollmentRPC q) = handleEnrollment e q"
| "handle e (PipelineRPC q) = handlePipeline e q"
| "handle e (GoogleApiSourceRPC q) = handleGoogleApiSource e q"
| "handle e (GetProviderRPC q1) = answer ProviderResp (GetProvider_rpc e q1)"
| "handle e (ListProvidersRPC q2) = answer (case_prod ProvidersResp) (ListProviders_rpc e q2)"
| "handle e (GetChannelConnectionRPC q1) = answer ChannelConnectionResp (GetChannelConnection_rpc e q1)"
| "handle e (ListChannelConnectionsRPC q2) =
     answer (case_prod ChannelConnectionsResp) (ListChannelConnections_rpc e q2)"
| "handle e (CreateChannelConnectionRPC q3) = answer OperationResp (CreateChannelConnection_rpc e q3)"
| "handle e (DeleteChannelConnectionRPC q4) = answer OperationResp (DeleteChannelConnection_rpc e q4)"
| "handle e (GetGoogleChannelConfigRPC q1) =
     answer GoogleChannelConfigResp (GetGoogleChannelConfig_rpc e q1)"
| "handle e (UpdateGoogleChannelConfigRPC q5) =
     answer GoogleChannelConfigResp (UpdateGoogleChannelConfig_rpc e q5)"
| "handle e (ListMessageBusEnrollmentsRPC q2) =
     answer (case_prod EnrollmentNamesResp) (ListMessageBusEnrollments_rpc e q2)"
| "handle e (GetOperationRPC q1) = answer OperationResp (lro_query (GetOperation q1))"
| "handle e (ListOperationsRPC q1) = answer OperationsResp (lro_query (ListOperations e q1))"
| "handle e (DeleteOperationRPC q1) = answer (\<lambda>_. EmptyResp) (lro_op (DeleteOperation q1))"
| "handle e (CancelOperationRPC q1) = answer (\<lambda>_. EmptyResp) (lro_op (CancelOperation q1))"
| "handle e (WaitOperationRPC q1) = answer OperationResp (lro_query (WaitOperation q1))"

end
