(* ===== verification/ServerProps.thy ===== *)
theory ServerProps
  imports Server
begin

text \<open>
  What holds of every RPC: the server's invariant, freedom from panics, failure without effect,
  dry runs, authorization, and the operations that are handed out.
\<close>

section \<open>Reading handlers\<close>

lemma pure_gets [pure_rules]:
  "pure (GetTrigger_rpc e q)"
  "pure (GetChannel_rpc e q)"
  "pure (GetMessageBus_rpc e q)"
  "pure (GetEnrollment_rpc e q)"
  "pure (GetPipeline_rpc e q)"
  "pure (GetGoogleApiSource_rpc e q)"
  "pure (GetProvider_rpc e q)"
  "pure (GetChannelConnection_rpc e q)"
  by (simp_all add: GetTrigger_rpc_def GetChannel_rpc_def GetMessageBus_rpc_def GetEnrollment_rpc_def GetPipeline_rpc_def GetGoogleApiSource_rpc_def GetProvider_rpc_def GetChannelConnection_rpc_def pure_rules)

lemma pure_lists [pure_rules]:
  "pure (ListTriggers_rpc e q)"
  "pure (ListChannels_rpc e q)"
  "pure (ListMessageBuses_rpc e q)"
  "pure (ListEnrollments_rpc e q)"
  "pure (ListPipelines_rpc e q)"
  "pure (ListGoogleApiSources_rpc e q)"
  "pure (ListProviders_rpc e q)"
  "pure (ListChannelConnections_rpc e q)"
  "pure (ListMessageBusEnrollments_rpc e q)"
  by (simp_all add: ListTriggers_rpc_def ListChannels_rpc_def ListMessageBuses_rpc_def ListEnrollments_rpc_def ListPipelines_rpc_def ListGoogleApiSources_rpc_def ListProviders_rpc_def ListChannelConnections_rpc_def ListMessageBusEnrollments_rpc_def pure_rules)

lemma answer_fst [simp]: "fst (answer f m s) = map_result f (fst (m s))"
  and answer_snd [simp]: "snd (answer f m s) = snd (m s)"
  by (simp_all add: answer_def split: prod.split)

lemma pure_answer [pure_rules]: "pure m \<Longrightarrow> pure (answer f m)"
  by (simp add: pure_def)

lemma pure_lro_query [pure_rules]: "pure (lro_query f)"
  by (simp add: pure_def lro_query_def)

section \<open>No panic, and the invariant\<close>

lemmas tables_no_panic =
  trig.get_no_panic trig.create_no_panic trig.remove_no_panic
  chan.get_no_panic chan.create_no_panic chan.remove_no_panic
  bus.get_no_panic bus.create_no_panic bus.remove_no_panic
  enr.get_no_panic enr.create_no_panic enr.remove_no_panic
  pipe.get_no_panic pipe.create_no_panic pipe.remove_no_panic
  src.get_no_panic src.create_no_panic src.remove_no_panic
  conn.get_no_panic conn.create_no_panic conn.remove_no_panic
  trig.update_no_panic  chan.update_no_panic  bus.update_no_panic  enr.update_no_panic  pipe.update_no_panic  src.update_no_panic

lemma configs_no_panic:
  "\<not> is_panic (fst (GetGoogleChannelConfig e n s))"
  "\<not> is_panic (fst (UpdateGoogleChannelConfig e c um s))"
  by (auto simp: GetGoogleChannelConfig_def initGoogleChannelConfig_def UpdateGoogleChannelConfig_def
      Let_def split: option.split)

lemma providers_no_panic: "\<not> is_panic (GetProvider n s)"
  by (simp add: GetProvider_def Let_def split: option.split)

lemmas storage_no_panic = tables_no_panic configs_no_panic providers_no_panic
lemmas safe_intros = safe_rules server_inv_lro server_inv_storage storage_inv_rules

lemma safe_gets [safe_rules]:
  "safe server_inv (GetTrigger_rpc e q)"
  "safe server_inv (GetChannel_rpc e q)"
  "safe server_inv (GetMessageBus_rpc e q)"
  "safe server_inv (GetEnrollment_rpc e q)"
  "safe server_inv (GetPipeline_rpc e q)"
  "safe server_inv (GetGoogleApiSource_rpc e q)"
  "safe server_inv (GetProvider_rpc e q)"
  "safe server_inv (GetChannelConnection_rpc e q)"
  "safe server_inv (GetGoogleChannelConfig_rpc e q)"
  by (auto intro!: safe_intros simp: storage_no_panic GetTrigger_rpc_def GetChannel_rpc_def GetMessageBus_rpc_def GetEnrollment_rpc_def GetPipeline_rpc_def GetGoogleApiSource_rpc_def GetProvider_rpc_def GetChannelConnection_rpc_def GetGoogleChannelConfig_rpc_def)

lemma safe_creates [safe_rules]:
  "safe server_inv (CreateTrigger_rpc e qTrigger)"
  "safe server_inv (CreateChannel_rpc e qChannel)"
  "safe server_inv (CreateMessageBus_rpc e qMessageBus)"
  "safe server_inv (CreateEnrollment_rpc e qEnrollment)"
  "safe server_inv (CreatePipeline_rpc e qPipeline)"
  "safe server_inv (CreateGoogleApiSource_rpc e qGoogleApiSource)"
  "safe server_inv (CreateChannelConnection_rpc e qChannelConnection)"
  by (auto intro!: safe_intros simp: storage_no_panic triggerViolations_Nil Let_def
      CreateTrigger_rpc_def CreateChannel_rpc_def CreateMessageBus_rpc_def CreateEnrollment_rpc_def CreatePipeline_rpc_def CreateGoogleApiSource_rpc_def CreateChannelConnection_rpc_def
      split: list.split)

lemma safe_updates [safe_rules]:
  "safe server_inv (UpdateTrigger_rpc e qTrigger)"
  "safe server_inv (UpdateChannel_rpc e qChannel)"
  "safe server_inv (UpdateMessageBus_rpc e qMessageBus)"
  "safe server_inv (UpdateEnrollment_rpc e qEnrollment)"
  "safe server_inv (UpdatePipeline_rpc e qPipeline)"
  "safe server_inv (UpdateGoogleApiSource_rpc e qGoogleApiSource)"
  "safe server_inv (UpdateGoogleChannelConfig_rpc e qGoogleChannelConfig)"
  by (auto intro!: safe_intros simp: storage_no_panic Let_def UpdateTrigger_rpc_def UpdateChannel_rpc_def UpdateMessageBus_rpc_def UpdateEnrollment_rpc_def UpdatePipeline_rpc_def UpdateGoogleApiSource_rpc_def UpdateGoogleChannelConfig_rpc_def)

lemma safe_deletes [safe_rules]:
  "safe server_inv (DeleteTrigger_rpc e q)"
  "safe server_inv (DeleteChannel_rpc e q)"
  "safe server_inv (DeleteMessageBus_rpc e q)"
  "safe server_inv (DeleteEnrollment_rpc e q)"
  "safe server_inv (DeletePipeline_rpc e q)"
  "safe server_inv (DeleteGoogleApiSource_rpc e q)"
  "safe server_inv (DeleteChannelConnection_rpc e q)"
  by (auto intro!: safe_intros simp: storage_no_panic Let_def DeleteTrigger_rpc_def DeleteChannel_rpc_def DeleteMessageBus_rpc_def DeleteEnrollment_rpc_def DeletePipeline_rpc_def DeleteGoogleApiSource_rpc_def DeleteChannelConnection_rpc_def)

section \<open>Listing without panic\<close>

text \<open>
  A list method hands the pager a list no longer than its map.
\<close>

lemma length_range_map:
  "distinct (map fst m) \<Longrightarrow> iter_order ord \<Longrightarrow> length (range_map ord m) = length m"
  using mset_range_map [of m ord] by (metis size_mset)

lemma length_collect:
  "distinct (map fst m) \<Longrightarrow> iter_order ord \<Longrightarrow> length (collect ord prefix m) \<le> length m"
  using length_range_map [of m ord] by (simp add: collect_def) (metis length_filter_le)

lemma length_sortByOrder [simp]: "length (sortByOrder nm ctime ob xs) = length xs"
  by (simp add: sortByOrder_def)

lemma length_applyTriggerFilter: "length (applyTriggerFilter ts flt) \<le> length ts"
  by (simp add: applyTriggerFilter_def Let_def)

lemma page_no_panic:
  "length xs \<le> n \<Longrightarrow> pageable n \<Longrightarrow> \<not> is_panic (PaginatePage xs tok ps)"
  by (rule PaginatePage_no_panic) (simp add: pageable_def)

lemma lists_no_panic:
  assumes "storage_inv st" and ord: "iter_order (e_order e)"
  shows
    "pageable (length (triggers st)) \<Longrightarrow> \<not> is_panic (ListTriggers e p ps tok ob flt st)"
    "pageable (length (providers st)) \<Longrightarrow> \<not> is_panic (ListProviders e p ps tok flt ob st)"
    "pageable (length (channels st)) \<Longrightarrow> \<not> is_panic (ListChannels e p ps tok ob st)"
    "pageable (length (channelConnections st)) \<Longrightarrow>
       \<not> is_panic (ListChannelConnections e p ps tok st)"
    "pageable (length (messageBuses st)) \<Longrightarrow> \<not> is_panic (ListMessageBuses e p ps tok ob st)"
    "pageable (length (enrollments st)) \<Longrightarrow>
       \<not> is_panic (ListMessageBusEnrollments e p ps tok st)"
    "pageable (length (enrollments st)) \<Longrightarrow> \<not> is_panic (ListEnrollments e p ps tok ob st)"
    "pageable (length (pipelines st)) \<Longrightarrow> \<not> is_panic (ListPipelines e p ps tok ob st)"
    "pageable (length (googleApiSources st)) \<Longrightarrow>
       \<not> is_panic (ListGoogleApiSources e p ps tok ob st)"
proof -
  have inv: "distinct (map fst (triggers st))" "distinct (map fst (providers st))"
    "distinct (map fst (channels st))" "distinct (map fst (channelConnections st))"
    "distinct (map fst (messageBuses st))" "distinct (map fst (enrollments st))"
    "distinct (map fst (pipelines st))" "distinct (map fst (googleApiSources st))"
    using assms(1) by (auto simp: storage_inv_def intro: wf_table_distinct)
  note lens = length_collect [OF _ ord] length_range_map [OF _ ord]
  have filtered: "length (filter f (range_map (e_order e) m)) \<le> length m"
    if "distinct (map fst m)" for f and m :: "'v gomap"
    using lens(2) [OF that] by (metis length_filter_le)
  show "pageable (length (triggers st)) \<Longrightarrow> \<not> is_panic (ListTriggers e p ps tok ob flt st)"
    unfolding ListTriggers_def Let_def
    by (erule page_no_panic [rotated])
      (auto intro: lens(1) [OF inv(1)] order.trans [OF length_applyTriggerFilter])
  show "pageable (length (providers st)) \<Longrightarrow> \<not> is_panic (ListProviders e p ps tok flt ob st)"
    unfolding ListProviders_def Let_def
    by (erule page_no_panic [rotated]) (simp add: filtered [OF inv(2)])
  show "pageable (length (channels st)) \<Longrightarrow> \<not> is_panic (ListChannels e p ps tok ob st)"
    unfolding ListChannels_def Let_def
    by (erule page_no_panic [rotated]) (simp add: lens inv)
  show "pageable (length (channelConnections st)) \<Longrightarrow>
       \<not> is_panic (ListChannelConnections e p ps tok st)"
    unfolding ListChannelConnections_def Let_def
    by (erule page_no_panic [rotated]) (simp add: lens inv)
  show "pageable (length (messageBuses st)) \<Longrightarrow> \<not> is_panic (ListMessageBuses e p ps tok ob st)"
    unfolding ListMessageBuses_def Let_def
    by (erule page_no_panic [rotated]) (simp add: lens inv)
  show "pageable (length (enrollments st)) \<Longrightarrow>
       \<not> is_panic (ListMessageBusEnrollments e p ps tok st)"
    unfolding ListMessageBusEnrollments_def Let_def
    by (erule page_no_panic [rotated]) (simp add: filtered [OF inv(6)])
  show "pageable (length (enrollments st)) \<Longrightarrow> \<not> is_panic (ListEnrollments e p ps tok ob st)"
    unfolding ListEnrollments_def Let_def
    by (erule page_no_panic [rotated]) (simp add: lens inv)
  show "pageable (length (pipelines st)) \<Longrightarrow> \<not> is_panic (ListPipelines e p ps tok ob st)"
    unfolding ListPipelines_def Let_def
    by (erule page_no_panic [rotated]) (simp add: lens inv)
  show "pageable (length (googleApiSources st)) \<Longrightarrow>
       \<not> is_panic (ListGoogleApiSources e p ps tok ob st)"
    unfolding ListGoogleApiSources_def Let_def
    by (erule page_no_panic [rotated]) (simp add: lens inv)
qed

lemma safe_lists [safe_rules]:
  assumes "iter_order (e_order e)"
  shows
    "safe (\<lambda>s. server_inv s \<and> small s) (ListTriggers_rpc e q)"
    "safe (\<lambda>s. server_inv s \<and> small s) (ListChannels_rpc e q)"
    "safe (\<lambda>s. server_inv s \<and> small s) (ListMessageBuses_rpc e q)"
    "safe (\<lambda>s. server_inv s \<and> small s) (ListEnrollments_rpc e q)"
    "safe (\<lambda>s. server_inv s \<and> small s) (ListPipelines_rpc e q)"
    "safe (\<lambda>s. server_inv s \<and> small s) (ListGoogleApiSources_rpc e q)"
    "safe (\<lambda>s. server_inv s \<and> small s) (ListProviders_rpc e q)"
    "safe (\<lambda>s. server_inv s \<and> small s) (ListChannelConnections_rpc e q)"
    "safe (\<lambda>s. server_inv s \<and> small s) (ListMessageBusEnrollments_rpc e q)"
  using assms unfolding ListTriggers_rpc_def ListChannels_rpc_def ListMessageBuses_rpc_def ListEnrollments_rpc_def ListPipelines_rpc_def ListGoogleApiSources_rpc_def ListProviders_rpc_def ListChannelConnections_rpc_def ListMessageBusEnrollments_rpc_def
  by (auto intro!: safe_rules simp: lists_no_panic server_inv_def small_def Let_def)

section \<open>Every RPC\<close>

lemma safe_answer [safe_rules]: "safe P m \<Longrightarrow> safe P (answer f m)"
  by (simp add: safe_def)

lemma safe_lro_query: "(\<And>st. \<not> is_panic (f st)) \<Longrightarrow> safe P (lro_query f)"
  by (simp add: safe_def lro_query_def)

lemma safe_lro_op:
  "(\<And>st. store_inv st \<Longrightarrow> store_inv (snd (f st))) \<Longrightarrow> (\<And>st. \<not> is_panic (fst (f st))) \<Longrightarrow>
   safe server_inv (lro_op f)"
  by (simp add: safe_def lro_op_def server_inv_def case_prod_unfold)

lemma lro_no_panic [simp]:
  "\<not> is_panic (GetOperation q st)" "\<not> is_panic (WaitOperation q st)"
  "\<not> is_panic (ListOperations e q st)"
  "\<not> is_panic (fst (DeleteOperation q st))" "\<not> is_panic (fst (CancelOperation q st))"
  by (simp_all add: GetOperation_def WaitOperation_def ListOperations_def DeleteOperation_def
      CancelOperation_def Let_def split: option.split)

lemma safe_lro [safe_rules]:
  "safe P (lro_query (GetOperation q))" "safe P (lro_query (ListOperations e q))"
  "safe P (lro_query (WaitOperation q))"
  "safe server_inv (lro_op (DeleteOperation q))" "safe server_inv (lro_op (CancelOperation q))"
  by (rule safe_lro_query safe_lro_op; simp add: store_inv_DeleteOperation CancelOperation_def)+

lemmas keeps_inv = safe_gets [THEN safeD(1)] safe_creates [THEN safeD(1)]
  safe_updates [THEN safeD(1)] safe_deletes [THEN safeD(1)] safe_lro [THEN safeD(1)]
  pure_lists [unfolded pure_def, rule_format]

lemmas no_panics = safe_gets [THEN safeD(2)] safe_creates [THEN safeD(2)]
  safe_updates [THEN safeD(2)] safe_deletes [THEN safeD(2)] safe_lro [THEN safeD(2)]
  safe_lists [THEN safeD(2), OF _ conjI]

text \<open>Family by family, then for the whole dispatch.\<close>

lemma handleTrigger_safe:
  assumes "server_inv s"
  shows "server_inv (snd (handleTrigger e q s))"
    and "iter_order (e_order e) \<Longrightarrow> small s \<Longrightarrow> \<not> is_panic (fst (handleTrigger e q s))"
  using assms by (cases q; simp add: keeps_inv no_panics)+

lemma handleChannel_safe:
  assumes "server_inv s"
  shows "server_inv (snd (handleChannel e q s))"
    and "iter_order (e_order e) \<Longrightarrow> small s \<Longrightarrow> \<not> is_panic (fst (handleChannel e q s))"
  using assms by (cases q; simp add: keeps_inv no_panics)+

lemma handleMessageBus_safe:
  assumes "server_inv s"
  shows "server_inv (snd (handleMessageBus e q s))"
    and "iter_order (e_order e) \<Longrightarrow> small s \<Longrightarrow> \<not> is_panic (fst (handleMessageBus e q s))"
  using assms by (cases q; simp add: keeps_inv no_panics)+

lemma handleEnrollment_safe:
  assumes "server_inv s"
  shows "server_inv (snd (handleEnrollment e q s))"
    and "iter_order (e_order e) \<Longrightarrow> small s \<Longrightarrow> \<not> is_panic (fst (handleEnrollment e q s))"
  using assms by (cases q; simp add: keeps_inv no_panics)+

lemma handlePipeline_safe:
  assumes "server_inv s"
  shows "server_inv (snd (handlePipeline e q s))"
    and "iter_order (e_order e) \<Longrightarrow> small s \<Longrightarrow> \<not> is_panic (fst (handlePipeline e q s))"
  using assms by (cases q; simp add: keeps_inv no_panics)+

lemma handleGoogleApiSource_safe:
  assumes "server_inv s"
  shows "server_inv (snd (handleGoogleApiSource e q s))"
    and "iter_order (e_order e) \<Longrightarrow> small s \<Longrightarrow> \<not> is_panic (fst (handleGoogleApiSource e q s))"
  using assms by (cases q; simp add: keeps_inv no_panics)+

lemmas families_safe = handleTrigger_safe handleChannel_safe handleMessageBus_safe handleEnrollment_safe handlePipeline_safe handleGoogleApiSource_safe

lemma handle_keeps_inv: "server_inv s \<Longrightarrow> server_inv (snd (handle e q s))"
  by (cases q) (simp_all add: families_safe keeps_inv)

lemma handle_no_panic:
  "server_inv s \<Longrightarrow> small s \<Longrightarrow> iter_order (e_order e) \<Longrightarrow> \<not> is_panic (fst (handle e q s))"
  by (cases q) (simp_all add: families_safe no_panics)

section \<open>Failure without effect\<close>

text \<open>
  A method of storage that fails has written nothing, with one exception: an enrollment update that
  meets the immutable \<open>message_bus\<close> after other paths.
\<close>

lemma storage_atomic:
  "atomic (CreateTrigger e p i rTrigger)" "atomic (DeleteTrigger n)"
  "atomic (CreateChannel e p i rChannel)" "atomic (DeleteChannel n)"
  "atomic (CreateMessageBus e p i rMessageBus)" "atomic (DeleteMessageBus n)"
  "atomic (CreateEnrollment e p i rEnrollment)" "atomic (DeleteEnrollment n)"
  "atomic (CreatePipeline e p i rPipeline)" "atomic (DeletePipeline n)"
  "atomic (CreateGoogleApiSource e p i rGoogleApiSource)" "atomic (DeleteGoogleApiSource n)"
  "atomic (CreateChannelConnection e p i rChannelConnection)" "atomic (DeleteChannelConnection n)"
  "atomic (UpdateTrigger e rTrigger um)"
  "atomic (UpdateChannel e rChannel um)"
  "atomic (UpdateMessageBus e rMessageBus um)"
  "atomic (UpdatePipeline e rPipeline um)"
  "atomic (UpdateGoogleApiSource e rGoogleApiSource um)"
  "atomic (UpdateGoogleChannelConfig e rGoogleChannelConfig um)"
  "atomic (GetGoogleChannelConfig e n)"
  by (auto simp: atomic_def trigger_ops channel_ops connection_ops bus_ops pipeline_ops source_ops
      CreateEnrollment_def DeleteEnrollment_def UpdateGoogleChannelConfig_def
      GetGoogleChannelConfig_def initGoogleChannelConfig_def Let_def split: option.splits if_splits)

definition touches_message_bus :: "string list option \<Rightarrow> bool" where
  "touches_message_bus um = (case um of None \<Rightarrow> False | Some paths \<Rightarrow> ''message_bus'' \<in> set paths)"

lemma UpdateEnrollment_atomic: "\<not> touches_message_bus um \<Longrightarrow> atomic (UpdateEnrollment e r um)"
  unfolding atomic_def UpdateEnrollment_def touches_message_bus_def
  by (auto simp: Let_def split: option.splits prod.splits bool.splits)
    (metis setEnrollmentPaths_complete fst_conv)

text \<open>One rule for each part a sequence can begin with.\<close>

lemma atomic_seqs [atomic_rules]:
  "(\<And>a. atomic (f a)) \<Longrightarrow> atomic (seq (require v n) f)"
  "(\<And>a. atomic (f a)) \<Longrightarrow> atomic (seq (authorize e operation r) f)"
  "(\<And>a. atomic (g a)) \<Longrightarrow> atomic (seq (give w) g)"
  "(\<And>a. atomic (g a)) \<Longrightarrow> atomic (seq (query k) g)"
  "(\<And>a. atomic (g a)) \<Longrightarrow> atomic (seq (deref d) g)"
  by (intro atomic_seq_read pure_rules; assumption)+

lemma atomic_commits [atomic_rules]:
  "atomic m \<Longrightarrow> (\<And>a. succeeds (f a)) \<Longrightarrow> atomic (seq (apply_op m) f)"
  "atomic (catch n h g) \<Longrightarrow> (\<And>a. succeeds (k a)) \<Longrightarrow> atomic (seq (catch n h g) k)"
  "atomic m' \<Longrightarrow> (\<And>x. atomic (h' x)) \<Longrightarrow> (\<And>a. succeeds (k' a)) \<Longrightarrow>
     atomic (catch (apply_op m') h' k')"
  "(\<And>x. atomic (h2 x)) \<Longrightarrow> (\<And>a. atomic (k2 a)) \<Longrightarrow> atomic (catch (query l) h2 k2)"
  by (rule atomic_seq_commit atomic_catch_commit atomic_catch_read;
      simp add: atomic_apply_op pure_query)+

lemma atomic_query [atomic_rules]: "atomic (query f)"
  by (intro atomic_pure pure_query)

lemma atomic_answer: "atomic m \<Longrightarrow> atomic (answer f m)"
  by (auto simp: atomic_def answer_def split: prod.splits) (metis map_result.simps result.exhaust
      result.distinct(1,5) result.inject(2))

lemmas atomic_intros = atomic_rules atomic_apply_op storage_atomic UpdateEnrollment_atomic
  succeeds_done_op succeeds_give

lemma atomic_creates:
  assumes "lro_works e"
  shows
    "atomic (CreateTrigger_rpc e qTrigger)"
    "atomic (CreateChannel_rpc e qChannel)"
    "atomic (CreateMessageBus_rpc e qMessageBus)"
    "atomic (CreateEnrollment_rpc e qEnrollment)"
    "atomic (CreatePipeline_rpc e qPipeline)"
    "atomic (CreateGoogleApiSource_rpc e qGoogleApiSource)"
    "atomic (CreateChannelConnection_rpc e qChannelConnection)"
  using assms by (auto intro!: atomic_intros simp: Let_def
      CreateTrigger_rpc_def CreateChannel_rpc_def CreateMessageBus_rpc_def CreateEnrollment_rpc_def CreatePipeline_rpc_def CreateGoogleApiSource_rpc_def CreateChannelConnection_rpc_def
      split: list.split)

lemma atomic_deletes:
  assumes "lro_works e"
  shows
    "atomic (DeleteTrigger_rpc e q)"
    "atomic (DeleteChannel_rpc e q)"
    "atomic (DeleteMessageBus_rpc e q)"
    "atomic (DeleteEnrollment_rpc e q)"
    "atomic (DeletePipeline_rpc e q)"
    "atomic (DeleteGoogleApiSource_rpc e q)"
    "atomic (DeleteChannelConnection_rpc e q)"
  using assms by (auto intro!: atomic_intros simp: Let_def
      DeleteTrigger_rpc_def DeleteChannel_rpc_def DeleteMessageBus_rpc_def DeleteEnrollment_rpc_def DeletePipeline_rpc_def DeleteGoogleApiSource_rpc_def DeleteChannelConnection_rpc_def)

lemma atomic_updates:
  assumes "lro_works e"
  shows
    "atomic (UpdateTrigger_rpc e qTrigger)"
    "atomic (UpdateChannel_rpc e qChannel)"
    "atomic (UpdateMessageBus_rpc e qMessageBus)"
    "\<not> touches_message_bus (uq_UpdateMask qEnrollment) \<Longrightarrow>
       atomic (UpdateEnrollment_rpc e qEnrollment)"
    "atomic (UpdatePipeline_rpc e qPipeline)"
    "atomic (UpdateGoogleApiSource_rpc e qGoogleApiSource)"
    "atomic (UpdateGoogleChannelConfig_rpc e qGoogleChannelConfig)"
  using assms by (auto intro!: atomic_intros simp: Let_def
      UpdateTrigger_rpc_def UpdateChannel_rpc_def UpdateMessageBus_rpc_def UpdateEnrollment_rpc_def UpdatePipeline_rpc_def UpdateGoogleApiSource_rpc_def UpdateGoogleChannelConfig_rpc_def
      split: option.split)

lemma atomic_configs: "atomic (GetGoogleChannelConfig_rpc e q)"
  by (auto intro!: atomic_intros simp: GetGoogleChannelConfig_rpc_def)

lemma atomic_lro:
  "atomic (lro_query f)" "atomic (lro_op (DeleteOperation q))" "atomic (lro_op (CancelOperation q))"
  by (auto simp: atomic_def lro_query_def lro_op_def DeleteOperation_def CancelOperation_def Let_def
      split: prod.splits option.splits)

lemmas atomic_rpcs = atomic_answer atomic_creates atomic_deletes atomic_updates atomic_configs
  atomic_lro atomic_pure [OF pure_gets(1)]
  atomic_pure [OF pure_gets(2)] atomic_pure [OF pure_gets(3)] atomic_pure [OF pure_gets(4)]
  atomic_pure [OF pure_gets(5)] atomic_pure [OF pure_gets(6)] atomic_pure [OF pure_gets(7)]
  atomic_pure [OF pure_gets(8)]
  atomic_pure [OF pure_lists(1)] atomic_pure [OF pure_lists(2)] atomic_pure [OF pure_lists(3)]
  atomic_pure [OF pure_lists(4)] atomic_pure [OF pure_lists(5)] atomic_pure [OF pure_lists(6)]
  atomic_pure [OF pure_lists(7)] atomic_pure [OF pure_lists(8)] atomic_pure [OF pure_lists(9)]

text \<open>The one request whose failure may leave a trace.\<close>

fun partial_write :: "Request \<Rightarrow> bool" where
  "partial_write (EnrollmentRPC (UpdateRPC q)) = touches_message_bus (uq_UpdateMask q)"
| "partial_write q = False"

lemma handleTrigger_atomic: "lro_works e \<Longrightarrow> atomic (handleTrigger e q)"
  by (cases q) (simp_all add: atomic_rpcs)

lemma handleChannel_atomic: "lro_works e \<Longrightarrow> atomic (handleChannel e q)"
  by (cases q) (simp_all add: atomic_rpcs)

lemma handleMessageBus_atomic: "lro_works e \<Longrightarrow> atomic (handleMessageBus e q)"
  by (cases q) (simp_all add: atomic_rpcs)

lemma handleEnrollment_atomic: "\<not> partial_write (EnrollmentRPC q) \<Longrightarrow> lro_works e \<Longrightarrow> atomic (handleEnrollment e q)"
  by (cases q) (simp_all add: atomic_rpcs)

lemma handlePipeline_atomic: "lro_works e \<Longrightarrow> atomic (handlePipeline e q)"
  by (cases q) (simp_all add: atomic_rpcs)

lemma handleGoogleApiSource_atomic: "lro_works e \<Longrightarrow> atomic (handleGoogleApiSource e q)"
  by (cases q) (simp_all add: atomic_rpcs)

lemma handle_atomic: "lro_works e \<Longrightarrow> \<not> partial_write q \<Longrightarrow> atomic (handle e q)"
  by (cases q) (simp_all add: atomic_rpcs handleTrigger_atomic handleChannel_atomic handleMessageBus_atomic handleEnrollment_atomic handlePipeline_atomic handleGoogleApiSource_atomic)

section \<open>Dry runs\<close>

fun validates :: "'r rpc \<Rightarrow> bool" where
  "validates (CreateRPC q) = cq_ValidateOnly q"
| "validates (UpdateRPC q) = uq_ValidateOnly q"
| "validates (DeleteRPC q) = dq_ValidateOnly q"
| "validates q = False"

fun validate_only :: "Request \<Rightarrow> bool" where
  "validate_only (TriggerRPC q) = validates q"
| "validate_only (ChannelRPC q) = validates q"
| "validate_only (MessageBusRPC q) = validates q"
| "validate_only (EnrollmentRPC q) = validates q"
| "validate_only (PipelineRPC q) = validates q"
| "validate_only (GoogleApiSourceRPC q) = validates q"
| "validate_only q = False"

lemma handleTrigger_dry: "validates q \<Longrightarrow> safe (\<lambda>s. storage s = st) (handleTrigger e q)"
  by (cases q) (auto intro!: safe_rules simp: CreateTrigger_rpc_def UpdateTrigger_rpc_def
      DeleteTrigger_rpc_def tables_no_panic Let_def triggerViolations_Nil split: list.split)

lemma handleChannel_dry: "validates q \<Longrightarrow> safe (\<lambda>s. storage s = st) (handleChannel e q)"
  by (cases q) (auto intro!: safe_rules simp: CreateChannel_rpc_def UpdateChannel_rpc_def
      DeleteChannel_rpc_def tables_no_panic Let_def)

lemma handleMessageBus_dry: "validates q \<Longrightarrow> safe (\<lambda>s. storage s = st) (handleMessageBus e q)"
  by (cases q) (auto intro!: safe_rules simp: CreateMessageBus_rpc_def UpdateMessageBus_rpc_def
      DeleteMessageBus_rpc_def tables_no_panic Let_def)

lemma handleEnrollment_dry: "validates q \<Longrightarrow> safe (\<lambda>s. storage s = st) (handleEnrollment e q)"
  by (cases q) (auto intro!: safe_rules simp: CreateEnrollment_rpc_def UpdateEnrollment_rpc_def
      DeleteEnrollment_rpc_def tables_no_panic Let_def)

lemma handlePipeline_dry: "validates q \<Longrightarrow> safe (\<lambda>s. storage s = st) (handlePipeline e q)"
  by (cases q) (auto intro!: safe_rules simp: CreatePipeline_rpc_def UpdatePipeline_rpc_def
      DeletePipeline_rpc_def tables_no_panic Let_def)

lemma handleGoogleApiSource_dry: "validates q \<Longrightarrow> safe (\<lambda>s. storage s = st) (handleGoogleApiSource e q)"
  by (cases q) (auto intro!: safe_rules simp: CreateGoogleApiSource_rpc_def UpdateGoogleApiSource_rpc_def
      DeleteGoogleApiSource_rpc_def tables_no_panic Let_def)

lemma handle_dry: "validate_only q \<Longrightarrow> storage (snd (handle e q s)) = storage s"
  by (cases q) (simp_all add: handleTrigger_dry [THEN safeD(1), OF _ refl]
    handleChannel_dry [THEN safeD(1), OF _ refl]
    handleMessageBus_dry [THEN safeD(1), OF _ refl]
    handleEnrollment_dry [THEN safeD(1), OF _ refl]
    handlePipeline_dry [THEN safeD(1), OF _ refl]
    handleGoogleApiSource_dry [THEN safeD(1), OF _ refl])

section \<open>Authorization\<close>

text \<open>The permission and the resource an RPC is authorized for, as the documentation lists them.\<close>

fun action :: "'r rpc \<Rightarrow> string" where
  "action (GetRPC q) = ''get''"
| "action (ListRPC q) = ''list''"
| "action (CreateRPC q) = ''create''"
| "action (UpdateRPC q) = ''update''"
| "action (DeleteRPC q) = ''delete''"

fun subject :: "('r \<Rightarrow> string) \<Rightarrow> 'r rpc \<Rightarrow> string" where
  "subject nm (GetRPC q) = gr_Name q"
| "subject nm (ListRPC q) = lr_Parent q"
| "subject nm (CreateRPC q) = cq_Parent q"
| "subject nm (UpdateRPC q) = nilsafe (uq_Resource q) nm"
| "subject nm (DeleteRPC q) = dq_Name q"

fun required :: "Request \<Rightarrow> (string \<times> string) option" where
  "required (TriggerRPC q) = Some (''eventarc.triggers.'' @ action q, subject tr_Name q)"
| "required (ChannelRPC q) = Some (''eventarc.channels.'' @ action q, subject ch_Name q)"
| "required (MessageBusRPC q) = Some (''eventarc.messageBuses.'' @ action q, subject mb_Name q)"
| "required (EnrollmentRPC q) = Some (''eventarc.enrollments.'' @ action q, subject en_Name q)"
| "required (PipelineRPC q) = Some (''eventarc.pipelines.'' @ action q, subject pl_Name q)"
| "required (GoogleApiSourceRPC q) = Some (''eventarc.googleApiSources.'' @ action q, subject gs_Name q)"
| "required (GetProviderRPC q1) = Some (''eventarc.providers.get'', gr_Name q1)"
| "required (ListProvidersRPC q2) = Some (''eventarc.providers.list'', lr_Parent q2)"
| "required (GetChannelConnectionRPC q1) = Some (''eventarc.channelConnections.get'', gr_Name q1)"
| "required (ListChannelConnectionsRPC q2) = Some (''eventarc.channelConnections.list'', lr_Parent q2)"
| "required (CreateChannelConnectionRPC q3) =
     Some (''eventarc.channelConnections.create'', cq_Parent q3)"
| "required (DeleteChannelConnectionRPC q4) =
     Some (''eventarc.channelConnections.delete'', dq_Name q4)"
| "required (GetGoogleChannelConfigRPC q1) = Some (''eventarc.googleChannelConfigs.get'', gr_Name q1)"
| "required (UpdateGoogleChannelConfigRPC q5) =
     Some (''eventarc.googleChannelConfigs.update'', nilsafe (uq_Resource q5) gc_Name)"
| "required (ListMessageBusEnrollmentsRPC q2) =
     Some (''eventarc.messageBuses.listEnrollments'', lr_Parent q2)"
| "required (GetOperationRPC q1) = None"
| "required (ListOperationsRPC q1) = None"
| "required (DeleteOperationRPC q1) = None"
| "required (CancelOperationRPC q1) = None"
| "required (WaitOperationRPC q1) = None"

text \<open>A part that fails on a state and leaves it.\<close>

definition fails :: "('s, 'a) op \<Rightarrow> 's \<Rightarrow> bool" where
  "fails m s \<longleftrightarrow> (\<exists>x. m s = (Err x, s))"

lemma fails_answer [intro!]: "fails m s \<Longrightarrow> fails (answer f m) s"
  by (auto simp: fails_def answer_def)

lemma fails_give [intro!]: "fails (give (Err x)) s"
  by (simp add: fails_def)

lemma fails_require [intro!]: "fails (f ()) s \<Longrightarrow> fails (seq (require v n) f) s"
  by (auto simp: fails_def seq_def require_apply)

lemma fails_validate [intro!]: "fails (f ()) s \<Longrightarrow> fails (seq (give (validateResourceID v n)) f) s"
  by (auto simp: fails_def validateResourceID_def)

lemma fails_authorize [intro!]:
  "perm operation = Ok p \<Longrightarrow> checkPermission e s p r = Err x \<Longrightarrow> fails (seq (authorize e operation r) f) s"
  by (auto simp: fails_def seq_def authorize_apply)

lemma handleTrigger_denied:
  "checkPermission e s (''eventarc.triggers.'' @ action q) (subject tr_Name q) = Err x \<Longrightarrow>
     fails (handleTrigger e q) s"
  by (cases q) (auto simp: GetTrigger_rpc_def ListTriggers_rpc_def CreateTrigger_rpc_def
      UpdateTrigger_rpc_def DeleteTrigger_rpc_def Let_def split: option.split list.split)

lemma handleChannel_denied:
  "checkPermission e s (''eventarc.channels.'' @ action q) (subject ch_Name q) = Err x \<Longrightarrow>
     fails (handleChannel e q) s"
  by (cases q) (auto simp: GetChannel_rpc_def ListChannels_rpc_def CreateChannel_rpc_def
      UpdateChannel_rpc_def DeleteChannel_rpc_def Let_def split: option.split list.split)

lemma handleMessageBus_denied:
  "checkPermission e s (''eventarc.messageBuses.'' @ action q) (subject mb_Name q) = Err x \<Longrightarrow>
     fails (handleMessageBus e q) s"
  by (cases q) (auto simp: GetMessageBus_rpc_def ListMessageBuses_rpc_def CreateMessageBus_rpc_def
      UpdateMessageBus_rpc_def DeleteMessageBus_rpc_def Let_def split: option.split list.split)

lemma handleEnrollment_denied:
  "checkPermission e s (''eventarc.enrollments.'' @ action q) (subject en_Name q) = Err x \<Longrightarrow>
     fails (handleEnrollment e q) s"
  by (cases q) (auto simp: GetEnrollment_rpc_def ListEnrollments_rpc_def CreateEnrollment_rpc_def
      UpdateEnrollment_rpc_def DeleteEnrollment_rpc_def Let_def split: option.split list.split)

lemma handlePipeline_denied:
  "checkPermission e s (''eventarc.pipelines.'' @ action q) (subject pl_Name q) = Err x \<Longrightarrow>
     fails (handlePipeline e q) s"
  by (cases q) (auto simp: GetPipeline_rpc_def ListPipelines_rpc_def CreatePipeline_rpc_def
      UpdatePipeline_rpc_def DeletePipeline_rpc_def Let_def split: option.split list.split)

lemma handleGoogleApiSource_denied:
  "checkPermission e s (''eventarc.googleApiSources.'' @ action q) (subject gs_Name q) = Err x \<Longrightarrow>
     fails (handleGoogleApiSource e q) s"
  by (cases q) (auto simp: GetGoogleApiSource_rpc_def ListGoogleApiSources_rpc_def CreateGoogleApiSource_rpc_def
      UpdateGoogleApiSource_rpc_def DeleteGoogleApiSource_rpc_def Let_def split: option.split list.split)

lemma handle_denied:
  assumes "required q = Some (p, r)" and "checkPermission e s p r = Err x"
  shows "fails (handle e q) s"
proof (cases q)
  case (TriggerRPC k)
  then show ?thesis using assms handleTrigger_denied [of e s k] by simp
next
  case (ChannelRPC k)
  then show ?thesis using assms handleChannel_denied [of e s k] by simp
next
  case (MessageBusRPC k)
  then show ?thesis using assms handleMessageBus_denied [of e s k] by simp
next
  case (EnrollmentRPC k)
  then show ?thesis using assms handleEnrollment_denied [of e s k] by simp
next
  case (PipelineRPC k)
  then show ?thesis using assms handlePipeline_denied [of e s k] by simp
next
  case (GoogleApiSourceRPC k)
  then show ?thesis using assms handleGoogleApiSource_denied [of e s k] by simp
qed (use assms in \<open>auto simp: GetProvider_rpc_def ListProviders_rpc_def GetChannelConnection_rpc_def ListChannelConnections_rpc_def CreateChannelConnection_rpc_def DeleteChannelConnection_rpc_def GetGoogleChannelConfig_rpc_def UpdateGoogleChannelConfig_rpc_def ListMessageBusEnrollments_rpc_def Let_def
    split: option.split\<close>)

section \<open>Operations handed out\<close>

text \<open>A finished operation that the store holds under its name.\<close>

definition stored_op :: "Operation \<Rightarrow> Server \<Rightarrow> bool" where
  "stored_op opn s \<longleftrightarrow> op_Done opn \<and> map_of (ops (lroStore s)) (op_Name opn) = Some opn"

lemma yields_done_op [yields_rules]: "yields stored_op (done_op e p r v t)"
proof -
  have "stored_op opn s'" if "done_op e p r v t s = (Ok opn, s')" for s opn s'
    using done_op_Ok(1,4) [OF that] by (simp add: stored_op_def map_simps)
  then show ?thesis by (simp add: yields_def)
qed

lemma yields_creates:
  "yields stored_op (CreateTrigger_rpc e qTrigger)"
  "yields stored_op (CreateChannel_rpc e qChannel)"
  "yields stored_op (CreateMessageBus_rpc e qMessageBus)"
  "yields stored_op (CreateEnrollment_rpc e qEnrollment)"
  "yields stored_op (CreatePipeline_rpc e qPipeline)"
  "yields stored_op (CreateGoogleApiSource_rpc e qGoogleApiSource)"
  "yields stored_op (CreateChannelConnection_rpc e qChannelConnection)"
  by (auto intro!: yields_rules simp: Let_def
      CreateTrigger_rpc_def CreateChannel_rpc_def CreateMessageBus_rpc_def CreateEnrollment_rpc_def CreatePipeline_rpc_def CreateGoogleApiSource_rpc_def CreateChannelConnection_rpc_def
      split: list.split)

lemma yields_updates:
  "yields stored_op (UpdateTrigger_rpc e qTrigger)"
  "yields stored_op (UpdateChannel_rpc e qChannel)"
  "yields stored_op (UpdateMessageBus_rpc e qMessageBus)"
  "yields stored_op (UpdateEnrollment_rpc e qEnrollment)"
  "yields stored_op (UpdatePipeline_rpc e qPipeline)"
  "yields stored_op (UpdateGoogleApiSource_rpc e qGoogleApiSource)"
  by (auto intro!: yields_rules simp: Let_def
      UpdateTrigger_rpc_def UpdateChannel_rpc_def UpdateMessageBus_rpc_def UpdateEnrollment_rpc_def UpdatePipeline_rpc_def UpdateGoogleApiSource_rpc_def)

lemma yields_deletes:
  "yields stored_op (DeleteTrigger_rpc e q)"
  "yields stored_op (DeleteChannel_rpc e q)"
  "yields stored_op (DeleteMessageBus_rpc e q)"
  "yields stored_op (DeleteEnrollment_rpc e q)"
  "yields stored_op (DeletePipeline_rpc e q)"
  "yields stored_op (DeleteGoogleApiSource_rpc e q)"
  "yields stored_op (DeleteChannelConnection_rpc e q)"
  by (auto intro!: yields_rules simp: Let_def
      DeleteTrigger_rpc_def DeleteChannel_rpc_def DeleteMessageBus_rpc_def DeleteEnrollment_rpc_def DeletePipeline_rpc_def DeleteGoogleApiSource_rpc_def DeleteChannelConnection_rpc_def)

lemmas yields_rpcs = yields_creates yields_updates yields_deletes

text \<open>\<open>resp_op\<close> says of a response that, if it is an operation, the store holds it.\<close>

definition resp_op :: "Response \<Rightarrow> Server \<Rightarrow> bool" where
  "resp_op r s \<longleftrightarrow> (\<forall>opn. r = OperationResp opn \<longrightarrow> stored_op opn s)"

lemma map_result_OkE:
  assumes "map_result f r = Ok b"
  obtains a where "r = Ok a" and "b = f a"
  using assms by (cases r) auto

lemma resp_op_answer: "yields stored_op m \<Longrightarrow> yields resp_op (answer OperationResp m)"
  by (auto simp: yields_def answer_def resp_op_def split: prod.splits elim!: map_result_OkE)

lemma resp_op_other:
  "(\<And>a opn. f a \<noteq> OperationResp opn) \<Longrightarrow> yields resp_op (answer f m)"
  by (auto simp: yields_def answer_def resp_op_def split: prod.splits elim!: map_result_OkE)

text \<open>The operations service hands out what the store holds; the invariant says it is done.\<close>

lemma GetOperation_stored_op:
  assumes "server_inv s" and "GetOperation q (lroStore s) = Ok opn"
  shows "stored_op opn s"
proof -
  let ?n = "TrimPrefix (gr_Name q) ''operations/''"
  have m: "map_of (ops (lroStore s)) ?n = Some opn"
    using assms(2) by (auto simp: GetOperation_def Let_def split: option.splits)
  have inv: "wf_table op_Name (ops (lroStore s))" "\<forall>(k, opn) \<in> set (ops (lroStore s)). op_Done opn"
    using assms(1) by (auto simp: server_inv_def store_inv_def)
  show ?thesis
    using m inv(2) map_of_SomeD [OF m] wf_table_name [OF inv(1) m]
    by (auto simp: stored_op_def)
qed

lemma handleTrigger_op: "yields resp_op (handleTrigger e q)"
  by (cases q) (auto simp: resp_op_answer yields_rpcs intro!: resp_op_other)

lemma handleChannel_op: "yields resp_op (handleChannel e q)"
  by (cases q) (auto simp: resp_op_answer yields_rpcs intro!: resp_op_other)

lemma handleMessageBus_op: "yields resp_op (handleMessageBus e q)"
  by (cases q) (auto simp: resp_op_answer yields_rpcs intro!: resp_op_other)

lemma handleEnrollment_op: "yields resp_op (handleEnrollment e q)"
  by (cases q) (auto simp: resp_op_answer yields_rpcs intro!: resp_op_other)

lemma handlePipeline_op: "yields resp_op (handlePipeline e q)"
  by (cases q) (auto simp: resp_op_answer yields_rpcs intro!: resp_op_other)

lemma handleGoogleApiSource_op: "yields resp_op (handleGoogleApiSource e q)"
  by (cases q) (auto simp: resp_op_answer yields_rpcs intro!: resp_op_other)

lemma handle_op:
  assumes "server_inv s" and "handle e q s = (Ok (OperationResp opn), s')"
  shows "stored_op opn s'"
proof -
  consider (get) k where "q = GetOperationRPC k" | (wait) k where "q = WaitOperationRPC k"
    | (other) "\<forall>k. q \<noteq> GetOperationRPC k \<and> q \<noteq> WaitOperationRPC k"
    by blast
  then show ?thesis
  proof cases
    case (get k)
    then show ?thesis
      using assms GetOperation_stored_op [OF assms(1), of k]
      by (auto simp: answer_def lro_query_def elim!: map_result_OkE)
  next
    case (wait k)
    then show ?thesis
      using assms GetOperation_stored_op [OF assms(1), of "\<lparr>gr_Name = gr_Name k\<rparr>"]
      by (auto simp: answer_def lro_query_def WaitOperation_def elim!: map_result_OkE)
  next
    case other
    then have "yields resp_op (handle e q)"
      by (cases q) (auto simp: resp_op_answer yields_rpcs intro!: resp_op_other
        handleTrigger_op handleChannel_op handleMessageBus_op handleEnrollment_op handlePipeline_op handleGoogleApiSource_op)
    then show ?thesis using assms(2) by (auto simp: yields_def resp_op_def)
  qed
qed

section \<open>Reachable states\<close>

text \<open>
  The states of a server: what \<open>NewServer\<close> gives, and what any sequence of calls makes of it, each
  call with its own environment.
\<close>

inductive reachable :: "Server \<Rightarrow> bool" where
  start: "NewServer ena conn mode = Ok s \<Longrightarrow> reachable s"
| call: "reachable s \<Longrightarrow> handle e q s = (r, s') \<Longrightarrow> reachable s'"

lemma reachable_inv: "reachable s \<Longrightarrow> server_inv s"
proof (induction rule: reachable.induct)
  case (call s e q r s')
  then show ?case using handle_keeps_inv [of s e q] by simp
qed (rule server_inv_NewServer)

section \<open>What never changes\<close>

text \<open>
  The providers are the seeded ones for good, and no channel connection ever stores an activation
  token: the token is input only.
\<close>

definition tokenless :: "Storage \<Rightarrow> bool" where
  "tokenless st \<longleftrightarrow> (\<forall>(n, c) \<in> set (channelConnections st). cc_ActivationToken c = [])"

definition frozen :: "Server \<Rightarrow> bool" where
  "frozen s \<longleftrightarrow> providers (storage s) = providers NewStorage \<and> tokenless (storage s)"

lemma frame_providers [simp]:
  "providers (snd (CreateTrigger e p i rTrigger st)) = providers st"
  "providers (snd (DeleteTrigger n st)) = providers st"
  "providers (snd (CreateChannel e p i rChannel st)) = providers st"
  "providers (snd (DeleteChannel n st)) = providers st"
  "providers (snd (CreateMessageBus e p i rMessageBus st)) = providers st"
  "providers (snd (DeleteMessageBus n st)) = providers st"
  "providers (snd (CreateEnrollment e p i rEnrollment st)) = providers st"
  "providers (snd (DeleteEnrollment n st)) = providers st"
  "providers (snd (CreatePipeline e p i rPipeline st)) = providers st"
  "providers (snd (DeletePipeline n st)) = providers st"
  "providers (snd (CreateGoogleApiSource e p i rGoogleApiSource st)) = providers st"
  "providers (snd (DeleteGoogleApiSource n st)) = providers st"
  "providers (snd (CreateChannelConnection e p i rChannelConnection st)) = providers st"
  "providers (snd (DeleteChannelConnection n st)) = providers st"
  "providers (snd (UpdateTrigger e rTrigger um st)) = providers st"
  "providers (snd (UpdateChannel e rChannel um st)) = providers st"
  "providers (snd (UpdateMessageBus e rMessageBus um st)) = providers st"
  "providers (snd (UpdateEnrollment e rEnrollment um st)) = providers st"
  "providers (snd (UpdatePipeline e rPipeline um st)) = providers st"
  "providers (snd (UpdateGoogleApiSource e rGoogleApiSource um st)) = providers st"
  "providers (snd (GetGoogleChannelConfig e n st)) = providers st"
  "providers (snd (UpdateGoogleChannelConfig e cfg um st)) = providers st"
  by (auto simp: trigger_ops channel_ops connection_ops bus_ops pipeline_ops source_ops enrollment_ops
      GetGoogleChannelConfig_def initGoogleChannelConfig_def UpdateGoogleChannelConfig_def Let_def
      split: option.split prod.split bool.split)

lemma frame_connections [simp]:
  "channelConnections (snd (CreateTrigger e p i rTrigger st)) = channelConnections st"
  "channelConnections (snd (DeleteTrigger n st)) = channelConnections st"
  "channelConnections (snd (CreateChannel e p i rChannel st)) = channelConnections st"
  "channelConnections (snd (DeleteChannel n st)) = channelConnections st"
  "channelConnections (snd (CreateMessageBus e p i rMessageBus st)) = channelConnections st"
  "channelConnections (snd (DeleteMessageBus n st)) = channelConnections st"
  "channelConnections (snd (CreateEnrollment e p i rEnrollment st)) = channelConnections st"
  "channelConnections (snd (DeleteEnrollment n st)) = channelConnections st"
  "channelConnections (snd (CreatePipeline e p i rPipeline st)) = channelConnections st"
  "channelConnections (snd (DeletePipeline n st)) = channelConnections st"
  "channelConnections (snd (CreateGoogleApiSource e p i rGoogleApiSource st)) = channelConnections st"
  "channelConnections (snd (DeleteGoogleApiSource n st)) = channelConnections st"
  "channelConnections (snd (UpdateTrigger e rTrigger um st)) = channelConnections st"
  "channelConnections (snd (UpdateChannel e rChannel um st)) = channelConnections st"
  "channelConnections (snd (UpdateMessageBus e rMessageBus um st)) = channelConnections st"
  "channelConnections (snd (UpdateEnrollment e rEnrollment um st)) = channelConnections st"
  "channelConnections (snd (UpdatePipeline e rPipeline um st)) = channelConnections st"
  "channelConnections (snd (UpdateGoogleApiSource e rGoogleApiSource um st)) = channelConnections st"
  "channelConnections (snd (GetGoogleChannelConfig e n st)) = channelConnections st"
  "channelConnections (snd (UpdateGoogleChannelConfig e cfg um st)) = channelConnections st"
  by (auto simp: trigger_ops channel_ops connection_ops bus_ops pipeline_ops source_ops enrollment_ops
      GetGoogleChannelConfig_def initGoogleChannelConfig_def UpdateGoogleChannelConfig_def Let_def
      split: option.split prod.split bool.split)

lemma tokenless_connections [simp]:
  "tokenless st \<Longrightarrow> tokenless (snd (CreateChannelConnection e p i r st))"
  "tokenless st \<Longrightarrow> tokenless (snd (DeleteChannelConnection n st))"
  unfolding tokenless_def
  by (auto simp: connection_ops Let_def split: option.splits dest!: set_update_sub set_delete_sub)

lemma tokenless_frame:
  "channelConnections st' = channelConnections st \<Longrightarrow> tokenless st' = tokenless st"
  by (simp add: tokenless_def)

lemma frozen_lro: "frozen s \<Longrightarrow> frozen (s\<lparr>lroStore := ls\<rparr>)"
  by (simp add: frozen_def)

lemma frozen_storage:
  "frozen s \<Longrightarrow> frozen (s\<lparr>storage := snd (CreateTrigger e p i rTrigger (storage s))\<rparr>)"
  "frozen s \<Longrightarrow> frozen (s\<lparr>storage := snd (DeleteTrigger n (storage s))\<rparr>)"
  "frozen s \<Longrightarrow> frozen (s\<lparr>storage := snd (CreateChannel e p i rChannel (storage s))\<rparr>)"
  "frozen s \<Longrightarrow> frozen (s\<lparr>storage := snd (DeleteChannel n (storage s))\<rparr>)"
  "frozen s \<Longrightarrow> frozen (s\<lparr>storage := snd (CreateMessageBus e p i rMessageBus (storage s))\<rparr>)"
  "frozen s \<Longrightarrow> frozen (s\<lparr>storage := snd (DeleteMessageBus n (storage s))\<rparr>)"
  "frozen s \<Longrightarrow> frozen (s\<lparr>storage := snd (CreateEnrollment e p i rEnrollment (storage s))\<rparr>)"
  "frozen s \<Longrightarrow> frozen (s\<lparr>storage := snd (DeleteEnrollment n (storage s))\<rparr>)"
  "frozen s \<Longrightarrow> frozen (s\<lparr>storage := snd (CreatePipeline e p i rPipeline (storage s))\<rparr>)"
  "frozen s \<Longrightarrow> frozen (s\<lparr>storage := snd (DeletePipeline n (storage s))\<rparr>)"
  "frozen s \<Longrightarrow> frozen (s\<lparr>storage := snd (CreateGoogleApiSource e p i rGoogleApiSource (storage s))\<rparr>)"
  "frozen s \<Longrightarrow> frozen (s\<lparr>storage := snd (DeleteGoogleApiSource n (storage s))\<rparr>)"
  "frozen s \<Longrightarrow> frozen (s\<lparr>storage := snd (CreateChannelConnection e p i rChannelConnection (storage s))\<rparr>)"
  "frozen s \<Longrightarrow> frozen (s\<lparr>storage := snd (DeleteChannelConnection n (storage s))\<rparr>)"
  "frozen s \<Longrightarrow> frozen (s\<lparr>storage := snd (UpdateTrigger e rTrigger um (storage s))\<rparr>)"
  "frozen s \<Longrightarrow> frozen (s\<lparr>storage := snd (UpdateChannel e rChannel um (storage s))\<rparr>)"
  "frozen s \<Longrightarrow> frozen (s\<lparr>storage := snd (UpdateMessageBus e rMessageBus um (storage s))\<rparr>)"
  "frozen s \<Longrightarrow> frozen (s\<lparr>storage := snd (UpdateEnrollment e rEnrollment um (storage s))\<rparr>)"
  "frozen s \<Longrightarrow> frozen (s\<lparr>storage := snd (UpdatePipeline e rPipeline um (storage s))\<rparr>)"
  "frozen s \<Longrightarrow> frozen (s\<lparr>storage := snd (UpdateGoogleApiSource e rGoogleApiSource um (storage s))\<rparr>)"
  "frozen s \<Longrightarrow> frozen (s\<lparr>storage := snd (GetGoogleChannelConfig e n (storage s))\<rparr>)"
  "frozen s \<Longrightarrow> frozen (s\<lparr>storage := snd (UpdateGoogleChannelConfig e cfg um (storage s))\<rparr>)"
  by (simp_all add: frozen_def, simp_all cong: tokenless_frame)

lemmas frozen_intros = safe_rules frozen_lro frozen_storage

lemma frozen_creates:
  "safe frozen (CreateTrigger_rpc e qTrigger)"
  "safe frozen (CreateChannel_rpc e qChannel)"
  "safe frozen (CreateMessageBus_rpc e qMessageBus)"
  "safe frozen (CreateEnrollment_rpc e qEnrollment)"
  "safe frozen (CreatePipeline_rpc e qPipeline)"
  "safe frozen (CreateGoogleApiSource_rpc e qGoogleApiSource)"
  "safe frozen (CreateChannelConnection_rpc e qChannelConnection)"
  by (auto intro!: frozen_intros simp: storage_no_panic Let_def triggerViolations_Nil
      CreateTrigger_rpc_def CreateChannel_rpc_def CreateMessageBus_rpc_def CreateEnrollment_rpc_def CreatePipeline_rpc_def CreateGoogleApiSource_rpc_def CreateChannelConnection_rpc_def
      split: list.split)

lemma frozen_updates:
  "safe frozen (UpdateTrigger_rpc e qTrigger)"
  "safe frozen (UpdateChannel_rpc e qChannel)"
  "safe frozen (UpdateMessageBus_rpc e qMessageBus)"
  "safe frozen (UpdateEnrollment_rpc e qEnrollment)"
  "safe frozen (UpdatePipeline_rpc e qPipeline)"
  "safe frozen (UpdateGoogleApiSource_rpc e qGoogleApiSource)"
  "safe frozen (UpdateGoogleChannelConfig_rpc e qGoogleChannelConfig)"
  by (auto intro!: frozen_intros simp: storage_no_panic Let_def 
      UpdateTrigger_rpc_def UpdateChannel_rpc_def UpdateMessageBus_rpc_def UpdateEnrollment_rpc_def UpdatePipeline_rpc_def UpdateGoogleApiSource_rpc_def UpdateGoogleChannelConfig_rpc_def)

lemma frozen_deletes:
  "safe frozen (DeleteTrigger_rpc e q)"
  "safe frozen (DeleteChannel_rpc e q)"
  "safe frozen (DeleteMessageBus_rpc e q)"
  "safe frozen (DeleteEnrollment_rpc e q)"
  "safe frozen (DeletePipeline_rpc e q)"
  "safe frozen (DeleteGoogleApiSource_rpc e q)"
  "safe frozen (DeleteChannelConnection_rpc e q)"
  by (auto intro!: frozen_intros simp: storage_no_panic Let_def 
      DeleteTrigger_rpc_def DeleteChannel_rpc_def DeleteMessageBus_rpc_def DeleteEnrollment_rpc_def DeletePipeline_rpc_def DeleteGoogleApiSource_rpc_def DeleteChannelConnection_rpc_def)

lemma frozen_configs: "safe frozen (GetGoogleChannelConfig_rpc e q)"
  by (auto intro!: frozen_intros simp: storage_no_panic GetGoogleChannelConfig_rpc_def)

lemmas keeps_frozen = frozen_creates [THEN safeD(1)] frozen_updates [THEN safeD(1)]
  frozen_deletes [THEN safeD(1)] frozen_configs [THEN safeD(1)]
  pure_gets [unfolded pure_def, rule_format] pure_lists [unfolded pure_def, rule_format]

lemma lro_frozen: "frozen s \<Longrightarrow> frozen (snd (lro_op f s))" "frozen s \<Longrightarrow> frozen (snd (lro_query g s))"
  by (simp_all add: lro_op_def lro_query_def frozen_def case_prod_unfold)

lemma handleTrigger_frozen: "frozen s \<Longrightarrow> frozen (snd (handleTrigger e q s))"
  by (cases q) (simp_all add: keeps_frozen)

lemma handleChannel_frozen: "frozen s \<Longrightarrow> frozen (snd (handleChannel e q s))"
  by (cases q) (simp_all add: keeps_frozen)

lemma handleMessageBus_frozen: "frozen s \<Longrightarrow> frozen (snd (handleMessageBus e q s))"
  by (cases q) (simp_all add: keeps_frozen)

lemma handleEnrollment_frozen: "frozen s \<Longrightarrow> frozen (snd (handleEnrollment e q s))"
  by (cases q) (simp_all add: keeps_frozen)

lemma handlePipeline_frozen: "frozen s \<Longrightarrow> frozen (snd (handlePipeline e q s))"
  by (cases q) (simp_all add: keeps_frozen)

lemma handleGoogleApiSource_frozen: "frozen s \<Longrightarrow> frozen (snd (handleGoogleApiSource e q s))"
  by (cases q) (simp_all add: keeps_frozen)

lemma handle_frozen: "frozen s \<Longrightarrow> frozen (snd (handle e q s))"
  by (cases q) (simp_all add: keeps_frozen lro_frozen
      handleTrigger_frozen handleChannel_frozen handleMessageBus_frozen handleEnrollment_frozen handlePipeline_frozen handleGoogleApiSource_frozen)

lemma reachable_frozen: "reachable s \<Longrightarrow> frozen s"
proof (induction rule: reachable.induct)
  case (start ena conn mode s)
  then show ?case
    by (auto simp: NewServer_def Let_def frozen_def tokenless_def NewStorage_def split: if_splits option.splits)
next
  case (call s e q r s')
  then show ?case using handle_frozen [of s e q] by simp
qed

end
