(* ===== verification/Logger.thy ===== *)
theory Logger
  imports GoStrings
begin

text \<open>
  internal/logger/logger.go: the levelled logger. A line that is printed is a message with its
  prefix; a logging call gives the lines it prints.
\<close>

datatype level = levelDebug | levelInfo | levelWarn | levelError

text \<open>The constants are numbered by \<open>iota\<close> and compared as ints.\<close>

fun iota :: "level \<Rightarrow> nat" where
  "iota levelDebug = 0"
| "iota levelInfo = 1"
| "iota levelWarn = 2"
| "iota levelError = 3"

lemma iota_inject [simp]: "iota a = iota b \<longleftrightarrow> a = b"
  by (cases a; cases b) simp_all

instantiation level :: linorder
begin

definition less_eq_level :: "level \<Rightarrow> level \<Rightarrow> bool" where
  "less_eq_level a b \<longleftrightarrow> iota a \<le> iota b"

definition less_level :: "level \<Rightarrow> level \<Rightarrow> bool" where
  "less_level a b \<longleftrightarrow> iota a < iota b"

instance
  by standard (auto simp: less_eq_level_def less_level_def)

end

record Logger =
  lvl :: level

definition New :: "string \<Rightarrow> Logger" where
  "New lvlStr =
     (let s = ToLower lvlStr
      in \<lparr>lvl = (if s = ''debug'' then levelDebug
                else if s = ''warn'' \<or> s = ''warning'' then levelWarn
                else if s = ''error'' then levelError
                else levelInfo)\<rparr>)"

definition IsDebug :: "Logger \<Rightarrow> bool" where
  "IsDebug l = (lvl l \<le> levelDebug)"

type_synonym log = "msg list"

definition Debug :: "Logger \<Rightarrow> msg \<Rightarrow> log" where
  "Debug l m = (if lvl l \<le> levelDebug then [Txt ''[DEBUG] '' # m] else [])"

definition Info :: "Logger \<Rightarrow> msg \<Rightarrow> log" where
  "Info l m = (if lvl l \<le> levelInfo then [Txt ''[INFO] '' # m] else [])"

definition Warn :: "Logger \<Rightarrow> msg \<Rightarrow> log" where
  "Warn l m = (if lvl l \<le> levelWarn then [Txt ''[WARN] '' # m] else [])"

definition Error :: "Logger \<Rightarrow> msg \<Rightarrow> log" where
  "Error l m = (if lvl l \<le> levelError then [Txt ''[ERROR] '' # m] else [])"

definition OrDefault :: "Logger option \<Rightarrow> Logger" where
  "OrDefault lgr = (case lgr of Some l \<Rightarrow> l | None \<Rightarrow> New ''info'')"

lemma level_bounds [simp]: "levelDebug \<le> l" "l \<le> levelError"
  by (cases l; simp add: less_eq_level_def)+

text \<open>Errors are never filtered, and only a debug logger prints debug lines.\<close>

lemma Error_prints [simp]: "Error l m = [Txt ''[ERROR] '' # m]"
  by (simp add: Error_def)

lemma IsDebug_iff: "IsDebug l \<longleftrightarrow> lvl l = levelDebug"
  by (cases "lvl l") (simp_all add: IsDebug_def less_eq_level_def)

lemma Debug_prints: "Debug l m \<noteq> [] \<longleftrightarrow> IsDebug l"
  by (simp add: Debug_def IsDebug_def)

lemma OrDefault_level: "OrDefault None = \<lparr>lvl = levelInfo\<rparr>"
  by (simp add: OrDefault_def New_def Let_def lower_char_def)

text \<open>A logger that prints at a level prints at every higher one.\<close>

lemma lower_level_prints_more:
  "Debug l m \<noteq> [] \<Longrightarrow> Info l m \<noteq> []" "Info l m \<noteq> [] \<Longrightarrow> Warn l m \<noteq> []"
  "Warn l m \<noteq> [] \<Longrightarrow> Error l m \<noteq> []"
  by (cases "lvl l"; simp add: Debug_def Info_def Warn_def less_eq_level_def)+

end
