(* ===== verification/Router.thy ===== *)
theory Router
  imports Storage Logger
begin

text \<open>
  internal/router/router.go: which triggers an event goes to. The CloudEvents SDK and cel-go are
  other modules; an event is what its getters return, and CEL is a parameter with the four calls
  the code makes.
\<close>

section \<open>Events\<close>

text \<open>
  The value of an extension: a string, or a value of another type with what the verbs \<open>%s\<close> and
  \<open>%v\<close> print for it.
\<close>

datatype ext_value = ExtString string | ExtOther (fmt_s: string) (fmt_v: string)

fun Sprintf_s :: "ext_value \<Rightarrow> string" where
  "Sprintf_s (ExtString s) = s"
| "Sprintf_s (ExtOther s v) = s"

fun Sprintf_v :: "ext_value \<Rightarrow> string" where
  "Sprintf_v (ExtString s) = s"
| "Sprintf_v (ExtOther s v) = v"

text \<open>
  \<open>ev_Time\<close> is the event's time in UTC as RFC 3339 with nanoseconds, unless it is zero;
  \<open>ev_DataEncoded\<close> is \<open>None\<close> for nil.
\<close>

record Event =
  ev_Type :: string
  ev_Source :: string
  ev_Subject :: string
  ev_ID :: string
  ev_SpecVersion :: string
  ev_DataContentType :: string
  ev_DataSchema :: string
  ev_Time :: "string option"
  ev_Extensions :: "ext_value gomap"
  ev_DataEncoded :: "string option"

text \<open>
  The case for \<open>exts == nil\<close> is that of an empty map: both give the empty string.
\<close>

definition attrValue :: "Event \<Rightarrow> string \<Rightarrow> string" where
  "attrValue event attr =
     (if attr = ''type'' then ev_Type event
      else if attr = ''source'' then ev_Source event
      else if attr = ''subject'' then ev_Subject event
      else if attr = ''id'' then ev_ID event
      else if attr = ''datacontenttype'' then ev_DataContentType event
      else (case map_of (ev_Extensions event) attr of
              None \<Rightarrow> []
            | Some v \<Rightarrow> Sprintf_s v))"

definition eventAttrsAsStrings :: "Event \<Rightarrow> string gomap" where
  "eventAttrsAsStrings event =
     fold (\<lambda>(k, v) m. AList.update k (Sprintf_s v) m) (ev_Extensions event)
       [(''type'', ev_Type event), (''source'', ev_Source event),
        (''subject'', ev_Subject event), (''id'', ev_ID event)]"

section \<open>Path patterns\<close>

fun matchSegs :: "string list \<Rightarrow> string list \<Rightarrow> bool" where
  "matchSegs [] vSegs = (vSegs = [])"
| "matchSegs (p # pSegs) vSegs =
     (if p = ''**'' then list_ex (\<lambda>i. matchSegs pSegs (drop i vSegs)) [0..<length vSegs + 1]
      else (case vSegs of
              [] \<Rightarrow> False
            | v # vs \<Rightarrow> (if p \<noteq> ''*'' \<and> p \<noteq> v then False else matchSegs pSegs vs)))"

definition matchPathPattern :: "string \<Rightarrow> string \<Rightarrow> bool" where
  "matchPathPattern pattern v = matchSegs (Split pattern (CHR ''/'')) (Split v (CHR ''/''))"

section \<open>Conditions\<close>

text \<open>
  The calls into cel-go: an environment over string variables, compilation, planning and
  evaluation, each with its error; the result is a Boolean or something else.
\<close>

datatype cel_value = CelBool bool | CelOther

record ('c, 'a, 'p) cel =
  cel_NewEnv :: "string list \<Rightarrow> string + 'c"
  cel_Compile :: "'c \<Rightarrow> string \<Rightarrow> string + 'a"
  cel_Program :: "'c \<Rightarrow> 'a \<Rightarrow> string + 'p"
  cel_Eval :: "'p \<Rightarrow> string gomap \<Rightarrow> string + cel_value"

definition condMsg :: "string \<Rightarrow> string \<Rightarrow> string \<Rightarrow> msg" where
  "condMsg what condition err = [Txt (''router: CEL '' @ what @ '' for condition ''), Quoted condition,
     Txt ('': '' @ err)]"

definition evalCELCondition ::
  "('c, 'a, 'p) cel \<Rightarrow> string \<Rightarrow> Event \<Rightarrow> Logger \<Rightarrow> bool \<times> log" where
  "evalCELCondition c condition event lgr =
     (let attrs = eventAttrsAsStrings event
      in case cel_NewEnv c (map fst attrs) of
           Inl err \<Rightarrow> (False, Warn lgr (condMsg ''env creation failed'' condition err))
         | Inr en \<Rightarrow>
       (case cel_Compile c en condition of
           Inl err \<Rightarrow> (False, Warn lgr (condMsg ''compile error'' condition err))
         | Inr ast \<Rightarrow>
       (case cel_Program c en ast of
           Inl err \<Rightarrow> (False, Warn lgr (condMsg ''program creation failed'' condition err))
         | Inr prg \<Rightarrow>
       (case cel_Eval c prg attrs of
           Inl err \<Rightarrow> (False, Warn lgr (condMsg ''eval error'' condition err))
         | Inr CelOther \<Rightarrow> (False, Warn lgr [Txt ''router: CEL condition '', Quoted condition,
             Txt '' did not return a bool''])
         | Inr (CelBool result) \<Rightarrow> (result, [])))))"

section \<open>Matching\<close>

definition conditionLabelKey :: string where
  "conditionLabelKey = ''eventarc-emulator/condition''"

definition filterMatches :: "Event \<Rightarrow> EventFilter \<Rightarrow> bool" where
  "filterMatches event f =
     (let eventVal = attrValue event (ef_Attribute f)
      in if ef_Operator f = ''match-path-pattern'' \<or> ef_Operator f = ''path_pattern''
         then matchPathPattern (ef_Value f) eventVal
         else eventVal = ef_Value f)"

definition triggerMatches ::
  "('c, 'a, 'p) cel \<Rightarrow> Trigger \<Rightarrow> Event \<Rightarrow> Logger \<Rightarrow> bool \<times> log" where
  "triggerMatches c trigger event lgr =
     (if \<not> list_all (filterMatches event) (tr_EventFilters trigger) then (False, [])
      else (let condition = (case map_of (tr_Labels trigger) conditionLabelKey of
                  None \<Rightarrow> [] | Some v \<Rightarrow> v)
            in if condition = [] then (True, [])
               else evalCELCondition c condition event lgr))"

text \<open>The loop of \<open>Match\<close>, with the lines that the conditions log.\<close>

fun matchLoop :: "('c, 'a, 'p) cel \<Rightarrow> Event \<Rightarrow> Logger \<Rightarrow> Trigger list \<Rightarrow> Trigger list \<times> log" where
  "matchLoop c event lgr [] = ([], [])"
| "matchLoop c event lgr (t # ts) =
     (let (b, l) = triggerMatches c t event lgr; (matched, ls) = matchLoop c event lgr ts
      in (if b then t # matched else matched, l @ ls))"

text \<open>
  \<open>StorageReader\<close> is the interface of the router to storage: its one method is the argument
  \<open>listAll\<close>.
\<close>

definition Match ::
  "('c, 'a, 'p) cel \<Rightarrow> Logger \<Rightarrow> (string \<Rightarrow> Trigger list result) \<Rightarrow> string \<Rightarrow> Event \<Rightarrow>
   Trigger list result \<times> log" where
  "Match c lgr listAll parent event =
     (case listAll parent of
        Err e \<Rightarrow> (Err e, [])
      | Panic p \<Rightarrow> (Panic p, [])
      | Ok ts \<Rightarrow>
          (let l0 = Debug lgr [Txt (''router: evaluating '' @ nat_digits (length ts) @
                 '' triggers for type='' @ ev_Type event)];
               (matched, l1) = matchLoop c event lgr ts;
               l2 = Debug lgr [Txt (''router: matched '' @ nat_digits (length matched) @ ''/'' @
                 nat_digits (length ts) @ '' triggers'')]
           in (Ok matched, l0 @ l1 @ l2)))"

section \<open>What a pattern means\<close>

text \<open>The documented meaning of the segments, as rules.\<close>

inductive segments :: "string list \<Rightarrow> string list \<Rightarrow> bool" where
  none: "segments [] []"
| many: "segments ps vs \<Longrightarrow> segments (''**'' # ps) (us @ vs)"
| single: "segments ps vs \<Longrightarrow> segments (''*'' # ps) (v # vs)"
| literal: "segments ps vs \<Longrightarrow> p \<noteq> ''**'' \<Longrightarrow> p \<noteq> ''*'' \<Longrightarrow> segments (p # ps) (p # vs)"

inductive_simps segments_Nil: "segments [] vs"
inductive_simps segments_Cons: "segments (p # ps) vs"

lemma matchSegs_segments: "matchSegs ps vs \<longleftrightarrow> segments ps vs"
proof (induction ps arbitrary: vs)
  case Nil
  then show ?case by (simp add: segments_Nil)
next
  case (Cons p ps)
  have split: "(\<exists>i \<le> length vs. segments ps (drop i vs)) \<longleftrightarrow> (\<exists>us ws. vs = us @ ws \<and> segments ps ws)"
    by (metis append_eq_conv_conj append_take_drop_id le_add1 length_append)
  show ?case
  proof (cases "p = ''**''")
    case True
    have "segments (''**'' # ps) vs \<longleftrightarrow> (\<exists>us ws. vs = us @ ws \<and> segments ps ws)"
      by (auto simp: segments_Cons)
    moreover have "list_ex (\<lambda>i. matchSegs ps (drop i vs)) [0..<length vs + 1] \<longleftrightarrow>
        (\<exists>i \<le> length vs. segments ps (drop i vs))"
      by (auto simp: list_ex_iff Cons.IH less_Suc_eq_le simp del: upt_Suc)
    ultimately show ?thesis using split True by simp
  next
    case False
    then show ?thesis by (cases vs) (auto simp: segments_Cons Cons.IH)
  qed
qed

text \<open>Without wildcards, a path pattern is an exact match.\<close>

definition plain :: "string \<Rightarrow> bool" where
  "plain pattern \<longleftrightarrow> (\<forall>seg \<in> set (Split pattern (CHR ''/'')). seg \<noteq> ''*'' \<and> seg \<noteq> ''**'')"

lemma matchSegs_plain: "\<forall>p \<in> set ps. p \<noteq> ''*'' \<and> p \<noteq> ''**'' \<Longrightarrow> matchSegs (ps @ qs) vs \<longleftrightarrow>
    (\<exists>ws. vs = ps @ ws \<and> matchSegs qs ws)"
  by (induction ps arbitrary: vs) (auto split: list.splits)

lemma Split_inject: "Split s c = Split t c \<longleftrightarrow> s = t"
  by (metis Join_Split)

lemma matchPathPattern_plain: "plain pattern \<Longrightarrow> matchPathPattern pattern v \<longleftrightarrow> v = pattern"
  using matchSegs_plain [of "Split pattern (CHR ''/'')" "[]"]
  by (auto simp: matchPathPattern_def plain_def Split_inject)

lemma Join_append: "xs \<noteq> [] \<Longrightarrow> ys \<noteq> [] \<Longrightarrow> Join (xs @ ys) c = Join xs c @ c # Join ys c"
proof (induction xs)
  case (Cons x xs)
  then show ?case by (cases xs; cases ys) auto
qed simp

lemma matchSegs_globstar: "matchSegs [''**''] vs"
  by (auto simp: list_ex_iff intro: bexI [of _ "length vs"])

text \<open>A trailing \<open>**\<close> takes the path itself and everything below it.\<close>

lemma matchPathPattern_below:
  assumes "plain p"
  shows "matchPathPattern (p @ ''/**'') v \<longleftrightarrow> v = p \<or> HasPrefix v (p @ ''/'')"
proof -
  have "matchPathPattern (p @ ''/**'') v \<longleftrightarrow> (\<exists>ws. Split v (CHR ''/'') = Split p (CHR ''/'') @ ws)"
    using assms matchSegs_plain [of "Split p (CHR ''/'')" "[''**'']"] matchSegs_globstar
    by (simp add: matchPathPattern_def plain_def Split_append_sep del: matchSegs.simps)
  also have "\<dots> \<longleftrightarrow> v = p \<or> HasPrefix v (p @ ''/'')"
  proof
    assume "\<exists>ws. Split v (CHR ''/'') = Split p (CHR ''/'') @ ws"
    then obtain ws where ws: "Split v (CHR ''/'') = Split p (CHR ''/'') @ ws" by blast
    show "v = p \<or> HasPrefix v (p @ ''/'')"
    proof (cases "ws = []")
      case True
      then show ?thesis using ws by (simp add: Split_inject)
    next
      case False
      then have "v = p @ ''/'' @ Join ws (CHR ''/'')"
        using Join_Split [of v "CHR ''/''"] by (simp add: ws Join_append)
      then show ?thesis by (auto simp: HasPrefix_iff)
    qed
  next
    assume "v = p \<or> HasPrefix v (p @ ''/'')"
    then show "\<exists>ws. Split v (CHR ''/'') = Split p (CHR ''/'') @ ws"
      by (auto simp: HasPrefix_iff Split_append_sep)
  qed
  finally show ?thesis .
qed

section \<open>What Match returns\<close>

text \<open>Whether a trigger takes an event, apart from what is logged.\<close>

definition takes :: "('c, 'a, 'p) cel \<Rightarrow> Event \<Rightarrow> Trigger \<Rightarrow> bool" where
  "takes c event t = fst (triggerMatches c t event (New ''error''))"

lemma evalCEL_logger: "fst (evalCELCondition c cond event l) = fst (evalCELCondition c cond event l')"
  by (simp add: evalCELCondition_def Let_def split: sum.split cel_value.split)

lemma triggerMatches_takes: "fst (triggerMatches c t event l) = takes c event t"
  by (simp add: takes_def triggerMatches_def Let_def evalCEL_logger [of c _ event l "New ''error''"])

lemma takes_iff:
  "takes c event t \<longleftrightarrow> (\<forall>f \<in> set (tr_EventFilters t). filterMatches event f) \<and>
     (\<forall>cond. map_of (tr_Labels t) conditionLabelKey = Some cond \<and> cond \<noteq> [] \<longrightarrow>
       fst (evalCELCondition c cond event lgr))"
proof (cases "list_all (filterMatches event) (tr_EventFilters t)")
  case True
  then show ?thesis
    unfolding triggerMatches_takes [of c t event lgr, symmetric] triggerMatches_def
    by (cases "map_of (tr_Labels t) conditionLabelKey") (simp_all add: list_all_iff)
next
  case False
  then show ?thesis
    unfolding triggerMatches_takes [of c t event lgr, symmetric] triggerMatches_def
    by (auto simp: list_all_iff)
qed

lemma matchLoop_filter: "fst (matchLoop c event l ts) = filter (takes c event) ts"
  by (induction ts) (auto simp: Let_def case_prod_unfold triggerMatches_takes)

text \<open>What the router needs of storage, the interface \<open>StorageReader\<close>: all triggers of a parent.\<close>

locale storage_reader =
  fixes tab :: "'s \<Rightarrow> Trigger gomap" and listAll :: "env \<Rightarrow> string \<Rightarrow> 's \<Rightarrow> Trigger list result"
  assumes listAll_law: "wf_table tr_Name (tab s) \<Longrightarrow> iter_order (e_order e) \<Longrightarrow>
      \<exists>ts. listAll e p s = Ok ts \<and> mset ts = mset (children tr_Name (p @ ''/triggers/'') (tab s))"
begin

lemma Match_exact:
  assumes "wf_table tr_Name (tab s)" and "iter_order (e_order e)"
  shows "\<exists>ts l. Match c lgr (\<lambda>p. listAll e p s) p event = (Ok ts, l) \<and>
    mset ts = filter_mset (takes c event) (mset (children tr_Name (p @ ''/triggers/'') (tab s)))"
proof -
  obtain ts where ts: "listAll e p s = Ok ts"
    "mset ts = mset (children tr_Name (p @ ''/triggers/'') (tab s))"
    using listAll_law [OF assms] by blast
  show ?thesis
    using ts matchLoop_filter [of c event lgr ts]
    by (auto simp: Match_def Let_def case_prod_unfold)
qed

end

interpretation rtr: storage_reader triggers ListAllTriggers
  by unfold_locales (simp add: ListAllTriggers_def Let_def mset_collect)

end
