(* ===== verification/Dispatcher.thy ===== *)
theory Dispatcher
  imports Router
begin

text \<open>
  internal/dispatcher/http.go: an event becomes an HTTP request to a trigger's destination. The
  HTTP client is a parameter; what is sent is recorded.
\<close>

section \<open>Headers\<close>

text \<open>
  \<open>http.Header.Set\<close> writes under the canonical form of the key: each part between hyphens starts
  with a capital and goes on in lower case. A key with a byte that header names do not admit is
  left as it is.
\<close>

definition is_upper_ascii :: "char \<Rightarrow> bool" where
  "is_upper_ascii c = (let n = of_char c :: nat in 65 \<le> n \<and> n \<le> 90)"

definition is_lower_ascii :: "char \<Rightarrow> bool" where
  "is_lower_ascii c = (let n = of_char c :: nat in 97 \<le> n \<and> n \<le> 122)"

definition validHeaderFieldByte :: "char \<Rightarrow> bool" where
  "validHeaderFieldByte c = (let n = of_char c :: nat in
     is_upper_ascii c \<or> is_lower_ascii c \<or> (48 \<le> n \<and> n \<le> 57) \<or>
     n \<in> {33, 35, 36, 37, 38, 39, 42, 43, 45, 46, 94, 95, 96, 124, 126})"

fun capitalize :: "bool \<Rightarrow> string \<Rightarrow> string" where
  "capitalize upper [] = []"
| "capitalize upper (c # s) =
     (let d = (if upper \<and> is_lower_ascii c then char_of (of_char c - 32 :: nat)
               else if \<not> upper \<and> is_upper_ascii c then char_of (of_char c + 32 :: nat)
               else c)
      in d # capitalize (d = CHR ''-'') s)"

definition CanonicalHeaderKey :: "string \<Rightarrow> string" where
  "CanonicalHeaderKey s = (if list_all validHeaderFieldByte s then capitalize True s else s)"

definition Set_header :: "string \<Rightarrow> string \<Rightarrow> string gomap \<Rightarrow> string gomap" where
  "Set_header k v h = AList.update (CanonicalHeaderKey k) v h"

section \<open>The request\<close>

record HttpRequest =
  rq_URL :: string
  rq_Header :: "string gomap"
  rq_Body :: string

text \<open>
  What the dispatcher uses of its surroundings: the environment variables, the error
  \<open>http.NewRequestWithContext\<close> has for a URL, and the answer of \<open>client.Do\<close>, an error or a status.
\<close>

record http_lib =
  h_Getenv :: "string \<Rightarrow> string"
  h_NewRequest :: "string \<Rightarrow> string option"
  h_Do :: "HttpRequest \<Rightarrow> string + int"

definition binaryModeDataContentType :: string where
  "binaryModeDataContentType = ''application/json''"

definition defaultCloudRunBaseURL :: string where
  "defaultCloudRunBaseURL = ''http://localhost''"

definition destinationURL :: "http_lib \<Rightarrow> Trigger \<Rightarrow> string result" where
  "destinationURL h trigger =
     (case tr_Destination trigger of
        None \<Rightarrow> Err (GoError [Txt ''dispatcher: trigger has no destination''])
      | Some (HttpEndpoint uri) \<Rightarrow> Ok uri
      | Some (CloudRun service path region) \<Rightarrow>
          (let base0 = h_Getenv h ''EVENTARC_CLOUDRUN_BASE_URL'';
               base = (if base0 = [] then defaultCloudRunBaseURL else base0);
               path1 = (if path = [] then ''/'' else path)
           in Ok (base @ path1))
      | Some other \<Rightarrow> Err (GoError [Txt ''dispatcher: unsupported destination type'']))"

text \<open>\<open>%d\<close> of an int.\<close>

definition int_string :: "int \<Rightarrow> string" where
  "int_string i = (if i < 0 then CHR ''-'' # nat_digits (nat (- i)) else nat_digits (nat i))"

text \<open>The headers, in the order the code sets them; the extensions come in the order of the range.\<close>

definition eventHeaders :: "http_lib \<Rightarrow> order \<Rightarrow> Event \<Rightarrow> string gomap" where
  "eventHeaders h ord event =
     (let ct = (if ev_DataContentType event = [] then binaryModeDataContentType
                else ev_DataContentType event);
          h1 = Set_header ''Content-Type'' ct [];
          h2 = Set_header ''Ce-Specversion'' (ev_SpecVersion event) h1;
          h3 = Set_header ''Ce-Type'' (ev_Type event) h2;
          h4 = Set_header ''Ce-Source'' (ev_Source event) h3;
          h5 = Set_header ''Ce-Id'' (ev_ID event) h4;
          h6 = (if ev_Subject event \<noteq> [] then Set_header ''Ce-Subject'' (ev_Subject event) h5 else h5);
          h7 = (case ev_Time event of Some t \<Rightarrow> Set_header ''Ce-Time'' t h6 | None \<Rightarrow> h6);
          h8 = (if ev_DataSchema event \<noteq> [] then Set_header ''Ce-Dataschema'' (ev_DataSchema event) h7
                else h7);
          h9 = fold (\<lambda>(k, v) m. Set_header (''Ce-'' @ k) (Sprintf_v v) m)
                 (range_map ord (ev_Extensions event)) h8;
          token = h_Getenv h ''EVENTARC_EMULATOR_TOKEN''
      in if token \<noteq> [] then Set_header ''Authorization'' (''Bearer '' @ token) h9 else h9)"

text \<open>\<open>Dispatch\<close> gives the status or the error, the requests sent (at most one), and the log.\<close>

definition Dispatch ::
  "http_lib \<Rightarrow> order \<Rightarrow> Logger \<Rightarrow> Trigger \<Rightarrow> Event \<Rightarrow> int result \<times> HttpRequest list \<times> log" where
  "Dispatch h ord lgr trigger event =
     (case destinationURL h trigger of
        Err e \<Rightarrow> (Err e, [], [])
      | Panic p \<Rightarrow> (Panic p, [], [])
      | Ok url \<Rightarrow>
          (let l1 = Debug lgr [Txt (''dispatch: POST '' @ url @ '' event_id='' @ ev_ID event @
                 '' type='' @ ev_Type event)];
               body = (case ev_DataEncoded event of None \<Rightarrow> [] | Some b \<Rightarrow> b)
           in case h_NewRequest h url of
                Some m \<Rightarrow> (Err (GoError [Txt (''dispatcher: build request: '' @ m)]), [], l1)
              | None \<Rightarrow>
                  (let req = \<lparr>rq_URL = url, rq_Header = eventHeaders h ord event, rq_Body = body\<rparr>
                   in case h_Do h req of
                        Inl m \<Rightarrow> (Err (GoError [Txt (''dispatcher: send request: '' @ m)]), [req],
                          l1 @ Error lgr [Txt (''dispatch: send failed url='' @ url @ '' err='' @ m)])
                      | Inr status \<Rightarrow> (Ok status, [req],
                          l1 @ Info lgr [Txt (''dispatching event to '' @ url @ '' status='' @
                                 int_string status)]
                             @ Debug lgr [Txt (''dispatch: response status='' @ int_string status @
                                 '' url='' @ url)]))))"

section \<open>What is sent\<close>

lemma Set_header_get [map_simps]:
  "map_of (Set_header k v h) k' = (if CanonicalHeaderKey k = k' then Some v else map_of h k')"
  by (simp add: Set_header_def AList.update_conv')

text \<open>The names the code writes are canonical already.\<close>

lemma canonical_names [simp]:
  "CanonicalHeaderKey ''Content-Type'' = ''Content-Type''"
  "CanonicalHeaderKey ''Ce-Specversion'' = ''Ce-Specversion''"
  "CanonicalHeaderKey ''Ce-Type'' = ''Ce-Type''"
  "CanonicalHeaderKey ''Ce-Source'' = ''Ce-Source''"
  "CanonicalHeaderKey ''Ce-Id'' = ''Ce-Id''"
  "CanonicalHeaderKey ''Ce-Subject'' = ''Ce-Subject''"
  "CanonicalHeaderKey ''Ce-Time'' = ''Ce-Time''"
  "CanonicalHeaderKey ''Ce-Dataschema'' = ''Ce-Dataschema''"
  "CanonicalHeaderKey ''Authorization'' = ''Authorization''"
  by code_simp+

definition extHeader :: "string \<Rightarrow> string" where
  "extHeader k = CanonicalHeaderKey (''Ce-'' @ k)"

text \<open>
  Extension names that no standard attribute uses and that stay apart as header names, which the
  CloudEvents rules for attribute names (lower-case letters and digits) guarantee.
\<close>

definition clean_extensions :: "Event \<Rightarrow> bool" where
  "clean_extensions event \<longleftrightarrow> distinct (map (extHeader \<circ> fst) (ev_Extensions event)) \<and>
     (\<forall>k \<in> set (map fst (ev_Extensions event)). extHeader k \<notin> {''Content-Type'', ''Ce-Specversion'',
       ''Ce-Type'', ''Ce-Source'', ''Ce-Id'', ''Ce-Subject'', ''Ce-Time'', ''Ce-Dataschema'',
       ''Authorization''})"

lemma fold_Set_header_other:
  "name \<notin> extHeader ` fst ` set xs \<Longrightarrow>
     map_of (fold (\<lambda>(k, v) m. Set_header (''Ce-'' @ k) (Sprintf_v v) m) xs m) name = map_of m name"
  by (induction xs arbitrary: m) (auto simp: map_simps extHeader_def)

lemma fold_Set_header_mem:
  assumes "(k, v) \<in> set xs" and "distinct (map (extHeader \<circ> fst) xs)"
  shows "map_of (fold (\<lambda>(k, v) m. Set_header (''Ce-'' @ k) (Sprintf_v v) m) xs m) (extHeader k) =
    Some (Sprintf_v v)"
  using assms
proof (induction xs arbitrary: m)
  case (Cons x xs)
  show ?case
  proof (cases "x = (k, v)")
    case True
    then have "extHeader k \<notin> extHeader ` fst ` set xs"
      using Cons.prems(2) by (auto simp: image_image)
    then show ?thesis
      using True fold_Set_header_other [of "extHeader k" xs] by (simp add: map_simps extHeader_def)
  next
    case False
    then show ?thesis using Cons by auto
  qed
qed simp

lemma fold_Set_header_range:
  assumes "distinct (map fst exts)" and "distinct (map (extHeader \<circ> fst) exts)" and "iter_order ord"
  shows "map_of (fold (\<lambda>(k, v) m. Set_header (''Ce-'' @ k) (Sprintf_v v) m) (range_map ord exts) m) name =
    (case find (\<lambda>(k, v). extHeader k = name) exts of
       Some (k, v) \<Rightarrow> Some (Sprintf_v v) | None \<Rightarrow> map_of m name)"
proof -
  have ms: "mset (range_map ord exts) = mset exts"
    using assms(1,3) by (rule mset_range_map)
  then have st: "set (range_map ord exts) = set exts" by (rule mset_eq_setD)
  have "distinct (map (extHeader \<circ> fst) (range_map ord exts))"
    using assms(2) ms by (metis mset_map mset_eq_imp_distinct_iff)
  note mem = fold_Set_header_mem [OF _ this]
  show ?thesis
  proof (cases "find (\<lambda>(k, v). extHeader k = name) exts")
    case None
    then have "name \<notin> extHeader ` fst ` set (range_map ord exts)"
      unfolding st by (auto simp: find_None_iff)
    then show ?thesis using None fold_Set_header_other by simp
  next
    case (Some kv)
    then obtain k v where kv: "kv = (k, v)" "(k, v) \<in> set exts" "extHeader k = name"
      by (cases kv) (force simp: find_Some_iff dest: nth_mem)
    then show ?thesis using Some mem [of k v] st by simp
  qed
qed

text \<open>The headers before the extensions, and the lookup in the whole map.\<close>

definition standardHeaders :: "Event \<Rightarrow> string gomap" where
  "standardHeaders ev =
     (let h5 = Set_header ''Ce-Id'' (ev_ID ev) (Set_header ''Ce-Source'' (ev_Source ev)
            (Set_header ''Ce-Type'' (ev_Type ev) (Set_header ''Ce-Specversion'' (ev_SpecVersion ev)
            (Set_header ''Content-Type'' (if ev_DataContentType ev = [] then binaryModeDataContentType
                else ev_DataContentType ev) []))));
          h6 = (if ev_Subject ev \<noteq> [] then Set_header ''Ce-Subject'' (ev_Subject ev) h5 else h5);
          h7 = (case ev_Time ev of Some t \<Rightarrow> Set_header ''Ce-Time'' t h6 | None \<Rightarrow> h6)
      in (if ev_DataSchema ev \<noteq> [] then Set_header ''Ce-Dataschema'' (ev_DataSchema ev) h7 else h7))"

lemma standardHeaders_get:
  "map_of (standardHeaders ev) ''Ce-Specversion'' = Some (ev_SpecVersion ev)"
  "map_of (standardHeaders ev) ''Ce-Type'' = Some (ev_Type ev)"
  "map_of (standardHeaders ev) ''Ce-Source'' = Some (ev_Source ev)"
  "map_of (standardHeaders ev) ''Ce-Id'' = Some (ev_ID ev)"
  "map_of (standardHeaders ev) ''Ce-Subject'' = (if ev_Subject ev = [] then None else Some (ev_Subject ev))"
  "map_of (standardHeaders ev) ''Ce-Time'' = ev_Time ev"
  "map_of (standardHeaders ev) ''Ce-Dataschema'' =
     (if ev_DataSchema ev = [] then None else Some (ev_DataSchema ev))"
  by (simp_all add: standardHeaders_def Let_def Set_header_get split: option.split)

lemma eventHeaders_get:
  assumes "distinct (map fst (ev_Extensions ev))" and "distinct (map (extHeader \<circ> fst) (ev_Extensions ev))"
    and "iter_order ord"
  shows "map_of (eventHeaders h ord ev) n =
    (if n = ''Authorization'' \<and> h_Getenv h ''EVENTARC_EMULATOR_TOKEN'' \<noteq> []
     then Some (''Bearer '' @ h_Getenv h ''EVENTARC_EMULATOR_TOKEN'')
     else (case find (\<lambda>(k, v). extHeader k = n) (ev_Extensions ev) of
             Some (k, v) \<Rightarrow> Some (Sprintf_v v) | None \<Rightarrow> map_of (standardHeaders ev) n))"
proof -
  let ?tok = "h_Getenv h ''EVENTARC_EMULATOR_TOKEN''"
  let ?all = "fold (\<lambda>(k, v) m. Set_header (''Ce-'' @ k) (Sprintf_v v) m)
    (range_map ord (ev_Extensions ev)) (standardHeaders ev)"
  have "eventHeaders h ord ev =
      (if ?tok \<noteq> [] then Set_header ''Authorization'' (''Bearer '' @ ?tok) ?all else ?all)"
    unfolding eventHeaders_def standardHeaders_def Let_def by (rule refl)
  then show ?thesis
    using fold_Set_header_range [OF assms, of "standardHeaders ev" n] by (simp add: Set_header_get)
qed

lemma Dispatch_sends:
  "destinationURL h t = Ok url \<Longrightarrow> h_NewRequest h url = None \<Longrightarrow>
     fst (snd (Dispatch h ord lgr t ev)) = [\<lparr>rq_URL = url, rq_Header = eventHeaders h ord ev,
       rq_Body = (case ev_DataEncoded ev of None \<Rightarrow> [] | Some b \<Rightarrow> b)\<rparr>]"
  by (simp add: Dispatch_def Let_def split: sum.split)

lemma Dispatch_silent:
  "\<not> (\<exists>url. destinationURL h t = Ok url \<and> h_NewRequest h url = None) \<Longrightarrow>
     fst (snd (Dispatch h ord lgr t ev)) = []"
  by (auto simp: Dispatch_def Let_def split: result.split option.split)

lemma Dispatch_no_panic: "\<not> is_panic (fst (Dispatch h ord lgr t ev))"
  by (auto simp: Dispatch_def destinationURL_def Let_def
      split: result.split option.split sum.split Destination.split)

end
