(* ===== verification/Publisher.thy ===== *)
theory Publisher
  imports Dispatcher StorageInv
begin

text \<open>
  internal/publisher/server.go: the Publishing service. It unpacks the events of a call, asks the
  router for the triggers of each and dispatches to every one of them. The router, the dispatcher
  and the channel check are interfaces in the code; here they are arguments.
\<close>

section \<open>The proto message\<close>

text \<open>
  The oneof of an attribute value. The text of a timestamp is left to the clock format of the time
  package.
\<close>

datatype AttrValue = CeBoolean bool | CeInteger "32 word" | CeString string | CeBytes string
  | CeUri string | CeUriRef string | CeTimestamp "timestamp option" | NoAttr

datatype EventData = BinaryData string | TextData string | ProtoData string | NoData

record ProtoEvent =
  pe_Id :: string
  pe_Source :: string
  pe_SpecVersion :: string
  pe_Type :: string
  pe_Attributes :: "AttrValue option gomap"
  pe_Data :: EventData

definition attrValueString :: "(timestamp \<Rightarrow> string) \<Rightarrow> AttrValue \<Rightarrow> string" where
  "attrValueString fmt v = (case v of
      CeString a \<Rightarrow> a
    | CeUri a \<Rightarrow> a
    | CeUriRef a \<Rightarrow> a
    | CeBoolean a \<Rightarrow> (if a then ''true'' else ''false'')
    | CeInteger a \<Rightarrow> int_string (sint a)
    | CeTimestamp a \<Rightarrow> (case a of Some t \<Rightarrow> fmt t | None \<Rightarrow> [])
    | CeBytes a \<Rightarrow> []
    | NoAttr \<Rightarrow> [])"

section \<open>Conversion\<close>

text \<open>
  The calls into the CloudEvents SDK: a new event and the setters, of which the one for data may
  fail; the time format; and the decoding of an \<open>Any\<close>.
\<close>

record sdk =
  sdk_NewEvent :: Event
  sdk_SetID :: "string \<Rightarrow> Event \<Rightarrow> Event"
  sdk_SetSource :: "string \<Rightarrow> Event \<Rightarrow> Event"
  sdk_SetType :: "string \<Rightarrow> Event \<Rightarrow> Event"
  sdk_SetSpecVersion :: "string \<Rightarrow> Event \<Rightarrow> Event"
  sdk_SetSubject :: "string \<Rightarrow> Event \<Rightarrow> Event"
  sdk_SetDataContentType :: "string \<Rightarrow> Event \<Rightarrow> Event"
  sdk_SetDataSchema :: "string \<Rightarrow> Event \<Rightarrow> Event"
  sdk_SetExtension :: "string \<Rightarrow> string \<Rightarrow> Event \<Rightarrow> Event"
  sdk_SetDataBytes :: "string \<Rightarrow> string \<Rightarrow> Event \<Rightarrow> string + Event"
  sdk_SetDataText :: "string \<Rightarrow> string \<Rightarrow> Event \<Rightarrow> string + Event"
  sdk_Format :: "timestamp \<Rightarrow> string"
  sdk_Unmarshal :: "encoded \<Rightarrow> string + ProtoEvent"

definition setAttribute :: "sdk \<Rightarrow> string \<times> AttrValue option \<Rightarrow> Event \<Rightarrow> Event" where
  "setAttribute lib kv e = (case kv of
      (k, None) \<Rightarrow> e
    | (k, Some v) \<Rightarrow>
        (let val = attrValueString (sdk_Format lib) v
         in if k = ''subject'' then sdk_SetSubject lib val e
            else if k = ''datacontenttype'' then sdk_SetDataContentType lib val e
            else if k = ''dataschema'' then sdk_SetDataSchema lib val e
            else sdk_SetExtension lib k val e))"

definition protoCloudEventToSDK :: "sdk \<Rightarrow> order \<Rightarrow> ProtoEvent \<Rightarrow> Event result" where
  "protoCloudEventToSDK lib ord p =
     (let e0 = sdk_NewEvent lib;
          e1 = sdk_SetType lib (pe_Type p) (sdk_SetSource lib (pe_Source p) (sdk_SetID lib (pe_Id p) e0));
          specVer = (if pe_SpecVersion p = [] then ''1.0'' else pe_SpecVersion p);
          e2 = sdk_SetSpecVersion lib specVer e1;
          e3 = fold (setAttribute lib) (range_map ord (pe_Attributes p)) e2
      in case pe_Data p of
           BinaryData d \<Rightarrow>
             (let ct0 = ev_DataContentType e3;
                  contentType = (if ct0 = [] then ''application/octet-stream'' else ct0)
              in case sdk_SetDataBytes lib contentType d e3 of
                   Inl m \<Rightarrow> Err (GoError [Txt (''set binary data: '' @ m)])
                 | Inr e \<Rightarrow> Ok e)
         | TextData d \<Rightarrow>
             (let ct0 = ev_DataContentType e3;
                  contentType = (if ct0 = [] then ''text/plain'' else ct0)
              in case sdk_SetDataText lib contentType d e3 of
                   Inl m \<Rightarrow> Err (GoError [Txt (''set text data: '' @ m)])
                 | Inr e \<Rightarrow> Ok e)
         | ProtoData d \<Rightarrow> Ok e3
         | NoData \<Rightarrow> Ok e3)"

definition unpackCloudEvent :: "sdk \<Rightarrow> order \<Rightarrow> encoded \<Rightarrow> Event result" where
  "unpackCloudEvent lib ord a = (case sdk_Unmarshal lib a of
      Inl m \<Rightarrow> Err (GoError [Txt (''unpack Any: '' @ m)])
    | Inr p \<Rightarrow> protoCloudEventToSDK lib ord p)"

section \<open>Match and dispatch\<close>

type_synonym matcher = "string \<Rightarrow> Event \<Rightarrow> Trigger list result \<times> log"
type_synonym sender = "Trigger \<Rightarrow> Event \<Rightarrow> int result \<times> HttpRequest list \<times> log"

text \<open>
  A run gives its result, the requests sent and the lines logged. Of two runs in sequence the second
  happens unless the first panics; the errors of the parts are logged where they occur.
\<close>

type_synonym run = "unit result \<times> HttpRequest list \<times> log"

fun followed_by :: "run \<Rightarrow> run \<Rightarrow> run" where
  "followed_by (Panic p, reqs, l) r' = (Panic p, reqs, l)"
| "followed_by (r, reqs, l) (r', reqs', l') = (r', reqs @ reqs', l @ l')"

fun dispatchLoop :: "sender \<Rightarrow> Logger \<Rightarrow> Event \<Rightarrow> Trigger list \<Rightarrow> run" where
  "dispatchLoop send lgr event [] = (Ok (), [], [])"
| "dispatchLoop send lgr event (t # ts) =
     (let l0 = Debug lgr [Txt (''publish: dispatch trigger='' @ tr_Name t)];
          (r, reqs, l1) = send t event;
          step = (case r of
                  Err e \<Rightarrow> (Ok (), reqs, l0 @ l1 @
                    Error lgr (Txt (''publisher: dispatch error (trigger='' @ tr_Name t @ ''): '') #
                      err_Error e))
                | Panic p \<Rightarrow> (Panic p, reqs, l0 @ l1)
                | Ok status \<Rightarrow> (Ok (), reqs, l0 @ l1 @
                    (if 400 \<le> status
                     then Warn lgr [Txt (''publisher: non-2xx dispatch status '' @ int_string status @
                       '' for trigger '' @ tr_Name t)]
                     else [])))
      in followed_by step (dispatchLoop send lgr event ts))"

definition matchAndDispatch :: "matcher \<Rightarrow> sender \<Rightarrow> Logger \<Rightarrow> string \<Rightarrow> Event \<Rightarrow> run" where
  "matchAndDispatch match send lgr parent event =
     (case match parent event of
        (Err e, l0) \<Rightarrow>
          (Ok (), [], l0 @ Error lgr (Txt (''publisher: router.Match error (parent='' @ parent @ ''): '') #
            err_Error e))
      | (Panic p, l0) \<Rightarrow> (Panic p, [], l0)
      | (Ok ts, l0) \<Rightarrow>
          (let l1 = Debug lgr [Txt (''publish: matched '' @ nat_digits (length ts) @
                 '' triggers channel='' @ parent)];
               l2 = (if 0 < length ts
                     then Info lgr [Txt (''publisher: '' @ nat_digits (length ts) @
                       '' trigger(s) matched for parent='' @ parent @ '' type='' @ ev_Type event)]
                     else [])
           in followed_by (Ok (), [], l0 @ l1 @ l2) (dispatchLoop send lgr event ts)))"

fun processAnySlice ::
  "sdk \<Rightarrow> order \<Rightarrow> matcher \<Rightarrow> sender \<Rightarrow> Logger \<Rightarrow> string \<Rightarrow> encoded option list \<Rightarrow> run"
where
  "processAnySlice lib ord match send lgr parent [] = (Ok (), [], [])"
| "processAnySlice lib ord match send lgr parent (None # as) =
     processAnySlice lib ord match send lgr parent as"
| "processAnySlice lib ord match send lgr parent (Some a # as) =
     followed_by
       (case unpackCloudEvent lib ord a of
          Err e \<Rightarrow> (Ok (), [], Error lgr ([Txt ''publisher: failed to unpack CloudEvent from Any: ''] @
            err_Error e @ [Txt '', skipping'']))
        | Panic p \<Rightarrow> (Panic p, [], [])
        | Ok event \<Rightarrow> matchAndDispatch match send lgr parent event)
       (processAnySlice lib ord match send lgr parent as)"

section \<open>The two RPCs\<close>

definition parentFromChannel :: "string \<Rightarrow> string" where
  "parentFromChannel channel = (case LastIndex channel ''/channels/'' of
      Some idx \<Rightarrow> take idx channel
    | None \<Rightarrow> channel)"

definition parentFromChannelConnection :: "string \<Rightarrow> string" where
  "parentFromChannelConnection cc = (case LastIndex cc ''/channelConnections/'' of
      Some idx \<Rightarrow> take idx cc
    | None \<Rightarrow> cc)"

record PublishRequest =
  pr_Channel :: string
  pr_Events :: "encoded option list"

definition PublishEvents ::
  "sdk \<Rightarrow> order \<Rightarrow> (string \<Rightarrow> bool result) \<Rightarrow> matcher \<Rightarrow> sender \<Rightarrow> Logger \<Rightarrow> PublishRequest \<Rightarrow> run" where
  "PublishEvents lib ord exists match send lgr req =
     (let proceed =
            (let l0 = (if length (pr_Events req) = 0
                       then Info lgr [Txt (''publisher: PublishEvents called with 0 events for channel='' @
                         pr_Channel req)]
                       else []);
                 parent = parentFromChannel (pr_Channel req)
             in followed_by (Ok (), [], l0)
                  (processAnySlice lib ord match send lgr parent (pr_Events req)))
      in if pr_Channel req = [] then proceed
         else (case exists (pr_Channel req) of
                 Err e \<Rightarrow> (Err (Status Internal (Txt ''channel lookup failed: '' # err_Error e) []), [], [])
               | Panic p \<Rightarrow> (Panic p, [], [])
               | Ok found \<Rightarrow>
                   (if \<not> found
                    then (Err (Status NotFound [Txt ''Channel '', Quoted (pr_Channel req),
                           Txt '' not found''] []), [], [])
                    else proceed)))"

definition PublishChannelConnectionEvents ::
  "sdk \<Rightarrow> order \<Rightarrow> matcher \<Rightarrow> sender \<Rightarrow> Logger \<Rightarrow> PublishRequest \<Rightarrow> run" where
  "PublishChannelConnectionEvents lib ord match send lgr req =
     (let parent = parentFromChannelConnection (pr_Channel req)
      in processAnySlice lib ord match send lgr parent (pr_Events req))"

section \<open>What is sent\<close>

text \<open>
  The dispatcher as the publisher uses it, the interface \<open>EventDispatcher\<close>: for a trigger and an
  event, a fixed list of requests, and no panic.
\<close>

locale event_dispatcher =
  fixes send :: sender and sends :: "Trigger \<Rightarrow> Event \<Rightarrow> HttpRequest list"
  assumes send_law: "fst (snd (send t ev)) = sends t ev"
    and send_no_panic: "\<not> is_panic (fst (send t ev))"
begin

lemma dispatchLoop_sends:
  "\<exists>l. dispatchLoop send lgr ev ts = (Ok (), concat (map (\<lambda>t. sends t ev) ts), l)"
proof (induction ts)
  case (Cons t ts)
  obtain r reqs l1 where s: "send t ev = (r, reqs, l1)" by (cases "send t ev")
  then have "reqs = sends t ev" "\<not> is_panic r"
    using send_law [of t ev] send_no_panic [of t ev] by auto
  then show ?case
    using Cons s by (cases r) auto
qed simp

text \<open>
  When the router answers, an event causes the requests of every trigger it is matched with, and
  nothing else; no failure stops it.
\<close>

lemma matchAndDispatch_sends:
  assumes "match parent ev = (Ok ts, l0)"
  shows "\<exists>l. matchAndDispatch match send lgr parent ev = (Ok (), concat (map (\<lambda>t. sends t ev) ts), l)"
  using dispatchLoop_sends [of lgr ev ts] assms by (auto simp: matchAndDispatch_def Let_def)

lemma processAnySlice_sends:
  assumes "\<And>ev. \<exists>ts l. match parent ev = (Ok ts, l)" and "\<And>a. \<not> is_panic (unpackCloudEvent lib ord a)"
  shows "\<exists>l. processAnySlice lib ord match send lgr parent as =
    (Ok (), concat (map (\<lambda>a. case a of None \<Rightarrow> [] | Some b \<Rightarrow> (case unpackCloudEvent lib ord b of
       Ok ev \<Rightarrow> (case fst (match parent ev) of Ok ts \<Rightarrow> concat (map (\<lambda>t. sends t ev) ts) | _ \<Rightarrow> [])
     | _ \<Rightarrow> [])) as), l)"
proof (induction as)
  case (Cons a as)
  show ?case
  proof (cases a)
    case None
    then show ?thesis using Cons by simp
  next
    case (Some b)
    show ?thesis
    proof (cases "unpackCloudEvent lib ord b")
      case (Ok ev)
      obtain ts l0 where m: "match parent ev = (Ok ts, l0)" using assms(1) by blast
      then show ?thesis
        using matchAndDispatch_sends [of match parent ev ts l0 lgr] Cons Some Ok by auto
    next
      case (Err e)
      then show ?thesis using Cons Some by auto
    next
      case (Panic p)
      then show ?thesis using assms(2) [of b] by simp
    qed
  qed
qed simp

end

lemma unpackCloudEvent_no_panic: "\<not> is_panic (unpackCloudEvent lib ord a)"
  by (simp add: unpackCloudEvent_def protoCloudEventToSDK_def Let_def
      split: sum.split EventData.split)

text \<open>The requests of the HTTP dispatcher: one to the destination, unless it has no usable URL.\<close>

definition posts :: "http_lib \<Rightarrow> order \<Rightarrow> Trigger \<Rightarrow> Event \<Rightarrow> HttpRequest list" where
  "posts h ord t ev = (case destinationURL h t of
      Ok url \<Rightarrow> (if h_NewRequest h url = None
                then [\<lparr>rq_URL = url, rq_Header = eventHeaders h ord ev,
                       rq_Body = (case ev_DataEncoded ev of None \<Rightarrow> [] | Some b \<Rightarrow> b)\<rparr>]
                else [])
    | _ \<Rightarrow> [])"

interpretation dsp: event_dispatcher "Dispatch h ord lgr" "posts h ord" for h ord lgr
proof
  show "fst (snd (Dispatch h ord lgr t ev)) = posts h ord t ev" for t ev
    by (auto simp: posts_def Dispatch_sends Dispatch_silent split: result.split)
qed (rule Dispatch_no_panic)

lemma parentFromChannel_join:
  assumes "CHR ''/'' \<notin> set c"
  shows "parentFromChannel (p @ ''/channels/'' @ c) = p"
proof -
  have "\<not> Contains (tl ''/channels/'' @ c) ''/channels/''"
  proof
    assume "Contains (tl ''/channels/'' @ c) ''/channels/''"
    then have "Contains (tl ''/channels/'') ''/channels/''"
      by (rule Contains_append_same_char [OF assms, rotated 2]) simp_all
    then show False by (simp add: HasPrefix_def)
  qed
  then have "LastIndex (p @ ''/channels/'' @ c) ''/channels/'' = Some (length p)"
    by (rule LastIndex_append) simp
  then show ?thesis by (simp add: parentFromChannel_def)
qed

end
