(* ===== verification/Gateway.thy ===== *)
theory Gateway
  imports Lro
begin

text \<open>
  internal/gateway/gateway.go: the two decisions the REST gateway makes itself, before and after
  the generated transcoding: where a GET on an operation's path goes, and which errors it rewrites.
\<close>

text \<open>
  \<open>ListOps parent\<close>: \<open>ListOperations\<close> is called with that name. \<open>ServeMux path\<close>: the request goes on
  to the generated handlers with that path.
\<close>

datatype Route = ListOps string | ServeMux string

definition projectScopedLRORewriter :: "string \<Rightarrow> string \<Rightarrow> Route" where
  "projectScopedLRORewriter meth urlPath =
     (if meth = ''GET'' \<and> HasPrefix urlPath ''/v1/''
      then (let path = drop (length ''/v1/'') urlPath
            in case LastIndex path ''/operations'' of
                 None \<Rightarrow> ServeMux urlPath
               | Some lastOp \<Rightarrow>
                   (if HasPrefix path ''projects/''
                    then (let suffix = drop (lastOp + length ''/operations'') path
                          in if suffix = [] \<or> suffix = ''/''
                             then ListOps (take lastOp path)
                             else ServeMux (''/v1/operations/'' @ path))
                    else ServeMux urlPath))
      else ServeMux urlPath)"

text \<open>
  The status and body written for an error that the JSON decoder has raised; \<open>None\<close> leaves it to
  the default handler.
\<close>

definition jsonErrorHandler :: "string \<Rightarrow> (int \<times> string) option" where
  "jsonErrorHandler m =
     (if HasPrefix m ''proto:'' \<or> Contains m ''invalid character'' \<or>
         Contains m ''unexpected end of JSON''
      then Some (400, ''{'' @ [CHR 0x22] @ ''code'' @ [CHR 0x22] @ '':3,'' @ [CHR 0x22] @ ''message'' @
        [CHR 0x22, CHR 0x3A, CHR 0x22] @ ''request body is not valid JSON'' @ [CHR 0x22] @ ''}'')
      else None)"

section \<open>Operation paths\<close>

text \<open>Neither a slash nor an \<open>o\<close> is a hexadecimal digit.\<close>

lemma hex_digit_not: "d < 16 \<Longrightarrow> hex_digit d \<notin> {CHR ''/'', CHR ''o''}"
proof -
  have "list_all (\<lambda>d. hex_digit d \<notin> {CHR ''/'', CHR ''o''}) [0..<16]" by code_simp
  then show "d < 16 \<Longrightarrow> hex_digit d \<notin> {CHR ''/'', CHR ''o''}" by (simp add: list_all_iff)
qed

lemma EncodeToString_not: "c \<in> {CHR ''/'', CHR ''o''} \<Longrightarrow> c \<notin> set (EncodeToString bs)"
proof -
  assume c: "c \<in> {CHR ''/'', CHR ''o''}"
  have "unat (b :: 8 word) div 16 < 16" for b
  proof -
    have "unat b < 2 ^ LENGTH(8)" by (rule unsigned_less)
    then show ?thesis by simp
  qed
  then have "c \<notin> {hex_digit (unat b div 16), hex_digit (unat b mod 16)}" for b :: "8 word"
    using c hex_digit_not [of "unat b div 16"] hex_digit_not [of "unat b mod 16"] by force
  then show ?thesis by (auto simp: EncodeToString_def)
qed

lemma LastIndex_operations:
  assumes "CHR ''/'' \<notin> set u" and "CHR ''o'' \<notin> set u"
  shows "LastIndex (p @ ''/operations'' @ CHR ''/'' # u) ''/operations'' = Some (length p)"
proof (rule LastIndex_append)
  show "\<not> Contains (tl ''/operations'' @ CHR ''/'' # u) ''/operations''"
  proof
    assume "Contains (tl ''/operations'' @ CHR ''/'' # u) ''/operations''"
    then have "HasPrefix (CHR ''/'' # u) ''/operations'' \<or> Contains u ''/operations''"
      by (simp add: HasPrefix_def)
    moreover have "\<not> Contains u ''/operations''"
      using assms(1) by (auto simp: Contains_iff)
    ultimately show False
      using assms(2) by (auto simp: HasPrefix_iff)
  qed
qed simp

text \<open>A GET on the name of an operation of a project is sent to the operations service.\<close>

lemma rewrite_operation:
  assumes "HasPrefix p ''projects/''" and "u \<noteq> []" "CHR ''/'' \<notin> set u" "CHR ''o'' \<notin> set u"
  shows "projectScopedLRORewriter ''GET'' (''/v1/'' @ p @ ''/operations/'' @ u) =
    ServeMux (''/v1/operations/'' @ p @ ''/operations/'' @ u)"
proof -
  have "HasPrefix (p @ ''/operations/'' @ u) ''projects/''"
    using assms(1) by (auto simp: HasPrefix_iff)
  moreover have "HasPrefix (''/v1/'' @ p @ ''/operations/'' @ u) ''/v1/''"
    by (rule HasPrefix_append)
  moreover have "LastIndex (p @ ''/operations/'' @ u) ''/operations'' = Some (length p)"
    using LastIndex_operations [OF assms(3,4), of p] by simp
  ultimately show ?thesis
    using assms(2) by (simp add: projectScopedLRORewriter_def)
qed

lemma rewrite_list:
  assumes "HasPrefix p ''projects/''"
  shows "projectScopedLRORewriter ''GET'' (''/v1/'' @ p @ ''/operations'') = ListOps p"
proof -
  have "HasPrefix (p @ ''/operations'') ''projects/''"
    using assms by (auto simp: HasPrefix_iff)
  moreover have "HasPrefix (''/v1/'' @ p @ ''/operations'') ''/v1/''"
    by (rule HasPrefix_append)
  moreover have "LastIndex (p @ ''/operations'') ''/operations'' = Some (length p)"
    using LastIndex_append [of "''/operations''" "[]" p] by (simp add: HasPrefix_def)
  ultimately show ?thesis by (simp add: projectScopedLRORewriter_def)
qed

text \<open>Any other method, and any path outside \<open>/v1/projects/\<close>, is passed on untouched.\<close>

lemma rewrite_other:
  "meth \<noteq> ''GET'' \<or> \<not> HasPrefix urlPath ''/v1/projects/'' \<Longrightarrow>
     projectScopedLRORewriter meth urlPath = ServeMux urlPath"
  by (auto simp: projectScopedLRORewriter_def HasPrefix_iff Let_def split: option.split)

end
