(* ===== verification/GoFlag.thy ===== *)
theory GoFlag
  imports Logger
begin

text \<open>
  Package flag of the standard library, as far as the programs use it: int, string and bool flags,
  \<open>Parse\<close> with the policy ExitOnError, \<open>Visit\<close>; and the integers of \<open>strconv.ParseInt\<close> in base 0.
\<close>

section \<open>Integers\<close>

datatype num_error = ErrSyntax | ErrRange

fun num_Error :: "num_error \<Rightarrow> string" where
  "num_Error ErrSyntax = ''parse error''"
| "num_Error ErrRange = ''value out of range''"

text \<open>A digit of a base up to 36, in either case.\<close>

definition digit36 :: "char \<Rightarrow> nat option" where
  "digit36 c = (let n = of_char c in
     if 48 \<le> n \<and> n \<le> 57 then Some (n - 48)
     else if 65 \<le> n \<and> n \<le> 90 then Some (n - 55)
     else if 97 \<le> n \<and> n \<le> 122 then Some (n - 87)
     else None)"

text \<open>\<open>strconv.underscoreOK\<close>: an underscore stands between two digits, or after the prefix of a base.\<close>

fun underscores_between :: "bool \<Rightarrow> char \<Rightarrow> string \<Rightarrow> bool" where
  "underscores_between hex saw [] = (saw \<noteq> CHR ''_'')"
| "underscores_between hex saw (c # s) =
     (case digit36 c of
        Some d \<Rightarrow>
          (if d < 10 \<or> (hex \<and> d < 16) then underscores_between hex (CHR ''0'') s
           else saw \<noteq> CHR ''_'' \<and> underscores_between hex (CHR ''!'') s)
      | None \<Rightarrow>
          (if c = CHR ''_'' then saw = CHR ''0'' \<and> underscores_between hex (CHR ''_'') s
           else saw \<noteq> CHR ''_'' \<and> underscores_between hex (CHR ''!'') s))"

text \<open>The base a literal names, the digits after its prefix, and whether there is a letter prefix.\<close>

definition base_prefix :: "string \<Rightarrow> nat \<times> string \<times> bool" where
  "base_prefix s =
     (if HasPrefix s ''0''
      then (if 3 \<le> length s \<and> s ! 1 \<in> {CHR ''b'', CHR ''B''} then (2, drop 2 s, True)
            else if 3 \<le> length s \<and> s ! 1 \<in> {CHR ''o'', CHR ''O''} then (8, drop 2 s, True)
            else if 3 \<le> length s \<and> s ! 1 \<in> {CHR ''x'', CHR ''X''} then (16, drop 2 s, True)
            else (8, drop 1 s, False))
      else (10, s, False))"

definition underscoreOK :: "string \<Rightarrow> bool" where
  "underscoreOK s =
     (if 2 \<le> length s \<and> s ! 0 = CHR ''0'' \<and>
         s ! 1 \<in> {CHR ''b'', CHR ''B'', CHR ''o'', CHR ''O'', CHR ''x'', CHR ''X''}
      then underscores_between (s ! 1 \<in> {CHR ''x'', CHR ''X''}) (CHR ''0'') (drop 2 s)
      else underscores_between False (CHR ''^'') s)"

text \<open>The loop of \<open>ParseUint\<close>: the first digit that is none, or that passes the range, decides.\<close>

fun uint_digits :: "nat \<Rightarrow> int \<Rightarrow> string \<Rightarrow> num_error + int" where
  "uint_digits base n [] = Inr n"
| "uint_digits base n (c # s) =
     (if c = CHR ''_'' then uint_digits base n s
      else (case digit36 c of
              None \<Rightarrow> Inl ErrSyntax
            | Some d \<Rightarrow>
                (if base \<le> d then Inl ErrSyntax
                 else if 2 ^ 64 \<le> n * int base + int d then Inl ErrRange
                 else uint_digits base (n * int base + int d) s)))"

definition ParseUint :: "string \<Rightarrow> num_error + int" where
  "ParseUint s =
     (if s = [] then Inl ErrSyntax
      else (case base_prefix s of (base, ds, letter) \<Rightarrow>
        (case uint_digits base 0 ds of
           Inl x \<Rightarrow> Inl x
         | Inr n \<Rightarrow> (if CHR ''_'' \<in> set ds \<and> \<not> underscoreOK s then Inl ErrSyntax else Inr n))))"

definition ParseInt :: "string \<Rightarrow> num_error + goint" where
  "ParseInt s =
     (let neg = HasPrefix s ''-'';
          u = (if HasPrefix s ''-'' \<or> HasPrefix s ''+'' then drop 1 s else s)
      in (case ParseUint u of
            Inl x \<Rightarrow> Inl x
          | Inr n \<Rightarrow>
              (if \<not> neg \<and> 2 ^ 63 \<le> n \<or> neg \<and> 2 ^ 63 < n then Inl ErrRange
               else Inr (word_of_int (if neg then - n else n)))))"

definition ParseBool :: "string \<Rightarrow> bool option" where
  "ParseBool s =
     (if s \<in> {''1'', ''t'', ''T'', ''TRUE'', ''true'', ''True''} then Some True
      else if s \<in> {''0'', ''f'', ''F'', ''FALSE'', ''false'', ''False''} then Some False
      else None)"

section \<open>Flags\<close>

text \<open>A flag has a kind and a value; \<open>actual\<close> are the names that were given.\<close>

datatype flag_value = BoolFlag bool | IntFlag goint | StringFlag string

record FlagSet =
  formal :: "flag_value gomap"
  actual :: "string list"

fun Set_value :: "flag_value \<Rightarrow> string \<Rightarrow> string + flag_value" where
  "Set_value (BoolFlag b) s =
     (case ParseBool s of Some v \<Rightarrow> Inr (BoolFlag v) | None \<Rightarrow> Inl ''parse error'')"
| "Set_value (IntFlag n) s =
     (case ParseInt s of Inr v \<Rightarrow> Inr (IntFlag v) | Inl x \<Rightarrow> Inl (num_Error x))"
| "Set_value (StringFlag t) s = Inr (StringFlag s)"

definition set_flag :: "string \<Rightarrow> flag_value \<Rightarrow> FlagSet \<Rightarrow> FlagSet" where
  "set_flag name v f = f\<lparr>formal := AList.update name v (formal f), actual := actual f @ [name]\<rparr>"

text \<open>What stops the parse: a request for help, or an error with its message.\<close>

datatype flag_error = ErrHelp | FlagError msg

fun split_equals :: "string \<Rightarrow> string \<times> string option" where
  "split_equals [] = ([], None)"
| "split_equals (c # s) = (if c = CHR ''='' then ([], Some s)
     else (case split_equals s of (name, v) \<Rightarrow> (c # name, v)))"

text \<open>\<open>parseOne\<close>: one flag and the arguments after it, or \<open>None\<close> when the flags are over.\<close>

definition flag_name :: "string \<Rightarrow> string option" where
  "flag_name s =
     (if length s < 2 \<or> \<not> HasPrefix s ''-'' \<or> s = ''--'' then None
      else Some (if HasPrefix s ''--'' then drop 2 s else drop 1 s))"

definition assign :: "string \<Rightarrow> flag_value \<Rightarrow> string \<Rightarrow> FlagSet \<Rightarrow> flag_error + FlagSet" where
  "assign name kind value f =
     (case Set_value kind value of
        Inr v \<Rightarrow> Inr (set_flag name v f)
      | Inl m \<Rightarrow> Inl (FlagError
          (case kind of
             BoolFlag b \<Rightarrow> [Txt ''invalid boolean value '', Quoted value, Txt ('' for -'' @ name @ '': '' @ m)]
           | _ \<Rightarrow> [Txt ''invalid value '', Quoted value, Txt ('' for flag -'' @ name @ '': '' @ m)])))"

fun parseOne :: "FlagSet \<Rightarrow> string list \<Rightarrow> (flag_error + (FlagSet \<times> string list)) option" where
  "parseOne f [] = None"
| "parseOne f (s # args) =
     (case flag_name s of
        None \<Rightarrow> None
      | Some n \<Rightarrow> Some
          (if n = [] \<or> HasPrefix n ''-'' \<or> HasPrefix n ''=''
           then Inl (FlagError [Txt (''bad flag syntax: '' @ s)])
           else (case split_equals n of (name, given) \<Rightarrow>
             (case map_of (formal f) name of
                None \<Rightarrow> Inl (if name = ''help'' \<or> name = ''h'' then ErrHelp
                              else FlagError [Txt (''flag provided but not defined: -'' @ name)])
              | Some kind \<Rightarrow>
                  (case (kind, given, args) of
                     (BoolFlag b, None, _) \<Rightarrow> Inr (set_flag name (BoolFlag True) f, args)
                   | (_, Some v, _) \<Rightarrow> map_sum id (\<lambda>g. (g, args)) (assign name kind v f)
                   | (_, None, v # rest) \<Rightarrow> map_sum id (\<lambda>g. (g, rest)) (assign name kind v f)
                   | (_, None, []) \<Rightarrow> Inl (FlagError [Txt (''flag needs an argument: -'' @ name)]))))))"

lemma parseOne_shrinks: "parseOne f args = Some (Inr (g, rest)) \<Longrightarrow> length rest < length args"
  by (cases "(f, args)" rule: parseOne.cases)
    (auto split: option.splits if_splits prod.splits flag_value.splits list.splits sum.splits simp: assign_def)

function Parse :: "FlagSet \<Rightarrow> string list \<Rightarrow> flag_error + FlagSet" where
  "Parse f args =
     (case parseOne f args of
        None \<Rightarrow> Inr f
      | Some (Inl x) \<Rightarrow> Inl x
      | Some (Inr (g, rest)) \<Rightarrow> Parse g rest)"
  by pat_completeness auto

termination
  by (relation "measure (\<lambda>(f, args). length args)") (auto dest: parseOne_shrinks)

declare Parse.simps [simp del]

text \<open>\<open>Visit\<close> sees the flags that were set.\<close>

definition was_set :: "string \<Rightarrow> FlagSet \<Rightarrow> bool" where
  "was_set name f \<longleftrightarrow> name \<in> set (actual f)"

definition bool_flag :: "string \<Rightarrow> FlagSet \<Rightarrow> bool" where
  "bool_flag name f = (case map_of (formal f) name of Some (BoolFlag b) \<Rightarrow> b | _ \<Rightarrow> False)"

definition int_flag :: "string \<Rightarrow> FlagSet \<Rightarrow> goint" where
  "int_flag name f = (case map_of (formal f) name of Some (IntFlag n) \<Rightarrow> n | _ \<Rightarrow> 0)"

definition string_flag :: "string \<Rightarrow> FlagSet \<Rightarrow> string" where
  "string_flag name f = (case map_of (formal f) name of Some (StringFlag s) \<Rightarrow> s | _ \<Rightarrow> [])"

end
