(* ===== verification/Cmd.thy ===== *)
theory Cmd
  imports GoFlag
begin

text \<open>
  The three programs, cmd/server, cmd/server-rest and cmd/server-dual: how they read their
  configuration, what they print and decide before they listen. The environment and the arguments of
  the command line are arguments.
\<close>

section \<open>Scanning\<close>

text \<open>
  \<open>fmt.Sscanf\<close> with the two formats in use. White space before a verb is skipped; a newline is an
  error (\<open>None\<close>). Input after the last verb is not.
\<close>

definition blanks :: "string list" where
  "blanks = filter (\<lambda>p. p \<noteq> [CHR 0x0A]) space_encodings"

definition SkipSpace :: "string \<Rightarrow> string option" where
  "SkipSpace s = (let t = trim_left blanks s in if HasPrefix t [CHR 0x0A] then None else Some t)"

fun scan_token :: "string \<Rightarrow> string \<times> string" where
  "scan_token [] = ([], [])"
| "scan_token (c # s) =
     (if list_ex (\<lambda>p. HasPrefix (c # s) p) space_encodings then ([], c # s)
      else (case scan_token s of (t, rest) \<Rightarrow> (c # t, rest)))"

definition scan_int :: "string \<Rightarrow> goint option" where
  "scan_int s = (case SkipSpace s of
      None \<Rightarrow> None
    | Some t \<Rightarrow>
        (let sgn = (if HasPrefix t ''-'' \<or> HasPrefix t ''+'' then take 1 t else []);
             ds = takeWhile (\<lambda>c. digit_val c \<noteq> None) (drop (length sgn) t)
         in if ds = [] then None else Atoi (sgn @ ds)))"

text \<open>\<open>Sscanf(value, "%s:%d", &host, &p)\<close>, when it fills both and reports no error.\<close>

definition scan_host_port :: "string \<Rightarrow> (string \<times> goint) option" where
  "scan_host_port s = (case SkipSpace s of
      None \<Rightarrow> None
    | Some t \<Rightarrow>
        (if t = [] then None
         else (case scan_token t of
                 (host, []) \<Rightarrow> None
               | (host, c # rest) \<Rightarrow>
                   (if c = CHR '':'' then map_option (Pair host) (scan_int rest) else None))))"

section \<open>The environment\<close>

definition getEnv :: "(string \<Rightarrow> string) \<Rightarrow> string \<Rightarrow> string \<Rightarrow> string" where
  "getEnv env key defaultValue = (if env key \<noteq> [] then env key else defaultValue)"

definition getEnvInt :: "(string \<Rightarrow> string) \<Rightarrow> string \<Rightarrow> goint \<Rightarrow> goint" where
  "getEnvInt env key defaultValue =
     (if env key \<noteq> []
      then (case Atoi (env key) of Some n \<Rightarrow> n | None \<Rightarrow> defaultValue)
      else defaultValue)"

definition getEnvPort :: "(string \<Rightarrow> string) \<Rightarrow> string \<Rightarrow> goint \<Rightarrow> goint" where
  "getEnvPort env key defaultPort =
     (if env key \<noteq> []
      then (case scan_host_port (env key) of
              Some (host, p) \<Rightarrow> p
            | None \<Rightarrow> (case scan_int (env key) of Some bare \<Rightarrow> bare | None \<Rightarrow> defaultPort))
      else defaultPort)"

definition validateLogLevel :: "string \<Rightarrow> unit result" where
  "validateLogLevel level =
     (if level = ''debug'' \<or> level = ''info'' \<or> level = ''warn'' \<or> level = ''error'' then Ok ()
      else Err (GoError [Txt ''invalid --log-level '', Quoted level,
             Txt '': must be one of: debug, info, warn, error'']))"

section \<open>Start-up\<close>

text \<open>
  What a program writes: on the standard output, on the standard error, the descriptions that
  \<open>flag.PrintDefaults\<close> makes of the flags, and lines of the log. A line is kept without its end.
\<close>

datatype line = Stdout msg | Stderr msg | Defaults | Log msg

definition version :: string where
  "version = ''0.1.0''"

definition dash :: string where
  "dash = [CHR 0xE2, CHR 0x80, CHR 0x94]"

text \<open>The flags of a program with their defaults, some of which the environment decides.\<close>

definition flagsServer :: "(string \<Rightarrow> string) \<Rightarrow> FlagSet" where
  "flagsServer env = \<lparr>formal =
     [(''port'', IntFlag (getEnvPort env ''EVENTARC_EMULATOR_HOST'' 9085)),
      (''grpc-port'', IntFlag (getEnvPort env ''EVENTARC_EMULATOR_HOST'' 9085)),
      (''log-level'', StringFlag (getEnv env ''GCP_MOCK_LOG_LEVEL'' ''info'')),
      (''version'', BoolFlag False)], actual = []\<rparr>"

definition flagsDual :: "(string \<Rightarrow> string) \<Rightarrow> FlagSet" where
  "flagsDual env = \<lparr>formal =
     [(''grpc-port'', IntFlag (getEnvPort env ''EVENTARC_EMULATOR_HOST'' 9085)),
      (''http-port'', IntFlag (getEnvInt env ''EVENTARC_HTTP_PORT'' 8085)),
      (''log-level'', StringFlag (getEnv env ''GCP_MOCK_LOG_LEVEL'' ''info'')),
      (''version'', BoolFlag False)], actual = []\<rparr>"

definition flagsRest :: "(string \<Rightarrow> string) \<Rightarrow> FlagSet" where
  "flagsRest env = \<lparr>formal =
     [(''http-port'', IntFlag (getEnvInt env ''EVENTARC_HTTP_PORT'' 8085)),
      (''grpc-port'', IntFlag 9086),
      (''log-level'', StringFlag (getEnv env ''GCP_MOCK_LOG_LEVEL'' ''info'')),
      (''version'', BoolFlag False)], actual = []\<rparr>"

definition usageServer :: "line list" where
  "usageServer =
     [Stderr [Txt (''GCP Eventarc Emulator v'' @ version @ '' '' @ dash @ '' gRPC-only server'')],
      Stderr [Txt ''When to use: gRPC-only workloads. The REST gateway is not included.''], Stderr [],
      Stderr [Txt ''Usage: server [flags]''], Stderr [], Stderr [Txt ''Flags:''], Defaults,
      Stderr [], Stderr [Txt ''Environment Variables:''],
      Stderr [Txt ''  EVENTARC_EMULATOR_HOST   gRPC host:port for clients (e.g. localhost:9085)''],
      Stderr [Txt ''  GCP_MOCK_LOG_LEVEL       Log level: debug, info, warn, error (default: info)''],
      Stderr [Txt ''  IAM_MODE                 IAM enforcement: off, permissive, strict (default: off)''],
      Stderr [Txt ''  EVENTARC_EMULATOR_TOKEN  Bearer token added to dispatched webhook requests'']]"

text \<open>The last lines of the two programs with a gateway.\<close>

definition usageHealth :: "line list" where
  "usageHealth =
     map (\<lambda>path. Stderr [Txt ''  GET '', Txt path, Txt ''  returns {'', Quoted ''status'', Txt '':'',
         Quoted ''ok'', Txt ''} HTTP 200'']) [''/healthz'', ''/readyz '']"

definition usageDual :: "line list" where
  "usageDual =
     [Stderr [Txt (''GCP Eventarc Emulator v'' @ version @ '' '' @ dash @ '' gRPC + REST server'')],
      Stderr [Txt ''When to use: recommended for all local development; provides both gRPC and REST access.''],
      Stderr [], Stderr [Txt ''Usage: server-dual [flags]''], Stderr [], Stderr [Txt ''Flags:''], Defaults,
      Stderr [], Stderr [Txt ''Environment Variables:''],
      Stderr [Txt ''  EVENTARC_EMULATOR_HOST   gRPC host:port for clients (e.g. localhost:9085)''],
      Stderr [Txt ''  EVENTARC_HTTP_PORT       HTTP port (default: 8085)''],
      Stderr [Txt ''  GCP_MOCK_LOG_LEVEL       Log level: debug, info, warn, error (default: info)''],
      Stderr [Txt ''  IAM_MODE                 IAM enforcement: off, permissive, strict (default: off)''],
      Stderr [Txt ''  EVENTARC_EMULATOR_TOKEN  Bearer token added to dispatched webhook requests''],
      Stderr [], Stderr [Txt ''Health endpoints:'']] @ usageHealth"

definition usageRest :: "line list" where
  "usageRest =
     [Stderr [Txt (''GCP Eventarc Emulator v'' @ version @ '' '' @ dash @ '' REST-only server'')],
      Stderr [Txt ''When to use: REST-only clients; gRPC backend runs internally.''], Stderr [],
      Stderr [Txt ''Usage: server-rest [flags]''], Stderr [], Stderr [Txt ''Flags:''], Defaults,
      Stderr [], Stderr [Txt ''Environment Variables:''],
      Stderr [Txt ''  EVENTARC_EMULATOR_HOST   not applicable (gRPC port is internal)''],
      Stderr [Txt ''  EVENTARC_HTTP_PORT       HTTP port (default: 8085)''],
      Stderr [Txt ''  GCP_MOCK_LOG_LEVEL       Log level: debug, info, warn, error (default: info)''],
      Stderr [Txt ''  IAM_MODE                 IAM enforcement: off, permissive, strict (default: off)''],
      Stderr [Txt ''  EVENTARC_EMULATOR_TOKEN  Bearer token added to dispatched webhook requests''],
      Stderr [], Stderr [Txt ''Health endpoints (REST and dual only):'']] @ usageHealth"

text \<open>
  The decisions after the flags are parsed, with what they print: a program ends with a status, or
  goes on with its ports and its log level.
\<close>

datatype Startup = Exit int | Listen goint string | ListenBoth goint goint string

definition badPort :: "goint \<Rightarrow> bool" where
  "badPort p = (p <s 1 \<or> 65535 <s p)"

definition invalidPort :: "string \<Rightarrow> goint \<Rightarrow> line list" where
  "invalidPort name p =
     [Stderr [Txt (''invalid --'' @ name @ '' '' @ Itoa p @ '': must be in range 1-65535'')]]"

definition mainServer :: "FlagSet \<Rightarrow> line list \<times> Startup" where
  "mainServer f =
     (if bool_flag ''version'' f
      then ([Stdout [Txt (''GCP Eventarc Emulator v'' @ version @ '' (server)'')]], Exit 0)
      else (case validateLogLevel (string_flag ''log-level'' f) of
        Err err \<Rightarrow> ([Stderr (err_Error err)], Exit 1)
      | Panic p \<Rightarrow> ([], Exit 2)
      | Ok u \<Rightarrow>
          (let grpcPort = int_flag ''grpc-port'' f;
               port = int_flag ''port'' f;
               portWasSet = was_set ''port'' f;
               warning = (if portWasSet
                 then [Stderr [Txt ''WARNING: --port is deprecated; use --grpc-port instead'']] else [])
           in if badPort grpcPort then (warning @ invalidPort ''grpc-port'' grpcPort, Exit 1)
              else (let listenPort = (if grpcPort = 9085 \<and> port \<noteq> 9085 then port else grpcPort)
                    in (warning, Listen listenPort (string_flag ''log-level'' f))))))"

definition mainDual :: "FlagSet \<Rightarrow> line list \<times> Startup" where
  "mainDual f =
     (if bool_flag ''version'' f
      then ([Stdout [Txt (''GCP Eventarc Emulator v'' @ version @ '' (server-dual)'')]], Exit 0)
      else (case validateLogLevel (string_flag ''log-level'' f) of
        Err err \<Rightarrow> ([Stderr (err_Error err)], Exit 1)
      | Panic p \<Rightarrow> ([], Exit 2)
      | Ok u \<Rightarrow>
          (let grpcPort = int_flag ''grpc-port'' f; httpPort = int_flag ''http-port'' f
           in if badPort grpcPort then (invalidPort ''grpc-port'' grpcPort, Exit 1)
              else if badPort httpPort then (invalidPort ''http-port'' httpPort, Exit 1)
              else ([], ListenBoth grpcPort httpPort (string_flag ''log-level'' f)))))"

definition mainRest :: "FlagSet \<Rightarrow> line list \<times> Startup" where
  "mainRest f =
     (if bool_flag ''version'' f
      then ([Stdout [Txt (''GCP Eventarc Emulator v'' @ version @ '' (server-rest)'')]], Exit 0)
      else (case validateLogLevel (string_flag ''log-level'' f) of
        Err err \<Rightarrow> ([Stderr (err_Error err)], Exit 1)
      | Panic p \<Rightarrow> ([], Exit 2)
      | Ok u \<Rightarrow>
          (let grpcPort = int_flag ''grpc-port'' f; httpPort = int_flag ''http-port'' f
           in if badPort grpcPort then (invalidPort ''grpc-port'' grpcPort, Exit 1)
              else if badPort httpPort then (invalidPort ''http-port'' httpPort, Exit 1)
              else ([], ListenBoth grpcPort httpPort (string_flag ''log-level'' f)))))"

text \<open>
  \<open>flag.Parse\<close> ends the program itself: with status 0 after a request for help, with status 2 after
  an error; both print the usage.
\<close>

definition start :: "FlagSet \<Rightarrow> line list \<Rightarrow> (FlagSet \<Rightarrow> line list \<times> Startup) \<Rightarrow> string list \<Rightarrow>
    line list \<times> Startup" where
  "start flags usage main args =
     (case Parse flags args of
        Inl ErrHelp \<Rightarrow> (usage, Exit 0)
      | Inl (FlagError m) \<Rightarrow> (Stderr m # usage, Exit 2)
      | Inr f \<Rightarrow> main f)"

definition startServer :: "(string \<Rightarrow> string) \<Rightarrow> string list \<Rightarrow> line list \<times> Startup" where
  "startServer env args = start (flagsServer env) usageServer mainServer args"

definition startDual :: "(string \<Rightarrow> string) \<Rightarrow> string list \<Rightarrow> line list \<times> Startup" where
  "startDual env args = start (flagsDual env) usageDual mainDual args"

definition startRest :: "(string \<Rightarrow> string) \<Rightarrow> string list \<Rightarrow> line list \<times> Startup" where
  "startRest env args = start (flagsRest env) usageRest mainRest args"

section \<open>What the scans do\<close>

lemma space_not_colon: "list_ex (\<lambda>p. HasPrefix (c # s) p) space_encodings \<Longrightarrow> c \<noteq> CHR '':''"
  by (auto simp: space_encodings_def HasPrefix_def)

lemma scan_token_rest: "scan_token s = (t, c # rest) \<Longrightarrow> c \<noteq> CHR '':''"
  by (induction s arbitrary: t rule: scan_token.induct)
    (auto split: if_splits prod.splits dest: space_not_colon)

text \<open>The verb \<open>%s\<close> reads on to white space, over the colon, so the first scan never succeeds.\<close>

lemma scan_host_port_None: "scan_host_port s = None"
  by (auto simp: scan_host_port_def dest: scan_token_rest split: option.split prod.split list.split)

lemma trim_left_id: "find (\<lambda>p. p \<noteq> [] \<and> HasPrefix s p) ps = None \<Longrightarrow> trim_left ps s = s"
  by (subst trim_left.simps) simp

lemma digit_not_space: "digit_val c \<noteq> None \<Longrightarrow> HasPrefix (c # s) p \<Longrightarrow> p \<in> set space_encodings \<Longrightarrow> False"
  by (auto simp: space_encodings_def HasPrefix_def digit_val_def Let_def split: if_splits)

section \<open>The port of a host:port value\<close>

lemma scan_int_digits:
  assumes "ds \<noteq> []" and "\<forall>x \<in> set ds. digit_val x \<noteq> None"
    and "rest = [] \<or> digit_val (hd rest) = None"
  shows "scan_int (ds @ rest) = Atoi ds"
proof -
  obtain c cs where ds: "ds = c # cs" using assms(1) by (cases ds) auto
  have d: "digit_val c \<noteq> None" using assms(2) ds by simp
  then have c: "c \<noteq> CHR ''-'' \<and> c \<noteq> CHR ''+''" by (auto simp: digit_val_def)
  have sp: "SkipSpace (c # xs) = Some (c # xs)" for xs
  proof -
    have "trim_left blanks (c # xs) = c # xs"
      using digit_not_space [OF d] by (intro trim_left_id) (auto simp: find_None_iff blanks_def)
    moreover have "\<not> HasPrefix (c # xs) [CHR 0x0A]"
      using digit_not_space [OF d, of xs "[CHR 0x0A]"] by (auto simp: space_encodings_def)
    ultimately show ?thesis by (simp add: SkipSpace_def Let_def)
  qed
  have "takeWhile (\<lambda>c. digit_val c \<noteq> None) (ds @ rest) = ds"
    using assms(2,3) by (cases rest) (simp_all add: takeWhile_append2)
  then show ?thesis
    using sp c ds by (auto simp: scan_int_def HasPrefix_def)
qed

lemma getEnvPort_number:
  assumes "env key = ds @ CHR ''.'' # w" and "ds \<noteq> []" and "\<forall>x \<in> set ds. digit_val x \<noteq> None"
  shows "getEnvPort env key d = (case Atoi ds of Some n \<Rightarrow> n | None \<Rightarrow> d)"
proof -
  have "scan_int (env key) = Atoi ds"
    unfolding assms(1) by (rule scan_int_digits [OF assms(2,3)]) (simp add: digit_val_def)
  then show ?thesis
    using assms(1) by (simp add: getEnvPort_def scan_host_port_None split: option.split)
qed

lemma getEnvPort_letter:
  assumes "env key = c # v" and "of_char c \<in> {97..122 :: nat}"
  shows "getEnvPort env key d = d"
proof -
  note c = assms(2)
  have "list_all (\<lambda>p. of_char (hd p) \<notin> {33..126 :: nat}) blanks"
    by (simp add: blanks_def space_encodings_def)
  then have "trim_left blanks (c # v) = c # v" using c by (intro trim_left_none) auto
  moreover have "c \<noteq> CHR 0x0A" "c \<noteq> CHR ''-''" "c \<noteq> CHR ''+''" "digit_val c = None"
    using c by (auto simp: digit_val_def Let_def)
  ultimately have "scan_int (env key) = None"
    by (simp add: scan_int_def SkipSpace_def HasPrefix_def assms(1))
  then show ?thesis
    using assms(1) by (simp add: getEnvPort_def scan_host_port_None)
qed

section \<open>A flag and the environment\<close>

lemma parse_grpc_port:
  assumes "map_of (formal f) ''grpc-port'' = Some (IntFlag d)" and "ParseInt s = Inr p"
  shows "Parse f [''--grpc-port'', s] = Inr (set_flag ''grpc-port'' (IntFlag p) f)"
  using assms by (simp add: Parse.simps flag_name_def HasPrefix_def assign_def)

lemma grpc_port_flag:
  fixes env :: "string \<Rightarrow> string"
  defines "level \<equiv> getEnv env ''GCP_MOCK_LOG_LEVEL'' ''info''"
  assumes "ParseInt s = Inr p" and "\<not> badPort p" and "validateLogLevel level = Ok ()"
  shows "startServer env [''--grpc-port'', s] =
      ([], Listen (if p = 9085 then getEnvPort env ''EVENTARC_EMULATOR_HOST'' 9085 else p) level)"
    and "\<not> badPort (getEnvInt env ''EVENTARC_HTTP_PORT'' 8085) \<Longrightarrow> startDual env [''--grpc-port'', s] =
      ([], ListenBoth p (getEnvInt env ''EVENTARC_HTTP_PORT'' 8085) level)"
    and "\<not> badPort (getEnvInt env ''EVENTARC_HTTP_PORT'' 8085) \<Longrightarrow> startRest env [''--grpc-port'', s] =
      ([], ListenBoth p (getEnvInt env ''EVENTARC_HTTP_PORT'' 8085) level)"
  using assms(2-4)
  by (simp_all add: startServer_def startDual_def startRest_def start_def parse_grpc_port flagsServer_def
      flagsDual_def flagsRest_def set_flag_def mainServer_def mainDual_def mainRest_def string_flag_def
      int_flag_def bool_flag_def was_set_def level_def Let_def)

end
