(* ===== verification/Examples.thy ===== *)
theory Examples
  imports ServerProps Publisher Gateway Cmd
begin

text \<open>
  A concrete environment, a fresh server and a few resources, on which the properties are evaluated.
\<close>

definition env0 :: env where
  "env0 = \<lparr>e_principal = ''user:a'', e_iam = (\<lambda>principal resource permission. Inr True),
     e_details = True, e_now = \<lparr>ts_Seconds = 100, ts_Nanos = 0\<rparr>, e_uid = 17, e_token = 18, e_etag = 19,
     e_op_now = \<lparr>ts_Seconds = 101, ts_Nanos = 0\<rparr>, e_rand = Inr (\<lambda>i. 1), e_anypb = (\<lambda>m. None),
     e_order = rev\<rparr>"

definition server0 :: Server where
  "server0 = \<lparr>storage = NewStorage, lroStore = NewStore, iamClient = False, iamMode = ''off''\<rparr>"

definition loc0 :: string where
  "loc0 = ''projects/p/locations/l''"

definition trigger0 :: Trigger where
  "trigger0 = \<lparr>tr_Name = [], tr_Uid = [], tr_CreateTime = None, tr_UpdateTime = None,
     tr_EventFilters = [\<lparr>ef_Attribute = ''type'', ef_Value = ''t1'', ef_Operator = []\<rparr>],
     tr_ServiceAccount = ''sa'', tr_Destination = Some (HttpEndpoint ''http://h/''), tr_Labels = [],
     tr_Channel = [], tr_Conditions = [], tr_Etag = [], tr_Other = []\<rparr>"

definition create_trigger0 :: "Trigger CreateRequest" where
  "create_trigger0 = \<lparr>cq_Parent = loc0, cq_Id = ''t'', cq_Resource = Some trigger0,
     cq_ValidateOnly = False\<rparr>"

definition trigger_name0 :: string where
  "trigger_name0 = ''projects/p/locations/l/triggers/t''"

text \<open>The server after the trigger has been created.\<close>

definition server1 :: Server where
  "server1 = snd (handle env0 (TriggerRPC (CreateRPC create_trigger0)) server0)"

lemma env0_facts [simp]:
  "iter_order (e_order env0)" "lro_works env0"
  by (simp_all add: env0_def lro_works_def)

lemma server0_reachable: "reachable server0"
  by (rule reachable.start [of "\<lambda>m. False" "\<lambda>m. None" "''off''"])
    (simp add: NewServer_def server0_def)

lemma server1_reachable: "reachable server1"
  unfolding server1_def by (rule reachable.call [OF server0_reachable surjective_pairing])

text \<open>What the creation has done, evaluated.\<close>

definition stored0 :: Trigger where
  "stored0 = trigger0\<lparr>tr_Name := trigger_name0, tr_Uid := ''11'', tr_CreateTime := Some (e_now env0),
     tr_UpdateTime := Some (e_now env0), tr_Etag := ''13'', tr_Conditions := readyCondition\<rparr>"

definition operation0 :: Operation where
  "operation0 = \<lparr>op_Name = ''projects/p/locations/l/operations/01010101010101010101010101010101'',
     op_Done = True,
     op_Metadata = AnyMetadata \<lparr>om_CreateTime = e_op_now env0, om_EndTime = e_op_now env0,
       om_Target = trigger_name0, om_Verb = ''create'', om_ApiVersion = ''v1''\<rparr>,
     op_Response = AnyTrigger stored0\<rparr>"

lemma create0: "handle env0 (TriggerRPC (CreateRPC create_trigger0)) server0 =
    (Ok (OperationResp operation0), server1)"
proof -
  have "fst (handle env0 (TriggerRPC (CreateRPC create_trigger0)) server0) =
      Ok (OperationResp operation0)" by code_simp
  then show ?thesis unfolding server1_def by (metis surjective_pairing)
qed

lemma server1_contents:
  "triggers (storage server1) = [(trigger_name0, stored0)]"
  "ops (lroStore server1) = [(op_Name operation0, operation0)]"
  by code_simp+

definition sizes :: "Server \<Rightarrow> nat list" where
  "sizes s = (let st = storage s in [length (triggers st), length (providers st), length (channels st),
     length (channelConnections st), length (messageBuses st), length (enrollments st),
     length (pipelines st), length (googleApiSources st)])"

lemma small_sizes: "\<forall>n \<in> set (sizes s). n < 100 \<Longrightarrow> small s"
  by (simp add: sizes_def small_def pageable_def Let_def)

lemma small0: "small server0" "small server1"
proof -
  have "sizes server0 = [0, 5, 0, 0, 0, 0, 0, 0]" "sizes server1 = [1, 5, 0, 0, 0, 0, 0, 0]"
    by code_simp+
  then show "small server0" "small server1"
    by (auto intro!: small_sizes)
qed

section \<open>Requests and resources\<close>

definition upsert0 :: "Trigger UpdateRequest" where
  "upsert0 = \<lparr>uq_Resource = Some (trigger0\<lparr>tr_Name := trigger_name0\<rparr>), uq_UpdateMask = None,
     uq_ValidateOnly = False, uq_AllowMissing = True\<rparr>"

definition enrollment0 :: Enrollment where
  "enrollment0 = \<lparr>en_Name = ''projects/p/locations/l/enrollments/e'', en_Uid = ''1'', en_Etag = ''2'',
     en_CreateTime = None, en_UpdateTime = None, en_Labels = [], en_Annotations = [],
     en_DisplayName = ''d'', en_CelMatch = ''true'', en_MessageBus = ''bus'', en_Destination = ''pipe'',
     en_Other = []\<rparr>"

definition storage_en0 :: Storage where
  "storage_en0 = NewStorage\<lparr>enrollments := [(en_Name enrollment0, enrollment0)]\<rparr>"

lemma storage_en0_inv: "storage_inv storage_en0"
  using storage_inv_NewStorage by (simp add: storage_inv_def storage_en0_def wf_table_def)

definition connection0 :: ChannelConnection where
  "connection0 = \<lparr>cc_Name = [], cc_Uid = [], cc_CreateTime = None, cc_UpdateTime = None,
     cc_ActivationToken = ''secret'', cc_Other = []\<rparr>"

definition server_cc0 :: Server where
  "server_cc0 = snd (handle env0 (CreateChannelConnectionRPC \<lparr>cq_Parent = loc0, cq_Id = ''c'',
     cq_Resource = Some connection0, cq_ValidateOnly = False\<rparr>) server0)"

definition channel0 :: Channel where
  "channel0 = \<lparr>ch_Name = ''projects/p/locations/l/channels/c'', ch_Uid = ''1'', ch_CreateTime = None,
     ch_UpdateTime = None, ch_State = PENDING, ch_ActivationToken = ''tok'', ch_CryptoKeyName = [],
     ch_Labels = [], ch_Other = []\<rparr>"

definition storage_ch0 :: Storage where
  "storage_ch0 = NewStorage\<lparr>channels := [(ch_Name channel0, channel0)]\<rparr>"

definition bus0 :: MessageBus where
  "bus0 = \<lparr>mb_Name = ''projects/p/locations/l/messageBuses/b'', mb_Uid = [], mb_Etag = [],
     mb_CreateTime = None, mb_UpdateTime = None, mb_Labels = [], mb_Annotations = [],
     mb_DisplayName = ''bus'', mb_CryptoKeyName = [], mb_LoggingConfig = None, mb_Other = []\<rparr>"

definition pipeline0 :: Pipeline where
  "pipeline0 = \<lparr>pl_Name = [], pl_Uid = [], pl_Etag = [], pl_CreateTime = None, pl_UpdateTime = None,
     pl_Labels = [], pl_Annotations = [], pl_DisplayName = [], pl_Destinations = [''d''],
     pl_Mediations = [], pl_CryptoKeyName = [], pl_InputPayloadFormat = None,
     pl_LoggingConfig = None, pl_RetryPolicy = None, pl_Other = []\<rparr>"

definition event0 :: Event where
  "event0 = \<lparr>ev_Type = ''t1'', ev_Source = ''s'', ev_Subject = [], ev_ID = ''1'', ev_SpecVersion = ''1.0'',
     ev_DataContentType = [], ev_DataSchema = [], ev_Time = None,
     ev_Extensions = [(''region'', ExtString ''eu''), (''zone'', ExtString ''b'')], ev_DataEncoded = None\<rparr>"

definition sdk0 :: sdk where
  "sdk0 = \<lparr>sdk_NewEvent = event0, sdk_SetID = (\<lambda>x e. e\<lparr>ev_ID := x\<rparr>),
     sdk_SetSource = (\<lambda>x e. e\<lparr>ev_Source := x\<rparr>), sdk_SetType = (\<lambda>x e. e\<lparr>ev_Type := x\<rparr>),
     sdk_SetSpecVersion = (\<lambda>x e. e\<lparr>ev_SpecVersion := x\<rparr>),
     sdk_SetSubject = (\<lambda>x e. e\<lparr>ev_Subject := x\<rparr>),
     sdk_SetDataContentType = (\<lambda>x e. e\<lparr>ev_DataContentType := x\<rparr>),
     sdk_SetDataSchema = (\<lambda>x e. e\<lparr>ev_DataSchema := x\<rparr>),
     sdk_SetExtension = (\<lambda>k x e. e\<lparr>ev_Extensions := AList.update k (ExtString x) (ev_Extensions e)\<rparr>),
     sdk_SetDataBytes = (\<lambda>t x e. Inr (e\<lparr>ev_DataContentType := t, ev_DataEncoded := Some x\<rparr>)),
     sdk_SetDataText = (\<lambda>t x e. Inr (e\<lparr>ev_DataContentType := t, ev_DataEncoded := Some x\<rparr>)),
     sdk_Format = (\<lambda>t. []),
     sdk_Unmarshal = (\<lambda>a. if a = [] then Inl ''empty'' else
       Inr \<lparr>pe_Id = ''1'', pe_Source = ''s'', pe_SpecVersion = [], pe_Type = a, pe_Attributes = [],
         pe_Data = TextData ''x''\<rparr>)\<rparr>"

definition cel0 :: "(unit, unit, unit) cel" where
  "cel0 = \<lparr>cel_NewEnv = (\<lambda>vs. Inr ()), cel_Compile = (\<lambda>e s. Inr ()), cel_Program = (\<lambda>e a. Inr ()),
     cel_Eval = (\<lambda>p m. Inr (CelBool True))\<rparr>"

definition http0 :: http_lib where
  "http0 = \<lparr>h_Getenv = (\<lambda>k. []), h_NewRequest = (\<lambda>u. None), h_Do = (\<lambda>r. Inl ''refused'')\<rparr>"

definition create_channel0 :: "Channel CreateRequest" where
  "create_channel0 = \<lparr>cq_Parent = loc0, cq_Id = ''ch'', cq_Resource = Some channel0,
     cq_ValidateOnly = False\<rparr>"

definition server2 :: Server where
  "server2 = snd (handle env0 (ChannelRPC (CreateRPC create_channel0)) server1)"

definition request2 :: HttpRequest where
  "request2 = \<lparr>rq_URL = ''http://h/'', rq_Header =
     [(''Content-Type'', ''text/plain''), (''Ce-Specversion'', ''1.0''), (''Ce-Type'', ''t1''),
      (''Ce-Source'', ''s''), (''Ce-Id'', ''1''), (''Ce-Zone'', ''b''), (''Ce-Region'', ''eu'')],
     rq_Body = ''x''\<rparr>"

text \<open>A command line for each kind of program.\<close>

definition flags0 :: FlagSet where
  "flags0 = \<lparr>formal = [(''port'', IntFlag 70000), (''grpc-port'', IntFlag 9085),
     (''http-port'', IntFlag 8085), (''log-level'', StringFlag ''info''), (''version'', BoolFlag False)],
     actual = [''port'']\<rparr>"

end
