(* ===== verification/Rest.thy ===== *)
theory Rest
  imports Server Publisher
begin

text \<open>
  internal/gen: what the generated REST handlers share. Each one builds a request message from the
  path, the query and the body of an HTTP request, calls the method over the gRPC connection, and
  writes the answer or the error. The grpc-gateway runtime is another module; its calls are
  parameters.
\<close>

section \<open>The runtime\<close>

record RestRequest =
  rr_Method :: string
  rr_Path :: string
  rr_Query :: string
  rr_Body :: string

text \<open>\<open>Decoder.Decode\<close>: a value, \<open>io.EOF\<close>, or another error.\<close>

datatype 'b decoded = Decoded 'b | AtEOF | Failed string

text \<open>
  \<open>utilities.DoubleArray\<close>, the trie of the field paths that the query may not set, and
  \<open>runtime.Pattern\<close>, the compiled path template.
\<close>

record DoubleArray =
  da_Encoding :: "(string \<times> nat) list"
  da_Base :: "nat list"
  da_Check :: "nat list"

record Pattern =
  pt_Version :: nat
  pt_Ops :: "nat list"
  pt_Pool :: "string list"
  pt_Verb :: string

text \<open>
  The functions of the runtime at a request message \<open>'q\<close> and a body \<open>'b\<close>: \<open>String\<close>,
  \<open>req.ParseForm\<close> (the form or an error), \<open>PopulateQueryParameters\<close>, \<open>Decode\<close>,
  \<open>IOReaderFactory\<close> (an error, or the content that every new reader reads),
  \<open>FieldMaskFromRequestBody\<close> and \<open>PopulateFieldFromPath\<close>.
\<close>

record ('q, 'b) runtime =
  rt_String :: "string \<Rightarrow> string + string"
  rt_ParseForm :: "RestRequest \<Rightarrow> string + (string \<times> string list) list"
  rt_PopulateQuery :: "'q \<Rightarrow> (string \<times> string list) list \<Rightarrow> DoubleArray \<Rightarrow> string + 'q"
  rt_Decode :: "string \<Rightarrow> 'b decoded"
  rt_IOReader :: "string \<Rightarrow> string + string"
  rt_FieldMask :: "string \<Rightarrow> 'b \<Rightarrow> string + string list option"
  rt_PopulatePath :: "'q \<Rightarrow> string \<Rightarrow> string \<Rightarrow> string + 'q"

section \<open>Steps of a generated handler\<close>

definition pathParam :: "('q, 'b) runtime \<Rightarrow> string gomap \<Rightarrow> string \<Rightarrow> string result" where
  "pathParam rt pathParams k =
     (case map_of pathParams k of
        None \<Rightarrow> Err (errorf InvalidArgument (''missing parameter '' @ k))
      | Some val \<Rightarrow>
          (case rt_String rt val of
             Inl m \<Rightarrow> Err (errorf InvalidArgument
               (''type mismatch, parameter: '' @ k @ '', error: '' @ m))
           | Inr x \<Rightarrow> Ok x))"

definition pathField :: "('q, 'b) runtime \<Rightarrow> string gomap \<Rightarrow> string \<Rightarrow> 'q \<Rightarrow> 'q result" where
  "pathField rt pathParams k protoReq =
     (case map_of pathParams k of
        None \<Rightarrow> Err (errorf InvalidArgument (''missing parameter '' @ k))
      | Some val \<Rightarrow>
          (case rt_PopulatePath rt protoReq k val of
             Inl m \<Rightarrow> Err (errorf InvalidArgument
               (''type mismatch, parameter: '' @ k @ '', error: '' @ m))
           | Inr q \<Rightarrow> Ok q))"

definition query_params ::
  "('q, 'b) runtime \<Rightarrow> RestRequest \<Rightarrow> DoubleArray \<Rightarrow> 'q \<Rightarrow> 'q result" where
  "query_params rt req flt protoReq =
     (case rt_ParseForm rt req of
        Inl m \<Rightarrow> Err (errorf InvalidArgument m)
      | Inr form \<Rightarrow>
          (case rt_PopulateQuery rt protoReq form flt of
             Inl m \<Rightarrow> Err (errorf InvalidArgument m)
           | Inr q \<Rightarrow> Ok q))"

text \<open>The body, decoded over a zero value that an empty body leaves.\<close>

definition decode_body :: "('q, 'b) runtime \<Rightarrow> string \<Rightarrow> 'b \<Rightarrow> 'b result" where
  "decode_body rt content zero =
     (case rt_Decode rt content of
        Decoded x \<Rightarrow> Ok x
      | AtEOF \<Rightarrow> Ok zero
      | Failed m \<Rightarrow> Err (errorf InvalidArgument m))"

definition new_reader :: "('q, 'b) runtime \<Rightarrow> string \<Rightarrow> string result" where
  "new_reader rt content =
     (case rt_IOReader rt content of
        Inl m \<Rightarrow> Err (errorf InvalidArgument m)
      | Inr c \<Rightarrow> Ok c)"

definition default_mask ::
  "('r UpdateRequest, 'r option) runtime \<Rightarrow> string \<Rightarrow> 'r UpdateRequest \<Rightarrow> 'r UpdateRequest result" where
  "default_mask rt content protoReq =
     (if (case uq_UpdateMask protoReq of None \<Rightarrow> True | Some ps \<Rightarrow> length ps = 0)
      then (case rt_FieldMask rt content (uq_Resource protoReq) of
              Inl m \<Rightarrow> Err (errorf InvalidArgument m)
            | Inr fieldMask \<Rightarrow> Ok (protoReq\<lparr>uq_UpdateMask := fieldMask\<rparr>))
      else Ok protoReq)"

text \<open>The zero values of the request messages.\<close>

definition zeroGet :: GetRequest where
  "zeroGet = \<lparr>gr_Name = []\<rparr>"

definition zeroList :: ListRequest where
  "zeroList = \<lparr>lr_Parent = [], lr_PageSize = 0, lr_PageToken = [], lr_OrderBy = [], lr_Filter = []\<rparr>"

definition zeroCreate :: "'r CreateRequest" where
  "zeroCreate = \<lparr>cq_Parent = [], cq_Id = [], cq_Resource = None, cq_ValidateOnly = False\<rparr>"

definition zeroUpdate :: "'r UpdateRequest" where
  "zeroUpdate = \<lparr>uq_Resource = None, uq_UpdateMask = None, uq_ValidateOnly = False,
     uq_AllowMissing = False\<rparr>"

definition zeroDelete :: DeleteRequest where
  "zeroDelete = \<lparr>dq_Name = [], dq_Etag = [], dq_AllowMissing = False, dq_ValidateOnly = False\<rparr>"

section \<open>Routes\<close>

text \<open>
  The methods of the three services and their answers. \<open>Publish\<close>, of a message bus, is declared in
  the Publisher service only.
\<close>

record BusPublishRequest =
  bp_MessageBus :: string
  bp_Event :: encoded

datatype Call = Eventarc Request | PublishEventsCall PublishRequest
  | PublishConnectionCall PublishRequest | PublishBusCall BusPublishRequest

datatype Reply = Answer Response | Published

text \<open>The connection to the gRPC server: what a call gives, on the state of the world.\<close>

type_synonym 's conn = "Call \<Rightarrow> ('s, Reply) op"

text \<open>
  The runtime at the message types of the services, and \<open>AnnotateContext\<close> and
  \<open>AnnotateIncomingContext\<close>, which may refuse a request for a method.
\<close>

record runtimes =
  rts_Get :: "(GetRequest, unit) runtime"
  rts_List :: "(ListRequest, unit) runtime"
  rts_Delete :: "(DeleteRequest, unit) runtime"
  rts_Message :: "(GetRequest, GetRequest) runtime"
  rts_Publish :: "(PublishRequest, PublishRequest) runtime"
  rts_PublishBus :: "(BusPublishRequest, BusPublishRequest) runtime"
  rts_CreateTrigger :: "(Trigger CreateRequest, Trigger option) runtime"
  rts_UpdateTrigger :: "(Trigger UpdateRequest, Trigger option) runtime"
  rts_CreateChannel :: "(Channel CreateRequest, Channel option) runtime"
  rts_UpdateChannel :: "(Channel UpdateRequest, Channel option) runtime"
  rts_CreateChannelConnection :: "(ChannelConnection CreateRequest, ChannelConnection option) runtime"
  rts_UpdateGoogleChannelConfig ::
    "(GoogleChannelConfig UpdateRequest, GoogleChannelConfig option) runtime"
  rts_CreateMessageBus :: "(MessageBus CreateRequest, MessageBus option) runtime"
  rts_UpdateMessageBus :: "(MessageBus UpdateRequest, MessageBus option) runtime"
  rts_CreateEnrollment :: "(Enrollment CreateRequest, Enrollment option) runtime"
  rts_UpdateEnrollment :: "(Enrollment UpdateRequest, Enrollment option) runtime"
  rts_CreatePipeline :: "(Pipeline CreateRequest, Pipeline option) runtime"
  rts_UpdatePipeline :: "(Pipeline UpdateRequest, Pipeline option) runtime"
  rts_CreateGoogleApiSource :: "(GoogleApiSource CreateRequest, GoogleApiSource option) runtime"
  rts_UpdateGoogleApiSource :: "(GoogleApiSource UpdateRequest, GoogleApiSource option) runtime"
  rts_Annotate :: "RestRequest \<Rightarrow> string \<Rightarrow> string \<Rightarrow> err option"
  rts_AnnotateIncoming :: "RestRequest \<Rightarrow> string \<Rightarrow> string \<Rightarrow> err option"

text \<open>
  What the gateway writes: the response of a method, an error through the error handler of the mux or
  the default one, a body of its own, or the mux's answer to a request that no route takes. A route has a compiled pattern or, registered by \<open>HandlePath\<close>,
  the text of its path.
\<close>

datatype RestReply = Forward Reply | HTTPError err | DefaultHTTPError err | Body int string | NoRoute

datatype mux_pattern = Compiled Pattern | PathText string

record 's rest_route =
  ro_Method :: string
  ro_Pattern :: mux_pattern
  ro_Serve :: "RestRequest \<Rightarrow> string gomap \<Rightarrow> ('s, RestReply) op"

text \<open>
  The closure every route registers: annotate the context, run the request function, and write the
  error or forward the response.
\<close>

definition rest_handler ::
  "runtimes \<Rightarrow> string \<Rightarrow> string \<Rightarrow> (RestRequest \<Rightarrow> string gomap \<Rightarrow> ('s, Reply) op) \<Rightarrow>
   RestRequest \<Rightarrow> string gomap \<Rightarrow> ('s, RestReply) op" where
  "rest_handler rts rpcName template f req pathParams s =
     (case rts_Annotate rts req rpcName template of
        Some err \<Rightarrow> (Ok (HTTPError err), s)
      | None \<Rightarrow>
          (case f req pathParams s of
             (Ok resp, s') \<Rightarrow> (Ok (Forward resp), s')
           | (Err err, s') \<Rightarrow> (Ok (HTTPError err), s')
           | (Panic p, s') \<Rightarrow> (Panic p, s')))"

text \<open>The closure of an in-process route, which annotates the context as that of an incoming call.\<close>

definition local_handler ::
  "runtimes \<Rightarrow> string \<Rightarrow> string \<Rightarrow> (RestRequest \<Rightarrow> string gomap \<Rightarrow> ('s, Reply) op) \<Rightarrow>
   RestRequest \<Rightarrow> string gomap \<Rightarrow> ('s, RestReply) op" where
  "local_handler rts rpcName template f req pathParams s =
     (case rts_AnnotateIncoming rts req rpcName template of
        Some err \<Rightarrow> (Ok (HTTPError err), s)
      | None \<Rightarrow>
          (case f req pathParams s of
             (Ok resp, s') \<Rightarrow> (Ok (Forward resp), s')
           | (Err err, s') \<Rightarrow> (Ok (HTTPError err), s')
           | (Panic p, s') \<Rightarrow> (Panic p, s')))"

lemma local_handler_rest:
  "rts_AnnotateIncoming rts = rts_Annotate rts' \<Longrightarrow>
   local_handler rts rpcName template f = rest_handler rts' rpcName template f"
  by (simp add: fun_eq_iff local_handler_def rest_handler_def)

section \<open>A request function makes at most one call\<close>

text \<open>
  \<open>calls conn m\<close>: the operation \<open>m\<close> either fails without touching the state, or is one call on the
  connection.
\<close>

definition calls :: "'s conn \<Rightarrow> ('s, Reply) op \<Rightarrow> bool" where
  "calls conn m \<longleftrightarrow> (\<exists>err. m = give (Err err)) \<or> (\<exists>q. m = conn q)"

named_theorems calls_intros \<open>rules for request functions\<close>

lemma seq_give_cases: "seq (give r) f = (case r of Ok a \<Rightarrow> f a | Err e \<Rightarrow> give (Err e) | Panic p \<Rightarrow> give (Panic p))"
  by (cases r) (auto simp: seq_def give_def fun_eq_iff)

lemma calls_seq [calls_intros]:
  "\<not> is_panic r \<Longrightarrow> (\<And>a. r = Ok a \<Longrightarrow> calls conn (f a)) \<Longrightarrow> calls conn (seq (give r) f)"
  by (cases r) (auto simp: seq_give_cases calls_def)

lemma calls_conn [calls_intros]: "calls conn (conn q)"
  by (auto simp: calls_def)

lemma steps_no_panic [simp]:
  "\<not> is_panic (pathParam rt1 pp k)" "\<not> is_panic (pathField rt pp k q)"
  "\<not> is_panic (query_params rt req flt q)" "\<not> is_panic (decode_body rt content zero)"
  "\<not> is_panic (new_reader rt content)" "\<not> is_panic (default_mask rt' content q')"
  by (auto simp: pathParam_def pathField_def query_params_def decode_body_def new_reader_def
      default_mask_def split: option.split sum.split decoded.split)

text \<open>
  What a route does to the world: nothing, or one call whose result it writes.
\<close>

definition relays :: "'s conn \<Rightarrow> 's \<Rightarrow> RestReply result \<Rightarrow> 's \<Rightarrow> bool" where
  "relays conn s reply s' \<longleftrightarrow>
     (s' = s \<and> (\<exists>r. reply = Ok r \<and> (\<forall>resp. r \<noteq> Forward resp))) \<or>
     (\<exists>q. (\<exists>resp. conn q s = (Ok resp, s') \<and> reply = Ok (Forward resp)) \<or>
       (\<exists>err. conn q s = (Err err, s') \<and> reply \<in> {Ok (HTTPError err), Ok (DefaultHTTPError err)}) \<or>
       (\<exists>p. conn q s = (Panic p, s') \<and> reply = Panic p))"

lemma relays_idle [simp]: "relays conn s (Ok NoRoute) s" "relays conn s (Ok (Body n b)) s"
  "relays conn s (Ok (HTTPError err)) s"
  by (simp_all add: relays_def)

text \<open>A call answered directly relays.\<close>

lemma relays_call:
  "conn q s = (Ok resp, s') \<Longrightarrow> relays conn s (Ok (Forward resp)) s'"
  "conn q s = (Err err, s') \<Longrightarrow> relays conn s (Ok (HTTPError err)) s'"
  "conn q s = (Err err, s') \<Longrightarrow> relays conn s (Ok (DefaultHTTPError err)) s'"
  "conn q s = (Panic p, s') \<Longrightarrow> relays conn s (Panic p) s'"
  unfolding relays_def by blast+

definition relaying :: "'s conn \<Rightarrow> 's rest_route \<Rightarrow> bool" where
  "relaying conn r \<longleftrightarrow>
     (\<forall>req pp s. case ro_Serve r req pp s of (reply, s') \<Rightarrow> relays conn s reply s')"

lemma relayingD: "relaying conn r \<Longrightarrow> ro_Serve r req pp s = (reply, s') \<Longrightarrow> relays conn s reply s'"
  unfolding relaying_def by (metis case_prod_conv)

lemma relaying_handler:
  assumes "\<And>req pp. calls conn (f req pp)"
  shows "relaying conn \<lparr>ro_Method = me, ro_Pattern = pa, ro_Serve = rest_handler rts rpcName template f\<rparr>"
proof -
  have "case rest_handler rts rpcName template f req pp s of (reply, s') \<Rightarrow> relays conn s reply s'"
    for req pp s
  proof (cases "rts_Annotate rts req rpcName template")
    case None
    obtain r s' where f: "f req pp s = (r, s')" by (cases "f req pp s")
    have "(\<exists>err. f req pp = give (Err err)) \<or> (\<exists>q. f req pp = conn q)"
      using assms [of req pp] by (simp add: calls_def)
    then show ?thesis
      using f None by (cases r) (auto simp: rest_handler_def relays_call)
  qed (simp add: rest_handler_def)
  then show ?thesis by (simp add: relaying_def)
qed

end
