(* ===== verification/RestEventarc.thy ===== *)
theory RestEventarc
  imports Rest
begin

text \<open>
  internal/gen/google/cloud/eventarc/v1/eventarc.pb.gw.go: the REST handlers of the Eventarc service,
  under their Go names. \<open>route_X\<close> is the block of \<open>RegisterEventarcHandlerClient\<close> that registers the
  method X. The in-process variants are in \<open>RestLocal\<close>.
\<close>

section \<open>Patterns\<close>

definition pattern_Eventarc_GetTrigger_0 :: Pattern where
  "pattern_Eventarc_GetTrigger_0 = \<lparr>pt_Version = 1,
     pt_Ops = [2, 0, 2, 1, 1, 0, 2, 2, 1, 0, 2, 3, 1, 0, 4, 6, 5, 4],
     pt_Pool = [''v1'', ''projects'', ''locations'', ''triggers'', ''name''],
     pt_Verb = []\<rparr>"

definition pattern_Eventarc_ListTriggers_0 :: Pattern where
  "pattern_Eventarc_ListTriggers_0 = \<lparr>pt_Version = 1,
     pt_Ops = [2, 0, 2, 1, 1, 0, 2, 2, 1, 0, 4, 4, 5, 3, 2, 4],
     pt_Pool = [''v1'', ''projects'', ''locations'', ''parent'', ''triggers''],
     pt_Verb = []\<rparr>"

definition pattern_Eventarc_CreateTrigger_0 :: Pattern where
  "pattern_Eventarc_CreateTrigger_0 = \<lparr>pt_Version = 1,
     pt_Ops = [2, 0, 2, 1, 1, 0, 2, 2, 1, 0, 4, 4, 5, 3, 2, 4],
     pt_Pool = [''v1'', ''projects'', ''locations'', ''parent'', ''triggers''],
     pt_Verb = []\<rparr>"

definition pattern_Eventarc_UpdateTrigger_0 :: Pattern where
  "pattern_Eventarc_UpdateTrigger_0 = \<lparr>pt_Version = 1,
     pt_Ops = [2, 0, 2, 1, 1, 0, 2, 2, 1, 0, 2, 3, 1, 0, 4, 6, 5, 4],
     pt_Pool = [''v1'', ''projects'', ''locations'', ''triggers'', ''trigger.name''],
     pt_Verb = []\<rparr>"

definition pattern_Eventarc_DeleteTrigger_0 :: Pattern where
  "pattern_Eventarc_DeleteTrigger_0 = \<lparr>pt_Version = 1,
     pt_Ops = [2, 0, 2, 1, 1, 0, 2, 2, 1, 0, 2, 3, 1, 0, 4, 6, 5, 4],
     pt_Pool = [''v1'', ''projects'', ''locations'', ''triggers'', ''name''],
     pt_Verb = []\<rparr>"

definition pattern_Eventarc_GetChannel_0 :: Pattern where
  "pattern_Eventarc_GetChannel_0 = \<lparr>pt_Version = 1,
     pt_Ops = [2, 0, 2, 1, 1, 0, 2, 2, 1, 0, 2, 3, 1, 0, 4, 6, 5, 4],
     pt_Pool = [''v1'', ''projects'', ''locations'', ''channels'', ''name''],
     pt_Verb = []\<rparr>"

definition pattern_Eventarc_ListChannels_0 :: Pattern where
  "pattern_Eventarc_ListChannels_0 = \<lparr>pt_Version = 1,
     pt_Ops = [2, 0, 2, 1, 1, 0, 2, 2, 1, 0, 4, 4, 5, 3, 2, 4],
     pt_Pool = [''v1'', ''projects'', ''locations'', ''parent'', ''channels''],
     pt_Verb = []\<rparr>"

definition pattern_Eventarc_CreateChannel_0 :: Pattern where
  "pattern_Eventarc_CreateChannel_0 = \<lparr>pt_Version = 1,
     pt_Ops = [2, 0, 2, 1, 1, 0, 2, 2, 1, 0, 4, 4, 5, 3, 2, 4],
     pt_Pool = [''v1'', ''projects'', ''locations'', ''parent'', ''channels''],
     pt_Verb = []\<rparr>"

definition pattern_Eventarc_UpdateChannel_0 :: Pattern where
  "pattern_Eventarc_UpdateChannel_0 = \<lparr>pt_Version = 1,
     pt_Ops = [2, 0, 2, 1, 1, 0, 2, 2, 1, 0, 2, 3, 1, 0, 4, 6, 5, 4],
     pt_Pool = [''v1'', ''projects'', ''locations'', ''channels'', ''channel.name''],
     pt_Verb = []\<rparr>"

definition pattern_Eventarc_DeleteChannel_0 :: Pattern where
  "pattern_Eventarc_DeleteChannel_0 = \<lparr>pt_Version = 1,
     pt_Ops = [2, 0, 2, 1, 1, 0, 2, 2, 1, 0, 2, 3, 1, 0, 4, 6, 5, 4],
     pt_Pool = [''v1'', ''projects'', ''locations'', ''channels'', ''name''],
     pt_Verb = []\<rparr>"

definition pattern_Eventarc_GetProvider_0 :: Pattern where
  "pattern_Eventarc_GetProvider_0 = \<lparr>pt_Version = 1,
     pt_Ops = [2, 0, 2, 1, 1, 0, 2, 2, 1, 0, 2, 3, 1, 0, 4, 6, 5, 4],
     pt_Pool = [''v1'', ''projects'', ''locations'', ''providers'', ''name''],
     pt_Verb = []\<rparr>"

definition pattern_Eventarc_ListProviders_0 :: Pattern where
  "pattern_Eventarc_ListProviders_0 = \<lparr>pt_Version = 1,
     pt_Ops = [2, 0, 2, 1, 1, 0, 2, 2, 1, 0, 4, 4, 5, 3, 2, 4],
     pt_Pool = [''v1'', ''projects'', ''locations'', ''parent'', ''providers''],
     pt_Verb = []\<rparr>"

definition pattern_Eventarc_GetChannelConnection_0 :: Pattern where
  "pattern_Eventarc_GetChannelConnection_0 = \<lparr>pt_Version = 1,
     pt_Ops = [2, 0, 2, 1, 1, 0, 2, 2, 1, 0, 2, 3, 1, 0, 4, 6, 5, 4],
     pt_Pool = [''v1'', ''projects'', ''locations'', ''channelConnections'', ''name''],
     pt_Verb = []\<rparr>"

definition pattern_Eventarc_ListChannelConnections_0 :: Pattern where
  "pattern_Eventarc_ListChannelConnections_0 = \<lparr>pt_Version = 1,
     pt_Ops = [2, 0, 2, 1, 1, 0, 2, 2, 1, 0, 4, 4, 5, 3, 2, 4],
     pt_Pool = [''v1'', ''projects'', ''locations'', ''parent'', ''channelConnections''],
     pt_Verb = []\<rparr>"

definition pattern_Eventarc_CreateChannelConnection_0 :: Pattern where
  "pattern_Eventarc_CreateChannelConnection_0 = \<lparr>pt_Version = 1,
     pt_Ops = [2, 0, 2, 1, 1, 0, 2, 2, 1, 0, 4, 4, 5, 3, 2, 4],
     pt_Pool = [''v1'', ''projects'', ''locations'', ''parent'', ''channelConnections''],
     pt_Verb = []\<rparr>"

definition pattern_Eventarc_DeleteChannelConnection_0 :: Pattern where
  "pattern_Eventarc_DeleteChannelConnection_0 = \<lparr>pt_Version = 1,
     pt_Ops = [2, 0, 2, 1, 1, 0, 2, 2, 1, 0, 2, 3, 1, 0, 4, 6, 5, 4],
     pt_Pool = [''v1'', ''projects'', ''locations'', ''channelConnections'', ''name''],
     pt_Verb = []\<rparr>"

definition pattern_Eventarc_GetGoogleChannelConfig_0 :: Pattern where
  "pattern_Eventarc_GetGoogleChannelConfig_0 = \<lparr>pt_Version = 1,
     pt_Ops = [2, 0, 2, 1, 1, 0, 2, 2, 1, 0, 2, 3, 4, 5, 5, 4],
     pt_Pool = [''v1'', ''projects'', ''locations'', ''googleChannelConfig'', ''name''],
     pt_Verb = []\<rparr>"

definition pattern_Eventarc_UpdateGoogleChannelConfig_0 :: Pattern where
  "pattern_Eventarc_UpdateGoogleChannelConfig_0 = \<lparr>pt_Version = 1,
     pt_Ops = [2, 0, 2, 1, 1, 0, 2, 2, 1, 0, 2, 3, 4, 5, 5, 4],
     pt_Pool = [''v1'', ''projects'', ''locations'', ''googleChannelConfig'', ''google_channel_config.name''],
     pt_Verb = []\<rparr>"

definition pattern_Eventarc_GetMessageBus_0 :: Pattern where
  "pattern_Eventarc_GetMessageBus_0 = \<lparr>pt_Version = 1,
     pt_Ops = [2, 0, 2, 1, 1, 0, 2, 2, 1, 0, 2, 3, 1, 0, 4, 6, 5, 4],
     pt_Pool = [''v1'', ''projects'', ''locations'', ''messageBuses'', ''name''],
     pt_Verb = []\<rparr>"

definition pattern_Eventarc_ListMessageBuses_0 :: Pattern where
  "pattern_Eventarc_ListMessageBuses_0 = \<lparr>pt_Version = 1,
     pt_Ops = [2, 0, 2, 1, 1, 0, 2, 2, 1, 0, 4, 4, 5, 3, 2, 4],
     pt_Pool = [''v1'', ''projects'', ''locations'', ''parent'', ''messageBuses''],
     pt_Verb = []\<rparr>"

definition pattern_Eventarc_ListMessageBusEnrollments_0 :: Pattern where
  "pattern_Eventarc_ListMessageBusEnrollments_0 = \<lparr>pt_Version = 1,
     pt_Ops = [2, 0, 2, 1, 1, 0, 2, 2, 1, 0, 2, 3, 1, 0, 4, 6, 5, 4],
     pt_Pool = [''v1'', ''projects'', ''locations'', ''messageBuses'', ''parent''],
     pt_Verb = ''listEnrollments''\<rparr>"

definition pattern_Eventarc_CreateMessageBus_0 :: Pattern where
  "pattern_Eventarc_CreateMessageBus_0 = \<lparr>pt_Version = 1,
     pt_Ops = [2, 0, 2, 1, 1, 0, 2, 2, 1, 0, 4, 4, 5, 3, 2, 4],
     pt_Pool = [''v1'', ''projects'', ''locations'', ''parent'', ''messageBuses''],
     pt_Verb = []\<rparr>"

definition pattern_Eventarc_UpdateMessageBus_0 :: Pattern where
  "pattern_Eventarc_UpdateMessageBus_0 = \<lparr>pt_Version = 1,
     pt_Ops = [2, 0, 2, 1, 1, 0, 2, 2, 1, 0, 2, 3, 1, 0, 4, 6, 5, 4],
     pt_Pool = [''v1'', ''projects'', ''locations'', ''messageBuses'', ''message_bus.name''],
     pt_Verb = []\<rparr>"

definition pattern_Eventarc_DeleteMessageBus_0 :: Pattern where
  "pattern_Eventarc_DeleteMessageBus_0 = \<lparr>pt_Version = 1,
     pt_Ops = [2, 0, 2, 1, 1, 0, 2, 2, 1, 0, 2, 3, 1, 0, 4, 6, 5, 4],
     pt_Pool = [''v1'', ''projects'', ''locations'', ''messageBuses'', ''name''],
     pt_Verb = []\<rparr>"

definition pattern_Eventarc_GetEnrollment_0 :: Pattern where
  "pattern_Eventarc_GetEnrollment_0 = \<lparr>pt_Version = 1,
     pt_Ops = [2, 0, 2, 1, 1, 0, 2, 2, 1, 0, 2, 3, 1, 0, 4, 6, 5, 4],
     pt_Pool = [''v1'', ''projects'', ''locations'', ''enrollments'', ''name''],
     pt_Verb = []\<rparr>"

definition pattern_Eventarc_ListEnrollments_0 :: Pattern where
  "pattern_Eventarc_ListEnrollments_0 = \<lparr>pt_Version = 1,
     pt_Ops = [2, 0, 2, 1, 1, 0, 2, 2, 1, 0, 4, 4, 5, 3, 2, 4],
     pt_Pool = [''v1'', ''projects'', ''locations'', ''parent'', ''enrollments''],
     pt_Verb = []\<rparr>"

definition pattern_Eventarc_CreateEnrollment_0 :: Pattern where
  "pattern_Eventarc_CreateEnrollment_0 = \<lparr>pt_Version = 1,
     pt_Ops = [2, 0, 2, 1, 1, 0, 2, 2, 1, 0, 4, 4, 5, 3, 2, 4],
     pt_Pool = [''v1'', ''projects'', ''locations'', ''parent'', ''enrollments''],
     pt_Verb = []\<rparr>"

definition pattern_Eventarc_UpdateEnrollment_0 :: Pattern where
  "pattern_Eventarc_UpdateEnrollment_0 = \<lparr>pt_Version = 1,
     pt_Ops = [2, 0, 2, 1, 1, 0, 2, 2, 1, 0, 2, 3, 1, 0, 4, 6, 5, 4],
     pt_Pool = [''v1'', ''projects'', ''locations'', ''enrollments'', ''enrollment.name''],
     pt_Verb = []\<rparr>"

definition pattern_Eventarc_DeleteEnrollment_0 :: Pattern where
  "pattern_Eventarc_DeleteEnrollment_0 = \<lparr>pt_Version = 1,
     pt_Ops = [2, 0, 2, 1, 1, 0, 2, 2, 1, 0, 2, 3, 1, 0, 4, 6, 5, 4],
     pt_Pool = [''v1'', ''projects'', ''locations'', ''enrollments'', ''name''],
     pt_Verb = []\<rparr>"

definition pattern_Eventarc_GetPipeline_0 :: Pattern where
  "pattern_Eventarc_GetPipeline_0 = \<lparr>pt_Version = 1,
     pt_Ops = [2, 0, 2, 1, 1, 0, 2, 2, 1, 0, 2, 3, 1, 0, 4, 6, 5, 4],
     pt_Pool = [''v1'', ''projects'', ''locations'', ''pipelines'', ''name''],
     pt_Verb = []\<rparr>"

definition pattern_Eventarc_ListPipelines_0 :: Pattern where
  "pattern_Eventarc_ListPipelines_0 = \<lparr>pt_Version = 1,
     pt_Ops = [2, 0, 2, 1, 1, 0, 2, 2, 1, 0, 4, 4, 5, 3, 2, 4],
     pt_Pool = [''v1'', ''projects'', ''locations'', ''parent'', ''pipelines''],
     pt_Verb = []\<rparr>"

definition pattern_Eventarc_CreatePipeline_0 :: Pattern where
  "pattern_Eventarc_CreatePipeline_0 = \<lparr>pt_Version = 1,
     pt_Ops = [2, 0, 2, 1, 1, 0, 2, 2, 1, 0, 4, 4, 5, 3, 2, 4],
     pt_Pool = [''v1'', ''projects'', ''locations'', ''parent'', ''pipelines''],
     pt_Verb = []\<rparr>"

definition pattern_Eventarc_UpdatePipeline_0 :: Pattern where
  "pattern_Eventarc_UpdatePipeline_0 = \<lparr>pt_Version = 1,
     pt_Ops = [2, 0, 2, 1, 1, 0, 2, 2, 1, 0, 2, 3, 1, 0, 4, 6, 5, 4],
     pt_Pool = [''v1'', ''projects'', ''locations'', ''pipelines'', ''pipeline.name''],
     pt_Verb = []\<rparr>"

definition pattern_Eventarc_DeletePipeline_0 :: Pattern where
  "pattern_Eventarc_DeletePipeline_0 = \<lparr>pt_Version = 1,
     pt_Ops = [2, 0, 2, 1, 1, 0, 2, 2, 1, 0, 2, 3, 1, 0, 4, 6, 5, 4],
     pt_Pool = [''v1'', ''projects'', ''locations'', ''pipelines'', ''name''],
     pt_Verb = []\<rparr>"

definition pattern_Eventarc_GetGoogleApiSource_0 :: Pattern where
  "pattern_Eventarc_GetGoogleApiSource_0 = \<lparr>pt_Version = 1,
     pt_Ops = [2, 0, 2, 1, 1, 0, 2, 2, 1, 0, 2, 3, 1, 0, 4, 6, 5, 4],
     pt_Pool = [''v1'', ''projects'', ''locations'', ''googleApiSources'', ''name''],
     pt_Verb = []\<rparr>"

definition pattern_Eventarc_ListGoogleApiSources_0 :: Pattern where
  "pattern_Eventarc_ListGoogleApiSources_0 = \<lparr>pt_Version = 1,
     pt_Ops = [2, 0, 2, 1, 1, 0, 2, 2, 1, 0, 4, 4, 5, 3, 2, 4],
     pt_Pool = [''v1'', ''projects'', ''locations'', ''parent'', ''googleApiSources''],
     pt_Verb = []\<rparr>"

definition pattern_Eventarc_CreateGoogleApiSource_0 :: Pattern where
  "pattern_Eventarc_CreateGoogleApiSource_0 = \<lparr>pt_Version = 1,
     pt_Ops = [2, 0, 2, 1, 1, 0, 2, 2, 1, 0, 4, 4, 5, 3, 2, 4],
     pt_Pool = [''v1'', ''projects'', ''locations'', ''parent'', ''googleApiSources''],
     pt_Verb = []\<rparr>"

definition pattern_Eventarc_UpdateGoogleApiSource_0 :: Pattern where
  "pattern_Eventarc_UpdateGoogleApiSource_0 = \<lparr>pt_Version = 1,
     pt_Ops = [2, 0, 2, 1, 1, 0, 2, 2, 1, 0, 2, 3, 1, 0, 4, 6, 5, 4],
     pt_Pool = [''v1'', ''projects'', ''locations'', ''googleApiSources'', ''google_api_source.name''],
     pt_Verb = []\<rparr>"

definition pattern_Eventarc_DeleteGoogleApiSource_0 :: Pattern where
  "pattern_Eventarc_DeleteGoogleApiSource_0 = \<lparr>pt_Version = 1,
     pt_Ops = [2, 0, 2, 1, 1, 0, 2, 2, 1, 0, 2, 3, 1, 0, 4, 6, 5, 4],
     pt_Pool = [''v1'', ''projects'', ''locations'', ''googleApiSources'', ''name''],
     pt_Verb = []\<rparr>"

section \<open>The fields a query may not set\<close>

definition filter_Eventarc_ListTriggers_0 :: DoubleArray where
  "filter_Eventarc_ListTriggers_0 = \<lparr>da_Encoding = [(''parent'', 0)],
     da_Base = [1, 1, 0], da_Check = [0, 1, 2]\<rparr>"

definition filter_Eventarc_CreateTrigger_0 :: DoubleArray where
  "filter_Eventarc_CreateTrigger_0 = \<lparr>da_Encoding = [(''trigger'', 0), (''parent'', 1)],
     da_Base = [1, 1, 2, 0, 0], da_Check = [0, 1, 1, 2, 3]\<rparr>"

definition filter_Eventarc_UpdateTrigger_0 :: DoubleArray where
  "filter_Eventarc_UpdateTrigger_0 = \<lparr>da_Encoding = [(''trigger'', 0), (''name'', 1)],
     da_Base = [1, 2, 1, 0, 0], da_Check = [0, 1, 2, 3, 2]\<rparr>"

definition filter_Eventarc_DeleteTrigger_0 :: DoubleArray where
  "filter_Eventarc_DeleteTrigger_0 = \<lparr>da_Encoding = [(''name'', 0)],
     da_Base = [1, 1, 0], da_Check = [0, 1, 2]\<rparr>"

definition filter_Eventarc_ListChannels_0 :: DoubleArray where
  "filter_Eventarc_ListChannels_0 = \<lparr>da_Encoding = [(''parent'', 0)],
     da_Base = [1, 1, 0], da_Check = [0, 1, 2]\<rparr>"

definition filter_Eventarc_CreateChannel_0 :: DoubleArray where
  "filter_Eventarc_CreateChannel_0 = \<lparr>da_Encoding = [(''channel'', 0), (''parent'', 1)],
     da_Base = [1, 1, 2, 0, 0], da_Check = [0, 1, 1, 2, 3]\<rparr>"

definition filter_Eventarc_UpdateChannel_0 :: DoubleArray where
  "filter_Eventarc_UpdateChannel_0 = \<lparr>da_Encoding = [(''channel'', 0), (''name'', 1)],
     da_Base = [1, 2, 1, 0, 0], da_Check = [0, 1, 2, 3, 2]\<rparr>"

definition filter_Eventarc_DeleteChannel_0 :: DoubleArray where
  "filter_Eventarc_DeleteChannel_0 = \<lparr>da_Encoding = [(''name'', 0)],
     da_Base = [1, 1, 0], da_Check = [0, 1, 2]\<rparr>"

definition filter_Eventarc_ListProviders_0 :: DoubleArray where
  "filter_Eventarc_ListProviders_0 = \<lparr>da_Encoding = [(''parent'', 0)],
     da_Base = [1, 1, 0], da_Check = [0, 1, 2]\<rparr>"

definition filter_Eventarc_ListChannelConnections_0 :: DoubleArray where
  "filter_Eventarc_ListChannelConnections_0 = \<lparr>da_Encoding = [(''parent'', 0)],
     da_Base = [1, 1, 0], da_Check = [0, 1, 2]\<rparr>"

definition filter_Eventarc_CreateChannelConnection_0 :: DoubleArray where
  "filter_Eventarc_CreateChannelConnection_0 = \<lparr>da_Encoding = [(''channel_connection'', 0), (''parent'', 1)],
     da_Base = [1, 1, 2, 0, 0], da_Check = [0, 1, 1, 2, 3]\<rparr>"

definition filter_Eventarc_UpdateGoogleChannelConfig_0 :: DoubleArray where
  "filter_Eventarc_UpdateGoogleChannelConfig_0 = \<lparr>da_Encoding = [(''google_channel_config'', 0), (''name'', 1)],
     da_Base = [1, 2, 1, 0, 0], da_Check = [0, 1, 2, 3, 2]\<rparr>"

definition filter_Eventarc_ListMessageBuses_0 :: DoubleArray where
  "filter_Eventarc_ListMessageBuses_0 = \<lparr>da_Encoding = [(''parent'', 0)],
     da_Base = [1, 1, 0], da_Check = [0, 1, 2]\<rparr>"

definition filter_Eventarc_ListMessageBusEnrollments_0 :: DoubleArray where
  "filter_Eventarc_ListMessageBusEnrollments_0 = \<lparr>da_Encoding = [(''parent'', 0)],
     da_Base = [1, 1, 0], da_Check = [0, 1, 2]\<rparr>"

definition filter_Eventarc_CreateMessageBus_0 :: DoubleArray where
  "filter_Eventarc_CreateMessageBus_0 = \<lparr>da_Encoding = [(''message_bus'', 0), (''parent'', 1)],
     da_Base = [1, 1, 2, 0, 0], da_Check = [0, 1, 1, 2, 3]\<rparr>"

definition filter_Eventarc_UpdateMessageBus_0 :: DoubleArray where
  "filter_Eventarc_UpdateMessageBus_0 = \<lparr>da_Encoding = [(''message_bus'', 0), (''name'', 1)],
     da_Base = [1, 2, 1, 0, 0], da_Check = [0, 1, 2, 3, 2]\<rparr>"

definition filter_Eventarc_DeleteMessageBus_0 :: DoubleArray where
  "filter_Eventarc_DeleteMessageBus_0 = \<lparr>da_Encoding = [(''name'', 0)],
     da_Base = [1, 1, 0], da_Check = [0, 1, 2]\<rparr>"

definition filter_Eventarc_ListEnrollments_0 :: DoubleArray where
  "filter_Eventarc_ListEnrollments_0 = \<lparr>da_Encoding = [(''parent'', 0)],
     da_Base = [1, 1, 0], da_Check = [0, 1, 2]\<rparr>"

definition filter_Eventarc_CreateEnrollment_0 :: DoubleArray where
  "filter_Eventarc_CreateEnrollment_0 = \<lparr>da_Encoding = [(''enrollment'', 0), (''parent'', 1)],
     da_Base = [1, 1, 2, 0, 0], da_Check = [0, 1, 1, 2, 3]\<rparr>"

definition filter_Eventarc_UpdateEnrollment_0 :: DoubleArray where
  "filter_Eventarc_UpdateEnrollment_0 = \<lparr>da_Encoding = [(''enrollment'', 0), (''name'', 1)],
     da_Base = [1, 2, 1, 0, 0], da_Check = [0, 1, 2, 3, 2]\<rparr>"

definition filter_Eventarc_DeleteEnrollment_0 :: DoubleArray where
  "filter_Eventarc_DeleteEnrollment_0 = \<lparr>da_Encoding = [(''name'', 0)],
     da_Base = [1, 1, 0], da_Check = [0, 1, 2]\<rparr>"

definition filter_Eventarc_ListPipelines_0 :: DoubleArray where
  "filter_Eventarc_ListPipelines_0 = \<lparr>da_Encoding = [(''parent'', 0)],
     da_Base = [1, 1, 0], da_Check = [0, 1, 2]\<rparr>"

definition filter_Eventarc_CreatePipeline_0 :: DoubleArray where
  "filter_Eventarc_CreatePipeline_0 = \<lparr>da_Encoding = [(''pipeline'', 0), (''parent'', 1)],
     da_Base = [1, 1, 2, 0, 0], da_Check = [0, 1, 1, 2, 3]\<rparr>"

definition filter_Eventarc_UpdatePipeline_0 :: DoubleArray where
  "filter_Eventarc_UpdatePipeline_0 = \<lparr>da_Encoding = [(''pipeline'', 0), (''name'', 1)],
     da_Base = [1, 2, 1, 0, 0], da_Check = [0, 1, 2, 3, 2]\<rparr>"

definition filter_Eventarc_DeletePipeline_0 :: DoubleArray where
  "filter_Eventarc_DeletePipeline_0 = \<lparr>da_Encoding = [(''name'', 0)],
     da_Base = [1, 1, 0], da_Check = [0, 1, 2]\<rparr>"

definition filter_Eventarc_ListGoogleApiSources_0 :: DoubleArray where
  "filter_Eventarc_ListGoogleApiSources_0 = \<lparr>da_Encoding = [(''parent'', 0)],
     da_Base = [1, 1, 0], da_Check = [0, 1, 2]\<rparr>"

definition filter_Eventarc_CreateGoogleApiSource_0 :: DoubleArray where
  "filter_Eventarc_CreateGoogleApiSource_0 = \<lparr>da_Encoding = [(''google_api_source'', 0), (''parent'', 1)],
     da_Base = [1, 1, 2, 0, 0], da_Check = [0, 1, 1, 2, 3]\<rparr>"

definition filter_Eventarc_UpdateGoogleApiSource_0 :: DoubleArray where
  "filter_Eventarc_UpdateGoogleApiSource_0 = \<lparr>da_Encoding = [(''google_api_source'', 0), (''name'', 1)],
     da_Base = [1, 2, 1, 0, 0], da_Check = [0, 1, 2, 3, 2]\<rparr>"

definition filter_Eventarc_DeleteGoogleApiSource_0 :: DoubleArray where
  "filter_Eventarc_DeleteGoogleApiSource_0 = \<lparr>da_Encoding = [(''name'', 0)],
     da_Base = [1, 1, 0], da_Check = [0, 1, 2]\<rparr>"

section \<open>Request functions\<close>

definition request_Eventarc_GetTrigger_0 ::
  "(GetRequest, unit) runtime \<Rightarrow> (GetRequest \<Rightarrow> ('s, 'a) op) \<Rightarrow>
   RestRequest \<Rightarrow> string gomap \<Rightarrow> ('s, 'a) op" where
  "request_Eventarc_GetTrigger_0 rt client req pathParams =
     seq (give (pathParam rt pathParams ''name'')) (\<lambda>name.
     client (zeroGet\<lparr>gr_Name := name\<rparr>))"

definition request_Eventarc_ListTriggers_0 ::
  "(ListRequest, unit) runtime \<Rightarrow> (ListRequest \<Rightarrow> ('s, 'a) op) \<Rightarrow>
   RestRequest \<Rightarrow> string gomap \<Rightarrow> ('s, 'a) op" where
  "request_Eventarc_ListTriggers_0 rt client req pathParams =
     seq (give (pathParam rt pathParams ''parent'')) (\<lambda>parent.
     seq (give (query_params rt req filter_Eventarc_ListTriggers_0 (zeroList\<lparr>lr_Parent := parent\<rparr>)))
       client)"

definition request_Eventarc_CreateTrigger_0 ::
  "(Trigger CreateRequest, Trigger option) runtime \<Rightarrow> (Trigger CreateRequest \<Rightarrow> ('s, 'a) op) \<Rightarrow>
   RestRequest \<Rightarrow> string gomap \<Rightarrow> ('s, 'a) op" where
  "request_Eventarc_CreateTrigger_0 rt client req pathParams =
     seq (give (decode_body rt (rr_Body req) None)) (\<lambda>resource.
     seq (give (pathParam rt pathParams ''parent'')) (\<lambda>parent.
     seq (give (query_params rt req filter_Eventarc_CreateTrigger_0
            (zeroCreate\<lparr>cq_Resource := resource, cq_Parent := parent\<rparr>)))
       client))"

definition request_Eventarc_UpdateTrigger_0 ::
  "(Trigger UpdateRequest, Trigger option) runtime \<Rightarrow> (Trigger UpdateRequest \<Rightarrow> ('s, 'a) op) \<Rightarrow>
   RestRequest \<Rightarrow> string gomap \<Rightarrow> ('s, 'a) op" where
  "request_Eventarc_UpdateTrigger_0 rt client req pathParams =
     seq (give (new_reader rt (rr_Body req))) (\<lambda>content.
     seq (give (decode_body rt content None)) (\<lambda>resource.
     seq (give (default_mask rt content (zeroUpdate\<lparr>uq_Resource := resource\<rparr>))) (\<lambda>q1.
     seq (give (pathField rt pathParams ''trigger.name'' q1)) (\<lambda>q2.
     seq (give (query_params rt req filter_Eventarc_UpdateTrigger_0 q2))
       client))))"

definition request_Eventarc_DeleteTrigger_0 ::
  "(DeleteRequest, unit) runtime \<Rightarrow> (DeleteRequest \<Rightarrow> ('s, 'a) op) \<Rightarrow>
   RestRequest \<Rightarrow> string gomap \<Rightarrow> ('s, 'a) op" where
  "request_Eventarc_DeleteTrigger_0 rt client req pathParams =
     seq (give (pathParam rt pathParams ''name'')) (\<lambda>name.
     seq (give (query_params rt req filter_Eventarc_DeleteTrigger_0 (zeroDelete\<lparr>dq_Name := name\<rparr>)))
       client)"

definition request_Eventarc_GetChannel_0 ::
  "(GetRequest, unit) runtime \<Rightarrow> (GetRequest \<Rightarrow> ('s, 'a) op) \<Rightarrow>
   RestRequest \<Rightarrow> string gomap \<Rightarrow> ('s, 'a) op" where
  "request_Eventarc_GetChannel_0 rt client req pathParams =
     seq (give (pathParam rt pathParams ''name'')) (\<lambda>name.
     client (zeroGet\<lparr>gr_Name := name\<rparr>))"

definition request_Eventarc_ListChannels_0 ::
  "(ListRequest, unit) runtime \<Rightarrow> (ListRequest \<Rightarrow> ('s, 'a) op) \<Rightarrow>
   RestRequest \<Rightarrow> string gomap \<Rightarrow> ('s, 'a) op" where
  "request_Eventarc_ListChannels_0 rt client req pathParams =
     seq (give (pathParam rt pathParams ''parent'')) (\<lambda>parent.
     seq (give (query_params rt req filter_Eventarc_ListChannels_0 (zeroList\<lparr>lr_Parent := parent\<rparr>)))
       client)"

definition request_Eventarc_CreateChannel_0 ::
  "(Channel CreateRequest, Channel option) runtime \<Rightarrow> (Channel CreateRequest \<Rightarrow> ('s, 'a) op) \<Rightarrow>
   RestRequest \<Rightarrow> string gomap \<Rightarrow> ('s, 'a) op" where
  "request_Eventarc_CreateChannel_0 rt client req pathParams =
     seq (give (decode_body rt (rr_Body req) None)) (\<lambda>resource.
     seq (give (pathParam rt pathParams ''parent'')) (\<lambda>parent.
     seq (give (query_params rt req filter_Eventarc_CreateChannel_0
            (zeroCreate\<lparr>cq_Resource := resource, cq_Parent := parent\<rparr>)))
       client))"

definition request_Eventarc_UpdateChannel_0 ::
  "(Channel UpdateRequest, Channel option) runtime \<Rightarrow> (Channel UpdateRequest \<Rightarrow> ('s, 'a) op) \<Rightarrow>
   RestRequest \<Rightarrow> string gomap \<Rightarrow> ('s, 'a) op" where
  "request_Eventarc_UpdateChannel_0 rt client req pathParams =
     seq (give (new_reader rt (rr_Body req))) (\<lambda>content.
     seq (give (decode_body rt content None)) (\<lambda>resource.
     seq (give (default_mask rt content (zeroUpdate\<lparr>uq_Resource := resource\<rparr>))) (\<lambda>q1.
     seq (give (pathField rt pathParams ''channel.name'' q1)) (\<lambda>q2.
     seq (give (query_params rt req filter_Eventarc_UpdateChannel_0 q2))
       client))))"

definition request_Eventarc_DeleteChannel_0 ::
  "(DeleteRequest, unit) runtime \<Rightarrow> (DeleteRequest \<Rightarrow> ('s, 'a) op) \<Rightarrow>
   RestRequest \<Rightarrow> string gomap \<Rightarrow> ('s, 'a) op" where
  "request_Eventarc_DeleteChannel_0 rt client req pathParams =
     seq (give (pathParam rt pathParams ''name'')) (\<lambda>name.
     seq (give (query_params rt req filter_Eventarc_DeleteChannel_0 (zeroDelete\<lparr>dq_Name := name\<rparr>)))
       client)"

definition request_Eventarc_GetProvider_0 ::
  "(GetRequest, unit) runtime \<Rightarrow> (GetRequest \<Rightarrow> ('s, 'a) op) \<Rightarrow>
   RestRequest \<Rightarrow> string gomap \<Rightarrow> ('s, 'a) op" where
  "request_Eventarc_GetProvider_0 rt client req pathParams =
     seq (give (pathParam rt pathParams ''name'')) (\<lambda>name.
     client (zeroGet\<lparr>gr_Name := name\<rparr>))"

definition request_Eventarc_ListProviders_0 ::
  "(ListRequest, unit) runtime \<Rightarrow> (ListRequest \<Rightarrow> ('s, 'a) op) \<Rightarrow>
   RestRequest \<Rightarrow> string gomap \<Rightarrow> ('s, 'a) op" where
  "request_Eventarc_ListProviders_0 rt client req pathParams =
     seq (give (pathParam rt pathParams ''parent'')) (\<lambda>parent.
     seq (give (query_params rt req filter_Eventarc_ListProviders_0 (zeroList\<lparr>lr_Parent := parent\<rparr>)))
       client)"

definition request_Eventarc_GetChannelConnection_0 ::
  "(GetRequest, unit) runtime \<Rightarrow> (GetRequest \<Rightarrow> ('s, 'a) op) \<Rightarrow>
   RestRequest \<Rightarrow> string gomap \<Rightarrow> ('s, 'a) op" where
  "request_Eventarc_GetChannelConnection_0 rt client req pathParams =
     seq (give (pathParam rt pathParams ''name'')) (\<lambda>name.
     client (zeroGet\<lparr>gr_Name := name\<rparr>))"

definition request_Eventarc_ListChannelConnections_0 ::
  "(ListRequest, unit) runtime \<Rightarrow> (ListRequest \<Rightarrow> ('s, 'a) op) \<Rightarrow>
   RestRequest \<Rightarrow> string gomap \<Rightarrow> ('s, 'a) op" where
  "request_Eventarc_ListChannelConnections_0 rt client req pathParams =
     seq (give (pathParam rt pathParams ''parent'')) (\<lambda>parent.
     seq (give (query_params rt req filter_Eventarc_ListChannelConnections_0 (zeroList\<lparr>lr_Parent := parent\<rparr>)))
       client)"

definition request_Eventarc_CreateChannelConnection_0 ::
  "(ChannelConnection CreateRequest, ChannelConnection option) runtime \<Rightarrow> (ChannelConnection CreateRequest \<Rightarrow> ('s, 'a) op) \<Rightarrow>
   RestRequest \<Rightarrow> string gomap \<Rightarrow> ('s, 'a) op" where
  "request_Eventarc_CreateChannelConnection_0 rt client req pathParams =
     seq (give (decode_body rt (rr_Body req) None)) (\<lambda>resource.
     seq (give (pathParam rt pathParams ''parent'')) (\<lambda>parent.
     seq (give (query_params rt req filter_Eventarc_CreateChannelConnection_0
            (zeroCreate\<lparr>cq_Resource := resource, cq_Parent := parent\<rparr>)))
       client))"

definition request_Eventarc_DeleteChannelConnection_0 ::
  "(DeleteRequest, unit) runtime \<Rightarrow> (DeleteRequest \<Rightarrow> ('s, 'a) op) \<Rightarrow>
   RestRequest \<Rightarrow> string gomap \<Rightarrow> ('s, 'a) op" where
  "request_Eventarc_DeleteChannelConnection_0 rt client req pathParams =
     seq (give (pathParam rt pathParams ''name'')) (\<lambda>name.
     client (zeroDelete\<lparr>dq_Name := name\<rparr>))"

definition request_Eventarc_GetGoogleChannelConfig_0 ::
  "(GetRequest, unit) runtime \<Rightarrow> (GetRequest \<Rightarrow> ('s, 'a) op) \<Rightarrow>
   RestRequest \<Rightarrow> string gomap \<Rightarrow> ('s, 'a) op" where
  "request_Eventarc_GetGoogleChannelConfig_0 rt client req pathParams =
     seq (give (pathParam rt pathParams ''name'')) (\<lambda>name.
     client (zeroGet\<lparr>gr_Name := name\<rparr>))"

definition request_Eventarc_UpdateGoogleChannelConfig_0 ::
  "(GoogleChannelConfig UpdateRequest, GoogleChannelConfig option) runtime \<Rightarrow> (GoogleChannelConfig UpdateRequest \<Rightarrow> ('s, 'a) op) \<Rightarrow>
   RestRequest \<Rightarrow> string gomap \<Rightarrow> ('s, 'a) op" where
  "request_Eventarc_UpdateGoogleChannelConfig_0 rt client req pathParams =
     seq (give (new_reader rt (rr_Body req))) (\<lambda>content.
     seq (give (decode_body rt content None)) (\<lambda>resource.
     seq (give (default_mask rt content (zeroUpdate\<lparr>uq_Resource := resource\<rparr>))) (\<lambda>q1.
     seq (give (pathField rt pathParams ''google_channel_config.name'' q1)) (\<lambda>q2.
     seq (give (query_params rt req filter_Eventarc_UpdateGoogleChannelConfig_0 q2))
       client))))"

definition request_Eventarc_GetMessageBus_0 ::
  "(GetRequest, unit) runtime \<Rightarrow> (GetRequest \<Rightarrow> ('s, 'a) op) \<Rightarrow>
   RestRequest \<Rightarrow> string gomap \<Rightarrow> ('s, 'a) op" where
  "request_Eventarc_GetMessageBus_0 rt client req pathParams =
     seq (give (pathParam rt pathParams ''name'')) (\<lambda>name.
     client (zeroGet\<lparr>gr_Name := name\<rparr>))"

definition request_Eventarc_ListMessageBuses_0 ::
  "(ListRequest, unit) runtime \<Rightarrow> (ListRequest \<Rightarrow> ('s, 'a) op) \<Rightarrow>
   RestRequest \<Rightarrow> string gomap \<Rightarrow> ('s, 'a) op" where
  "request_Eventarc_ListMessageBuses_0 rt client req pathParams =
     seq (give (pathParam rt pathParams ''parent'')) (\<lambda>parent.
     seq (give (query_params rt req filter_Eventarc_ListMessageBuses_0 (zeroList\<lparr>lr_Parent := parent\<rparr>)))
       client)"

definition request_Eventarc_ListMessageBusEnrollments_0 ::
  "(ListRequest, unit) runtime \<Rightarrow> (ListRequest \<Rightarrow> ('s, 'a) op) \<Rightarrow>
   RestRequest \<Rightarrow> string gomap \<Rightarrow> ('s, 'a) op" where
  "request_Eventarc_ListMessageBusEnrollments_0 rt client req pathParams =
     seq (give (pathParam rt pathParams ''parent'')) (\<lambda>parent.
     seq (give (query_params rt req filter_Eventarc_ListMessageBusEnrollments_0 (zeroList\<lparr>lr_Parent := parent\<rparr>)))
       client)"

definition request_Eventarc_CreateMessageBus_0 ::
  "(MessageBus CreateRequest, MessageBus option) runtime \<Rightarrow> (MessageBus CreateRequest \<Rightarrow> ('s, 'a) op) \<Rightarrow>
   RestRequest \<Rightarrow> string gomap \<Rightarrow> ('s, 'a) op" where
  "request_Eventarc_CreateMessageBus_0 rt client req pathParams =
     seq (give (decode_body rt (rr_Body req) None)) (\<lambda>resource.
     seq (give (pathParam rt pathParams ''parent'')) (\<lambda>parent.
     seq (give (query_params rt req filter_Eventarc_CreateMessageBus_0
            (zeroCreate\<lparr>cq_Resource := resource, cq_Parent := parent\<rparr>)))
       client))"

definition request_Eventarc_UpdateMessageBus_0 ::
  "(MessageBus UpdateRequest, MessageBus option) runtime \<Rightarrow> (MessageBus UpdateRequest \<Rightarrow> ('s, 'a) op) \<Rightarrow>
   RestRequest \<Rightarrow> string gomap \<Rightarrow> ('s, 'a) op" where
  "request_Eventarc_UpdateMessageBus_0 rt client req pathParams =
     seq (give (new_reader rt (rr_Body req))) (\<lambda>content.
     seq (give (decode_body rt content None)) (\<lambda>resource.
     seq (give (default_mask rt content (zeroUpdate\<lparr>uq_Resource := resource\<rparr>))) (\<lambda>q1.
     seq (give (pathField rt pathParams ''message_bus.name'' q1)) (\<lambda>q2.
     seq (give (query_params rt req filter_Eventarc_UpdateMessageBus_0 q2))
       client))))"

definition request_Eventarc_DeleteMessageBus_0 ::
  "(DeleteRequest, unit) runtime \<Rightarrow> (DeleteRequest \<Rightarrow> ('s, 'a) op) \<Rightarrow>
   RestRequest \<Rightarrow> string gomap \<Rightarrow> ('s, 'a) op" where
  "request_Eventarc_DeleteMessageBus_0 rt client req pathParams =
     seq (give (pathParam rt pathParams ''name'')) (\<lambda>name.
     seq (give (query_params rt req filter_Eventarc_DeleteMessageBus_0 (zeroDelete\<lparr>dq_Name := name\<rparr>)))
       client)"

definition request_Eventarc_GetEnrollment_0 ::
  "(GetRequest, unit) runtime \<Rightarrow> (GetRequest \<Rightarrow> ('s, 'a) op) \<Rightarrow>
   RestRequest \<Rightarrow> string gomap \<Rightarrow> ('s, 'a) op" where
  "request_Eventarc_GetEnrollment_0 rt client req pathParams =
     seq (give (pathParam rt pathParams ''name'')) (\<lambda>name.
     client (zeroGet\<lparr>gr_Name := name\<rparr>))"

definition request_Eventarc_ListEnrollments_0 ::
  "(ListRequest, unit) runtime \<Rightarrow> (ListRequest \<Rightarrow> ('s, 'a) op) \<Rightarrow>
   RestRequest \<Rightarrow> string gomap \<Rightarrow> ('s, 'a) op" where
  "request_Eventarc_ListEnrollments_0 rt client req pathParams =
     seq (give (pathParam rt pathParams ''parent'')) (\<lambda>parent.
     seq (give (query_params rt req filter_Eventarc_ListEnrollments_0 (zeroList\<lparr>lr_Parent := parent\<rparr>)))
       client)"

definition request_Eventarc_CreateEnrollment_0 ::
  "(Enrollment CreateRequest, Enrollment option) runtime \<Rightarrow> (Enrollment CreateRequest \<Rightarrow> ('s, 'a) op) \<Rightarrow>
   RestRequest \<Rightarrow> string gomap \<Rightarrow> ('s, 'a) op" where
  "request_Eventarc_CreateEnrollment_0 rt client req pathParams =
     seq (give (decode_body rt (rr_Body req) None)) (\<lambda>resource.
     seq (give (pathParam rt pathParams ''parent'')) (\<lambda>parent.
     seq (give (query_params rt req filter_Eventarc_CreateEnrollment_0
            (zeroCreate\<lparr>cq_Resource := resource, cq_Parent := parent\<rparr>)))
       client))"

definition request_Eventarc_UpdateEnrollment_0 ::
  "(Enrollment UpdateRequest, Enrollment option) runtime \<Rightarrow> (Enrollment UpdateRequest \<Rightarrow> ('s, 'a) op) \<Rightarrow>
   RestRequest \<Rightarrow> string gomap \<Rightarrow> ('s, 'a) op" where
  "request_Eventarc_UpdateEnrollment_0 rt client req pathParams =
     seq (give (new_reader rt (rr_Body req))) (\<lambda>content.
     seq (give (decode_body rt content None)) (\<lambda>resource.
     seq (give (default_mask rt content (zeroUpdate\<lparr>uq_Resource := resource\<rparr>))) (\<lambda>q1.
     seq (give (pathField rt pathParams ''enrollment.name'' q1)) (\<lambda>q2.
     seq (give (query_params rt req filter_Eventarc_UpdateEnrollment_0 q2))
       client))))"

definition request_Eventarc_DeleteEnrollment_0 ::
  "(DeleteRequest, unit) runtime \<Rightarrow> (DeleteRequest \<Rightarrow> ('s, 'a) op) \<Rightarrow>
   RestRequest \<Rightarrow> string gomap \<Rightarrow> ('s, 'a) op" where
  "request_Eventarc_DeleteEnrollment_0 rt client req pathParams =
     seq (give (pathParam rt pathParams ''name'')) (\<lambda>name.
     seq (give (query_params rt req filter_Eventarc_DeleteEnrollment_0 (zeroDelete\<lparr>dq_Name := name\<rparr>)))
       client)"

definition request_Eventarc_GetPipeline_0 ::
  "(GetRequest, unit) runtime \<Rightarrow> (GetRequest \<Rightarrow> ('s, 'a) op) \<Rightarrow>
   RestRequest \<Rightarrow> string gomap \<Rightarrow> ('s, 'a) op" where
  "request_Eventarc_GetPipeline_0 rt client req pathParams =
     seq (give (pathParam rt pathParams ''name'')) (\<lambda>name.
     client (zeroGet\<lparr>gr_Name := name\<rparr>))"

definition request_Eventarc_ListPipelines_0 ::
  "(ListRequest, unit) runtime \<Rightarrow> (ListRequest \<Rightarrow> ('s, 'a) op) \<Rightarrow>
   RestRequest \<Rightarrow> string gomap \<Rightarrow> ('s, 'a) op" where
  "request_Eventarc_ListPipelines_0 rt client req pathParams =
     seq (give (pathParam rt pathParams ''parent'')) (\<lambda>parent.
     seq (give (query_params rt req filter_Eventarc_ListPipelines_0 (zeroList\<lparr>lr_Parent := parent\<rparr>)))
       client)"

definition request_Eventarc_CreatePipeline_0 ::
  "(Pipeline CreateRequest, Pipeline option) runtime \<Rightarrow> (Pipeline CreateRequest \<Rightarrow> ('s, 'a) op) \<Rightarrow>
   RestRequest \<Rightarrow> string gomap \<Rightarrow> ('s, 'a) op" where
  "request_Eventarc_CreatePipeline_0 rt client req pathParams =
     seq (give (decode_body rt (rr_Body req) None)) (\<lambda>resource.
     seq (give (pathParam rt pathParams ''parent'')) (\<lambda>parent.
     seq (give (query_params rt req filter_Eventarc_CreatePipeline_0
            (zeroCreate\<lparr>cq_Resource := resource, cq_Parent := parent\<rparr>)))
       client))"

definition request_Eventarc_UpdatePipeline_0 ::
  "(Pipeline UpdateRequest, Pipeline option) runtime \<Rightarrow> (Pipeline UpdateRequest \<Rightarrow> ('s, 'a) op) \<Rightarrow>
   RestRequest \<Rightarrow> string gomap \<Rightarrow> ('s, 'a) op" where
  "request_Eventarc_UpdatePipeline_0 rt client req pathParams =
     seq (give (new_reader rt (rr_Body req))) (\<lambda>content.
     seq (give (decode_body rt content None)) (\<lambda>resource.
     seq (give (default_mask rt content (zeroUpdate\<lparr>uq_Resource := resource\<rparr>))) (\<lambda>q1.
     seq (give (pathField rt pathParams ''pipeline.name'' q1)) (\<lambda>q2.
     seq (give (query_params rt req filter_Eventarc_UpdatePipeline_0 q2))
       client))))"

definition request_Eventarc_DeletePipeline_0 ::
  "(DeleteRequest, unit) runtime \<Rightarrow> (DeleteRequest \<Rightarrow> ('s, 'a) op) \<Rightarrow>
   RestRequest \<Rightarrow> string gomap \<Rightarrow> ('s, 'a) op" where
  "request_Eventarc_DeletePipeline_0 rt client req pathParams =
     seq (give (pathParam rt pathParams ''name'')) (\<lambda>name.
     seq (give (query_params rt req filter_Eventarc_DeletePipeline_0 (zeroDelete\<lparr>dq_Name := name\<rparr>)))
       client)"

definition request_Eventarc_GetGoogleApiSource_0 ::
  "(GetRequest, unit) runtime \<Rightarrow> (GetRequest \<Rightarrow> ('s, 'a) op) \<Rightarrow>
   RestRequest \<Rightarrow> string gomap \<Rightarrow> ('s, 'a) op" where
  "request_Eventarc_GetGoogleApiSource_0 rt client req pathParams =
     seq (give (pathParam rt pathParams ''name'')) (\<lambda>name.
     client (zeroGet\<lparr>gr_Name := name\<rparr>))"

definition request_Eventarc_ListGoogleApiSources_0 ::
  "(ListRequest, unit) runtime \<Rightarrow> (ListRequest \<Rightarrow> ('s, 'a) op) \<Rightarrow>
   RestRequest \<Rightarrow> string gomap \<Rightarrow> ('s, 'a) op" where
  "request_Eventarc_ListGoogleApiSources_0 rt client req pathParams =
     seq (give (pathParam rt pathParams ''parent'')) (\<lambda>parent.
     seq (give (query_params rt req filter_Eventarc_ListGoogleApiSources_0 (zeroList\<lparr>lr_Parent := parent\<rparr>)))
       client)"

definition request_Eventarc_CreateGoogleApiSource_0 ::
  "(GoogleApiSource CreateRequest, GoogleApiSource option) runtime \<Rightarrow> (GoogleApiSource CreateRequest \<Rightarrow> ('s, 'a) op) \<Rightarrow>
   RestRequest \<Rightarrow> string gomap \<Rightarrow> ('s, 'a) op" where
  "request_Eventarc_CreateGoogleApiSource_0 rt client req pathParams =
     seq (give (decode_body rt (rr_Body req) None)) (\<lambda>resource.
     seq (give (pathParam rt pathParams ''parent'')) (\<lambda>parent.
     seq (give (query_params rt req filter_Eventarc_CreateGoogleApiSource_0
            (zeroCreate\<lparr>cq_Resource := resource, cq_Parent := parent\<rparr>)))
       client))"

definition request_Eventarc_UpdateGoogleApiSource_0 ::
  "(GoogleApiSource UpdateRequest, GoogleApiSource option) runtime \<Rightarrow> (GoogleApiSource UpdateRequest \<Rightarrow> ('s, 'a) op) \<Rightarrow>
   RestRequest \<Rightarrow> string gomap \<Rightarrow> ('s, 'a) op" where
  "request_Eventarc_UpdateGoogleApiSource_0 rt client req pathParams =
     seq (give (new_reader rt (rr_Body req))) (\<lambda>content.
     seq (give (decode_body rt content None)) (\<lambda>resource.
     seq (give (default_mask rt content (zeroUpdate\<lparr>uq_Resource := resource\<rparr>))) (\<lambda>q1.
     seq (give (pathField rt pathParams ''google_api_source.name'' q1)) (\<lambda>q2.
     seq (give (query_params rt req filter_Eventarc_UpdateGoogleApiSource_0 q2))
       client))))"

definition request_Eventarc_DeleteGoogleApiSource_0 ::
  "(DeleteRequest, unit) runtime \<Rightarrow> (DeleteRequest \<Rightarrow> ('s, 'a) op) \<Rightarrow>
   RestRequest \<Rightarrow> string gomap \<Rightarrow> ('s, 'a) op" where
  "request_Eventarc_DeleteGoogleApiSource_0 rt client req pathParams =
     seq (give (pathParam rt pathParams ''name'')) (\<lambda>name.
     seq (give (query_params rt req filter_Eventarc_DeleteGoogleApiSource_0 (zeroDelete\<lparr>dq_Name := name\<rparr>)))
       client)"

section \<open>Routes\<close>

definition route_GetTrigger :: "runtimes \<Rightarrow> 's conn \<Rightarrow> 's rest_route" where
  "route_GetTrigger rts conn = \<lparr>ro_Method = ''GET'',
     ro_Pattern = Compiled pattern_Eventarc_GetTrigger_0,
     ro_Serve = rest_handler rts ''/google.cloud.eventarc.v1.Eventarc/GetTrigger''
       ''/v1/{name=projects/*/locations/*/triggers/*}''
       (request_Eventarc_GetTrigger_0 (rts_Get rts) (\<lambda>q. conn (Eventarc (TriggerRPC (GetRPC q)))))\<rparr>"

definition route_ListTriggers :: "runtimes \<Rightarrow> 's conn \<Rightarrow> 's rest_route" where
  "route_ListTriggers rts conn = \<lparr>ro_Method = ''GET'',
     ro_Pattern = Compiled pattern_Eventarc_ListTriggers_0,
     ro_Serve = rest_handler rts ''/google.cloud.eventarc.v1.Eventarc/ListTriggers''
       ''/v1/{parent=projects/*/locations/*}/triggers''
       (request_Eventarc_ListTriggers_0 (rts_List rts) (\<lambda>q. conn (Eventarc (TriggerRPC (ListRPC q)))))\<rparr>"

definition route_CreateTrigger :: "runtimes \<Rightarrow> 's conn \<Rightarrow> 's rest_route" where
  "route_CreateTrigger rts conn = \<lparr>ro_Method = ''POST'',
     ro_Pattern = Compiled pattern_Eventarc_CreateTrigger_0,
     ro_Serve = rest_handler rts ''/google.cloud.eventarc.v1.Eventarc/CreateTrigger''
       ''/v1/{parent=projects/*/locations/*}/triggers''
       (request_Eventarc_CreateTrigger_0 (rts_CreateTrigger rts) (\<lambda>q. conn (Eventarc (TriggerRPC (CreateRPC q)))))\<rparr>"

definition route_UpdateTrigger :: "runtimes \<Rightarrow> 's conn \<Rightarrow> 's rest_route" where
  "route_UpdateTrigger rts conn = \<lparr>ro_Method = ''PATCH'',
     ro_Pattern = Compiled pattern_Eventarc_UpdateTrigger_0,
     ro_Serve = rest_handler rts ''/google.cloud.eventarc.v1.Eventarc/UpdateTrigger''
       ''/v1/{trigger.name=projects/*/locations/*/triggers/*}''
       (request_Eventarc_UpdateTrigger_0 (rts_UpdateTrigger rts) (\<lambda>q. conn (Eventarc (TriggerRPC (UpdateRPC q)))))\<rparr>"

definition route_DeleteTrigger :: "runtimes \<Rightarrow> 's conn \<Rightarrow> 's rest_route" where
  "route_DeleteTrigger rts conn = \<lparr>ro_Method = ''DELETE'',
     ro_Pattern = Compiled pattern_Eventarc_DeleteTrigger_0,
     ro_Serve = rest_handler rts ''/google.cloud.eventarc.v1.Eventarc/DeleteTrigger''
       ''/v1/{name=projects/*/locations/*/triggers/*}''
       (request_Eventarc_DeleteTrigger_0 (rts_Delete rts) (\<lambda>q. conn (Eventarc (TriggerRPC (DeleteRPC q)))))\<rparr>"

definition route_GetChannel :: "runtimes \<Rightarrow> 's conn \<Rightarrow> 's rest_route" where
  "route_GetChannel rts conn = \<lparr>ro_Method = ''GET'',
     ro_Pattern = Compiled pattern_Eventarc_GetChannel_0,
     ro_Serve = rest_handler rts ''/google.cloud.eventarc.v1.Eventarc/GetChannel''
       ''/v1/{name=projects/*/locations/*/channels/*}''
       (request_Eventarc_GetChannel_0 (rts_Get rts) (\<lambda>q. conn (Eventarc (ChannelRPC (GetRPC q)))))\<rparr>"

definition route_ListChannels :: "runtimes \<Rightarrow> 's conn \<Rightarrow> 's rest_route" where
  "route_ListChannels rts conn = \<lparr>ro_Method = ''GET'',
     ro_Pattern = Compiled pattern_Eventarc_ListChannels_0,
     ro_Serve = rest_handler rts ''/google.cloud.eventarc.v1.Eventarc/ListChannels''
       ''/v1/{parent=projects/*/locations/*}/channels''
       (request_Eventarc_ListChannels_0 (rts_List rts) (\<lambda>q. conn (Eventarc (ChannelRPC (ListRPC q)))))\<rparr>"

definition route_CreateChannel :: "runtimes \<Rightarrow> 's conn \<Rightarrow> 's rest_route" where
  "route_CreateChannel rts conn = \<lparr>ro_Method = ''POST'',
     ro_Pattern = Compiled pattern_Eventarc_CreateChannel_0,
     ro_Serve = rest_handler rts ''/google.cloud.eventarc.v1.Eventarc/CreateChannel''
       ''/v1/{parent=projects/*/locations/*}/channels''
       (request_Eventarc_CreateChannel_0 (rts_CreateChannel rts) (\<lambda>q. conn (Eventarc (ChannelRPC (CreateRPC q)))))\<rparr>"

definition route_UpdateChannel :: "runtimes \<Rightarrow> 's conn \<Rightarrow> 's rest_route" where
  "route_UpdateChannel rts conn = \<lparr>ro_Method = ''PATCH'',
     ro_Pattern = Compiled pattern_Eventarc_UpdateChannel_0,
     ro_Serve = rest_handler rts ''/google.cloud.eventarc.v1.Eventarc/UpdateChannel''
       ''/v1/{channel.name=projects/*/locations/*/channels/*}''
       (request_Eventarc_UpdateChannel_0 (rts_UpdateChannel rts) (\<lambda>q. conn (Eventarc (ChannelRPC (UpdateRPC q)))))\<rparr>"

definition route_DeleteChannel :: "runtimes \<Rightarrow> 's conn \<Rightarrow> 's rest_route" where
  "route_DeleteChannel rts conn = \<lparr>ro_Method = ''DELETE'',
     ro_Pattern = Compiled pattern_Eventarc_DeleteChannel_0,
     ro_Serve = rest_handler rts ''/google.cloud.eventarc.v1.Eventarc/DeleteChannel''
       ''/v1/{name=projects/*/locations/*/channels/*}''
       (request_Eventarc_DeleteChannel_0 (rts_Delete rts) (\<lambda>q. conn (Eventarc (ChannelRPC (DeleteRPC q)))))\<rparr>"

definition route_GetProvider :: "runtimes \<Rightarrow> 's conn \<Rightarrow> 's rest_route" where
  "route_GetProvider rts conn = \<lparr>ro_Method = ''GET'',
     ro_Pattern = Compiled pattern_Eventarc_GetProvider_0,
     ro_Serve = rest_handler rts ''/google.cloud.eventarc.v1.Eventarc/GetProvider''
       ''/v1/{name=projects/*/locations/*/providers/*}''
       (request_Eventarc_GetProvider_0 (rts_Get rts) (\<lambda>q. conn (Eventarc (GetProviderRPC q))))\<rparr>"

definition route_ListProviders :: "runtimes \<Rightarrow> 's conn \<Rightarrow> 's rest_route" where
  "route_ListProviders rts conn = \<lparr>ro_Method = ''GET'',
     ro_Pattern = Compiled pattern_Eventarc_ListProviders_0,
     ro_Serve = rest_handler rts ''/google.cloud.eventarc.v1.Eventarc/ListProviders''
       ''/v1/{parent=projects/*/locations/*}/providers''
       (request_Eventarc_ListProviders_0 (rts_List rts) (\<lambda>q. conn (Eventarc (ListProvidersRPC q))))\<rparr>"

definition route_GetChannelConnection :: "runtimes \<Rightarrow> 's conn \<Rightarrow> 's rest_route" where
  "route_GetChannelConnection rts conn = \<lparr>ro_Method = ''GET'',
     ro_Pattern = Compiled pattern_Eventarc_GetChannelConnection_0,
     ro_Serve = rest_handler rts ''/google.cloud.eventarc.v1.Eventarc/GetChannelConnection''
       ''/v1/{name=projects/*/locations/*/channelConnections/*}''
       (request_Eventarc_GetChannelConnection_0 (rts_Get rts) (\<lambda>q. conn (Eventarc (GetChannelConnectionRPC q))))\<rparr>"

definition route_ListChannelConnections :: "runtimes \<Rightarrow> 's conn \<Rightarrow> 's rest_route" where
  "route_ListChannelConnections rts conn = \<lparr>ro_Method = ''GET'',
     ro_Pattern = Compiled pattern_Eventarc_ListChannelConnections_0,
     ro_Serve = rest_handler rts ''/google.cloud.eventarc.v1.Eventarc/ListChannelConnections''
       ''/v1/{parent=projects/*/locations/*}/channelConnections''
       (request_Eventarc_ListChannelConnections_0 (rts_List rts) (\<lambda>q. conn (Eventarc (ListChannelConnectionsRPC q))))\<rparr>"

definition route_CreateChannelConnection :: "runtimes \<Rightarrow> 's conn \<Rightarrow> 's rest_route" where
  "route_CreateChannelConnection rts conn = \<lparr>ro_Method = ''POST'',
     ro_Pattern = Compiled pattern_Eventarc_CreateChannelConnection_0,
     ro_Serve = rest_handler rts ''/google.cloud.eventarc.v1.Eventarc/CreateChannelConnection''
       ''/v1/{parent=projects/*/locations/*}/channelConnections''
       (request_Eventarc_CreateChannelConnection_0 (rts_CreateChannelConnection rts) (\<lambda>q. conn (Eventarc (CreateChannelConnectionRPC q))))\<rparr>"

definition route_DeleteChannelConnection :: "runtimes \<Rightarrow> 's conn \<Rightarrow> 's rest_route" where
  "route_DeleteChannelConnection rts conn = \<lparr>ro_Method = ''DELETE'',
     ro_Pattern = Compiled pattern_Eventarc_DeleteChannelConnection_0,
     ro_Serve = rest_handler rts ''/google.cloud.eventarc.v1.Eventarc/DeleteChannelConnection''
       ''/v1/{name=projects/*/locations/*/channelConnections/*}''
       (request_Eventarc_DeleteChannelConnection_0 (rts_Delete rts) (\<lambda>q. conn (Eventarc (DeleteChannelConnectionRPC q))))\<rparr>"

definition route_GetGoogleChannelConfig :: "runtimes \<Rightarrow> 's conn \<Rightarrow> 's rest_route" where
  "route_GetGoogleChannelConfig rts conn = \<lparr>ro_Method = ''GET'',
     ro_Pattern = Compiled pattern_Eventarc_GetGoogleChannelConfig_0,
     ro_Serve = rest_handler rts ''/google.cloud.eventarc.v1.Eventarc/GetGoogleChannelConfig''
       ''/v1/{name=projects/*/locations/*/googleChannelConfig}''
       (request_Eventarc_GetGoogleChannelConfig_0 (rts_Get rts) (\<lambda>q. conn (Eventarc (GetGoogleChannelConfigRPC q))))\<rparr>"

definition route_UpdateGoogleChannelConfig :: "runtimes \<Rightarrow> 's conn \<Rightarrow> 's rest_route" where
  "route_UpdateGoogleChannelConfig rts conn = \<lparr>ro_Method = ''PATCH'',
     ro_Pattern = Compiled pattern_Eventarc_UpdateGoogleChannelConfig_0,
     ro_Serve = rest_handler rts ''/google.cloud.eventarc.v1.Eventarc/UpdateGoogleChannelConfig''
       ''/v1/{google_channel_config.name=projects/*/locations/*/googleChannelConfig}''
       (request_Eventarc_UpdateGoogleChannelConfig_0 (rts_UpdateGoogleChannelConfig rts) (\<lambda>q. conn (Eventarc (UpdateGoogleChannelConfigRPC q))))\<rparr>"

definition route_GetMessageBus :: "runtimes \<Rightarrow> 's conn \<Rightarrow> 's rest_route" where
  "route_GetMessageBus rts conn = \<lparr>ro_Method = ''GET'',
     ro_Pattern = Compiled pattern_Eventarc_GetMessageBus_0,
     ro_Serve = rest_handler rts ''/google.cloud.eventarc.v1.Eventarc/GetMessageBus''
       ''/v1/{name=projects/*/locations/*/messageBuses/*}''
       (request_Eventarc_GetMessageBus_0 (rts_Get rts) (\<lambda>q. conn (Eventarc (MessageBusRPC (GetRPC q)))))\<rparr>"

definition route_ListMessageBuses :: "runtimes \<Rightarrow> 's conn \<Rightarrow> 's rest_route" where
  "route_ListMessageBuses rts conn = \<lparr>ro_Method = ''GET'',
     ro_Pattern = Compiled pattern_Eventarc_ListMessageBuses_0,
     ro_Serve = rest_handler rts ''/google.cloud.eventarc.v1.Eventarc/ListMessageBuses''
       ''/v1/{parent=projects/*/locations/*}/messageBuses''
       (request_Eventarc_ListMessageBuses_0 (rts_List rts) (\<lambda>q. conn (Eventarc (MessageBusRPC (ListRPC q)))))\<rparr>"

definition route_ListMessageBusEnrollments :: "runtimes \<Rightarrow> 's conn \<Rightarrow> 's rest_route" where
  "route_ListMessageBusEnrollments rts conn = \<lparr>ro_Method = ''GET'',
     ro_Pattern = Compiled pattern_Eventarc_ListMessageBusEnrollments_0,
     ro_Serve = rest_handler rts ''/google.cloud.eventarc.v1.Eventarc/ListMessageBusEnrollments''
       ''/v1/{parent=projects/*/locations/*/messageBuses/*}:listEnrollments''
       (request_Eventarc_ListMessageBusEnrollments_0 (rts_List rts) (\<lambda>q. conn (Eventarc (ListMessageBusEnrollmentsRPC q))))\<rparr>"

definition route_CreateMessageBus :: "runtimes \<Rightarrow> 's conn \<Rightarrow> 's rest_route" where
  "route_CreateMessageBus rts conn = \<lparr>ro_Method = ''POST'',
     ro_Pattern = Compiled pattern_Eventarc_CreateMessageBus_0,
     ro_Serve = rest_handler rts ''/google.cloud.eventarc.v1.Eventarc/CreateMessageBus''
       ''/v1/{parent=projects/*/locations/*}/messageBuses''
       (request_Eventarc_CreateMessageBus_0 (rts_CreateMessageBus rts) (\<lambda>q. conn (Eventarc (MessageBusRPC (CreateRPC q)))))\<rparr>"

definition route_UpdateMessageBus :: "runtimes \<Rightarrow> 's conn \<Rightarrow> 's rest_route" where
  "route_UpdateMessageBus rts conn = \<lparr>ro_Method = ''PATCH'',
     ro_Pattern = Compiled pattern_Eventarc_UpdateMessageBus_0,
     ro_Serve = rest_handler rts ''/google.cloud.eventarc.v1.Eventarc/UpdateMessageBus''
       ''/v1/{message_bus.name=projects/*/locations/*/messageBuses/*}''
       (request_Eventarc_UpdateMessageBus_0 (rts_UpdateMessageBus rts) (\<lambda>q. conn (Eventarc (MessageBusRPC (UpdateRPC q)))))\<rparr>"

definition route_DeleteMessageBus :: "runtimes \<Rightarrow> 's conn \<Rightarrow> 's rest_route" where
  "route_DeleteMessageBus rts conn = \<lparr>ro_Method = ''DELETE'',
     ro_Pattern = Compiled pattern_Eventarc_DeleteMessageBus_0,
     ro_Serve = rest_handler rts ''/google.cloud.eventarc.v1.Eventarc/DeleteMessageBus''
       ''/v1/{name=projects/*/locations/*/messageBuses/*}''
       (request_Eventarc_DeleteMessageBus_0 (rts_Delete rts) (\<lambda>q. conn (Eventarc (MessageBusRPC (DeleteRPC q)))))\<rparr>"

definition route_GetEnrollment :: "runtimes \<Rightarrow> 's conn \<Rightarrow> 's rest_route" where
  "route_GetEnrollment rts conn = \<lparr>ro_Method = ''GET'',
     ro_Pattern = Compiled pattern_Eventarc_GetEnrollment_0,
     ro_Serve = rest_handler rts ''/google.cloud.eventarc.v1.Eventarc/GetEnrollment''
       ''/v1/{name=projects/*/locations/*/enrollments/*}''
       (request_Eventarc_GetEnrollment_0 (rts_Get rts) (\<lambda>q. conn (Eventarc (EnrollmentRPC (GetRPC q)))))\<rparr>"

definition route_ListEnrollments :: "runtimes \<Rightarrow> 's conn \<Rightarrow> 's rest_route" where
  "route_ListEnrollments rts conn = \<lparr>ro_Method = ''GET'',
     ro_Pattern = Compiled pattern_Eventarc_ListEnrollments_0,
     ro_Serve = rest_handler rts ''/google.cloud.eventarc.v1.Eventarc/ListEnrollments''
       ''/v1/{parent=projects/*/locations/*}/enrollments''
       (request_Eventarc_ListEnrollments_0 (rts_List rts) (\<lambda>q. conn (Eventarc (EnrollmentRPC (ListRPC q)))))\<rparr>"

definition route_CreateEnrollment :: "runtimes \<Rightarrow> 's conn \<Rightarrow> 's rest_route" where
  "route_CreateEnrollment rts conn = \<lparr>ro_Method = ''POST'',
     ro_Pattern = Compiled pattern_Eventarc_CreateEnrollment_0,
     ro_Serve = rest_handler rts ''/google.cloud.eventarc.v1.Eventarc/CreateEnrollment''
       ''/v1/{parent=projects/*/locations/*}/enrollments''
       (request_Eventarc_CreateEnrollment_0 (rts_CreateEnrollment rts) (\<lambda>q. conn (Eventarc (EnrollmentRPC (CreateRPC q)))))\<rparr>"

definition route_UpdateEnrollment :: "runtimes \<Rightarrow> 's conn \<Rightarrow> 's rest_route" where
  "route_UpdateEnrollment rts conn = \<lparr>ro_Method = ''PATCH'',
     ro_Pattern = Compiled pattern_Eventarc_UpdateEnrollment_0,
     ro_Serve = rest_handler rts ''/google.cloud.eventarc.v1.Eventarc/UpdateEnrollment''
       ''/v1/{enrollment.name=projects/*/locations/*/enrollments/*}''
       (request_Eventarc_UpdateEnrollment_0 (rts_UpdateEnrollment rts) (\<lambda>q. conn (Eventarc (EnrollmentRPC (UpdateRPC q)))))\<rparr>"

definition route_DeleteEnrollment :: "runtimes \<Rightarrow> 's conn \<Rightarrow> 's rest_route" where
  "route_DeleteEnrollment rts conn = \<lparr>ro_Method = ''DELETE'',
     ro_Pattern = Compiled pattern_Eventarc_DeleteEnrollment_0,
     ro_Serve = rest_handler rts ''/google.cloud.eventarc.v1.Eventarc/DeleteEnrollment''
       ''/v1/{name=projects/*/locations/*/enrollments/*}''
       (request_Eventarc_DeleteEnrollment_0 (rts_Delete rts) (\<lambda>q. conn (Eventarc (EnrollmentRPC (DeleteRPC q)))))\<rparr>"

definition route_GetPipeline :: "runtimes \<Rightarrow> 's conn \<Rightarrow> 's rest_route" where
  "route_GetPipeline rts conn = \<lparr>ro_Method = ''GET'',
     ro_Pattern = Compiled pattern_Eventarc_GetPipeline_0,
     ro_Serve = rest_handler rts ''/google.cloud.eventarc.v1.Eventarc/GetPipeline''
       ''/v1/{name=projects/*/locations/*/pipelines/*}''
       (request_Eventarc_GetPipeline_0 (rts_Get rts) (\<lambda>q. conn (Eventarc (PipelineRPC (GetRPC q)))))\<rparr>"

definition route_ListPipelines :: "runtimes \<Rightarrow> 's conn \<Rightarrow> 's rest_route" where
  "route_ListPipelines rts conn = \<lparr>ro_Method = ''GET'',
     ro_Pattern = Compiled pattern_Eventarc_ListPipelines_0,
     ro_Serve = rest_handler rts ''/google.cloud.eventarc.v1.Eventarc/ListPipelines''
       ''/v1/{parent=projects/*/locations/*}/pipelines''
       (request_Eventarc_ListPipelines_0 (rts_List rts) (\<lambda>q. conn (Eventarc (PipelineRPC (ListRPC q)))))\<rparr>"

definition route_CreatePipeline :: "runtimes \<Rightarrow> 's conn \<Rightarrow> 's rest_route" where
  "route_CreatePipeline rts conn = \<lparr>ro_Method = ''POST'',
     ro_Pattern = Compiled pattern_Eventarc_CreatePipeline_0,
     ro_Serve = rest_handler rts ''/google.cloud.eventarc.v1.Eventarc/CreatePipeline''
       ''/v1/{parent=projects/*/locations/*}/pipelines''
       (request_Eventarc_CreatePipeline_0 (rts_CreatePipeline rts) (\<lambda>q. conn (Eventarc (PipelineRPC (CreateRPC q)))))\<rparr>"

definition route_UpdatePipeline :: "runtimes \<Rightarrow> 's conn \<Rightarrow> 's rest_route" where
  "route_UpdatePipeline rts conn = \<lparr>ro_Method = ''PATCH'',
     ro_Pattern = Compiled pattern_Eventarc_UpdatePipeline_0,
     ro_Serve = rest_handler rts ''/google.cloud.eventarc.v1.Eventarc/UpdatePipeline''
       ''/v1/{pipeline.name=projects/*/locations/*/pipelines/*}''
       (request_Eventarc_UpdatePipeline_0 (rts_UpdatePipeline rts) (\<lambda>q. conn (Eventarc (PipelineRPC (UpdateRPC q)))))\<rparr>"

definition route_DeletePipeline :: "runtimes \<Rightarrow> 's conn \<Rightarrow> 's rest_route" where
  "route_DeletePipeline rts conn = \<lparr>ro_Method = ''DELETE'',
     ro_Pattern = Compiled pattern_Eventarc_DeletePipeline_0,
     ro_Serve = rest_handler rts ''/google.cloud.eventarc.v1.Eventarc/DeletePipeline''
       ''/v1/{name=projects/*/locations/*/pipelines/*}''
       (request_Eventarc_DeletePipeline_0 (rts_Delete rts) (\<lambda>q. conn (Eventarc (PipelineRPC (DeleteRPC q)))))\<rparr>"

definition route_GetGoogleApiSource :: "runtimes \<Rightarrow> 's conn \<Rightarrow> 's rest_route" where
  "route_GetGoogleApiSource rts conn = \<lparr>ro_Method = ''GET'',
     ro_Pattern = Compiled pattern_Eventarc_GetGoogleApiSource_0,
     ro_Serve = rest_handler rts ''/google.cloud.eventarc.v1.Eventarc/GetGoogleApiSource''
       ''/v1/{name=projects/*/locations/*/googleApiSources/*}''
       (request_Eventarc_GetGoogleApiSource_0 (rts_Get rts) (\<lambda>q. conn (Eventarc (GoogleApiSourceRPC (GetRPC q)))))\<rparr>"

definition route_ListGoogleApiSources :: "runtimes \<Rightarrow> 's conn \<Rightarrow> 's rest_route" where
  "route_ListGoogleApiSources rts conn = \<lparr>ro_Method = ''GET'',
     ro_Pattern = Compiled pattern_Eventarc_ListGoogleApiSources_0,
     ro_Serve = rest_handler rts ''/google.cloud.eventarc.v1.Eventarc/ListGoogleApiSources''
       ''/v1/{parent=projects/*/locations/*}/googleApiSources''
       (request_Eventarc_ListGoogleApiSources_0 (rts_List rts) (\<lambda>q. conn (Eventarc (GoogleApiSourceRPC (ListRPC q)))))\<rparr>"

definition route_CreateGoogleApiSource :: "runtimes \<Rightarrow> 's conn \<Rightarrow> 's rest_route" where
  "route_CreateGoogleApiSource rts conn = \<lparr>ro_Method = ''POST'',
     ro_Pattern = Compiled pattern_Eventarc_CreateGoogleApiSource_0,
     ro_Serve = rest_handler rts ''/google.cloud.eventarc.v1.Eventarc/CreateGoogleApiSource''
       ''/v1/{parent=projects/*/locations/*}/googleApiSources''
       (request_Eventarc_CreateGoogleApiSource_0 (rts_CreateGoogleApiSource rts) (\<lambda>q. conn (Eventarc (GoogleApiSourceRPC (CreateRPC q)))))\<rparr>"

definition route_UpdateGoogleApiSource :: "runtimes \<Rightarrow> 's conn \<Rightarrow> 's rest_route" where
  "route_UpdateGoogleApiSource rts conn = \<lparr>ro_Method = ''PATCH'',
     ro_Pattern = Compiled pattern_Eventarc_UpdateGoogleApiSource_0,
     ro_Serve = rest_handler rts ''/google.cloud.eventarc.v1.Eventarc/UpdateGoogleApiSource''
       ''/v1/{google_api_source.name=projects/*/locations/*/googleApiSources/*}''
       (request_Eventarc_UpdateGoogleApiSource_0 (rts_UpdateGoogleApiSource rts) (\<lambda>q. conn (Eventarc (GoogleApiSourceRPC (UpdateRPC q)))))\<rparr>"

definition route_DeleteGoogleApiSource :: "runtimes \<Rightarrow> 's conn \<Rightarrow> 's rest_route" where
  "route_DeleteGoogleApiSource rts conn = \<lparr>ro_Method = ''DELETE'',
     ro_Pattern = Compiled pattern_Eventarc_DeleteGoogleApiSource_0,
     ro_Serve = rest_handler rts ''/google.cloud.eventarc.v1.Eventarc/DeleteGoogleApiSource''
       ''/v1/{name=projects/*/locations/*/googleApiSources/*}''
       (request_Eventarc_DeleteGoogleApiSource_0 (rts_Delete rts) (\<lambda>q. conn (Eventarc (GoogleApiSourceRPC (DeleteRPC q)))))\<rparr>"

definition RegisterEventarcHandlerClient :: "runtimes \<Rightarrow> 's conn \<Rightarrow> 's rest_route list" where
  "RegisterEventarcHandlerClient rts conn =
    [route_GetTrigger rts conn, route_ListTriggers rts conn, route_CreateTrigger rts conn,
     route_UpdateTrigger rts conn, route_DeleteTrigger rts conn, route_GetChannel rts conn,
     route_ListChannels rts conn, route_CreateChannel rts conn, route_UpdateChannel rts conn,
     route_DeleteChannel rts conn, route_GetProvider rts conn, route_ListProviders rts conn,
     route_GetChannelConnection rts conn, route_ListChannelConnections rts conn,
     route_CreateChannelConnection rts conn, route_DeleteChannelConnection rts conn,
     route_GetGoogleChannelConfig rts conn, route_UpdateGoogleChannelConfig rts conn,
     route_GetMessageBus rts conn, route_ListMessageBuses rts conn,
     route_ListMessageBusEnrollments rts conn, route_CreateMessageBus rts conn,
     route_UpdateMessageBus rts conn, route_DeleteMessageBus rts conn,
     route_GetEnrollment rts conn, route_ListEnrollments rts conn,
     route_CreateEnrollment rts conn, route_UpdateEnrollment rts conn,
     route_DeleteEnrollment rts conn, route_GetPipeline rts conn, route_ListPipelines rts conn,
     route_CreatePipeline rts conn, route_UpdatePipeline rts conn, route_DeletePipeline rts conn,
     route_GetGoogleApiSource rts conn, route_ListGoogleApiSources rts conn,
     route_CreateGoogleApiSource rts conn, route_UpdateGoogleApiSource rts conn,
     route_DeleteGoogleApiSource rts conn]"

section \<open>Every request function makes at most one call\<close>

lemmas request_Eventarc_defs = request_Eventarc_GetTrigger_0_def
  request_Eventarc_ListTriggers_0_def request_Eventarc_CreateTrigger_0_def
  request_Eventarc_UpdateTrigger_0_def request_Eventarc_DeleteTrigger_0_def
  request_Eventarc_GetChannel_0_def request_Eventarc_ListChannels_0_def
  request_Eventarc_CreateChannel_0_def request_Eventarc_UpdateChannel_0_def
  request_Eventarc_DeleteChannel_0_def request_Eventarc_GetProvider_0_def
  request_Eventarc_ListProviders_0_def request_Eventarc_GetChannelConnection_0_def
  request_Eventarc_ListChannelConnections_0_def request_Eventarc_CreateChannelConnection_0_def
  request_Eventarc_DeleteChannelConnection_0_def request_Eventarc_GetGoogleChannelConfig_0_def
  request_Eventarc_UpdateGoogleChannelConfig_0_def request_Eventarc_GetMessageBus_0_def
  request_Eventarc_ListMessageBuses_0_def request_Eventarc_ListMessageBusEnrollments_0_def
  request_Eventarc_CreateMessageBus_0_def request_Eventarc_UpdateMessageBus_0_def
  request_Eventarc_DeleteMessageBus_0_def request_Eventarc_GetEnrollment_0_def
  request_Eventarc_ListEnrollments_0_def request_Eventarc_CreateEnrollment_0_def
  request_Eventarc_UpdateEnrollment_0_def request_Eventarc_DeleteEnrollment_0_def
  request_Eventarc_GetPipeline_0_def request_Eventarc_ListPipelines_0_def
  request_Eventarc_CreatePipeline_0_def request_Eventarc_UpdatePipeline_0_def
  request_Eventarc_DeletePipeline_0_def request_Eventarc_GetGoogleApiSource_0_def
  request_Eventarc_ListGoogleApiSources_0_def request_Eventarc_CreateGoogleApiSource_0_def
  request_Eventarc_UpdateGoogleApiSource_0_def request_Eventarc_DeleteGoogleApiSource_0_def

lemmas route_defs = route_GetTrigger_def route_ListTriggers_def route_CreateTrigger_def
  route_UpdateTrigger_def route_DeleteTrigger_def route_GetChannel_def route_ListChannels_def
  route_CreateChannel_def route_UpdateChannel_def route_DeleteChannel_def route_GetProvider_def
  route_ListProviders_def route_GetChannelConnection_def route_ListChannelConnections_def
  route_CreateChannelConnection_def route_DeleteChannelConnection_def
  route_GetGoogleChannelConfig_def route_UpdateGoogleChannelConfig_def route_GetMessageBus_def
  route_ListMessageBuses_def route_ListMessageBusEnrollments_def route_CreateMessageBus_def
  route_UpdateMessageBus_def route_DeleteMessageBus_def route_GetEnrollment_def
  route_ListEnrollments_def route_CreateEnrollment_def route_UpdateEnrollment_def
  route_DeleteEnrollment_def route_GetPipeline_def route_ListPipelines_def
  route_CreatePipeline_def route_UpdatePipeline_def route_DeletePipeline_def
  route_GetGoogleApiSource_def route_ListGoogleApiSources_def route_CreateGoogleApiSource_def
  route_UpdateGoogleApiSource_def route_DeleteGoogleApiSource_def

lemma calls_gets:
  "calls conn (request_Eventarc_GetTrigger_0 rt0 (\<lambda>q. conn (Eventarc (TriggerRPC (GetRPC q)))) req pp)"
  "calls conn (request_Eventarc_GetChannel_0 rt0 (\<lambda>q. conn (Eventarc (ChannelRPC (GetRPC q)))) req pp)"
  "calls conn (request_Eventarc_GetProvider_0 rt0 (\<lambda>q. conn (Eventarc (GetProviderRPC q))) req pp)"
  "calls conn (request_Eventarc_GetChannelConnection_0 rt0 (\<lambda>q. conn (Eventarc (GetChannelConnectionRPC q))) req pp)"
  "calls conn (request_Eventarc_GetGoogleChannelConfig_0 rt0 (\<lambda>q. conn (Eventarc (GetGoogleChannelConfigRPC q))) req pp)"
  "calls conn (request_Eventarc_GetMessageBus_0 rt0 (\<lambda>q. conn (Eventarc (MessageBusRPC (GetRPC q)))) req pp)"
  "calls conn (request_Eventarc_GetEnrollment_0 rt0 (\<lambda>q. conn (Eventarc (EnrollmentRPC (GetRPC q)))) req pp)"
  "calls conn (request_Eventarc_GetPipeline_0 rt0 (\<lambda>q. conn (Eventarc (PipelineRPC (GetRPC q)))) req pp)"
  "calls conn (request_Eventarc_GetGoogleApiSource_0 rt0 (\<lambda>q. conn (Eventarc (GoogleApiSourceRPC (GetRPC q)))) req pp)"
  unfolding request_Eventarc_defs by (intro calls_intros; simp)+

lemma calls_lists:
  "calls conn (request_Eventarc_ListTriggers_0 rt0 (\<lambda>q. conn (Eventarc (TriggerRPC (ListRPC q)))) req pp)"
  "calls conn (request_Eventarc_ListChannels_0 rt0 (\<lambda>q. conn (Eventarc (ChannelRPC (ListRPC q)))) req pp)"
  "calls conn (request_Eventarc_ListProviders_0 rt0 (\<lambda>q. conn (Eventarc (ListProvidersRPC q))) req pp)"
  "calls conn (request_Eventarc_ListChannelConnections_0 rt0 (\<lambda>q. conn (Eventarc (ListChannelConnectionsRPC q))) req pp)"
  "calls conn (request_Eventarc_ListMessageBuses_0 rt0 (\<lambda>q. conn (Eventarc (MessageBusRPC (ListRPC q)))) req pp)"
  "calls conn (request_Eventarc_ListMessageBusEnrollments_0 rt0 (\<lambda>q. conn (Eventarc (ListMessageBusEnrollmentsRPC q))) req pp)"
  "calls conn (request_Eventarc_ListEnrollments_0 rt0 (\<lambda>q. conn (Eventarc (EnrollmentRPC (ListRPC q)))) req pp)"
  "calls conn (request_Eventarc_ListPipelines_0 rt0 (\<lambda>q. conn (Eventarc (PipelineRPC (ListRPC q)))) req pp)"
  "calls conn (request_Eventarc_ListGoogleApiSources_0 rt0 (\<lambda>q. conn (Eventarc (GoogleApiSourceRPC (ListRPC q)))) req pp)"
  unfolding request_Eventarc_defs by (intro calls_intros; simp)+

lemma calls_creates:
  "calls conn (request_Eventarc_CreateTrigger_0 rt0 (\<lambda>q. conn (Eventarc (TriggerRPC (CreateRPC q)))) req pp)"
  "calls conn (request_Eventarc_CreateChannel_0 rt1 (\<lambda>q. conn (Eventarc (ChannelRPC (CreateRPC q)))) req pp)"
  "calls conn (request_Eventarc_CreateChannelConnection_0 rt2 (\<lambda>q. conn (Eventarc (CreateChannelConnectionRPC q))) req pp)"
  "calls conn (request_Eventarc_CreateMessageBus_0 rt3 (\<lambda>q. conn (Eventarc (MessageBusRPC (CreateRPC q)))) req pp)"
  "calls conn (request_Eventarc_CreateEnrollment_0 rt4 (\<lambda>q. conn (Eventarc (EnrollmentRPC (CreateRPC q)))) req pp)"
  "calls conn (request_Eventarc_CreatePipeline_0 rt5 (\<lambda>q. conn (Eventarc (PipelineRPC (CreateRPC q)))) req pp)"
  "calls conn (request_Eventarc_CreateGoogleApiSource_0 rt6 (\<lambda>q. conn (Eventarc (GoogleApiSourceRPC (CreateRPC q)))) req pp)"
  unfolding request_Eventarc_defs by (intro calls_intros; simp)+

lemma calls_updates:
  "calls conn (request_Eventarc_UpdateTrigger_0 rt0 (\<lambda>q. conn (Eventarc (TriggerRPC (UpdateRPC q)))) req pp)"
  "calls conn (request_Eventarc_UpdateChannel_0 rt1 (\<lambda>q. conn (Eventarc (ChannelRPC (UpdateRPC q)))) req pp)"
  "calls conn (request_Eventarc_UpdateGoogleChannelConfig_0 rt2 (\<lambda>q. conn (Eventarc (UpdateGoogleChannelConfigRPC q))) req pp)"
  "calls conn (request_Eventarc_UpdateMessageBus_0 rt3 (\<lambda>q. conn (Eventarc (MessageBusRPC (UpdateRPC q)))) req pp)"
  "calls conn (request_Eventarc_UpdateEnrollment_0 rt4 (\<lambda>q. conn (Eventarc (EnrollmentRPC (UpdateRPC q)))) req pp)"
  "calls conn (request_Eventarc_UpdatePipeline_0 rt5 (\<lambda>q. conn (Eventarc (PipelineRPC (UpdateRPC q)))) req pp)"
  "calls conn (request_Eventarc_UpdateGoogleApiSource_0 rt6 (\<lambda>q. conn (Eventarc (GoogleApiSourceRPC (UpdateRPC q)))) req pp)"
  unfolding request_Eventarc_defs by (intro calls_intros; simp)+

lemma calls_deletes:
  "calls conn (request_Eventarc_DeleteTrigger_0 rt0 (\<lambda>q. conn (Eventarc (TriggerRPC (DeleteRPC q)))) req pp)"
  "calls conn (request_Eventarc_DeleteChannel_0 rt0 (\<lambda>q. conn (Eventarc (ChannelRPC (DeleteRPC q)))) req pp)"
  "calls conn (request_Eventarc_DeleteChannelConnection_0 rt0 (\<lambda>q. conn (Eventarc (DeleteChannelConnectionRPC q))) req pp)"
  "calls conn (request_Eventarc_DeleteMessageBus_0 rt0 (\<lambda>q. conn (Eventarc (MessageBusRPC (DeleteRPC q)))) req pp)"
  "calls conn (request_Eventarc_DeleteEnrollment_0 rt0 (\<lambda>q. conn (Eventarc (EnrollmentRPC (DeleteRPC q)))) req pp)"
  "calls conn (request_Eventarc_DeletePipeline_0 rt0 (\<lambda>q. conn (Eventarc (PipelineRPC (DeleteRPC q)))) req pp)"
  "calls conn (request_Eventarc_DeleteGoogleApiSource_0 rt0 (\<lambda>q. conn (Eventarc (GoogleApiSourceRPC (DeleteRPC q)))) req pp)"
  unfolding request_Eventarc_defs by (intro calls_intros; simp)+

lemmas calls_requests = calls_gets calls_lists calls_creates calls_updates calls_deletes

lemma eventarc_routes_relay: "list_all (relaying conn) (RegisterEventarcHandlerClient rts conn)"
  by (simp add: RegisterEventarcHandlerClient_def route_defs relaying_handler calls_requests)

end
