(* ===== verification/RestServices.thy ===== *)
theory RestServices
  imports Rest
begin

text \<open>
  internal/gen/google/longrunning/operations.pb.gw.go and
  internal/gen/google/cloud/eventarc/publishing/v1/publisher.pb.gw.go: the REST handlers of the
  Operations and the Publisher service, under their Go names.
\<close>

definition zeroPublish :: PublishRequest where
  "zeroPublish = \<lparr>pr_Channel = [], pr_Events = []\<rparr>"

definition zeroPublishBus :: BusPublishRequest where
  "zeroPublishBus = \<lparr>bp_MessageBus = [], bp_Event = []\<rparr>"

section \<open>Operations\<close>

definition pattern_Operations_ListOperations_0 :: Pattern where
  "pattern_Operations_ListOperations_0 = \<lparr>pt_Version = 1,
     pt_Ops = [2, 0, 2, 1, 4, 1, 5, 2],
     pt_Pool = [''v1'', ''operations'', ''name''],
     pt_Verb = []\<rparr>"

definition filter_Operations_ListOperations_0 :: DoubleArray where
  "filter_Operations_ListOperations_0 = \<lparr>da_Encoding = [(''name'', 0)],
     da_Base = [1, 1, 0], da_Check = [0, 1, 2]\<rparr>"

definition request_Operations_ListOperations_0 ::
  "(GetRequest, unit) runtime \<Rightarrow> (GetRequest \<Rightarrow> ('s, 'a) op) \<Rightarrow>
   RestRequest \<Rightarrow> string gomap \<Rightarrow> ('s, 'a) op" where
  "request_Operations_ListOperations_0 rt client req pathParams =
     seq (give (pathParam rt pathParams ''name'')) (\<lambda>val.
     seq (give (query_params rt req filter_Operations_ListOperations_0 (zeroGet\<lparr>gr_Name := val\<rparr>)))
       client)"

definition route_ListOperations :: "runtimes \<Rightarrow> 's conn \<Rightarrow> 's rest_route" where
  "route_ListOperations rts conn = \<lparr>ro_Method = ''GET'',
     ro_Pattern = Compiled pattern_Operations_ListOperations_0,
     ro_Serve = rest_handler rts ''/google.longrunning.Operations/ListOperations''
       ''/v1/{name=operations}''
       (request_Operations_ListOperations_0 (rts_Get rts) (\<lambda>q. conn (Eventarc (ListOperationsRPC q))))\<rparr>"

definition pattern_Operations_GetOperation_0 :: Pattern where
  "pattern_Operations_GetOperation_0 = \<lparr>pt_Version = 1,
     pt_Ops = [2, 0, 2, 1, 3, 0, 4, 2, 5, 2],
     pt_Pool = [''v1'', ''operations'', ''name''],
     pt_Verb = []\<rparr>"

definition request_Operations_GetOperation_0 ::
  "(GetRequest, unit) runtime \<Rightarrow> (GetRequest \<Rightarrow> ('s, 'a) op) \<Rightarrow>
   RestRequest \<Rightarrow> string gomap \<Rightarrow> ('s, 'a) op" where
  "request_Operations_GetOperation_0 rt client req pathParams =
     seq (give (pathParam rt pathParams ''name'')) (\<lambda>val.
     client (zeroGet\<lparr>gr_Name := val\<rparr>))"

definition route_GetOperation :: "runtimes \<Rightarrow> 's conn \<Rightarrow> 's rest_route" where
  "route_GetOperation rts conn = \<lparr>ro_Method = ''GET'',
     ro_Pattern = Compiled pattern_Operations_GetOperation_0,
     ro_Serve = rest_handler rts ''/google.longrunning.Operations/GetOperation''
       ''/v1/{name=operations/**}''
       (request_Operations_GetOperation_0 (rts_Get rts) (\<lambda>q. conn (Eventarc (GetOperationRPC q))))\<rparr>"

definition pattern_Operations_DeleteOperation_0 :: Pattern where
  "pattern_Operations_DeleteOperation_0 = \<lparr>pt_Version = 1,
     pt_Ops = [2, 0, 2, 1, 3, 0, 4, 2, 5, 2],
     pt_Pool = [''v1'', ''operations'', ''name''],
     pt_Verb = []\<rparr>"

definition request_Operations_DeleteOperation_0 ::
  "(GetRequest, unit) runtime \<Rightarrow> (GetRequest \<Rightarrow> ('s, 'a) op) \<Rightarrow>
   RestRequest \<Rightarrow> string gomap \<Rightarrow> ('s, 'a) op" where
  "request_Operations_DeleteOperation_0 rt client req pathParams =
     seq (give (pathParam rt pathParams ''name'')) (\<lambda>val.
     client (zeroGet\<lparr>gr_Name := val\<rparr>))"

definition route_DeleteOperation :: "runtimes \<Rightarrow> 's conn \<Rightarrow> 's rest_route" where
  "route_DeleteOperation rts conn = \<lparr>ro_Method = ''DELETE'',
     ro_Pattern = Compiled pattern_Operations_DeleteOperation_0,
     ro_Serve = rest_handler rts ''/google.longrunning.Operations/DeleteOperation''
       ''/v1/{name=operations/**}''
       (request_Operations_DeleteOperation_0 (rts_Get rts) (\<lambda>q. conn (Eventarc (DeleteOperationRPC q))))\<rparr>"

definition pattern_Operations_CancelOperation_0 :: Pattern where
  "pattern_Operations_CancelOperation_0 = \<lparr>pt_Version = 1,
     pt_Ops = [2, 0, 2, 1, 3, 0, 4, 2, 5, 2],
     pt_Pool = [''v1'', ''operations'', ''name''],
     pt_Verb = ''cancel''\<rparr>"

definition request_Operations_CancelOperation_0 ::
  "(GetRequest, GetRequest) runtime \<Rightarrow> (GetRequest \<Rightarrow> ('s, 'a) op) \<Rightarrow>
   RestRequest \<Rightarrow> string gomap \<Rightarrow> ('s, 'a) op" where
  "request_Operations_CancelOperation_0 rt client req pathParams =
     seq (give (decode_body rt (rr_Body req) zeroGet)) (\<lambda>q1.
     seq (give (pathParam rt pathParams ''name'')) (\<lambda>val.
     client (q1\<lparr>gr_Name := val\<rparr>)))"

definition route_CancelOperation :: "runtimes \<Rightarrow> 's conn \<Rightarrow> 's rest_route" where
  "route_CancelOperation rts conn = \<lparr>ro_Method = ''POST'',
     ro_Pattern = Compiled pattern_Operations_CancelOperation_0,
     ro_Serve = rest_handler rts ''/google.longrunning.Operations/CancelOperation''
       ''/v1/{name=operations/**}:cancel''
       (request_Operations_CancelOperation_0 (rts_Message rts) (\<lambda>q. conn (Eventarc (CancelOperationRPC q))))\<rparr>"

definition pattern_Operations_WaitOperation_0 :: Pattern where
  "pattern_Operations_WaitOperation_0 = \<lparr>pt_Version = 1,
     pt_Ops = [2, 0, 2, 1],
     pt_Pool = [''google.longrunning.Operations'', ''WaitOperation''],
     pt_Verb = []\<rparr>"

definition request_Operations_WaitOperation_0 ::
  "(GetRequest, GetRequest) runtime \<Rightarrow> (GetRequest \<Rightarrow> ('s, 'a) op) \<Rightarrow>
   RestRequest \<Rightarrow> string gomap \<Rightarrow> ('s, 'a) op" where
  "request_Operations_WaitOperation_0 rt client req pathParams =
     seq (give (decode_body rt (rr_Body req) zeroGet)) (\<lambda>q1.
     client q1)"

definition route_WaitOperation :: "runtimes \<Rightarrow> 's conn \<Rightarrow> 's rest_route" where
  "route_WaitOperation rts conn = \<lparr>ro_Method = ''POST'',
     ro_Pattern = Compiled pattern_Operations_WaitOperation_0,
     ro_Serve = rest_handler rts ''/google.longrunning.Operations/WaitOperation''
       ''/google.longrunning.Operations/WaitOperation''
       (request_Operations_WaitOperation_0 (rts_Message rts) (\<lambda>q. conn (Eventarc (WaitOperationRPC q))))\<rparr>"

definition RegisterOperationsHandlerClient :: "runtimes \<Rightarrow> 's conn \<Rightarrow> 's rest_route list" where
  "RegisterOperationsHandlerClient rts conn =
    [route_ListOperations rts conn,
     route_GetOperation rts conn,
     route_DeleteOperation rts conn,
     route_CancelOperation rts conn,
     route_WaitOperation rts conn]"

section \<open>Publisher\<close>

definition pattern_Publisher_PublishChannelConnectionEvents_0 :: Pattern where
  "pattern_Publisher_PublishChannelConnectionEvents_0 = \<lparr>pt_Version = 1,
     pt_Ops = [2, 0, 2, 1, 1, 0, 2, 2, 1, 0, 2, 3, 1, 0, 4, 6, 5, 4],
     pt_Pool = [''v1'', ''projects'', ''locations'', ''channelConnections'', ''channel_connection''],
     pt_Verb = ''publishEvents''\<rparr>"

definition request_Publisher_PublishChannelConnectionEvents_0 ::
  "(PublishRequest, PublishRequest) runtime \<Rightarrow> (PublishRequest \<Rightarrow> ('s, 'a) op) \<Rightarrow>
   RestRequest \<Rightarrow> string gomap \<Rightarrow> ('s, 'a) op" where
  "request_Publisher_PublishChannelConnectionEvents_0 rt client req pathParams =
     seq (give (decode_body rt (rr_Body req) zeroPublish)) (\<lambda>q1.
     seq (give (pathParam rt pathParams ''channel_connection'')) (\<lambda>val.
     client (q1\<lparr>pr_Channel := val\<rparr>)))"

definition route_PublishChannelConnectionEvents :: "runtimes \<Rightarrow> 's conn \<Rightarrow> 's rest_route" where
  "route_PublishChannelConnectionEvents rts conn = \<lparr>ro_Method = ''POST'',
     ro_Pattern = Compiled pattern_Publisher_PublishChannelConnectionEvents_0,
     ro_Serve = rest_handler rts ''/google.cloud.eventarc.publishing.v1.Publisher/PublishChannelConnectionEvents''
       ''/v1/{channel_connection=projects/*/locations/*/channelConnections/*}:publishEvents''
       (request_Publisher_PublishChannelConnectionEvents_0 (rts_Publish rts) (\<lambda>q. conn (PublishConnectionCall q)))\<rparr>"

definition pattern_Publisher_PublishEvents_0 :: Pattern where
  "pattern_Publisher_PublishEvents_0 = \<lparr>pt_Version = 1,
     pt_Ops = [2, 0, 2, 1, 1, 0, 2, 2, 1, 0, 2, 3, 1, 0, 4, 6, 5, 4],
     pt_Pool = [''v1'', ''projects'', ''locations'', ''channels'', ''channel''],
     pt_Verb = ''publishEvents''\<rparr>"

definition request_Publisher_PublishEvents_0 ::
  "(PublishRequest, PublishRequest) runtime \<Rightarrow> (PublishRequest \<Rightarrow> ('s, 'a) op) \<Rightarrow>
   RestRequest \<Rightarrow> string gomap \<Rightarrow> ('s, 'a) op" where
  "request_Publisher_PublishEvents_0 rt client req pathParams =
     seq (give (decode_body rt (rr_Body req) zeroPublish)) (\<lambda>q1.
     seq (give (pathParam rt pathParams ''channel'')) (\<lambda>val.
     client (q1\<lparr>pr_Channel := val\<rparr>)))"

definition route_PublishEvents :: "runtimes \<Rightarrow> 's conn \<Rightarrow> 's rest_route" where
  "route_PublishEvents rts conn = \<lparr>ro_Method = ''POST'',
     ro_Pattern = Compiled pattern_Publisher_PublishEvents_0,
     ro_Serve = rest_handler rts ''/google.cloud.eventarc.publishing.v1.Publisher/PublishEvents''
       ''/v1/{channel=projects/*/locations/*/channels/*}:publishEvents''
       (request_Publisher_PublishEvents_0 (rts_Publish rts) (\<lambda>q. conn (PublishEventsCall q)))\<rparr>"

definition pattern_Publisher_Publish_0 :: Pattern where
  "pattern_Publisher_Publish_0 = \<lparr>pt_Version = 1,
     pt_Ops = [2, 0, 2, 1, 1, 0, 2, 2, 1, 0, 2, 3, 1, 0, 4, 6, 5, 4],
     pt_Pool = [''v1'', ''projects'', ''locations'', ''messageBuses'', ''message_bus''],
     pt_Verb = ''publish''\<rparr>"

definition request_Publisher_Publish_0 ::
  "(BusPublishRequest, BusPublishRequest) runtime \<Rightarrow> (BusPublishRequest \<Rightarrow> ('s, 'a) op) \<Rightarrow>
   RestRequest \<Rightarrow> string gomap \<Rightarrow> ('s, 'a) op" where
  "request_Publisher_Publish_0 rt client req pathParams =
     seq (give (decode_body rt (rr_Body req) zeroPublishBus)) (\<lambda>q1.
     seq (give (pathParam rt pathParams ''message_bus'')) (\<lambda>val.
     client (q1\<lparr>bp_MessageBus := val\<rparr>)))"

definition route_Publish :: "runtimes \<Rightarrow> 's conn \<Rightarrow> 's rest_route" where
  "route_Publish rts conn = \<lparr>ro_Method = ''POST'',
     ro_Pattern = Compiled pattern_Publisher_Publish_0,
     ro_Serve = rest_handler rts ''/google.cloud.eventarc.publishing.v1.Publisher/Publish''
       ''/v1/{message_bus=projects/*/locations/*/messageBuses/*}:publish''
       (request_Publisher_Publish_0 (rts_PublishBus rts) (\<lambda>q. conn (PublishBusCall q)))\<rparr>"

definition RegisterPublisherHandlerClient :: "runtimes \<Rightarrow> 's conn \<Rightarrow> 's rest_route list" where
  "RegisterPublisherHandlerClient rts conn =
    [route_PublishChannelConnectionEvents rts conn,
     route_PublishEvents rts conn,
     route_Publish rts conn]"

section \<open>At most one call\<close>

lemmas request_service_defs =
  request_Operations_ListOperations_0_def
  request_Operations_GetOperation_0_def
  request_Operations_DeleteOperation_0_def
  request_Operations_CancelOperation_0_def
  request_Operations_WaitOperation_0_def
  request_Publisher_PublishChannelConnectionEvents_0_def
  request_Publisher_PublishEvents_0_def
  request_Publisher_Publish_0_def

lemmas route_service_defs =
  route_ListOperations_def
  route_GetOperation_def
  route_DeleteOperation_def
  route_CancelOperation_def
  route_WaitOperation_def
  route_PublishChannelConnectionEvents_def
  route_PublishEvents_def
  route_Publish_def

lemma calls_services:
  "calls conn (request_Operations_ListOperations_0 rt0 (\<lambda>q. conn (Eventarc (ListOperationsRPC q))) req pp)"
  "calls conn (request_Operations_GetOperation_0 rt1 (\<lambda>q. conn (Eventarc (GetOperationRPC q))) req pp)"
  "calls conn (request_Operations_DeleteOperation_0 rt2 (\<lambda>q. conn (Eventarc (DeleteOperationRPC q))) req pp)"
  "calls conn (request_Operations_CancelOperation_0 rt3 (\<lambda>q. conn (Eventarc (CancelOperationRPC q))) req pp)"
  "calls conn (request_Operations_WaitOperation_0 rt4 (\<lambda>q. conn (Eventarc (WaitOperationRPC q))) req pp)"
  "calls conn (request_Publisher_PublishChannelConnectionEvents_0 rt5 (\<lambda>q. conn (PublishConnectionCall q)) req pp)"
  "calls conn (request_Publisher_PublishEvents_0 rt6 (\<lambda>q. conn (PublishEventsCall q)) req pp)"
  "calls conn (request_Publisher_Publish_0 rt7 (\<lambda>q. conn (PublishBusCall q)) req pp)"
  unfolding request_service_defs by (intro calls_intros; simp)+

lemma operations_routes_relay: "list_all (relaying conn) (RegisterOperationsHandlerClient rts conn)"
  by (simp add: RegisterOperationsHandlerClient_def route_service_defs relaying_handler calls_services)

lemma publisher_routes_relay: "list_all (relaying conn) (RegisterPublisherHandlerClient rts conn)"
  by (simp add: RegisterPublisherHandlerClient_def route_service_defs relaying_handler calls_services)

end
