(* ===== verification/Service.thy ===== *)
theory Service
  imports ServerProps Publisher Gateway
begin

text \<open>
  register.go: the services wired together. The publisher's three interfaces are the storage of the
  server, the router over that storage, and the HTTP dispatcher; the calls of one publication read
  the same storage.
\<close>

definition publishEvents ::
  "sdk \<Rightarrow> ('c, 'a, 'p) cel \<Rightarrow> http_lib \<Rightarrow> Logger option \<Rightarrow> order \<Rightarrow> env \<Rightarrow> Server \<Rightarrow> PublishRequest \<Rightarrow> run"
where
  "publishEvents lib c h log ord e s req =
     (let lgr = OrDefault log;
          rtr = Match c lgr (\<lambda>p. ListAllTriggers e p (storage s));
          dsp = Dispatch h ord lgr
      in PublishEvents lib ord (\<lambda>n. GetChannelExists n (storage s)) rtr dsp lgr req)"

definition publishChannelConnectionEvents ::
  "sdk \<Rightarrow> ('c, 'a, 'p) cel \<Rightarrow> http_lib \<Rightarrow> Logger option \<Rightarrow> order \<Rightarrow> env \<Rightarrow> Server \<Rightarrow> PublishRequest \<Rightarrow> run"
where
  "publishChannelConnectionEvents lib c h log ord e s req =
     (let lgr = OrDefault log;
          rtr = Match c lgr (\<lambda>p. ListAllTriggers e p (storage s));
          dsp = Dispatch h ord lgr
      in PublishChannelConnectionEvents lib ord rtr dsp lgr req)"

section \<open>What a publication sends\<close>

text \<open>The events of a call that decode, in order.\<close>

definition decoded :: "sdk \<Rightarrow> order \<Rightarrow> encoded option list \<Rightarrow> Event list" where
  "decoded lib ord as = List.map_filter (\<lambda>a. case a of None \<Rightarrow> None
     | Some b \<Rightarrow> (case unpackCloudEvent lib ord b of Ok ev \<Rightarrow> Some ev | _ \<Rightarrow> None)) as"

text \<open>The requests an event should cause: one per matching trigger of the parent.\<close>

definition expected ::
  "('c, 'a, 'p) cel \<Rightarrow> http_lib \<Rightarrow> order \<Rightarrow> Server \<Rightarrow> string \<Rightarrow> Event \<Rightarrow> HttpRequest list" where
  "expected c h ord s parent ev =
     concat (map (\<lambda>t. posts h ord t ev)
       (filter (takes c ev) (children tr_Name (parent @ ''/triggers/'') (triggers (storage s)))))"

lemma mset_concat_map: "mset xs = mset ys \<Longrightarrow> mset (concat (map f xs)) = mset (concat (map f ys))"
proof -
  assume eq: "mset xs = mset ys"
  have "mset (concat (map f zs)) = \<Sum>\<^sub># (image_mset (\<lambda>z. mset (f z)) (mset zs))" for zs
    by (induction zs) simp_all
  then show ?thesis using eq by simp
qed

lemma matched_posts:
  assumes "storage_inv (storage s)" and "iter_order (e_order e)"
    and "Match c lgr (\<lambda>p. ListAllTriggers e p (storage s)) parent ev = (Ok ts, l)"
  shows "mset (concat (map (\<lambda>t. posts h ord t ev) ts)) = mset (expected c h ord s parent ev)"
proof -
  have "wf_table tr_Name (triggers (storage s))" using assms(1) by (simp add: storage_inv_def)
  from rtr.Match_exact [OF this assms(2), of c lgr parent ev] assms(3)
  have "mset ts = mset (filter (takes c ev)
      (children tr_Name (parent @ ''/triggers/'') (triggers (storage s))))" by simp
  then show ?thesis unfolding expected_def by (rule mset_concat_map)
qed

lemma slice_posts:
  fixes c :: "('c, 'a, 'p) cel" and lgr :: Logger
  assumes "storage_inv (storage s)" and "iter_order (e_order e)"
  defines "match \<equiv> Match c lgr (\<lambda>p. ListAllTriggers e p (storage s))"
  shows "\<exists>reqs l. processAnySlice lib ord match (Dispatch h ord lgr) lgr' parent as = (Ok (), reqs, l) \<and>
    mset reqs = mset (concat (map (expected c h ord s parent) (decoded lib ord as)))"
proof -
  have wf: "wf_table tr_Name (triggers (storage s))" using assms(1) by (simp add: storage_inv_def)
  have found: "\<exists>ts l. match parent ev = (Ok ts, l)" for ev
    using rtr.Match_exact [OF wf assms(2), of c lgr parent ev] unfolding match_def by blast
  let ?one = "\<lambda>a. case a of None \<Rightarrow> [] | Some b \<Rightarrow> (case unpackCloudEvent lib ord b of
       Ok ev \<Rightarrow> (case fst (match parent ev) of Ok ts \<Rightarrow> concat (map (\<lambda>t. posts h ord t ev) ts) | _ \<Rightarrow> [])
     | _ \<Rightarrow> [])"
  have "mset (concat (map ?one as)) =
      mset (concat (map (expected c h ord s parent) (decoded lib ord as)))"
  proof (induction as)
    case (Cons a as)
    have "mset (?one a) = mset (concat (map (expected c h ord s parent) (decoded lib ord [a])))"
    proof (cases a)
      case (Some b)
      show ?thesis
      proof (cases "unpackCloudEvent lib ord b")
        case (Ok ev)
        obtain ts l where m: "match parent ev = (Ok ts, l)" using found by blast
        then show ?thesis
          using matched_posts [OF assms(1,2), of c lgr parent ev ts l h ord] Some Ok
          by (simp add: decoded_def match_def List.map_filter_simps)
      qed (simp_all add: decoded_def Some List.map_filter_simps)
    qed (simp add: decoded_def List.map_filter_simps)
    moreover have "decoded lib ord (a # as) = decoded lib ord [a] @ decoded lib ord as"
      by (simp add: decoded_def List.map_filter_simps split: option.split)
    ultimately show ?case using Cons by simp
  qed (simp add: decoded_def List.map_filter_simps)
  moreover obtain l where "processAnySlice lib ord match (Dispatch h ord lgr) lgr' parent as =
      (Ok (), concat (map ?one as), l)"
    using dsp.processAnySlice_sends [of match parent lib ord h ord lgr lgr' as] found
      unpackCloudEvent_no_panic by blast
  ultimately show ?thesis by blast
qed

section \<open>Operations over REST\<close>

text \<open>The path of an operation that a handler made.\<close>

lemma done_op_rewritten:
  assumes "done_op e p r v t s = (Ok opn, s')" and "HasPrefix p ''projects/''"
  shows "projectScopedLRORewriter ''GET'' (''/v1/'' @ op_Name opn) =
    ServeMux (''/v1/operations/'' @ op_Name opn)"
proof -
  obtain st where "CreateDone e p r v t (lroStore s) = (Ok opn, st)"
    using assms(1) by (auto simp: done_op_def split: prod.splits)
  from CreateDone_Ok(1) [OF this] obtain b where
    n: "op_Name opn = p @ ''/operations/'' @ EncodeToString (map b [0..<16])" by blast
  have "EncodeToString (map b [0..<16]) \<noteq> []" by (simp add: EncodeToString_def upt_conv_Cons)
  from rewrite_operation [OF assms(2) this EncodeToString_not EncodeToString_not] show ?thesis
    unfolding n by simp
qed

end
