(* ===== verification/RestGateway.thy ===== *)
theory RestGateway
  imports RestEventarc RestServices Gateway Service
begin

text \<open>
  internal/gateway/gateway.go: the gateway as a whole, and the gRPC server behind it. The mux, which
  chooses the route of a request, is a function of the grpc-gateway runtime and a parameter.
\<close>

section \<open>The mux and the handler\<close>

text \<open>
  Given the methods and patterns of the routes, in the order of their registration, and the method
  and the path of a request, the mux finds a route and the parameters in its path, or none.
\<close>

type_synonym mux = "(string \<times> mux_pattern) list \<Rightarrow> string \<Rightarrow> string \<Rightarrow> (nat \<times> string gomap) option"

definition healthHandler :: "'s rest_route \<Rightarrow> 's rest_route" where
  "healthHandler r = r\<lparr>ro_Serve := (\<lambda>req pathParams s. (Ok (Body 200
     (''{'' @ [CHR 0x22] @ ''status'' @ [CHR 0x22, CHR 0x3A, CHR 0x22] @ ''ok'' @ [CHR 0x22] @ ''}'')), s))\<rparr>"

definition health_route :: "string \<Rightarrow> 's rest_route" where
  "health_route path = healthHandler \<lparr>ro_Method = ''GET'', ro_Pattern = PathText path,
     ro_Serve = (\<lambda>req pathParams s. (Ok NoRoute, s))\<rparr>"

definition New_gateway :: "runtimes \<Rightarrow> 's conn \<Rightarrow> 's rest_route list" where
  "New_gateway rts conn =
     RegisterEventarcHandlerClient rts conn @ RegisterPublisherHandlerClient rts conn @
     RegisterOperationsHandlerClient rts conn @ [health_route ''/healthz'', health_route ''/readyz'']"

definition ServeHTTP ::
  "mux \<Rightarrow> 's rest_route list \<Rightarrow> RestRequest \<Rightarrow> ('s, RestReply) op" where
  "ServeHTTP mx routes req s =
     (case mx (map (\<lambda>r. (ro_Method r, ro_Pattern r)) routes) (rr_Method req) (rr_Path req) of
        None \<Rightarrow> (Ok NoRoute, s)
      | Some (i, pathParams) \<Rightarrow>
          (if i < length routes then ro_Serve (routes ! i) req pathParams s else (Ok NoRoute, s)))"

definition Handler ::
  "mux \<Rightarrow> runtimes \<Rightarrow> 's conn \<Rightarrow> RestRequest \<Rightarrow> ('s, RestReply) op" where
  "Handler mx rts conn req s =
     (case projectScopedLRORewriter (rr_Method req) (rr_Path req) of
        ListOps parent \<Rightarrow>
          (case conn (Eventarc (ListOperationsRPC \<lparr>gr_Name = parent\<rparr>)) s of
             (Ok resp, s') \<Rightarrow> (Ok (Forward resp), s')
           | (Err err, s') \<Rightarrow> (Ok (DefaultHTTPError err), s')
           | (Panic p, s') \<Rightarrow> (Panic p, s'))
      | ServeMux path \<Rightarrow> ServeHTTP mx (New_gateway rts conn) (req\<lparr>rr_Path := path\<rparr>) s)"

section \<open>The gRPC server\<close>

text \<open>
  The server with what it has sent to destinations and logged. The Publisher embeds
  \<open>UnimplementedPublisherServer\<close>, which answers for \<open>Publish\<close>.
\<close>

record World =
  w_server :: Server
  w_sent :: "HttpRequest list"
  w_log :: log

definition published :: "run \<Rightarrow> (World, Reply) op" where
  "published r w = (case r of (res, reqs, l) \<Rightarrow>
     (map_result (\<lambda>_. Published) res, w\<lparr>w_sent := w_sent w @ reqs, w_log := w_log w @ l\<rparr>))"

definition serve ::
  "sdk \<Rightarrow> ('c, 'a, 'p) cel \<Rightarrow> http_lib \<Rightarrow> Logger option \<Rightarrow> order \<Rightarrow> env \<Rightarrow> World conn" where
  "serve lib c h lg ord e call w = (case call of
      Eventarc q \<Rightarrow> (case handle e q (w_server w) of (r, s') \<Rightarrow> (map_result Answer r, w\<lparr>w_server := s'\<rparr>))
    | PublishEventsCall q \<Rightarrow> published (publishEvents lib c h lg ord e (w_server w) q) w
    | PublishConnectionCall q \<Rightarrow>
        published (publishChannelConnectionEvents lib c h lg ord e (w_server w) q) w
    | PublishBusCall q \<Rightarrow> (Err (errorf Unimplemented ''method Publish not implemented''), w))"

section \<open>The gateway relays\<close>

lemma relaying_health: "relaying conn (health_route path)"
  by (simp add: relaying_def health_route_def healthHandler_def)

lemma gateway_routes_relay: "list_all (relaying conn) (New_gateway rts conn)"
  by (simp add: New_gateway_def eventarc_routes_relay publisher_routes_relay operations_routes_relay
      relaying_health)

lemma ServeHTTP_relays:
  assumes "ServeHTTP mx (New_gateway rts conn) req s = (reply, s')"
  shows "relays conn s reply s'"
proof -
  let ?routes = "New_gateway rts conn"
  have idle: ?thesis if "(reply, s') = (Ok NoRoute, s)" using that by simp
  have taken: ?thesis if "ro_Serve (?routes ! i) req pathParams s = (reply, s')" "i < length ?routes"
    for i pathParams
    using relayingD [OF _ that(1)] gateway_routes_relay that(2) by (metis list_all_length)
  show ?thesis
    using assms idle taken by (auto simp: ServeHTTP_def split: option.splits if_splits)
qed

lemma Handler_relays:
  assumes "Handler mx rts conn req s = (reply, s')"
  shows "relays conn s reply s'"
proof (cases "projectScopedLRORewriter (rr_Method req) (rr_Path req)")
  case (ListOps parent)
  then show ?thesis
    using assms by (auto simp: Handler_def split: prod.splits result.splits intro: relays_call)
next
  case (ServeMux path)
  then show ?thesis
    using assms ServeHTTP_relays by (simp add: Handler_def)
qed

section \<open>The service behind the gateway\<close>

lemma serve_reachable:
  assumes "reachable (w_server w)" and "serve lib c h lg ord e call w = (r, w')"
  shows "reachable (w_server w')"
proof (cases call)
  case (Eventarc q)
  then show ?thesis
    using assms by (auto simp: serve_def split: prod.splits intro: reachable.call)
qed (use assms in \<open>auto simp: serve_def published_def split: prod.splits\<close>)

lemma publishEvents_no_panic:
  assumes "storage_inv (storage s)" and "iter_order (e_order e)"
  shows "\<not> is_panic (fst (publishEvents lib c h lg ord e s q))"
    and "\<not> is_panic (fst (publishChannelConnectionEvents lib c h lg ord e s q))"
proof -
  have slice: "\<exists>reqs l. processAnySlice lib ord (Match c lgr (\<lambda>p. ListAllTriggers e p (storage s)))
      (Dispatch h ord lgr) lgr parent as = (Ok (), reqs, l)" for lgr parent as
    using slice_posts [OF assms, where lgr = lgr] by blast
  show "\<not> is_panic (fst (publishEvents lib c h lg ord e s q))"
    using slice [of "OrDefault lg" "parentFromChannel (pr_Channel q)" "pr_Events q"]
    by (auto simp: publishEvents_def PublishEvents_def GetChannelExists_def Let_def)
  show "\<not> is_panic (fst (publishChannelConnectionEvents lib c h lg ord e s q))"
    using slice [of "OrDefault lg" "parentFromChannelConnection (pr_Channel q)" "pr_Events q"]
    by (auto simp: publishChannelConnectionEvents_def PublishChannelConnectionEvents_def Let_def)
qed

lemma serve_no_panic:
  assumes "reachable (w_server w)" and "small (w_server w)" and "iter_order (e_order e)"
  shows "\<not> is_panic (fst (serve lib c h lg ord e call w))"
proof -
  have inv: "server_inv (w_server w)" by (rule reachable_inv [OF assms(1)])
  then have st: "storage_inv (storage (w_server w))" by (simp add: server_inv_def)
  show ?thesis
    using handle_no_panic [OF inv assms(2,3)]
    by (cases call)
      (simp_all add: serve_def published_def case_prod_unfold publishEvents_no_panic [OF st assms(3)])
qed

lemma relays_no_panic:
  assumes "relays conn s reply s'" and "\<And>q. \<not> is_panic (fst (conn q s))"
  shows "\<not> is_panic reply"
proof -
  have "\<not> (\<exists>q p. conn q s = (Panic p, s'))" using assms(2) by (metis fst_conv is_panic.simps(3))
  then show ?thesis using assms(1) by (auto simp: relays_def)
qed

end
