(* ===== verification/RestRoutes.thy ===== *)
theory RestRoutes
  imports RestGateway
begin

text \<open>
  The routes of the gateway as a table of HTTP methods and path templates, and that no two of them
  are registered for the same method and template.
\<close>

text \<open>
  The segments of a compiled template: operation 1 matches one segment, 2 a literal of the pool, 3 any
  number of segments; the others (4 and 5) only capture.
\<close>

fun segments_of :: "string list \<Rightarrow> nat list \<Rightarrow> string list" where
  "segments_of pool (opc # arg # codes) =
     (if opc = 1 then [''*''] else if opc = 2 then [pool ! arg] else if opc = 3 then [''**''] else []) @
     segments_of pool codes"
| "segments_of pool codes = []"

definition route_shape :: "'s rest_route \<Rightarrow> string \<times> string list \<times> string" where
  "route_shape r = (ro_Method r, (case ro_Pattern r of
      Compiled p \<Rightarrow> (segments_of (pt_Pool p) (pt_Ops p), pt_Verb p)
    | PathText t \<Rightarrow> ([t], [])))"

text \<open>The methods and patterns of the three registrations, in order.\<close>

definition route_table :: "(string \<times> Pattern) list" where
  "route_table =
    [(''GET'', pattern_Eventarc_GetTrigger_0), (''GET'', pattern_Eventarc_ListTriggers_0),
     (''POST'', pattern_Eventarc_CreateTrigger_0), (''PATCH'', pattern_Eventarc_UpdateTrigger_0),
     (''DELETE'', pattern_Eventarc_DeleteTrigger_0), (''GET'', pattern_Eventarc_GetChannel_0),
     (''GET'', pattern_Eventarc_ListChannels_0), (''POST'', pattern_Eventarc_CreateChannel_0),
     (''PATCH'', pattern_Eventarc_UpdateChannel_0),
     (''DELETE'', pattern_Eventarc_DeleteChannel_0), (''GET'', pattern_Eventarc_GetProvider_0),
     (''GET'', pattern_Eventarc_ListProviders_0),
     (''GET'', pattern_Eventarc_GetChannelConnection_0),
     (''GET'', pattern_Eventarc_ListChannelConnections_0),
     (''POST'', pattern_Eventarc_CreateChannelConnection_0),
     (''DELETE'', pattern_Eventarc_DeleteChannelConnection_0),
     (''GET'', pattern_Eventarc_GetGoogleChannelConfig_0),
     (''PATCH'', pattern_Eventarc_UpdateGoogleChannelConfig_0),
     (''GET'', pattern_Eventarc_GetMessageBus_0), (''GET'', pattern_Eventarc_ListMessageBuses_0),
     (''GET'', pattern_Eventarc_ListMessageBusEnrollments_0),
     (''POST'', pattern_Eventarc_CreateMessageBus_0),
     (''PATCH'', pattern_Eventarc_UpdateMessageBus_0),
     (''DELETE'', pattern_Eventarc_DeleteMessageBus_0),
     (''GET'', pattern_Eventarc_GetEnrollment_0), (''GET'', pattern_Eventarc_ListEnrollments_0),
     (''POST'', pattern_Eventarc_CreateEnrollment_0),
     (''PATCH'', pattern_Eventarc_UpdateEnrollment_0),
     (''DELETE'', pattern_Eventarc_DeleteEnrollment_0),
     (''GET'', pattern_Eventarc_GetPipeline_0), (''GET'', pattern_Eventarc_ListPipelines_0),
     (''POST'', pattern_Eventarc_CreatePipeline_0),
     (''PATCH'', pattern_Eventarc_UpdatePipeline_0),
     (''DELETE'', pattern_Eventarc_DeletePipeline_0),
     (''GET'', pattern_Eventarc_GetGoogleApiSource_0),
     (''GET'', pattern_Eventarc_ListGoogleApiSources_0),
     (''POST'', pattern_Eventarc_CreateGoogleApiSource_0),
     (''PATCH'', pattern_Eventarc_UpdateGoogleApiSource_0),
     (''DELETE'', pattern_Eventarc_DeleteGoogleApiSource_0),
     (''POST'', pattern_Publisher_PublishChannelConnectionEvents_0),
     (''POST'', pattern_Publisher_PublishEvents_0), (''POST'', pattern_Publisher_Publish_0),
     (''GET'', pattern_Operations_ListOperations_0),
     (''GET'', pattern_Operations_GetOperation_0),
     (''DELETE'', pattern_Operations_DeleteOperation_0),
     (''POST'', pattern_Operations_CancelOperation_0),
     (''POST'', pattern_Operations_WaitOperation_0)]"

lemma gateway_table:
  "map (\<lambda>r. (ro_Method r, ro_Pattern r)) (New_gateway rts conn) =
     map (\<lambda>(me, p). (me, Compiled p)) route_table @
     [(''GET'', PathText ''/healthz''), (''GET'', PathText ''/readyz'')]"
  by (simp add: New_gateway_def RegisterEventarcHandlerClient_def RegisterPublisherHandlerClient_def
      RegisterOperationsHandlerClient_def route_defs route_service_defs health_route_def
      healthHandler_def route_table_def)

text \<open>
  Enough of a template to tell the routes apart: lengths, and a letter of the collection.
\<close>

definition route_key :: "string \<times> string list \<times> string \<Rightarrow> nat list \<times> string" where
  "route_key r = (case r of (me, segs, verb) \<Rightarrow>
     let start = concat (take 1 segs); coll = concat (take 1 (drop 5 segs))
     in ([length me, length verb, length segs, length start, length coll], take 1 (drop 1 coll)))"

definition route_keys :: "(nat list \<times> string) list" where
  "route_keys = [([3, 0, 7, 2, 8], ''r''), ([3, 0, 6, 2, 8], ''r''), ([4, 0, 6, 2, 8], ''r''), ([5, 0, 7, 2,
     8], ''r''), ([6, 0, 7, 2, 8], ''r''), ([3, 0, 7, 2, 8], ''h''), ([3, 0, 6, 2, 8], ''h''),
     ([4, 0, 6, 2, 8], ''h''), ([5, 0, 7, 2, 8], ''h''), ([6, 0, 7, 2, 8], ''h''), ([3, 0, 7, 2,
     9], ''r''), ([3, 0, 6, 2, 9], ''r''), ([3, 0, 7, 2, 18], ''h''), ([3, 0, 6, 2, 18], ''h''),
     ([4, 0, 6, 2, 18], ''h''), ([6, 0, 7, 2, 18], ''h''), ([3, 0, 6, 2, 19], ''o''), ([5, 0, 6,
     2, 19], ''o''), ([3, 0, 7, 2, 12], ''e''), ([3, 0, 6, 2, 12], ''e''), ([3, 15, 7, 2, 12],
     ''e''), ([4, 0, 6, 2, 12], ''e''), ([5, 0, 7, 2, 12], ''e''), ([6, 0, 7, 2, 12], ''e''),
     ([3, 0, 7, 2, 11], ''n''), ([3, 0, 6, 2, 11], ''n''), ([4, 0, 6, 2, 11], ''n''), ([5, 0, 7,
     2, 11], ''n''), ([6, 0, 7, 2, 11], ''n''), ([3, 0, 7, 2, 9], ''i''), ([3, 0, 6, 2, 9],
     ''i''), ([4, 0, 6, 2, 9], ''i''), ([5, 0, 7, 2, 9], ''i''), ([6, 0, 7, 2, 9], ''i''), ([3,
     0, 7, 2, 16], ''o''), ([3, 0, 6, 2, 16], ''o''), ([4, 0, 6, 2, 16], ''o''), ([5, 0, 7, 2,
     16], ''o''), ([6, 0, 7, 2, 16], ''o''), ([4, 13, 7, 2, 18], ''h''), ([4, 13, 7, 2, 8],
     ''h''), ([4, 7, 7, 2, 12], ''e''), ([3, 0, 2, 2, 0], []), ([3, 0, 3, 2, 0], []), ([6, 0, 3,
     2, 0], []), ([4, 6, 3, 2, 0], []), ([4, 0, 2, 29, 0], [])]"

lemma route_table_keys:
  "map (route_key \<circ> (\<lambda>(me, p). (me, segments_of (pt_Pool p) (pt_Ops p), pt_Verb p))) route_table =
     route_keys"
  by code_simp

lemma route_keys_distinct: "distinct route_keys"
  unfolding route_keys_def by simp

lemma health_keys:
  "map route_key [(''GET'', [''/healthz''], []), (''GET'', [''/readyz''], [])] =
     [([3, 0, 1, 8, 0], []), ([3, 0, 1, 7, 0], [])]"
  by (simp add: route_key_def)

lemma route_shapes:
  "map route_shape (New_gateway rts conn) =
     map (\<lambda>(me, p). (me, segments_of (pt_Pool p) (pt_Ops p), pt_Verb p)) route_table @
     [(''GET'', [''/healthz''], []), (''GET'', [''/readyz''], [])]"
proof -
  have "map route_shape (New_gateway rts conn) =
      map (\<lambda>(me, pa). (me, (case pa of Compiled p \<Rightarrow> (segments_of (pt_Pool p) (pt_Ops p), pt_Verb p)
        | PathText t \<Rightarrow> ([t], [])))) (map (\<lambda>r. (ro_Method r, ro_Pattern r)) (New_gateway rts conn))"
    by (simp add: route_shape_def)
  then show ?thesis by (simp add: gateway_table case_prod_unfold)
qed

lemma route_shape_keys:
  "map (route_key \<circ> route_shape) (New_gateway rts conn) =
     route_keys @ [([3, 0, 1, 8, 0], []), ([3, 0, 1, 7, 0], [])]"
  unfolding route_table_keys [symmetric] health_keys [symmetric]
  by (simp only: map_map [symmetric] route_shapes map_append)

lemma all_keys_distinct:
  "distinct (route_keys @ [([3, 0, 1, 8, 0], []), ([3, 0, 1, 7, 0], [])])"
  using route_keys_distinct by (simp add: route_keys_def)

end
