(* ===== verification/RestExamples.thy ===== *)
theory RestExamples
  imports Examples RestRoutes
begin

text \<open>
  A runtime, a mux and a world on which the properties of the REST gateway are evaluated.
\<close>

definition runtime0 ::
  "(string \<Rightarrow> 'b decoded) \<Rightarrow> ('q \<Rightarrow> string \<Rightarrow> string \<Rightarrow> string + 'q) \<Rightarrow> ('q, 'b) runtime" where
  "runtime0 decode populate = \<lparr>rt_String = Inr, rt_ParseForm = (\<lambda>req. Inr []),
     rt_PopulateQuery = (\<lambda>q form flt. Inr q), rt_Decode = decode, rt_IOReader = Inr,
     rt_FieldMask = (\<lambda>content b. Inr (Some [''labels''])), rt_PopulatePath = populate\<rparr>"

text \<open>Bodies that never decode, and paths without fields.\<close>

definition plain0 :: "('q, 'b) runtime" where
  "plain0 = runtime0 (\<lambda>content. Failed ''syntax error'') (\<lambda>q k v. Inl k)"

definition patch0 :: Trigger where
  "patch0 = trigger0\<lparr>tr_ServiceAccount := ''sb'', tr_Labels := [(''k'', ''v'')]\<rparr>"

definition runtimes0 :: runtimes where
  "runtimes0 = \<lparr>rts_Get = plain0, rts_List = plain0, rts_Delete = plain0, rts_Message = plain0,
     rts_Publish = plain0, rts_PublishBus = plain0, rts_CreateTrigger = plain0,
     rts_UpdateTrigger = runtime0 (\<lambda>content. Decoded (Some patch0))
       (\<lambda>q k v. Inr (q\<lparr>uq_Resource := map_option (\<lambda>t. t\<lparr>tr_Name := v\<rparr>) (uq_Resource q)\<rparr>)),
     rts_CreateChannel = plain0, rts_UpdateChannel = plain0, rts_CreateChannelConnection = plain0,
     rts_UpdateGoogleChannelConfig = plain0, rts_CreateMessageBus = plain0,
     rts_UpdateMessageBus = plain0, rts_CreateEnrollment = plain0, rts_UpdateEnrollment = plain0,
     rts_CreatePipeline = plain0, rts_UpdatePipeline = plain0, rts_CreateGoogleApiSource = plain0,
     rts_UpdateGoogleApiSource = plain0, rts_Annotate = (\<lambda>req rpc template. None),
     rts_AnnotateIncoming = (\<lambda>req rpc template. None)\<rparr>"

text \<open>A mux that knows two of the routes: the read of an operation and the update of a trigger.\<close>

definition mux0 :: mux where
  "mux0 table me path =
     (if me = ''GET'' \<and> HasPrefix path ''/v1/operations/'' then Some (43, [(''name'', drop 4 path)])
      else if me = ''PATCH'' \<and> HasPrefix path ''/v1/projects/''
      then Some (3, [(''trigger.name'', drop 4 path)]) else None)"

definition world1 :: World where
  "world1 = \<lparr>w_server = server1, w_sent = [], w_log = []\<rparr>"

definition get_operation0 :: RestRequest where
  "get_operation0 = \<lparr>rr_Method = ''GET'', rr_Path = ''/v1/'' @ op_Name operation0, rr_Query = [],
     rr_Body = []\<rparr>"

definition patch_trigger0 :: RestRequest where
  "patch_trigger0 = \<lparr>rr_Method = ''PATCH'', rr_Path = ''/v1/'' @ trigger_name0, rr_Query = [],
     rr_Body = ''body''\<rparr>"

definition serve0 :: "World conn" where
  "serve0 = serve sdk0 cel0 http0 None rev env0"

end
