(* ===== verification/RestLocal.thy ===== *)
theory RestLocal
  imports RestEventarc RestServices
begin

text \<open>
  internal/gen: the in-process variants of the generated handlers, \<open>local_request_X\<close> and
  \<open>RegisterXHandlerServer\<close>, which call the methods of a service implementation instead of a
  connection. No program of the repository mounts them; they register the same routes.
\<close>

section \<open>Eventarc\<close>

definition local_request_Eventarc_GetTrigger_0 ::
  "(GetRequest, unit) runtime \<Rightarrow> (GetRequest \<Rightarrow> ('s, 'a) op) \<Rightarrow>
   RestRequest \<Rightarrow> string gomap \<Rightarrow> ('s, 'a) op" where
  "local_request_Eventarc_GetTrigger_0 rt server req pathParams =
     seq (give (pathParam rt pathParams ''name'')) (\<lambda>name.
     server (zeroGet\<lparr>gr_Name := name\<rparr>))"

definition local_request_Eventarc_ListTriggers_0 ::
  "(ListRequest, unit) runtime \<Rightarrow> (ListRequest \<Rightarrow> ('s, 'a) op) \<Rightarrow>
   RestRequest \<Rightarrow> string gomap \<Rightarrow> ('s, 'a) op" where
  "local_request_Eventarc_ListTriggers_0 rt server req pathParams =
     seq (give (pathParam rt pathParams ''parent'')) (\<lambda>parent.
     seq (give (query_params rt req filter_Eventarc_ListTriggers_0 (zeroList\<lparr>lr_Parent := parent\<rparr>)))
       server)"

definition local_request_Eventarc_CreateTrigger_0 ::
  "(Trigger CreateRequest, Trigger option) runtime \<Rightarrow> (Trigger CreateRequest \<Rightarrow> ('s, 'a) op) \<Rightarrow>
   RestRequest \<Rightarrow> string gomap \<Rightarrow> ('s, 'a) op" where
  "local_request_Eventarc_CreateTrigger_0 rt server req pathParams =
     seq (give (decode_body rt (rr_Body req) None)) (\<lambda>resource.
     seq (give (pathParam rt pathParams ''parent'')) (\<lambda>parent.
     seq (give (query_params rt req filter_Eventarc_CreateTrigger_0
            (zeroCreate\<lparr>cq_Resource := resource, cq_Parent := parent\<rparr>)))
       server))"

definition local_request_Eventarc_UpdateTrigger_0 ::
  "(Trigger UpdateRequest, Trigger option) runtime \<Rightarrow> (Trigger UpdateRequest \<Rightarrow> ('s, 'a) op) \<Rightarrow>
   RestRequest \<Rightarrow> string gomap \<Rightarrow> ('s, 'a) op" where
  "local_request_Eventarc_UpdateTrigger_0 rt server req pathParams =
     seq (give (new_reader rt (rr_Body req))) (\<lambda>content.
     seq (give (decode_body rt content None)) (\<lambda>resource.
     seq (give (default_mask rt content (zeroUpdate\<lparr>uq_Resource := resource\<rparr>))) (\<lambda>q1.
     seq (give (pathField rt pathParams ''trigger.name'' q1)) (\<lambda>q2.
     seq (give (query_params rt req filter_Eventarc_UpdateTrigger_0 q2))
       server))))"

definition local_request_Eventarc_DeleteTrigger_0 ::
  "(DeleteRequest, unit) runtime \<Rightarrow> (DeleteRequest \<Rightarrow> ('s, 'a) op) \<Rightarrow>
   RestRequest \<Rightarrow> string gomap \<Rightarrow> ('s, 'a) op" where
  "local_request_Eventarc_DeleteTrigger_0 rt server req pathParams =
     seq (give (pathParam rt pathParams ''name'')) (\<lambda>name.
     seq (give (query_params rt req filter_Eventarc_DeleteTrigger_0 (zeroDelete\<lparr>dq_Name := name\<rparr>)))
       server)"

definition local_request_Eventarc_GetChannel_0 ::
  "(GetRequest, unit) runtime \<Rightarrow> (GetRequest \<Rightarrow> ('s, 'a) op) \<Rightarrow>
   RestRequest \<Rightarrow> string gomap \<Rightarrow> ('s, 'a) op" where
  "local_request_Eventarc_GetChannel_0 rt server req pathParams =
     seq (give (pathParam rt pathParams ''name'')) (\<lambda>name.
     server (zeroGet\<lparr>gr_Name := name\<rparr>))"

definition local_request_Eventarc_ListChannels_0 ::
  "(ListRequest, unit) runtime \<Rightarrow> (ListRequest \<Rightarrow> ('s, 'a) op) \<Rightarrow>
   RestRequest \<Rightarrow> string gomap \<Rightarrow> ('s, 'a) op" where
  "local_request_Eventarc_ListChannels_0 rt server req pathParams =
     seq (give (pathParam rt pathParams ''parent'')) (\<lambda>parent.
     seq (give (query_params rt req filter_Eventarc_ListChannels_0 (zeroList\<lparr>lr_Parent := parent\<rparr>)))
       server)"

definition local_request_Eventarc_CreateChannel_0 ::
  "(Channel CreateRequest, Channel option) runtime \<Rightarrow> (Channel CreateRequest \<Rightarrow> ('s, 'a) op) \<Rightarrow>
   RestRequest \<Rightarrow> string gomap \<Rightarrow> ('s, 'a) op" where
  "local_request_Eventarc_CreateChannel_0 rt server req pathParams =
     seq (give (decode_body rt (rr_Body req) None)) (\<lambda>resource.
     seq (give (pathParam rt pathParams ''parent'')) (\<lambda>parent.
     seq (give (query_params rt req filter_Eventarc_CreateChannel_0
            (zeroCreate\<lparr>cq_Resource := resource, cq_Parent := parent\<rparr>)))
       server))"

definition local_request_Eventarc_UpdateChannel_0 ::
  "(Channel UpdateRequest, Channel option) runtime \<Rightarrow> (Channel UpdateRequest \<Rightarrow> ('s, 'a) op) \<Rightarrow>
   RestRequest \<Rightarrow> string gomap \<Rightarrow> ('s, 'a) op" where
  "local_request_Eventarc_UpdateChannel_0 rt server req pathParams =
     seq (give (new_reader rt (rr_Body req))) (\<lambda>content.
     seq (give (decode_body rt content None)) (\<lambda>resource.
     seq (give (default_mask rt content (zeroUpdate\<lparr>uq_Resource := resource\<rparr>))) (\<lambda>q1.
     seq (give (pathField rt pathParams ''channel.name'' q1)) (\<lambda>q2.
     seq (give (query_params rt req filter_Eventarc_UpdateChannel_0 q2))
       server))))"

definition local_request_Eventarc_DeleteChannel_0 ::
  "(DeleteRequest, unit) runtime \<Rightarrow> (DeleteRequest \<Rightarrow> ('s, 'a) op) \<Rightarrow>
   RestRequest \<Rightarrow> string gomap \<Rightarrow> ('s, 'a) op" where
  "local_request_Eventarc_DeleteChannel_0 rt server req pathParams =
     seq (give (pathParam rt pathParams ''name'')) (\<lambda>name.
     seq (give (query_params rt req filter_Eventarc_DeleteChannel_0 (zeroDelete\<lparr>dq_Name := name\<rparr>)))
       server)"

definition local_request_Eventarc_GetProvider_0 ::
  "(GetRequest, unit) runtime \<Rightarrow> (GetRequest \<Rightarrow> ('s, 'a) op) \<Rightarrow>
   RestRequest \<Rightarrow> string gomap \<Rightarrow> ('s, 'a) op" where
  "local_request_Eventarc_GetProvider_0 rt server req pathParams =
     seq (give (pathParam rt pathParams ''name'')) (\<lambda>name.
     server (zeroGet\<lparr>gr_Name := name\<rparr>))"

definition local_request_Eventarc_ListProviders_0 ::
  "(ListRequest, unit) runtime \<Rightarrow> (ListRequest \<Rightarrow> ('s, 'a) op) \<Rightarrow>
   RestRequest \<Rightarrow> string gomap \<Rightarrow> ('s, 'a) op" where
  "local_request_Eventarc_ListProviders_0 rt server req pathParams =
     seq (give (pathParam rt pathParams ''parent'')) (\<lambda>parent.
     seq (give (query_params rt req filter_Eventarc_ListProviders_0 (zeroList\<lparr>lr_Parent := parent\<rparr>)))
       server)"

definition local_request_Eventarc_GetChannelConnection_0 ::
  "(GetRequest, unit) runtime \<Rightarrow> (GetRequest \<Rightarrow> ('s, 'a) op) \<Rightarrow>
   RestRequest \<Rightarrow> string gomap \<Rightarrow> ('s, 'a) op" where
  "local_request_Eventarc_GetChannelConnection_0 rt server req pathParams =
     seq (give (pathParam rt pathParams ''name'')) (\<lambda>name.
     server (zeroGet\<lparr>gr_Name := name\<rparr>))"

definition local_request_Eventarc_ListChannelConnections_0 ::
  "(ListRequest, unit) runtime \<Rightarrow> (ListRequest \<Rightarrow> ('s, 'a) op) \<Rightarrow>
   RestRequest \<Rightarrow> string gomap \<Rightarrow> ('s, 'a) op" where
  "local_request_Eventarc_ListChannelConnections_0 rt server req pathParams =
     seq (give (pathParam rt pathParams ''parent'')) (\<lambda>parent.
     seq (give (query_params rt req filter_Eventarc_ListChannelConnections_0 (zeroList\<lparr>lr_Parent := parent\<rparr>)))
       server)"

definition local_request_Eventarc_CreateChannelConnection_0 ::
  "(ChannelConnection CreateRequest, ChannelConnection option) runtime \<Rightarrow> (ChannelConnection CreateRequest \<Rightarrow> ('s, 'a) op) \<Rightarrow>
   RestRequest \<Rightarrow> string gomap \<Rightarrow> ('s, 'a) op" where
  "local_request_Eventarc_CreateChannelConnection_0 rt server req pathParams =
     seq (give (decode_body rt (rr_Body req) None)) (\<lambda>resource.
     seq (give (pathParam rt pathParams ''parent'')) (\<lambda>parent.
     seq (give (query_params rt req filter_Eventarc_CreateChannelConnection_0
            (zeroCreate\<lparr>cq_Resource := resource, cq_Parent := parent\<rparr>)))
       server))"

definition local_request_Eventarc_DeleteChannelConnection_0 ::
  "(DeleteRequest, unit) runtime \<Rightarrow> (DeleteRequest \<Rightarrow> ('s, 'a) op) \<Rightarrow>
   RestRequest \<Rightarrow> string gomap \<Rightarrow> ('s, 'a) op" where
  "local_request_Eventarc_DeleteChannelConnection_0 rt server req pathParams =
     seq (give (pathParam rt pathParams ''name'')) (\<lambda>name.
     server (zeroDelete\<lparr>dq_Name := name\<rparr>))"

definition local_request_Eventarc_GetGoogleChannelConfig_0 ::
  "(GetRequest, unit) runtime \<Rightarrow> (GetRequest \<Rightarrow> ('s, 'a) op) \<Rightarrow>
   RestRequest \<Rightarrow> string gomap \<Rightarrow> ('s, 'a) op" where
  "local_request_Eventarc_GetGoogleChannelConfig_0 rt server req pathParams =
     seq (give (pathParam rt pathParams ''name'')) (\<lambda>name.
     server (zeroGet\<lparr>gr_Name := name\<rparr>))"

definition local_request_Eventarc_UpdateGoogleChannelConfig_0 ::
  "(GoogleChannelConfig UpdateRequest, GoogleChannelConfig option) runtime \<Rightarrow> (GoogleChannelConfig UpdateRequest \<Rightarrow> ('s, 'a) op) \<Rightarrow>
   RestRequest \<Rightarrow> string gomap \<Rightarrow> ('s, 'a) op" where
  "local_request_Eventarc_UpdateGoogleChannelConfig_0 rt server req pathParams =
     seq (give (new_reader rt (rr_Body req))) (\<lambda>content.
     seq (give (decode_body rt content None)) (\<lambda>resource.
     seq (give (default_mask rt content (zeroUpdate\<lparr>uq_Resource := resource\<rparr>))) (\<lambda>q1.
     seq (give (pathField rt pathParams ''google_channel_config.name'' q1)) (\<lambda>q2.
     seq (give (query_params rt req filter_Eventarc_UpdateGoogleChannelConfig_0 q2))
       server))))"

definition local_request_Eventarc_GetMessageBus_0 ::
  "(GetRequest, unit) runtime \<Rightarrow> (GetRequest \<Rightarrow> ('s, 'a) op) \<Rightarrow>
   RestRequest \<Rightarrow> string gomap \<Rightarrow> ('s, 'a) op" where
  "local_request_Eventarc_GetMessageBus_0 rt server req pathParams =
     seq (give (pathParam rt pathParams ''name'')) (\<lambda>name.
     server (zeroGet\<lparr>gr_Name := name\<rparr>))"

definition local_request_Eventarc_ListMessageBuses_0 ::
  "(ListRequest, unit) runtime \<Rightarrow> (ListRequest \<Rightarrow> ('s, 'a) op) \<Rightarrow>
   RestRequest \<Rightarrow> string gomap \<Rightarrow> ('s, 'a) op" where
  "local_request_Eventarc_ListMessageBuses_0 rt server req pathParams =
     seq (give (pathParam rt pathParams ''parent'')) (\<lambda>parent.
     seq (give (query_params rt req filter_Eventarc_ListMessageBuses_0 (zeroList\<lparr>lr_Parent := parent\<rparr>)))
       server)"

definition local_request_Eventarc_ListMessageBusEnrollments_0 ::
  "(ListRequest, unit) runtime \<Rightarrow> (ListRequest \<Rightarrow> ('s, 'a) op) \<Rightarrow>
   RestRequest \<Rightarrow> string gomap \<Rightarrow> ('s, 'a) op" where
  "local_request_Eventarc_ListMessageBusEnrollments_0 rt server req pathParams =
     seq (give (pathParam rt pathParams ''parent'')) (\<lambda>parent.
     seq (give (query_params rt req filter_Eventarc_ListMessageBusEnrollments_0 (zeroList\<lparr>lr_Parent := parent\<rparr>)))
       server)"

definition local_request_Eventarc_CreateMessageBus_0 ::
  "(MessageBus CreateRequest, MessageBus option) runtime \<Rightarrow> (MessageBus CreateRequest \<Rightarrow> ('s, 'a) op) \<Rightarrow>
   RestRequest \<Rightarrow> string gomap \<Rightarrow> ('s, 'a) op" where
  "local_request_Eventarc_CreateMessageBus_0 rt server req pathParams =
     seq (give (decode_body rt (rr_Body req) None)) (\<lambda>resource.
     seq (give (pathParam rt pathParams ''parent'')) (\<lambda>parent.
     seq (give (query_params rt req filter_Eventarc_CreateMessageBus_0
            (zeroCreate\<lparr>cq_Resource := resource, cq_Parent := parent\<rparr>)))
       server))"

definition local_request_Eventarc_UpdateMessageBus_0 ::
  "(MessageBus UpdateRequest, MessageBus option) runtime \<Rightarrow> (MessageBus UpdateRequest \<Rightarrow> ('s, 'a) op) \<Rightarrow>
   RestRequest \<Rightarrow> string gomap \<Rightarrow> ('s, 'a) op" where
  "local_request_Eventarc_UpdateMessageBus_0 rt server req pathParams =
     seq (give (new_reader rt (rr_Body req))) (\<lambda>content.
     seq (give (decode_body rt content None)) (\<lambda>resource.
     seq (give (default_mask rt content (zeroUpdate\<lparr>uq_Resource := resource\<rparr>))) (\<lambda>q1.
     seq (give (pathField rt pathParams ''message_bus.name'' q1)) (\<lambda>q2.
     seq (give (query_params rt req filter_Eventarc_UpdateMessageBus_0 q2))
       server))))"

definition local_request_Eventarc_DeleteMessageBus_0 ::
  "(DeleteRequest, unit) runtime \<Rightarrow> (DeleteRequest \<Rightarrow> ('s, 'a) op) \<Rightarrow>
   RestRequest \<Rightarrow> string gomap \<Rightarrow> ('s, 'a) op" where
  "local_request_Eventarc_DeleteMessageBus_0 rt server req pathParams =
     seq (give (pathParam rt pathParams ''name'')) (\<lambda>name.
     seq (give (query_params rt req filter_Eventarc_DeleteMessageBus_0 (zeroDelete\<lparr>dq_Name := name\<rparr>)))
       server)"

definition local_request_Eventarc_GetEnrollment_0 ::
  "(GetRequest, unit) runtime \<Rightarrow> (GetRequest \<Rightarrow> ('s, 'a) op) \<Rightarrow>
   RestRequest \<Rightarrow> string gomap \<Rightarrow> ('s, 'a) op" where
  "local_request_Eventarc_GetEnrollment_0 rt server req pathParams =
     seq (give (pathParam rt pathParams ''name'')) (\<lambda>name.
     server (zeroGet\<lparr>gr_Name := name\<rparr>))"

definition local_request_Eventarc_ListEnrollments_0 ::
  "(ListRequest, unit) runtime \<Rightarrow> (ListRequest \<Rightarrow> ('s, 'a) op) \<Rightarrow>
   RestRequest \<Rightarrow> string gomap \<Rightarrow> ('s, 'a) op" where
  "local_request_Eventarc_ListEnrollments_0 rt server req pathParams =
     seq (give (pathParam rt pathParams ''parent'')) (\<lambda>parent.
     seq (give (query_params rt req filter_Eventarc_ListEnrollments_0 (zeroList\<lparr>lr_Parent := parent\<rparr>)))
       server)"

definition local_request_Eventarc_CreateEnrollment_0 ::
  "(Enrollment CreateRequest, Enrollment option) runtime \<Rightarrow> (Enrollment CreateRequest \<Rightarrow> ('s, 'a) op) \<Rightarrow>
   RestRequest \<Rightarrow> string gomap \<Rightarrow> ('s, 'a) op" where
  "local_request_Eventarc_CreateEnrollment_0 rt server req pathParams =
     seq (give (decode_body rt (rr_Body req) None)) (\<lambda>resource.
     seq (give (pathParam rt pathParams ''parent'')) (\<lambda>parent.
     seq (give (query_params rt req filter_Eventarc_CreateEnrollment_0
            (zeroCreate\<lparr>cq_Resource := resource, cq_Parent := parent\<rparr>)))
       server))"

definition local_request_Eventarc_UpdateEnrollment_0 ::
  "(Enrollment UpdateRequest, Enrollment option) runtime \<Rightarrow> (Enrollment UpdateRequest \<Rightarrow> ('s, 'a) op) \<Rightarrow>
   RestRequest \<Rightarrow> string gomap \<Rightarrow> ('s, 'a) op" where
  "local_request_Eventarc_UpdateEnrollment_0 rt server req pathParams =
     seq (give (new_reader rt (rr_Body req))) (\<lambda>content.
     seq (give (decode_body rt content None)) (\<lambda>resource.
     seq (give (default_mask rt content (zeroUpdate\<lparr>uq_Resource := resource\<rparr>))) (\<lambda>q1.
     seq (give (pathField rt pathParams ''enrollment.name'' q1)) (\<lambda>q2.
     seq (give (query_params rt req filter_Eventarc_UpdateEnrollment_0 q2))
       server))))"

definition local_request_Eventarc_DeleteEnrollment_0 ::
  "(DeleteRequest, unit) runtime \<Rightarrow> (DeleteRequest \<Rightarrow> ('s, 'a) op) \<Rightarrow>
   RestRequest \<Rightarrow> string gomap \<Rightarrow> ('s, 'a) op" where
  "local_request_Eventarc_DeleteEnrollment_0 rt server req pathParams =
     seq (give (pathParam rt pathParams ''name'')) (\<lambda>name.
     seq (give (query_params rt req filter_Eventarc_DeleteEnrollment_0 (zeroDelete\<lparr>dq_Name := name\<rparr>)))
       server)"

definition local_request_Eventarc_GetPipeline_0 ::
  "(GetRequest, unit) runtime \<Rightarrow> (GetRequest \<Rightarrow> ('s, 'a) op) \<Rightarrow>
   RestRequest \<Rightarrow> string gomap \<Rightarrow> ('s, 'a) op" where
  "local_request_Eventarc_GetPipeline_0 rt server req pathParams =
     seq (give (pathParam rt pathParams ''name'')) (\<lambda>name.
     server (zeroGet\<lparr>gr_Name := name\<rparr>))"

definition local_request_Eventarc_ListPipelines_0 ::
  "(ListRequest, unit) runtime \<Rightarrow> (ListRequest \<Rightarrow> ('s, 'a) op) \<Rightarrow>
   RestRequest \<Rightarrow> string gomap \<Rightarrow> ('s, 'a) op" where
  "local_request_Eventarc_ListPipelines_0 rt server req pathParams =
     seq (give (pathParam rt pathParams ''parent'')) (\<lambda>parent.
     seq (give (query_params rt req filter_Eventarc_ListPipelines_0 (zeroList\<lparr>lr_Parent := parent\<rparr>)))
       server)"

definition local_request_Eventarc_CreatePipeline_0 ::
  "(Pipeline CreateRequest, Pipeline option) runtime \<Rightarrow> (Pipeline CreateRequest \<Rightarrow> ('s, 'a) op) \<Rightarrow>
   RestRequest \<Rightarrow> string gomap \<Rightarrow> ('s, 'a) op" where
  "local_request_Eventarc_CreatePipeline_0 rt server req pathParams =
     seq (give (decode_body rt (rr_Body req) None)) (\<lambda>resource.
     seq (give (pathParam rt pathParams ''parent'')) (\<lambda>parent.
     seq (give (query_params rt req filter_Eventarc_CreatePipeline_0
            (zeroCreate\<lparr>cq_Resource := resource, cq_Parent := parent\<rparr>)))
       server))"

definition local_request_Eventarc_UpdatePipeline_0 ::
  "(Pipeline UpdateRequest, Pipeline option) runtime \<Rightarrow> (Pipeline UpdateRequest \<Rightarrow> ('s, 'a) op) \<Rightarrow>
   RestRequest \<Rightarrow> string gomap \<Rightarrow> ('s, 'a) op" where
  "local_request_Eventarc_UpdatePipeline_0 rt server req pathParams =
     seq (give (new_reader rt (rr_Body req))) (\<lambda>content.
     seq (give (decode_body rt content None)) (\<lambda>resource.
     seq (give (default_mask rt content (zeroUpdate\<lparr>uq_Resource := resource\<rparr>))) (\<lambda>q1.
     seq (give (pathField rt pathParams ''pipeline.name'' q1)) (\<lambda>q2.
     seq (give (query_params rt req filter_Eventarc_UpdatePipeline_0 q2))
       server))))"

definition local_request_Eventarc_DeletePipeline_0 ::
  "(DeleteRequest, unit) runtime \<Rightarrow> (DeleteRequest \<Rightarrow> ('s, 'a) op) \<Rightarrow>
   RestRequest \<Rightarrow> string gomap \<Rightarrow> ('s, 'a) op" where
  "local_request_Eventarc_DeletePipeline_0 rt server req pathParams =
     seq (give (pathParam rt pathParams ''name'')) (\<lambda>name.
     seq (give (query_params rt req filter_Eventarc_DeletePipeline_0 (zeroDelete\<lparr>dq_Name := name\<rparr>)))
       server)"

definition local_request_Eventarc_GetGoogleApiSource_0 ::
  "(GetRequest, unit) runtime \<Rightarrow> (GetRequest \<Rightarrow> ('s, 'a) op) \<Rightarrow>
   RestRequest \<Rightarrow> string gomap \<Rightarrow> ('s, 'a) op" where
  "local_request_Eventarc_GetGoogleApiSource_0 rt server req pathParams =
     seq (give (pathParam rt pathParams ''name'')) (\<lambda>name.
     server (zeroGet\<lparr>gr_Name := name\<rparr>))"

definition local_request_Eventarc_ListGoogleApiSources_0 ::
  "(ListRequest, unit) runtime \<Rightarrow> (ListRequest \<Rightarrow> ('s, 'a) op) \<Rightarrow>
   RestRequest \<Rightarrow> string gomap \<Rightarrow> ('s, 'a) op" where
  "local_request_Eventarc_ListGoogleApiSources_0 rt server req pathParams =
     seq (give (pathParam rt pathParams ''parent'')) (\<lambda>parent.
     seq (give (query_params rt req filter_Eventarc_ListGoogleApiSources_0 (zeroList\<lparr>lr_Parent := parent\<rparr>)))
       server)"

definition local_request_Eventarc_CreateGoogleApiSource_0 ::
  "(GoogleApiSource CreateRequest, GoogleApiSource option) runtime \<Rightarrow> (GoogleApiSource CreateRequest \<Rightarrow> ('s, 'a) op) \<Rightarrow>
   RestRequest \<Rightarrow> string gomap \<Rightarrow> ('s, 'a) op" where
  "local_request_Eventarc_CreateGoogleApiSource_0 rt server req pathParams =
     seq (give (decode_body rt (rr_Body req) None)) (\<lambda>resource.
     seq (give (pathParam rt pathParams ''parent'')) (\<lambda>parent.
     seq (give (query_params rt req filter_Eventarc_CreateGoogleApiSource_0
            (zeroCreate\<lparr>cq_Resource := resource, cq_Parent := parent\<rparr>)))
       server))"

definition local_request_Eventarc_UpdateGoogleApiSource_0 ::
  "(GoogleApiSource UpdateRequest, GoogleApiSource option) runtime \<Rightarrow> (GoogleApiSource UpdateRequest \<Rightarrow> ('s, 'a) op) \<Rightarrow>
   RestRequest \<Rightarrow> string gomap \<Rightarrow> ('s, 'a) op" where
  "local_request_Eventarc_UpdateGoogleApiSource_0 rt server req pathParams =
     seq (give (new_reader rt (rr_Body req))) (\<lambda>content.
     seq (give (decode_body rt content None)) (\<lambda>resource.
     seq (give (default_mask rt content (zeroUpdate\<lparr>uq_Resource := resource\<rparr>))) (\<lambda>q1.
     seq (give (pathField rt pathParams ''google_api_source.name'' q1)) (\<lambda>q2.
     seq (give (query_params rt req filter_Eventarc_UpdateGoogleApiSource_0 q2))
       server))))"

definition local_request_Eventarc_DeleteGoogleApiSource_0 ::
  "(DeleteRequest, unit) runtime \<Rightarrow> (DeleteRequest \<Rightarrow> ('s, 'a) op) \<Rightarrow>
   RestRequest \<Rightarrow> string gomap \<Rightarrow> ('s, 'a) op" where
  "local_request_Eventarc_DeleteGoogleApiSource_0 rt server req pathParams =
     seq (give (pathParam rt pathParams ''name'')) (\<lambda>name.
     seq (give (query_params rt req filter_Eventarc_DeleteGoogleApiSource_0 (zeroDelete\<lparr>dq_Name := name\<rparr>)))
       server)"

definition local_route_GetTrigger :: "runtimes \<Rightarrow> 's conn \<Rightarrow> 's rest_route" where
  "local_route_GetTrigger rts server = \<lparr>ro_Method = ''GET'',
     ro_Pattern = Compiled pattern_Eventarc_GetTrigger_0,
     ro_Serve = local_handler rts ''/google.cloud.eventarc.v1.Eventarc/GetTrigger''
       ''/v1/{name=projects/*/locations/*/triggers/*}''
       (local_request_Eventarc_GetTrigger_0 (rts_Get rts) (\<lambda>q. server (Eventarc (TriggerRPC (GetRPC q)))))\<rparr>"

definition local_route_ListTriggers :: "runtimes \<Rightarrow> 's conn \<Rightarrow> 's rest_route" where
  "local_route_ListTriggers rts server = \<lparr>ro_Method = ''GET'',
     ro_Pattern = Compiled pattern_Eventarc_ListTriggers_0,
     ro_Serve = local_handler rts ''/google.cloud.eventarc.v1.Eventarc/ListTriggers''
       ''/v1/{parent=projects/*/locations/*}/triggers''
       (local_request_Eventarc_ListTriggers_0 (rts_List rts) (\<lambda>q. server (Eventarc (TriggerRPC (ListRPC q)))))\<rparr>"

definition local_route_CreateTrigger :: "runtimes \<Rightarrow> 's conn \<Rightarrow> 's rest_route" where
  "local_route_CreateTrigger rts server = \<lparr>ro_Method = ''POST'',
     ro_Pattern = Compiled pattern_Eventarc_CreateTrigger_0,
     ro_Serve = local_handler rts ''/google.cloud.eventarc.v1.Eventarc/CreateTrigger''
       ''/v1/{parent=projects/*/locations/*}/triggers''
       (local_request_Eventarc_CreateTrigger_0 (rts_CreateTrigger rts) (\<lambda>q. server (Eventarc (TriggerRPC (CreateRPC q)))))\<rparr>"

definition local_route_UpdateTrigger :: "runtimes \<Rightarrow> 's conn \<Rightarrow> 's rest_route" where
  "local_route_UpdateTrigger rts server = \<lparr>ro_Method = ''PATCH'',
     ro_Pattern = Compiled pattern_Eventarc_UpdateTrigger_0,
     ro_Serve = local_handler rts ''/google.cloud.eventarc.v1.Eventarc/UpdateTrigger''
       ''/v1/{trigger.name=projects/*/locations/*/triggers/*}''
       (local_request_Eventarc_UpdateTrigger_0 (rts_UpdateTrigger rts) (\<lambda>q. server (Eventarc (TriggerRPC (UpdateRPC q)))))\<rparr>"

definition local_route_DeleteTrigger :: "runtimes \<Rightarrow> 's conn \<Rightarrow> 's rest_route" where
  "local_route_DeleteTrigger rts server = \<lparr>ro_Method = ''DELETE'',
     ro_Pattern = Compiled pattern_Eventarc_DeleteTrigger_0,
     ro_Serve = local_handler rts ''/google.cloud.eventarc.v1.Eventarc/DeleteTrigger''
       ''/v1/{name=projects/*/locations/*/triggers/*}''
       (local_request_Eventarc_DeleteTrigger_0 (rts_Delete rts) (\<lambda>q. server (Eventarc (TriggerRPC (DeleteRPC q)))))\<rparr>"

definition local_route_GetChannel :: "runtimes \<Rightarrow> 's conn \<Rightarrow> 's rest_route" where
  "local_route_GetChannel rts server = \<lparr>ro_Method = ''GET'',
     ro_Pattern = Compiled pattern_Eventarc_GetChannel_0,
     ro_Serve = local_handler rts ''/google.cloud.eventarc.v1.Eventarc/GetChannel''
       ''/v1/{name=projects/*/locations/*/channels/*}''
       (local_request_Eventarc_GetChannel_0 (rts_Get rts) (\<lambda>q. server (Eventarc (ChannelRPC (GetRPC q)))))\<rparr>"

definition local_route_ListChannels :: "runtimes \<Rightarrow> 's conn \<Rightarrow> 's rest_route" where
  "local_route_ListChannels rts server = \<lparr>ro_Method = ''GET'',
     ro_Pattern = Compiled pattern_Eventarc_ListChannels_0,
     ro_Serve = local_handler rts ''/google.cloud.eventarc.v1.Eventarc/ListChannels''
       ''/v1/{parent=projects/*/locations/*}/channels''
       (local_request_Eventarc_ListChannels_0 (rts_List rts) (\<lambda>q. server (Eventarc (ChannelRPC (ListRPC q)))))\<rparr>"

definition local_route_CreateChannel :: "runtimes \<Rightarrow> 's conn \<Rightarrow> 's rest_route" where
  "local_route_CreateChannel rts server = \<lparr>ro_Method = ''POST'',
     ro_Pattern = Compiled pattern_Eventarc_CreateChannel_0,
     ro_Serve = local_handler rts ''/google.cloud.eventarc.v1.Eventarc/CreateChannel''
       ''/v1/{parent=projects/*/locations/*}/channels''
       (local_request_Eventarc_CreateChannel_0 (rts_CreateChannel rts) (\<lambda>q. server (Eventarc (ChannelRPC (CreateRPC q)))))\<rparr>"

definition local_route_UpdateChannel :: "runtimes \<Rightarrow> 's conn \<Rightarrow> 's rest_route" where
  "local_route_UpdateChannel rts server = \<lparr>ro_Method = ''PATCH'',
     ro_Pattern = Compiled pattern_Eventarc_UpdateChannel_0,
     ro_Serve = local_handler rts ''/google.cloud.eventarc.v1.Eventarc/UpdateChannel''
       ''/v1/{channel.name=projects/*/locations/*/channels/*}''
       (local_request_Eventarc_UpdateChannel_0 (rts_UpdateChannel rts) (\<lambda>q. server (Eventarc (ChannelRPC (UpdateRPC q)))))\<rparr>"

definition local_route_DeleteChannel :: "runtimes \<Rightarrow> 's conn \<Rightarrow> 's rest_route" where
  "local_route_DeleteChannel rts server = \<lparr>ro_Method = ''DELETE'',
     ro_Pattern = Compiled pattern_Eventarc_DeleteChannel_0,
     ro_Serve = local_handler rts ''/google.cloud.eventarc.v1.Eventarc/DeleteChannel''
       ''/v1/{name=projects/*/locations/*/channels/*}''
       (local_request_Eventarc_DeleteChannel_0 (rts_Delete rts) (\<lambda>q. server (Eventarc (ChannelRPC (DeleteRPC q)))))\<rparr>"

definition local_route_GetProvider :: "runtimes \<Rightarrow> 's conn \<Rightarrow> 's rest_route" where
  "local_route_GetProvider rts server = \<lparr>ro_Method = ''GET'',
     ro_Pattern = Compiled pattern_Eventarc_GetProvider_0,
     ro_Serve = local_handler rts ''/google.cloud.eventarc.v1.Eventarc/GetProvider''
       ''/v1/{name=projects/*/locations/*/providers/*}''
       (local_request_Eventarc_GetProvider_0 (rts_Get rts) (\<lambda>q. server (Eventarc (GetProviderRPC q))))\<rparr>"

definition local_route_ListProviders :: "runtimes \<Rightarrow> 's conn \<Rightarrow> 's rest_route" where
  "local_route_ListProviders rts server = \<lparr>ro_Method = ''GET'',
     ro_Pattern = Compiled pattern_Eventarc_ListProviders_0,
     ro_Serve = local_handler rts ''/google.cloud.eventarc.v1.Eventarc/ListProviders''
       ''/v1/{parent=projects/*/locations/*}/providers''
       (local_request_Eventarc_ListProviders_0 (rts_List rts) (\<lambda>q. server (Eventarc (ListProvidersRPC q))))\<rparr>"

definition local_route_GetChannelConnection :: "runtimes \<Rightarrow> 's conn \<Rightarrow> 's rest_route" where
  "local_route_GetChannelConnection rts server = \<lparr>ro_Method = ''GET'',
     ro_Pattern = Compiled pattern_Eventarc_GetChannelConnection_0,
     ro_Serve = local_handler rts ''/google.cloud.eventarc.v1.Eventarc/GetChannelConnection''
       ''/v1/{name=projects/*/locations/*/channelConnections/*}''
       (local_request_Eventarc_GetChannelConnection_0 (rts_Get rts) (\<lambda>q. server (Eventarc (GetChannelConnectionRPC q))))\<rparr>"

definition local_route_ListChannelConnections :: "runtimes \<Rightarrow> 's conn \<Rightarrow> 's rest_route" where
  "local_route_ListChannelConnections rts server = \<lparr>ro_Method = ''GET'',
     ro_Pattern = Compiled pattern_Eventarc_ListChannelConnections_0,
     ro_Serve = local_handler rts ''/google.cloud.eventarc.v1.Eventarc/ListChannelConnections''
       ''/v1/{parent=projects/*/locations/*}/channelConnections''
       (local_request_Eventarc_ListChannelConnections_0 (rts_List rts) (\<lambda>q. server (Eventarc (ListChannelConnectionsRPC q))))\<rparr>"

definition local_route_CreateChannelConnection :: "runtimes \<Rightarrow> 's conn \<Rightarrow> 's rest_route" where
  "local_route_CreateChannelConnection rts server = \<lparr>ro_Method = ''POST'',
     ro_Pattern = Compiled pattern_Eventarc_CreateChannelConnection_0,
     ro_Serve = local_handler rts ''/google.cloud.eventarc.v1.Eventarc/CreateChannelConnection''
       ''/v1/{parent=projects/*/locations/*}/channelConnections''
       (local_request_Eventarc_CreateChannelConnection_0 (rts_CreateChannelConnection rts) (\<lambda>q. server (Eventarc (CreateChannelConnectionRPC q))))\<rparr>"

definition local_route_DeleteChannelConnection :: "runtimes \<Rightarrow> 's conn \<Rightarrow> 's rest_route" where
  "local_route_DeleteChannelConnection rts server = \<lparr>ro_Method = ''DELETE'',
     ro_Pattern = Compiled pattern_Eventarc_DeleteChannelConnection_0,
     ro_Serve = local_handler rts ''/google.cloud.eventarc.v1.Eventarc/DeleteChannelConnection''
       ''/v1/{name=projects/*/locations/*/channelConnections/*}''
       (local_request_Eventarc_DeleteChannelConnection_0 (rts_Delete rts) (\<lambda>q. server (Eventarc (DeleteChannelConnectionRPC q))))\<rparr>"

definition local_route_GetGoogleChannelConfig :: "runtimes \<Rightarrow> 's conn \<Rightarrow> 's rest_route" where
  "local_route_GetGoogleChannelConfig rts server = \<lparr>ro_Method = ''GET'',
     ro_Pattern = Compiled pattern_Eventarc_GetGoogleChannelConfig_0,
     ro_Serve = local_handler rts ''/google.cloud.eventarc.v1.Eventarc/GetGoogleChannelConfig''
       ''/v1/{name=projects/*/locations/*/googleChannelConfig}''
       (local_request_Eventarc_GetGoogleChannelConfig_0 (rts_Get rts) (\<lambda>q. server (Eventarc (GetGoogleChannelConfigRPC q))))\<rparr>"

definition local_route_UpdateGoogleChannelConfig :: "runtimes \<Rightarrow> 's conn \<Rightarrow> 's rest_route" where
  "local_route_UpdateGoogleChannelConfig rts server = \<lparr>ro_Method = ''PATCH'',
     ro_Pattern = Compiled pattern_Eventarc_UpdateGoogleChannelConfig_0,
     ro_Serve = local_handler rts ''/google.cloud.eventarc.v1.Eventarc/UpdateGoogleChannelConfig''
       ''/v1/{google_channel_config.name=projects/*/locations/*/googleChannelConfig}''
       (local_request_Eventarc_UpdateGoogleChannelConfig_0 (rts_UpdateGoogleChannelConfig rts) (\<lambda>q. server (Eventarc (UpdateGoogleChannelConfigRPC q))))\<rparr>"

definition local_route_GetMessageBus :: "runtimes \<Rightarrow> 's conn \<Rightarrow> 's rest_route" where
  "local_route_GetMessageBus rts server = \<lparr>ro_Method = ''GET'',
     ro_Pattern = Compiled pattern_Eventarc_GetMessageBus_0,
     ro_Serve = local_handler rts ''/google.cloud.eventarc.v1.Eventarc/GetMessageBus''
       ''/v1/{name=projects/*/locations/*/messageBuses/*}''
       (local_request_Eventarc_GetMessageBus_0 (rts_Get rts) (\<lambda>q. server (Eventarc (MessageBusRPC (GetRPC q)))))\<rparr>"

definition local_route_ListMessageBuses :: "runtimes \<Rightarrow> 's conn \<Rightarrow> 's rest_route" where
  "local_route_ListMessageBuses rts server = \<lparr>ro_Method = ''GET'',
     ro_Pattern = Compiled pattern_Eventarc_ListMessageBuses_0,
     ro_Serve = local_handler rts ''/google.cloud.eventarc.v1.Eventarc/ListMessageBuses''
       ''/v1/{parent=projects/*/locations/*}/messageBuses''
       (local_request_Eventarc_ListMessageBuses_0 (rts_List rts) (\<lambda>q. server (Eventarc (MessageBusRPC (ListRPC q)))))\<rparr>"

definition local_route_ListMessageBusEnrollments :: "runtimes \<Rightarrow> 's conn \<Rightarrow> 's rest_route" where
  "local_route_ListMessageBusEnrollments rts server = \<lparr>ro_Method = ''GET'',
     ro_Pattern = Compiled pattern_Eventarc_ListMessageBusEnrollments_0,
     ro_Serve = local_handler rts ''/google.cloud.eventarc.v1.Eventarc/ListMessageBusEnrollments''
       ''/v1/{parent=projects/*/locations/*/messageBuses/*}:listEnrollments''
       (local_request_Eventarc_ListMessageBusEnrollments_0 (rts_List rts) (\<lambda>q. server (Eventarc (ListMessageBusEnrollmentsRPC q))))\<rparr>"

definition local_route_CreateMessageBus :: "runtimes \<Rightarrow> 's conn \<Rightarrow> 's rest_route" where
  "local_route_CreateMessageBus rts server = \<lparr>ro_Method = ''POST'',
     ro_Pattern = Compiled pattern_Eventarc_CreateMessageBus_0,
     ro_Serve = local_handler rts ''/google.cloud.eventarc.v1.Eventarc/CreateMessageBus''
       ''/v1/{parent=projects/*/locations/*}/messageBuses''
       (local_request_Eventarc_CreateMessageBus_0 (rts_CreateMessageBus rts) (\<lambda>q. server (Eventarc (MessageBusRPC (CreateRPC q)))))\<rparr>"

definition local_route_UpdateMessageBus :: "runtimes \<Rightarrow> 's conn \<Rightarrow> 's rest_route" where
  "local_route_UpdateMessageBus rts server = \<lparr>ro_Method = ''PATCH'',
     ro_Pattern = Compiled pattern_Eventarc_UpdateMessageBus_0,
     ro_Serve = local_handler rts ''/google.cloud.eventarc.v1.Eventarc/UpdateMessageBus''
       ''/v1/{message_bus.name=projects/*/locations/*/messageBuses/*}''
       (local_request_Eventarc_UpdateMessageBus_0 (rts_UpdateMessageBus rts) (\<lambda>q. server (Eventarc (MessageBusRPC (UpdateRPC q)))))\<rparr>"

definition local_route_DeleteMessageBus :: "runtimes \<Rightarrow> 's conn \<Rightarrow> 's rest_route" where
  "local_route_DeleteMessageBus rts server = \<lparr>ro_Method = ''DELETE'',
     ro_Pattern = Compiled pattern_Eventarc_DeleteMessageBus_0,
     ro_Serve = local_handler rts ''/google.cloud.eventarc.v1.Eventarc/DeleteMessageBus''
       ''/v1/{name=projects/*/locations/*/messageBuses/*}''
       (local_request_Eventarc_DeleteMessageBus_0 (rts_Delete rts) (\<lambda>q. server (Eventarc (MessageBusRPC (DeleteRPC q)))))\<rparr>"

definition local_route_GetEnrollment :: "runtimes \<Rightarrow> 's conn \<Rightarrow> 's rest_route" where
  "local_route_GetEnrollment rts server = \<lparr>ro_Method = ''GET'',
     ro_Pattern = Compiled pattern_Eventarc_GetEnrollment_0,
     ro_Serve = local_handler rts ''/google.cloud.eventarc.v1.Eventarc/GetEnrollment''
       ''/v1/{name=projects/*/locations/*/enrollments/*}''
       (local_request_Eventarc_GetEnrollment_0 (rts_Get rts) (\<lambda>q. server (Eventarc (EnrollmentRPC (GetRPC q)))))\<rparr>"

definition local_route_ListEnrollments :: "runtimes \<Rightarrow> 's conn \<Rightarrow> 's rest_route" where
  "local_route_ListEnrollments rts server = \<lparr>ro_Method = ''GET'',
     ro_Pattern = Compiled pattern_Eventarc_ListEnrollments_0,
     ro_Serve = local_handler rts ''/google.cloud.eventarc.v1.Eventarc/ListEnrollments''
       ''/v1/{parent=projects/*/locations/*}/enrollments''
       (local_request_Eventarc_ListEnrollments_0 (rts_List rts) (\<lambda>q. server (Eventarc (EnrollmentRPC (ListRPC q)))))\<rparr>"

definition local_route_CreateEnrollment :: "runtimes \<Rightarrow> 's conn \<Rightarrow> 's rest_route" where
  "local_route_CreateEnrollment rts server = \<lparr>ro_Method = ''POST'',
     ro_Pattern = Compiled pattern_Eventarc_CreateEnrollment_0,
     ro_Serve = local_handler rts ''/google.cloud.eventarc.v1.Eventarc/CreateEnrollment''
       ''/v1/{parent=projects/*/locations/*}/enrollments''
       (local_request_Eventarc_CreateEnrollment_0 (rts_CreateEnrollment rts) (\<lambda>q. server (Eventarc (EnrollmentRPC (CreateRPC q)))))\<rparr>"

definition local_route_UpdateEnrollment :: "runtimes \<Rightarrow> 's conn \<Rightarrow> 's rest_route" where
  "local_route_UpdateEnrollment rts server = \<lparr>ro_Method = ''PATCH'',
     ro_Pattern = Compiled pattern_Eventarc_UpdateEnrollment_0,
     ro_Serve = local_handler rts ''/google.cloud.eventarc.v1.Eventarc/UpdateEnrollment''
       ''/v1/{enrollment.name=projects/*/locations/*/enrollments/*}''
       (local_request_Eventarc_UpdateEnrollment_0 (rts_UpdateEnrollment rts) (\<lambda>q. server (Eventarc (EnrollmentRPC (UpdateRPC q)))))\<rparr>"

definition local_route_DeleteEnrollment :: "runtimes \<Rightarrow> 's conn \<Rightarrow> 's rest_route" where
  "local_route_DeleteEnrollment rts server = \<lparr>ro_Method = ''DELETE'',
     ro_Pattern = Compiled pattern_Eventarc_DeleteEnrollment_0,
     ro_Serve = local_handler rts ''/google.cloud.eventarc.v1.Eventarc/DeleteEnrollment''
       ''/v1/{name=projects/*/locations/*/enrollments/*}''
       (local_request_Eventarc_DeleteEnrollment_0 (rts_Delete rts) (\<lambda>q. server (Eventarc (EnrollmentRPC (DeleteRPC q)))))\<rparr>"

definition local_route_GetPipeline :: "runtimes \<Rightarrow> 's conn \<Rightarrow> 's rest_route" where
  "local_route_GetPipeline rts server = \<lparr>ro_Method = ''GET'',
     ro_Pattern = Compiled pattern_Eventarc_GetPipeline_0,
     ro_Serve = local_handler rts ''/google.cloud.eventarc.v1.Eventarc/GetPipeline''
       ''/v1/{name=projects/*/locations/*/pipelines/*}''
       (local_request_Eventarc_GetPipeline_0 (rts_Get rts) (\<lambda>q. server (Eventarc (PipelineRPC (GetRPC q)))))\<rparr>"

definition local_route_ListPipelines :: "runtimes \<Rightarrow> 's conn \<Rightarrow> 's rest_route" where
  "local_route_ListPipelines rts server = \<lparr>ro_Method = ''GET'',
     ro_Pattern = Compiled pattern_Eventarc_ListPipelines_0,
     ro_Serve = local_handler rts ''/google.cloud.eventarc.v1.Eventarc/ListPipelines''
       ''/v1/{parent=projects/*/locations/*}/pipelines''
       (local_request_Eventarc_ListPipelines_0 (rts_List rts) (\<lambda>q. server (Eventarc (PipelineRPC (ListRPC q)))))\<rparr>"

definition local_route_CreatePipeline :: "runtimes \<Rightarrow> 's conn \<Rightarrow> 's rest_route" where
  "local_route_CreatePipeline rts server = \<lparr>ro_Method = ''POST'',
     ro_Pattern = Compiled pattern_Eventarc_CreatePipeline_0,
     ro_Serve = local_handler rts ''/google.cloud.eventarc.v1.Eventarc/CreatePipeline''
       ''/v1/{parent=projects/*/locations/*}/pipelines''
       (local_request_Eventarc_CreatePipeline_0 (rts_CreatePipeline rts) (\<lambda>q. server (Eventarc (PipelineRPC (CreateRPC q)))))\<rparr>"

definition local_route_UpdatePipeline :: "runtimes \<Rightarrow> 's conn \<Rightarrow> 's rest_route" where
  "local_route_UpdatePipeline rts server = \<lparr>ro_Method = ''PATCH'',
     ro_Pattern = Compiled pattern_Eventarc_UpdatePipeline_0,
     ro_Serve = local_handler rts ''/google.cloud.eventarc.v1.Eventarc/UpdatePipeline''
       ''/v1/{pipeline.name=projects/*/locations/*/pipelines/*}''
       (local_request_Eventarc_UpdatePipeline_0 (rts_UpdatePipeline rts) (\<lambda>q. server (Eventarc (PipelineRPC (UpdateRPC q)))))\<rparr>"

definition local_route_DeletePipeline :: "runtimes \<Rightarrow> 's conn \<Rightarrow> 's rest_route" where
  "local_route_DeletePipeline rts server = \<lparr>ro_Method = ''DELETE'',
     ro_Pattern = Compiled pattern_Eventarc_DeletePipeline_0,
     ro_Serve = local_handler rts ''/google.cloud.eventarc.v1.Eventarc/DeletePipeline''
       ''/v1/{name=projects/*/locations/*/pipelines/*}''
       (local_request_Eventarc_DeletePipeline_0 (rts_Delete rts) (\<lambda>q. server (Eventarc (PipelineRPC (DeleteRPC q)))))\<rparr>"

definition local_route_GetGoogleApiSource :: "runtimes \<Rightarrow> 's conn \<Rightarrow> 's rest_route" where
  "local_route_GetGoogleApiSource rts server = \<lparr>ro_Method = ''GET'',
     ro_Pattern = Compiled pattern_Eventarc_GetGoogleApiSource_0,
     ro_Serve = local_handler rts ''/google.cloud.eventarc.v1.Eventarc/GetGoogleApiSource''
       ''/v1/{name=projects/*/locations/*/googleApiSources/*}''
       (local_request_Eventarc_GetGoogleApiSource_0 (rts_Get rts) (\<lambda>q. server (Eventarc (GoogleApiSourceRPC (GetRPC q)))))\<rparr>"

definition local_route_ListGoogleApiSources :: "runtimes \<Rightarrow> 's conn \<Rightarrow> 's rest_route" where
  "local_route_ListGoogleApiSources rts server = \<lparr>ro_Method = ''GET'',
     ro_Pattern = Compiled pattern_Eventarc_ListGoogleApiSources_0,
     ro_Serve = local_handler rts ''/google.cloud.eventarc.v1.Eventarc/ListGoogleApiSources''
       ''/v1/{parent=projects/*/locations/*}/googleApiSources''
       (local_request_Eventarc_ListGoogleApiSources_0 (rts_List rts) (\<lambda>q. server (Eventarc (GoogleApiSourceRPC (ListRPC q)))))\<rparr>"

definition local_route_CreateGoogleApiSource :: "runtimes \<Rightarrow> 's conn \<Rightarrow> 's rest_route" where
  "local_route_CreateGoogleApiSource rts server = \<lparr>ro_Method = ''POST'',
     ro_Pattern = Compiled pattern_Eventarc_CreateGoogleApiSource_0,
     ro_Serve = local_handler rts ''/google.cloud.eventarc.v1.Eventarc/CreateGoogleApiSource''
       ''/v1/{parent=projects/*/locations/*}/googleApiSources''
       (local_request_Eventarc_CreateGoogleApiSource_0 (rts_CreateGoogleApiSource rts) (\<lambda>q. server (Eventarc (GoogleApiSourceRPC (CreateRPC q)))))\<rparr>"

definition local_route_UpdateGoogleApiSource :: "runtimes \<Rightarrow> 's conn \<Rightarrow> 's rest_route" where
  "local_route_UpdateGoogleApiSource rts server = \<lparr>ro_Method = ''PATCH'',
     ro_Pattern = Compiled pattern_Eventarc_UpdateGoogleApiSource_0,
     ro_Serve = local_handler rts ''/google.cloud.eventarc.v1.Eventarc/UpdateGoogleApiSource''
       ''/v1/{google_api_source.name=projects/*/locations/*/googleApiSources/*}''
       (local_request_Eventarc_UpdateGoogleApiSource_0 (rts_UpdateGoogleApiSource rts) (\<lambda>q. server (Eventarc (GoogleApiSourceRPC (UpdateRPC q)))))\<rparr>"

definition local_route_DeleteGoogleApiSource :: "runtimes \<Rightarrow> 's conn \<Rightarrow> 's rest_route" where
  "local_route_DeleteGoogleApiSource rts server = \<lparr>ro_Method = ''DELETE'',
     ro_Pattern = Compiled pattern_Eventarc_DeleteGoogleApiSource_0,
     ro_Serve = local_handler rts ''/google.cloud.eventarc.v1.Eventarc/DeleteGoogleApiSource''
       ''/v1/{name=projects/*/locations/*/googleApiSources/*}''
       (local_request_Eventarc_DeleteGoogleApiSource_0 (rts_Delete rts) (\<lambda>q. server (Eventarc (GoogleApiSourceRPC (DeleteRPC q)))))\<rparr>"

definition RegisterEventarcHandlerServer :: "runtimes \<Rightarrow> 's conn \<Rightarrow> 's rest_route list" where
  "RegisterEventarcHandlerServer rts server =
    [local_route_GetTrigger rts server, local_route_ListTriggers rts server,
     local_route_CreateTrigger rts server, local_route_UpdateTrigger rts server,
     local_route_DeleteTrigger rts server, local_route_GetChannel rts server,
     local_route_ListChannels rts server, local_route_CreateChannel rts server,
     local_route_UpdateChannel rts server, local_route_DeleteChannel rts server,
     local_route_GetProvider rts server, local_route_ListProviders rts server,
     local_route_GetChannelConnection rts server, local_route_ListChannelConnections rts server,
     local_route_CreateChannelConnection rts server,
     local_route_DeleteChannelConnection rts server,
     local_route_GetGoogleChannelConfig rts server,
     local_route_UpdateGoogleChannelConfig rts server, local_route_GetMessageBus rts server,
     local_route_ListMessageBuses rts server, local_route_ListMessageBusEnrollments rts server,
     local_route_CreateMessageBus rts server, local_route_UpdateMessageBus rts server,
     local_route_DeleteMessageBus rts server, local_route_GetEnrollment rts server,
     local_route_ListEnrollments rts server, local_route_CreateEnrollment rts server,
     local_route_UpdateEnrollment rts server, local_route_DeleteEnrollment rts server,
     local_route_GetPipeline rts server, local_route_ListPipelines rts server,
     local_route_CreatePipeline rts server, local_route_UpdatePipeline rts server,
     local_route_DeletePipeline rts server, local_route_GetGoogleApiSource rts server,
     local_route_ListGoogleApiSources rts server, local_route_CreateGoogleApiSource rts server,
     local_route_UpdateGoogleApiSource rts server, local_route_DeleteGoogleApiSource rts server]"

lemmas local_request_Eventarc_defs = local_request_Eventarc_GetTrigger_0_def
  local_request_Eventarc_ListTriggers_0_def local_request_Eventarc_CreateTrigger_0_def
  local_request_Eventarc_UpdateTrigger_0_def local_request_Eventarc_DeleteTrigger_0_def
  local_request_Eventarc_GetChannel_0_def local_request_Eventarc_ListChannels_0_def
  local_request_Eventarc_CreateChannel_0_def local_request_Eventarc_UpdateChannel_0_def
  local_request_Eventarc_DeleteChannel_0_def local_request_Eventarc_GetProvider_0_def
  local_request_Eventarc_ListProviders_0_def local_request_Eventarc_GetChannelConnection_0_def
  local_request_Eventarc_ListChannelConnections_0_def
  local_request_Eventarc_CreateChannelConnection_0_def
  local_request_Eventarc_DeleteChannelConnection_0_def
  local_request_Eventarc_GetGoogleChannelConfig_0_def
  local_request_Eventarc_UpdateGoogleChannelConfig_0_def
  local_request_Eventarc_GetMessageBus_0_def local_request_Eventarc_ListMessageBuses_0_def
  local_request_Eventarc_ListMessageBusEnrollments_0_def
  local_request_Eventarc_CreateMessageBus_0_def local_request_Eventarc_UpdateMessageBus_0_def
  local_request_Eventarc_DeleteMessageBus_0_def local_request_Eventarc_GetEnrollment_0_def
  local_request_Eventarc_ListEnrollments_0_def local_request_Eventarc_CreateEnrollment_0_def
  local_request_Eventarc_UpdateEnrollment_0_def local_request_Eventarc_DeleteEnrollment_0_def
  local_request_Eventarc_GetPipeline_0_def local_request_Eventarc_ListPipelines_0_def
  local_request_Eventarc_CreatePipeline_0_def local_request_Eventarc_UpdatePipeline_0_def
  local_request_Eventarc_DeletePipeline_0_def local_request_Eventarc_GetGoogleApiSource_0_def
  local_request_Eventarc_ListGoogleApiSources_0_def
  local_request_Eventarc_CreateGoogleApiSource_0_def
  local_request_Eventarc_UpdateGoogleApiSource_0_def
  local_request_Eventarc_DeleteGoogleApiSource_0_def

lemmas local_route_Eventarc_defs = local_route_GetTrigger_def local_route_ListTriggers_def
  local_route_CreateTrigger_def local_route_UpdateTrigger_def local_route_DeleteTrigger_def
  local_route_GetChannel_def local_route_ListChannels_def local_route_CreateChannel_def
  local_route_UpdateChannel_def local_route_DeleteChannel_def local_route_GetProvider_def
  local_route_ListProviders_def local_route_GetChannelConnection_def
  local_route_ListChannelConnections_def local_route_CreateChannelConnection_def
  local_route_DeleteChannelConnection_def local_route_GetGoogleChannelConfig_def
  local_route_UpdateGoogleChannelConfig_def local_route_GetMessageBus_def
  local_route_ListMessageBuses_def local_route_ListMessageBusEnrollments_def
  local_route_CreateMessageBus_def local_route_UpdateMessageBus_def
  local_route_DeleteMessageBus_def local_route_GetEnrollment_def local_route_ListEnrollments_def
  local_route_CreateEnrollment_def local_route_UpdateEnrollment_def
  local_route_DeleteEnrollment_def local_route_GetPipeline_def local_route_ListPipelines_def
  local_route_CreatePipeline_def local_route_UpdatePipeline_def local_route_DeletePipeline_def
  local_route_GetGoogleApiSource_def local_route_ListGoogleApiSources_def
  local_route_CreateGoogleApiSource_def local_route_UpdateGoogleApiSource_def
  local_route_DeleteGoogleApiSource_def

text \<open>The in-process requests and routes are those of the client.\<close>

lemma local_requests_Eventarc:
  "local_request_Eventarc_GetTrigger_0 rt0 = request_Eventarc_GetTrigger_0 rt0"
  "local_request_Eventarc_ListTriggers_0 rt1 = request_Eventarc_ListTriggers_0 rt1"
  "local_request_Eventarc_CreateTrigger_0 rt2 = request_Eventarc_CreateTrigger_0 rt2"
  "local_request_Eventarc_UpdateTrigger_0 rt3 = request_Eventarc_UpdateTrigger_0 rt3"
  "local_request_Eventarc_DeleteTrigger_0 rt4 = request_Eventarc_DeleteTrigger_0 rt4"
  "local_request_Eventarc_GetChannel_0 rt5 = request_Eventarc_GetChannel_0 rt5"
  "local_request_Eventarc_ListChannels_0 rt6 = request_Eventarc_ListChannels_0 rt6"
  "local_request_Eventarc_CreateChannel_0 rt7 = request_Eventarc_CreateChannel_0 rt7"
  "local_request_Eventarc_UpdateChannel_0 rt8 = request_Eventarc_UpdateChannel_0 rt8"
  "local_request_Eventarc_DeleteChannel_0 rt9 = request_Eventarc_DeleteChannel_0 rt9"
  "local_request_Eventarc_GetProvider_0 rt10 = request_Eventarc_GetProvider_0 rt10"
  "local_request_Eventarc_ListProviders_0 rt11 = request_Eventarc_ListProviders_0 rt11"
  "local_request_Eventarc_GetChannelConnection_0 rt12 = request_Eventarc_GetChannelConnection_0 rt12"
  "local_request_Eventarc_ListChannelConnections_0 rt13 = request_Eventarc_ListChannelConnections_0 rt13"
  "local_request_Eventarc_CreateChannelConnection_0 rt14 = request_Eventarc_CreateChannelConnection_0 rt14"
  "local_request_Eventarc_DeleteChannelConnection_0 rt15 = request_Eventarc_DeleteChannelConnection_0 rt15"
  "local_request_Eventarc_GetGoogleChannelConfig_0 rt16 = request_Eventarc_GetGoogleChannelConfig_0 rt16"
  "local_request_Eventarc_UpdateGoogleChannelConfig_0 rt17 = request_Eventarc_UpdateGoogleChannelConfig_0 rt17"
  "local_request_Eventarc_GetMessageBus_0 rt18 = request_Eventarc_GetMessageBus_0 rt18"
  "local_request_Eventarc_ListMessageBuses_0 rt19 = request_Eventarc_ListMessageBuses_0 rt19"
  "local_request_Eventarc_ListMessageBusEnrollments_0 rt20 = request_Eventarc_ListMessageBusEnrollments_0 rt20"
  "local_request_Eventarc_CreateMessageBus_0 rt21 = request_Eventarc_CreateMessageBus_0 rt21"
  "local_request_Eventarc_UpdateMessageBus_0 rt22 = request_Eventarc_UpdateMessageBus_0 rt22"
  "local_request_Eventarc_DeleteMessageBus_0 rt23 = request_Eventarc_DeleteMessageBus_0 rt23"
  "local_request_Eventarc_GetEnrollment_0 rt24 = request_Eventarc_GetEnrollment_0 rt24"
  "local_request_Eventarc_ListEnrollments_0 rt25 = request_Eventarc_ListEnrollments_0 rt25"
  "local_request_Eventarc_CreateEnrollment_0 rt26 = request_Eventarc_CreateEnrollment_0 rt26"
  "local_request_Eventarc_UpdateEnrollment_0 rt27 = request_Eventarc_UpdateEnrollment_0 rt27"
  "local_request_Eventarc_DeleteEnrollment_0 rt28 = request_Eventarc_DeleteEnrollment_0 rt28"
  "local_request_Eventarc_GetPipeline_0 rt29 = request_Eventarc_GetPipeline_0 rt29"
  "local_request_Eventarc_ListPipelines_0 rt30 = request_Eventarc_ListPipelines_0 rt30"
  "local_request_Eventarc_CreatePipeline_0 rt31 = request_Eventarc_CreatePipeline_0 rt31"
  "local_request_Eventarc_UpdatePipeline_0 rt32 = request_Eventarc_UpdatePipeline_0 rt32"
  "local_request_Eventarc_DeletePipeline_0 rt33 = request_Eventarc_DeletePipeline_0 rt33"
  "local_request_Eventarc_GetGoogleApiSource_0 rt34 = request_Eventarc_GetGoogleApiSource_0 rt34"
  "local_request_Eventarc_ListGoogleApiSources_0 rt35 = request_Eventarc_ListGoogleApiSources_0 rt35"
  "local_request_Eventarc_CreateGoogleApiSource_0 rt36 = request_Eventarc_CreateGoogleApiSource_0 rt36"
  "local_request_Eventarc_UpdateGoogleApiSource_0 rt37 = request_Eventarc_UpdateGoogleApiSource_0 rt37"
  "local_request_Eventarc_DeleteGoogleApiSource_0 rt38 = request_Eventarc_DeleteGoogleApiSource_0 rt38"
  by (intro ext; simp only: local_request_Eventarc_defs request_Eventarc_defs)+

lemma RegisterEventarcHandlerServer_Client:
  "rts_AnnotateIncoming rts = rts_Annotate rts \<Longrightarrow>
   RegisterEventarcHandlerServer rts server = RegisterEventarcHandlerClient rts server"
  by (simp add: RegisterEventarcHandlerServer_def RegisterEventarcHandlerClient_def local_route_Eventarc_defs
      route_defs local_handler_rest local_requests_Eventarc)

section \<open>Operations\<close>

definition local_request_Operations_ListOperations_0 ::
  "(GetRequest, unit) runtime \<Rightarrow> (GetRequest \<Rightarrow> ('s, 'a) op) \<Rightarrow>
   RestRequest \<Rightarrow> string gomap \<Rightarrow> ('s, 'a) op" where
  "local_request_Operations_ListOperations_0 rt server req pathParams =
     seq (give (pathParam rt pathParams ''name'')) (\<lambda>val.
     seq (give (query_params rt req filter_Operations_ListOperations_0 (zeroGet\<lparr>gr_Name := val\<rparr>)))
       server)"

definition local_request_Operations_GetOperation_0 ::
  "(GetRequest, unit) runtime \<Rightarrow> (GetRequest \<Rightarrow> ('s, 'a) op) \<Rightarrow>
   RestRequest \<Rightarrow> string gomap \<Rightarrow> ('s, 'a) op" where
  "local_request_Operations_GetOperation_0 rt server req pathParams =
     seq (give (pathParam rt pathParams ''name'')) (\<lambda>val.
     server (zeroGet\<lparr>gr_Name := val\<rparr>))"

definition local_request_Operations_DeleteOperation_0 ::
  "(GetRequest, unit) runtime \<Rightarrow> (GetRequest \<Rightarrow> ('s, 'a) op) \<Rightarrow>
   RestRequest \<Rightarrow> string gomap \<Rightarrow> ('s, 'a) op" where
  "local_request_Operations_DeleteOperation_0 rt server req pathParams =
     seq (give (pathParam rt pathParams ''name'')) (\<lambda>val.
     server (zeroGet\<lparr>gr_Name := val\<rparr>))"

definition local_request_Operations_CancelOperation_0 ::
  "(GetRequest, GetRequest) runtime \<Rightarrow> (GetRequest \<Rightarrow> ('s, 'a) op) \<Rightarrow>
   RestRequest \<Rightarrow> string gomap \<Rightarrow> ('s, 'a) op" where
  "local_request_Operations_CancelOperation_0 rt server req pathParams =
     seq (give (decode_body rt (rr_Body req) zeroGet)) (\<lambda>q1.
     seq (give (pathParam rt pathParams ''name'')) (\<lambda>val.
     server (q1\<lparr>gr_Name := val\<rparr>)))"

definition local_request_Operations_WaitOperation_0 ::
  "(GetRequest, GetRequest) runtime \<Rightarrow> (GetRequest \<Rightarrow> ('s, 'a) op) \<Rightarrow>
   RestRequest \<Rightarrow> string gomap \<Rightarrow> ('s, 'a) op" where
  "local_request_Operations_WaitOperation_0 rt server req pathParams =
     seq (give (decode_body rt (rr_Body req) zeroGet)) (\<lambda>q1.
     server q1)"

definition local_route_ListOperations :: "runtimes \<Rightarrow> 's conn \<Rightarrow> 's rest_route" where
  "local_route_ListOperations rts server = \<lparr>ro_Method = ''GET'',
     ro_Pattern = Compiled pattern_Operations_ListOperations_0,
     ro_Serve = local_handler rts ''/google.longrunning.Operations/ListOperations''
       ''/v1/{name=operations}''
       (local_request_Operations_ListOperations_0 (rts_Get rts) (\<lambda>q. server (Eventarc (ListOperationsRPC q))))\<rparr>"

definition local_route_GetOperation :: "runtimes \<Rightarrow> 's conn \<Rightarrow> 's rest_route" where
  "local_route_GetOperation rts server = \<lparr>ro_Method = ''GET'',
     ro_Pattern = Compiled pattern_Operations_GetOperation_0,
     ro_Serve = local_handler rts ''/google.longrunning.Operations/GetOperation''
       ''/v1/{name=operations/**}''
       (local_request_Operations_GetOperation_0 (rts_Get rts) (\<lambda>q. server (Eventarc (GetOperationRPC q))))\<rparr>"

definition local_route_DeleteOperation :: "runtimes \<Rightarrow> 's conn \<Rightarrow> 's rest_route" where
  "local_route_DeleteOperation rts server = \<lparr>ro_Method = ''DELETE'',
     ro_Pattern = Compiled pattern_Operations_DeleteOperation_0,
     ro_Serve = local_handler rts ''/google.longrunning.Operations/DeleteOperation''
       ''/v1/{name=operations/**}''
       (local_request_Operations_DeleteOperation_0 (rts_Get rts) (\<lambda>q. server (Eventarc (DeleteOperationRPC q))))\<rparr>"

definition local_route_CancelOperation :: "runtimes \<Rightarrow> 's conn \<Rightarrow> 's rest_route" where
  "local_route_CancelOperation rts server = \<lparr>ro_Method = ''POST'',
     ro_Pattern = Compiled pattern_Operations_CancelOperation_0,
     ro_Serve = local_handler rts ''/google.longrunning.Operations/CancelOperation''
       ''/v1/{name=operations/**}:cancel''
       (local_request_Operations_CancelOperation_0 (rts_Message rts) (\<lambda>q. server (Eventarc (CancelOperationRPC q))))\<rparr>"

definition local_route_WaitOperation :: "runtimes \<Rightarrow> 's conn \<Rightarrow> 's rest_route" where
  "local_route_WaitOperation rts server = \<lparr>ro_Method = ''POST'',
     ro_Pattern = Compiled pattern_Operations_WaitOperation_0,
     ro_Serve = local_handler rts ''/google.longrunning.Operations/WaitOperation''
       ''/google.longrunning.Operations/WaitOperation''
       (local_request_Operations_WaitOperation_0 (rts_Message rts) (\<lambda>q. server (Eventarc (WaitOperationRPC q))))\<rparr>"

definition RegisterOperationsHandlerServer :: "runtimes \<Rightarrow> 's conn \<Rightarrow> 's rest_route list" where
  "RegisterOperationsHandlerServer rts server =
    [local_route_ListOperations rts server, local_route_GetOperation rts server,
     local_route_DeleteOperation rts server, local_route_CancelOperation rts server,
     local_route_WaitOperation rts server]"

lemmas local_request_Operations_defs = local_request_Operations_ListOperations_0_def
  local_request_Operations_GetOperation_0_def local_request_Operations_DeleteOperation_0_def
  local_request_Operations_CancelOperation_0_def local_request_Operations_WaitOperation_0_def

lemmas local_route_Operations_defs = local_route_ListOperations_def local_route_GetOperation_def
  local_route_DeleteOperation_def local_route_CancelOperation_def local_route_WaitOperation_def

text \<open>The in-process requests and routes are those of the client.\<close>

lemma local_requests_Operations:
  "local_request_Operations_ListOperations_0 rt0 = request_Operations_ListOperations_0 rt0"
  "local_request_Operations_GetOperation_0 rt1 = request_Operations_GetOperation_0 rt1"
  "local_request_Operations_DeleteOperation_0 rt2 = request_Operations_DeleteOperation_0 rt2"
  "local_request_Operations_CancelOperation_0 rt3 = request_Operations_CancelOperation_0 rt3"
  "local_request_Operations_WaitOperation_0 rt4 = request_Operations_WaitOperation_0 rt4"
  by (intro ext; simp only: local_request_Operations_defs request_service_defs)+

lemma RegisterOperationsHandlerServer_Client:
  "rts_AnnotateIncoming rts = rts_Annotate rts \<Longrightarrow>
   RegisterOperationsHandlerServer rts server = RegisterOperationsHandlerClient rts server"
  by (simp add: RegisterOperationsHandlerServer_def RegisterOperationsHandlerClient_def local_route_Operations_defs
      route_service_defs local_handler_rest local_requests_Operations)

section \<open>Publisher\<close>

definition local_request_Publisher_PublishChannelConnectionEvents_0 ::
  "(PublishRequest, PublishRequest) runtime \<Rightarrow> (PublishRequest \<Rightarrow> ('s, 'a) op) \<Rightarrow>
   RestRequest \<Rightarrow> string gomap \<Rightarrow> ('s, 'a) op" where
  "local_request_Publisher_PublishChannelConnectionEvents_0 rt server req pathParams =
     seq (give (decode_body rt (rr_Body req) zeroPublish)) (\<lambda>q1.
     seq (give (pathParam rt pathParams ''channel_connection'')) (\<lambda>val.
     server (q1\<lparr>pr_Channel := val\<rparr>)))"

definition local_request_Publisher_PublishEvents_0 ::
  "(PublishRequest, PublishRequest) runtime \<Rightarrow> (PublishRequest \<Rightarrow> ('s, 'a) op) \<Rightarrow>
   RestRequest \<Rightarrow> string gomap \<Rightarrow> ('s, 'a) op" where
  "local_request_Publisher_PublishEvents_0 rt server req pathParams =
     seq (give (decode_body rt (rr_Body req) zeroPublish)) (\<lambda>q1.
     seq (give (pathParam rt pathParams ''channel'')) (\<lambda>val.
     server (q1\<lparr>pr_Channel := val\<rparr>)))"

definition local_request_Publisher_Publish_0 ::
  "(BusPublishRequest, BusPublishRequest) runtime \<Rightarrow> (BusPublishRequest \<Rightarrow> ('s, 'a) op) \<Rightarrow>
   RestRequest \<Rightarrow> string gomap \<Rightarrow> ('s, 'a) op" where
  "local_request_Publisher_Publish_0 rt server req pathParams =
     seq (give (decode_body rt (rr_Body req) zeroPublishBus)) (\<lambda>q1.
     seq (give (pathParam rt pathParams ''message_bus'')) (\<lambda>val.
     server (q1\<lparr>bp_MessageBus := val\<rparr>)))"

definition local_route_PublishChannelConnectionEvents :: "runtimes \<Rightarrow> 's conn \<Rightarrow> 's rest_route" where
  "local_route_PublishChannelConnectionEvents rts server = \<lparr>ro_Method = ''POST'',
     ro_Pattern = Compiled pattern_Publisher_PublishChannelConnectionEvents_0,
     ro_Serve = local_handler rts ''/google.cloud.eventarc.publishing.v1.Publisher/PublishChannelConnectionEvents''
       ''/v1/{channel_connection=projects/*/locations/*/channelConnections/*}:publishEvents''
       (local_request_Publisher_PublishChannelConnectionEvents_0 (rts_Publish rts) (\<lambda>q. server (PublishConnectionCall q)))\<rparr>"

definition local_route_PublishEvents :: "runtimes \<Rightarrow> 's conn \<Rightarrow> 's rest_route" where
  "local_route_PublishEvents rts server = \<lparr>ro_Method = ''POST'',
     ro_Pattern = Compiled pattern_Publisher_PublishEvents_0,
     ro_Serve = local_handler rts ''/google.cloud.eventarc.publishing.v1.Publisher/PublishEvents''
       ''/v1/{channel=projects/*/locations/*/channels/*}:publishEvents''
       (local_request_Publisher_PublishEvents_0 (rts_Publish rts) (\<lambda>q. server (PublishEventsCall q)))\<rparr>"

definition local_route_Publish :: "runtimes \<Rightarrow> 's conn \<Rightarrow> 's rest_route" where
  "local_route_Publish rts server = \<lparr>ro_Method = ''POST'',
     ro_Pattern = Compiled pattern_Publisher_Publish_0,
     ro_Serve = local_handler rts ''/google.cloud.eventarc.publishing.v1.Publisher/Publish''
       ''/v1/{message_bus=projects/*/locations/*/messageBuses/*}:publish''
       (local_request_Publisher_Publish_0 (rts_PublishBus rts) (\<lambda>q. server (PublishBusCall q)))\<rparr>"

definition RegisterPublisherHandlerServer :: "runtimes \<Rightarrow> 's conn \<Rightarrow> 's rest_route list" where
  "RegisterPublisherHandlerServer rts server =
    [local_route_PublishChannelConnectionEvents rts server, local_route_PublishEvents rts server,
     local_route_Publish rts server]"

lemmas local_request_Publisher_defs = local_request_Publisher_PublishChannelConnectionEvents_0_def
  local_request_Publisher_PublishEvents_0_def local_request_Publisher_Publish_0_def

lemmas local_route_Publisher_defs = local_route_PublishChannelConnectionEvents_def
  local_route_PublishEvents_def local_route_Publish_def

text \<open>The in-process requests and routes are those of the client.\<close>

lemma local_requests_Publisher:
  "local_request_Publisher_PublishChannelConnectionEvents_0 rt0 = request_Publisher_PublishChannelConnectionEvents_0 rt0"
  "local_request_Publisher_PublishEvents_0 rt1 = request_Publisher_PublishEvents_0 rt1"
  "local_request_Publisher_Publish_0 rt2 = request_Publisher_Publish_0 rt2"
  by (intro ext; simp only: local_request_Publisher_defs request_service_defs)+

lemma RegisterPublisherHandlerServer_Client:
  "rts_AnnotateIncoming rts = rts_Annotate rts \<Longrightarrow>
   RegisterPublisherHandlerServer rts server = RegisterPublisherHandlerClient rts server"
  by (simp add: RegisterPublisherHandlerServer_def RegisterPublisherHandlerClient_def local_route_Publisher_defs
      route_service_defs local_handler_rest local_requests_Publisher)

end
