(* ===== verification/RestDial.thy ===== *)
theory RestDial
  imports RestEventarc RestServices
begin

text \<open>
  internal/gen: the registrations that make their own connection, \<open>RegisterXHandlerFromEndpoint\<close>, and
  \<open>RegisterXHandler\<close> over one that is given. No program of the repository calls them.
\<close>

section \<open>A connection of one's own\<close>

text \<open>
  The gRPC library: the dial, whose options are part of it, and what closing the connection reports. Of
  a registration are kept the routes of the mux, whether its connection is open and whether a goroutine
  waits for the end of the context to close it, and the lines of grpclog.
\<close>

record 's dial =
  dl_NewClient :: "string \<Rightarrow> err + 's conn"
  dl_Close :: "err option"

record 's registered =
  rg_Routes :: "'s rest_route list"
  rg_Open :: bool
  rg_Waiting :: bool
  rg_Log :: "msg list"

definition closeConn :: "'s dial \<Rightarrow> string \<Rightarrow> 's registered \<Rightarrow> 's registered" where
  "closeConn lib endpoint r = r\<lparr>rg_Open := False, rg_Log := rg_Log r @ (case dl_Close lib of
      None \<Rightarrow> []
    | Some cerr \<Rightarrow> [Txt (''Failed to close conn to '' @ endpoint @ '': '') # err_Error cerr])\<rparr>"

definition fromEndpoint ::
  "'s dial \<Rightarrow> ('s conn \<Rightarrow> err option \<times> 's rest_route list) \<Rightarrow> string \<Rightarrow> 's registered \<Rightarrow>
   err option \<times> 's registered" where
  "fromEndpoint lib register endpoint r =
     (case dl_NewClient lib endpoint of
        Inl err \<Rightarrow> (Some err, r)
      | Inr conn \<Rightarrow>
          (case register conn of (err, routes) \<Rightarrow>
             (let r1 = r\<lparr>rg_Routes := rg_Routes r @ routes, rg_Open := True\<rparr>
              in (err, if err \<noteq> None then closeConn lib endpoint r1 else r1\<lparr>rg_Waiting := True\<rparr>))))"

text \<open>The goroutine, when the context has ended.\<close>

definition contextDone :: "'s dial \<Rightarrow> string \<Rightarrow> 's registered \<Rightarrow> 's registered" where
  "contextDone lib endpoint r =
     (if rg_Waiting r then (closeConn lib endpoint r)\<lparr>rg_Waiting := False\<rparr> else r)"

section \<open>The three services\<close>

definition RegisterEventarcHandler :: "runtimes \<Rightarrow> 's conn \<Rightarrow> err option \<times> 's rest_route list" where
  "RegisterEventarcHandler rts conn = (None, RegisterEventarcHandlerClient rts conn)"

definition RegisterEventarcHandlerFromEndpoint ::
  "'s dial \<Rightarrow> runtimes \<Rightarrow> string \<Rightarrow> 's registered \<Rightarrow> err option \<times> 's registered" where
  "RegisterEventarcHandlerFromEndpoint lib rts endpoint r =
     fromEndpoint lib (RegisterEventarcHandler rts) endpoint r"

definition RegisterOperationsHandler :: "runtimes \<Rightarrow> 's conn \<Rightarrow> err option \<times> 's rest_route list" where
  "RegisterOperationsHandler rts conn = (None, RegisterOperationsHandlerClient rts conn)"

definition RegisterOperationsHandlerFromEndpoint ::
  "'s dial \<Rightarrow> runtimes \<Rightarrow> string \<Rightarrow> 's registered \<Rightarrow> err option \<times> 's registered" where
  "RegisterOperationsHandlerFromEndpoint lib rts endpoint r =
     fromEndpoint lib (RegisterOperationsHandler rts) endpoint r"

definition RegisterPublisherHandler :: "runtimes \<Rightarrow> 's conn \<Rightarrow> err option \<times> 's rest_route list" where
  "RegisterPublisherHandler rts conn = (None, RegisterPublisherHandlerClient rts conn)"

definition RegisterPublisherHandlerFromEndpoint ::
  "'s dial \<Rightarrow> runtimes \<Rightarrow> string \<Rightarrow> 's registered \<Rightarrow> err option \<times> 's registered" where
  "RegisterPublisherHandlerFromEndpoint lib rts endpoint r =
     fromEndpoint lib (RegisterPublisherHandler rts) endpoint r"

section \<open>No connection is leaked\<close>

text \<open>
  The connection is open exactly when the registration has succeeded, and then until the context
  ends, whatever the registration of the routes reports.
\<close>

lemma fromEndpoint_open:
  assumes "fromEndpoint lib register endpoint r = (err, r')" and "\<not> rg_Open r" "\<not> rg_Waiting r"
  shows "rg_Open r' \<longleftrightarrow> err = None" and "rg_Waiting r' \<longleftrightarrow> err = None"
    and "\<not> rg_Open (contextDone lib endpoint r')"
  using assms by (auto simp: fromEndpoint_def contextDone_def closeConn_def Let_def
      split: sum.splits prod.splits if_splits)

text \<open>After the dial none of the three fails, and its routes are those of the connection.\<close>

lemma registered_routes:
  assumes "dl_NewClient lib endpoint = Inr conn"
  shows "fst (RegisterEventarcHandlerFromEndpoint lib rts endpoint r) = None \<and>
      rg_Routes (snd (RegisterEventarcHandlerFromEndpoint lib rts endpoint r)) =
        rg_Routes r @ RegisterEventarcHandlerClient rts conn"
    and "fst (RegisterOperationsHandlerFromEndpoint lib rts endpoint r) = None \<and>
      rg_Routes (snd (RegisterOperationsHandlerFromEndpoint lib rts endpoint r)) =
        rg_Routes r @ RegisterOperationsHandlerClient rts conn"
    and "fst (RegisterPublisherHandlerFromEndpoint lib rts endpoint r) = None \<and>
      rg_Routes (snd (RegisterPublisherHandlerFromEndpoint lib rts endpoint r)) =
        rg_Routes r @ RegisterPublisherHandlerClient rts conn"
  using assms by (simp_all add: RegisterEventarcHandlerFromEndpoint_def RegisterEventarcHandler_def
      RegisterOperationsHandlerFromEndpoint_def RegisterOperationsHandler_def
      RegisterPublisherHandlerFromEndpoint_def RegisterPublisherHandler_def fromEndpoint_def Let_def)

end
