(* ===== verification/Interleave.thy ===== *)
theory Interleave
  imports Server
begin

text \<open>
  Calls that run at the same time. gRPC serves each call in a goroutine of its own, and a handler
  holds the lock of storage, or of the operation store, only inside one method. A call is therefore
  a sequence of atomic steps, one for each method it calls, and between two of them other calls may
  run.
\<close>

section \<open>Programs\<close>

text \<open>A program has returned, or makes one atomic step and goes on.\<close>

datatype 'a prog = Ret "'a result" | Step "Server \<Rightarrow> 'a prog \<times> Server"

text \<open>The program alone, without another in between.\<close>

primrec exec :: "'a prog \<Rightarrow> (Server, 'a) op" where
  "exec (Ret r) = give r"
| "exec (Step f) = (\<lambda>s. case_prod (\<lambda>m s'. m s') ((map_prod exec id \<circ> f) s))"

primrec p_catch :: "'a prog \<Rightarrow> (err \<Rightarrow> 'b prog) \<Rightarrow> ('a \<Rightarrow> 'b prog) \<Rightarrow> 'b prog" where
  "p_catch (Ret r) h f = (case r of Ok a \<Rightarrow> f a | Err x \<Rightarrow> h x | Panic p \<Rightarrow> Ret (Panic p))"
| "p_catch (Step g) h f = Step (map_prod (\<lambda>m. m h f) id \<circ> (map_prod p_catch id \<circ> g))"

definition p_seq :: "'a prog \<Rightarrow> ('a \<Rightarrow> 'b prog) \<Rightarrow> 'b prog" where
  "p_seq m f = p_catch m (\<lambda>x. Ret (Err x)) f"

definition p_atomic :: "(Server, 'a) op \<Rightarrow> 'a prog" where
  "p_atomic m = Step (\<lambda>s. case m s of (r, s') \<Rightarrow> (Ret r, s'))"

text \<open>
  The parts of a handler as programs. A guard on the request is no step; the permission check, which
  asks another service, is one, and so is every method of the two stores.
\<close>

definition p_require :: "string \<Rightarrow> string \<Rightarrow> unit prog" where
  "p_require v fieldName = Ret (requireField v fieldName)"

definition p_deref :: "'r option \<Rightarrow> 'r prog" where
  "p_deref r = Ret (case r of None \<Rightarrow> Panic ''invalid memory address or nil pointer dereference''
                    | Some x \<Rightarrow> Ok x)"

definition p_authorize :: "env \<Rightarrow> string \<Rightarrow> string \<Rightarrow> unit prog" where
  "p_authorize e operation resource = p_atomic (authorize e operation resource)"

definition p_query :: "(Storage \<Rightarrow> 'a result) \<Rightarrow> 'a prog" where
  "p_query f = p_atomic (query f)"

definition p_apply :: "(Storage, 'a) op \<Rightarrow> 'a prog" where
  "p_apply f = p_atomic (apply_op f)"

definition p_done :: "env \<Rightarrow> string \<Rightarrow> any_msg \<Rightarrow> string \<Rightarrow> string \<Rightarrow> Operation prog" where
  "p_done e parent resource verb target = p_atomic (done_op e parent resource verb target)"

text \<open>The two critical sections of \<open>GetGoogleChannelConfig\<close>.\<close>

definition p_config :: "env \<Rightarrow> string \<Rightarrow> GoogleChannelConfig prog" where
  "p_config e name =
     p_seq (p_query (\<lambda>st. Ok (peekGoogleChannelConfig name st))) (\<lambda>found.
       case found of
         Some stored \<Rightarrow> Ret (Ok stored)
       | None \<Rightarrow> p_apply (initGoogleChannelConfig e name))"

primrec p_answer :: "('a \<Rightarrow> 'b) \<Rightarrow> 'a prog \<Rightarrow> 'b prog" where
  "p_answer f (Ret r) = Ret (map_result f r)"
| "p_answer f (Step g) = Step (map_prod (p_answer f) id \<circ> g)"

section \<open>Alone, a program is the handler\<close>

named_theorems exec_simps \<open>what a program does alone\<close>

lemma exec_Step: "exec (Step f) s = (case f s of (p, s') \<Rightarrow> exec p s')"
  by (simp add: case_prod_unfold)

lemma exec_atomic [exec_simps]: "exec (p_atomic m) = m"
  by (simp add: p_atomic_def fun_eq_iff case_prod_unfold give_def)

lemma exec_catch [exec_simps]:
  "exec (p_catch m h f) = catch (exec m) (\<lambda>x. exec (h x)) (\<lambda>a. exec (f a))"
proof (induction m)
  case (Ret r)
  then show ?case by (cases r) (simp_all add: catch_def give_def fun_eq_iff)
next
  case (Step g)
  have "exec (p_catch (Step g) h f) s = catch (exec (Step g)) (\<lambda>x. exec (h x)) (\<lambda>a. exec (f a)) s" for s
  proof -
    obtain p s' where g: "g s = (p, s')" by (cases "g s")
    then have "p \<in> Basic_BNFs.fsts (g s)" by (simp add: fsts.simps)
    then have "exec (p_catch p h f) = catch (exec p) (\<lambda>x. exec (h x)) (\<lambda>a. exec (f a))"
      by (rule Step.IH [OF rangeI])
    then show ?thesis by (simp add: g catch_def)
  qed
  then show ?case by blast
qed

lemma exec_seq [exec_simps]: "exec (p_seq m f) = seq (exec m) (\<lambda>a. exec (f a))"
  by (simp add: p_seq_def exec_catch seq_catch)

lemma exec_parts [exec_simps]:
  "exec (p_require v n) = require v n" "exec (p_deref r) = deref r"
  "exec (p_authorize e operation resource) = authorize e operation resource"
  "exec (p_query g) = query g" "exec (p_apply h) = apply_op h"
  "exec (p_done e p a v t) = done_op e p a v t"
  by (simp_all add: p_require_def require_def p_deref_def deref_def p_authorize_def p_query_def
      p_apply_def p_done_def exec_simps)

lemma exec_config [exec_simps]: "exec (p_config e name) = apply_op (GetGoogleChannelConfig e name)"
  by (simp add: p_config_def exec_simps fun_eq_iff seq_def query_def apply_op_def
      GetGoogleChannelConfig_def give_def split: option.split)

lemma exec_answer [exec_simps]: "exec (p_answer f m) = answer f (exec m)"
proof (induction m)
  case (Step g)
  have "exec (p_answer f (Step g)) s = answer f (exec (Step g)) s" for s
  proof -
    obtain p s' where g: "g s = (p, s')" by (cases "g s")
    then have "exec (p_answer f p) = answer f (exec p)"
      using Step.IH [OF rangeI, of p s] by (simp add: fsts.simps)
    then show ?thesis by (simp add: g answer_def)
  qed
  then show ?case by blast
qed (simp add: answer_def give_def fun_eq_iff)

lemma exec_case [exec_simps]:
  "exec (if b then m else n) = (if b then exec m else exec n)"
  "exec (case v of None \<Rightarrow> m1 | Some x \<Rightarrow> f x) = (case v of None \<Rightarrow> exec m1 | Some x \<Rightarrow> exec (f x))"
  "exec (case l of [] \<Rightarrow> m2 | y # ys \<Rightarrow> k y ys) = (case l of [] \<Rightarrow> exec m2 | y # ys \<Rightarrow> exec (k y ys))"
  by (auto split: option.split list.split)

section \<open>What every step keeps\<close>

text \<open>
  \<open>keeps P m\<close>: each step of \<open>m\<close> keeps \<open>P\<close>, whatever has happened since the step before. \<open>calm P m\<close>: if
  \<open>P\<close> holds at each step, \<open>m\<close> does not return a panic.
\<close>

primrec keeps :: "(Server \<Rightarrow> bool) \<Rightarrow> 'a prog \<Rightarrow> bool" where
  "keeps P (Ret r) \<longleftrightarrow> True"
| "keeps P (Step f) \<longleftrightarrow> (\<forall>s. (P s \<longrightarrow> P (snd (f s))) \<and> fst ((map_prod (keeps P) id \<circ> f) s))"

primrec calm :: "(Server \<Rightarrow> bool) \<Rightarrow> 'a prog \<Rightarrow> bool" where
  "calm P (Ret r) \<longleftrightarrow> \<not> is_panic r"
| "calm P (Step f) \<longleftrightarrow> (\<forall>s. P s \<longrightarrow> fst ((map_prod (calm P) id \<circ> f) s))"

named_theorems keeps_rules \<open>programs whose steps keep the invariant\<close>
named_theorems calm_rules \<open>programs that do not panic\<close>

lemma keeps_Ret [keeps_rules]: "keeps P (Ret r)" by simp

lemma calm_Ret [calm_rules]: "\<not> is_panic r \<Longrightarrow> calm P (Ret r)" by simp

lemma keeps_catch [keeps_rules]:
  "keeps P m \<Longrightarrow> (\<And>x. keeps P (h x)) \<Longrightarrow> (\<And>a. keeps P (f a)) \<Longrightarrow> keeps P (p_catch m h f)"
proof (induction m)
  case (Ret r)
  then show ?case by (cases r) simp_all
next
  case (Step g)
  then show ?case by (simp add: fsts.simps)
qed

lemma calm_catch [calm_rules]:
  "calm P m \<Longrightarrow> (\<And>x. calm P (h x)) \<Longrightarrow> (\<And>a. calm P (f a)) \<Longrightarrow> calm P (p_catch m h f)"
proof (induction m)
  case (Ret r)
  then show ?case by (cases r) simp_all
next
  case (Step g)
  then show ?case by (simp add: fsts.simps)
qed

lemma keeps_seq [keeps_rules]: "keeps P m \<Longrightarrow> (\<And>a. keeps P (f a)) \<Longrightarrow> keeps P (p_seq m f)"
  unfolding p_seq_def by (intro keeps_rules)

lemma calm_seq [calm_rules]: "calm P m \<Longrightarrow> (\<And>a. calm P (f a)) \<Longrightarrow> calm P (p_seq m f)"
  unfolding p_seq_def by (rule calm_catch) simp_all

lemma keeps_atomic: "(\<And>s. P s \<Longrightarrow> P (snd (m s))) \<Longrightarrow> keeps P (p_atomic m)"
  by (simp add: p_atomic_def case_prod_unfold)

lemma calm_atomic: "(\<And>s. P s \<Longrightarrow> \<not> is_panic (fst (m s))) \<Longrightarrow> calm P (p_atomic m)"
  by (simp add: p_atomic_def case_prod_unfold)

lemma keeps_answer [keeps_rules]: "keeps P m \<Longrightarrow> keeps P (p_answer f m)"
proof (induction m)
  case (Step g)
  then show ?case by (simp add: fsts.simps)
qed simp

lemma calm_answer [calm_rules]: "calm P m \<Longrightarrow> calm P (p_answer f m)"
proof (induction m)
  case (Step g)
  then show ?case by (simp add: fsts.simps)
qed simp

text \<open>The parts of a handler, for the invariant of the server.\<close>

lemma keeps_parts [keeps_rules]:
  "keeps P (p_require v n)" "keeps P (p_deref r)" "keeps P (p_authorize e operation resource)"
  "keeps P (p_query g)" "keeps server_inv (p_done e p a v t)"
  by (simp_all add: p_require_def p_deref_def p_authorize_def p_query_def p_done_def keeps_atomic
      done_op_def server_inv_lro case_prod_unfold)

lemma keeps_apply [keeps_rules]:
  "(\<And>st. storage_inv st \<Longrightarrow> storage_inv (snd (f st))) \<Longrightarrow> keeps server_inv (p_apply f)"
  unfolding p_apply_def
  by (rule keeps_atomic) (simp add: apply_op_def server_inv_def case_prod_unfold)

lemma keeps_case [keeps_rules]:
  "(b \<Longrightarrow> keeps P m) \<Longrightarrow> (\<not> b \<Longrightarrow> keeps P n) \<Longrightarrow> keeps P (if b then m else n)"
  "keeps P m1 \<Longrightarrow> (\<And>x. keeps P (g x)) \<Longrightarrow> keeps P (case v of None \<Rightarrow> m1 | Some x \<Rightarrow> g x)"
  "keeps P m2 \<Longrightarrow> (\<And>y ys. keeps P (k y ys)) \<Longrightarrow> keeps P (case l of [] \<Rightarrow> m2 | y # ys \<Rightarrow> k y ys)"
  by (auto split: option.split list.split)

text \<open>Past the check of a name, the message that has it is there.\<close>

lemma calm_seq_require [calm_rules]:
  "(v \<noteq> [] \<Longrightarrow> calm P (f ())) \<Longrightarrow> calm P (p_seq (p_require v n) f)"
  by (simp add: p_seq_def p_require_def requireField_def)

lemma calm_deref [calm_rules]: "calm P (p_deref (Some x))" "nilsafe r f \<noteq> [] \<Longrightarrow> calm P (p_deref r)"
  by (cases r; simp add: p_deref_def)+

lemma calm_parts [calm_rules]:
  "perm operation = Ok p \<Longrightarrow> calm P (p_authorize e operation resource)"
  "calm P (p_done e parent a v t)"
  by (simp_all add: p_authorize_def p_done_def calm_atomic authorize_apply done_op_def case_prod_unfold)

lemma calm_query [calm_rules]:
  "(\<And>s. P s \<Longrightarrow> \<not> is_panic (g (storage s))) \<Longrightarrow> calm P (p_query g)"
  by (simp add: p_query_def calm_atomic query_def)

lemma calm_apply [calm_rules]: "(\<And>st. \<not> is_panic (fst (g st))) \<Longrightarrow> calm P (p_apply g)"
  by (simp add: p_apply_def calm_atomic apply_op_def case_prod_unfold)

lemma calm_case [calm_rules]:
  "(b \<Longrightarrow> calm P m) \<Longrightarrow> (\<not> b \<Longrightarrow> calm P n) \<Longrightarrow> calm P (if b then m else n)"
  "calm P m1 \<Longrightarrow> (\<And>x. calm P (h x)) \<Longrightarrow> calm P (case v of None \<Rightarrow> m1 | Some x \<Rightarrow> h x)"
  by (auto split: option.split)

section \<open>Every program returns\<close>

text \<open>\<open>within m n\<close>: \<open>m\<close> returns after at most \<open>n\<close> of its own steps, whatever happens between them.\<close>

primrec within :: "'a prog \<Rightarrow> nat \<Rightarrow> bool" where
  "within (Ret r) = (\<lambda>n. True)"
| "within (Step f) = (\<lambda>n. n \<noteq> 0 \<and> (\<forall>s. fst ((map_prod within id \<circ> f) s) (n - 1)))"

named_theorems within_rules \<open>bounds on the steps of a program\<close>

lemma within_Ret [within_rules]: "within (Ret r) n" by simp

text \<open>Sequences associate to the right, so that every step stands in front.\<close>

lemma p_seq_assoc:
  "p_seq (p_catch m h f) g = p_catch m (\<lambda>x. p_seq (h x) g) (\<lambda>a. p_seq (f a) g)"
proof (induction m)
  case (Ret r)
  then show ?case by (cases r) (simp_all add: p_seq_def)
next
  case (Step k)
  then show ?case by (simp add: p_seq_def fsts.simps fun_eq_iff prod_eq_iff)
qed

lemma p_seq_if: "p_seq (if b then m else n) f = (if b then p_seq m f else p_seq n f)"
  by simp

lemma within_catch_atomic:
  "n \<noteq> 0 \<Longrightarrow> (\<And>x. within (h x) (n - 1)) \<Longrightarrow> (\<And>a. within (f a) (n - 1)) \<Longrightarrow>
   within (p_catch (p_atomic m) h f) n"
  by (simp add: p_atomic_def case_prod_unfold split: result.split)

lemma within_catch_Ret:
  "(\<And>x. within (h x) n) \<Longrightarrow> (\<And>a. within (f a) n) \<Longrightarrow> within (p_catch (Ret r) h f) n"
  by (cases r) simp_all

lemma within_seq_atomic:
  "n \<noteq> 0 \<Longrightarrow> (\<And>a. within (f a) (n - 1)) \<Longrightarrow> within (p_seq (p_atomic m) f) n"
  unfolding p_seq_def by (rule within_catch_atomic) simp_all

lemma within_seq_Ret: "(\<And>a. within (f a) n) \<Longrightarrow> within (p_seq (Ret r) f) n"
  unfolding p_seq_def by (rule within_catch_Ret) simp_all

lemma within_atomic: "n \<noteq> 0 \<Longrightarrow> within (p_atomic m) n"
  by (simp add: p_atomic_def case_prod_unfold)

declare within_catch_atomic [within_rules] within_catch_Ret [within_rules]
  within_seq_atomic [within_rules] within_seq_Ret [within_rules] within_atomic [within_rules]

lemma within_case [within_rules]:
  "within m n \<Longrightarrow> within m' n \<Longrightarrow> within (if b then m else m') n"
  "within m1 n \<Longrightarrow> (\<And>x. within (g x) n) \<Longrightarrow> within (case v of None \<Rightarrow> m1 | Some x \<Rightarrow> g x) n"
  "within m2 n \<Longrightarrow> (\<And>y ys. within (k y ys) n) \<Longrightarrow> within (case l of [] \<Rightarrow> m2 | y # ys \<Rightarrow> k y ys) n"
  by (auto split: option.split list.split)

lemma within_answer [within_rules]: "within m n \<Longrightarrow> within (p_answer f m) n"
proof (induction m arbitrary: n)
  case (Step g)
  then show ?case by (simp add: fsts.simps)
qed simp

lemmas part_defs = p_require_def p_deref_def p_authorize_def p_query_def p_apply_def p_done_def
  p_config_def p_seq_assoc p_seq_if

section \<open>Interleaving\<close>

text \<open>
  A state of the service: the server, and a program for every call that has been made. A call that
  arrives later is one whose first step is scheduled later.
\<close>

type_synonym 'a threads = "'a prog list"

definition thread_step :: "nat \<Rightarrow> Server \<times> 'a threads \<Rightarrow> Server \<times> 'a threads" where
  "thread_step i c = (case c of (s, ts) \<Rightarrow>
     if i < length ts
     then (case ts ! i of
             Ret r \<Rightarrow> (s, ts)
           | Step f \<Rightarrow> (case f s of (p, s') \<Rightarrow> (s', ts[i := p])))
     else (s, ts))"

text \<open>A schedule names the thread of every step.\<close>

definition run_schedule :: "nat list \<Rightarrow> Server \<times> 'a threads \<Rightarrow> Server \<times> 'a threads" where
  "run_schedule sched c = fold thread_step sched c"

lemma run_schedule_simps [simp]:
  "run_schedule [] c = c" "run_schedule (i # sched) c = run_schedule sched (thread_step i c)"
  by (simp_all add: run_schedule_def)

lemma run_schedule_append: "run_schedule (xs @ ys) c = run_schedule ys (run_schedule xs c)"
  by (simp add: run_schedule_def)

text \<open>An invariant of the step of a thread is one of every schedule.\<close>

lemma run_schedule_induct:
  assumes "Q c" and "\<And>i s ts. Q (s, ts) \<Longrightarrow> i < length ts \<Longrightarrow>
      (\<And>f p s'. ts ! i = Step f \<Longrightarrow> f s = (p, s') \<Longrightarrow> Q (s', ts[i := p]))"
  shows "Q (run_schedule sched c)"
  using assms(1)
proof (induction sched arbitrary: c)
  case (Cons i sched)
  obtain s ts where c: "c = (s, ts)" by (cases c)
  have "Q (thread_step i c)"
    using Cons.prems assms(2) [of s ts i]
    by (auto simp: c thread_step_def split: prog.split prod.split)
  then show ?case using Cons.IH by simp
qed simp

lemma run_schedule_threads [simp]: "length (snd (run_schedule sched c)) = length (snd c)"
  by (rule run_schedule_induct [of "\<lambda>d. length (snd d) = length (snd c)"]) simp_all

lemma run_schedule_keeps:
  assumes "P s" and "\<forall>m \<in> set ts. keeps P m"
  shows "P (fst (run_schedule sched (s, ts)))"
proof -
  let ?Q = "\<lambda>d. P (fst d) \<and> (\<forall>m \<in> set (snd d). keeps P m)"
  have "?Q (run_schedule sched (s, ts))"
  proof (rule run_schedule_induct)
    fix i s ts f p s'
    assume Q: "?Q (s, ts)" and i: "i < length ts" and f: "ts ! i = Step f" "f s = (p, s')"
    then have "keeps P (Step f)" by (metis nth_mem snd_conv)
    then have "P s'" "keeps P p" using Q f(2) by (auto dest!: spec [of _ s])
    then show "?Q (s', ts[i := p])" using Q by (auto dest!: set_update_subset_insert [THEN subsetD])
  qed (use assms in simp)
  then show ?thesis by blast
qed

end
