(* ===== verification/InterleaveRpc.thy ===== *)
theory InterleaveRpc
  imports Interleave
begin

text \<open>
  The handlers of internal/server/server.go as programs of atomic steps, and that each of them alone is
  the handler.
\<close>

section \<open>Triggers and providers\<close>

definition GetTrigger_prog :: "env \<Rightarrow> GetRequest \<Rightarrow> Trigger prog" where
  "GetTrigger_prog e req =
     p_seq (p_require (gr_Name req) ''name'') (\<lambda>_.
     p_seq (p_authorize e ''GetTrigger'' (gr_Name req)) (\<lambda>_.
     p_query (GetTrigger (gr_Name req))))"

definition ListTriggers_prog ::
  "env \<Rightarrow> ListRequest \<Rightarrow> (Trigger list \<times> string) prog" where
  "ListTriggers_prog e req =
     p_seq (p_require (lr_Parent req) ''parent'') (\<lambda>_.
     p_seq (p_authorize e ''ListTriggers'' (lr_Parent req)) (\<lambda>_.
     p_query (ListTriggers e (lr_Parent req) (lr_PageSize req) (lr_PageToken req)
       (lr_OrderBy req) (lr_Filter req))))"

definition CreateTrigger_prog ::
  "env \<Rightarrow> Trigger CreateRequest \<Rightarrow> Operation prog" where
  "CreateTrigger_prog e req =
     (case triggerViolations req of
        v # vs \<Rightarrow> Ret (Err (Status InvalidArgument (snd v) (if e_details e then v # vs else [])))
      | [] \<Rightarrow>
          p_seq (p_authorize e ''CreateTrigger'' (cq_Parent req)) (\<lambda>_.
          p_seq (p_deref (cq_Resource req)) (\<lambda>trigger.
          if cq_ValidateOnly req
          then (let synthetic = trigger\<lparr>tr_Name := cq_Parent req @ ''/triggers/'' @ cq_Id req\<rparr>
                in p_done e (cq_Parent req) (AnyTrigger synthetic) ''create'' (tr_Name synthetic))
          else p_seq (p_apply (CreateTrigger e (cq_Parent req) (cq_Id req) trigger)) (\<lambda>created.
               p_done e (cq_Parent req) (AnyTrigger created) ''create'' (tr_Name created)))))"

definition UpdateTrigger_prog ::
  "env \<Rightarrow> Trigger UpdateRequest \<Rightarrow> Operation prog" where
  "UpdateTrigger_prog e req =
     (let name = nilsafe (uq_Resource req) tr_Name; parent = parentFromName name
      in p_seq (p_require name ''trigger.name'') (\<lambda>_.
         p_seq (p_authorize e ''UpdateTrigger'' name) (\<lambda>_.
         if uq_ValidateOnly req
         then p_seq (p_query (GetTrigger name)) (\<lambda>existing.
              p_done e parent (AnyTrigger existing) ''update'' name)
         else p_seq (p_deref (uq_Resource req)) (\<lambda>trigger.
              p_seq (p_catch (p_apply (UpdateTrigger e trigger (uq_UpdateMask req)))
                     (\<lambda>err. if uq_AllowMissing req \<and> isNotFound err
                            then p_apply (CreateTrigger e parent (lastSegment name) trigger)
                            else Ret (Err err))
                     (\<lambda>updated. Ret (Ok updated)))
                (\<lambda>updated. p_done e parent (AnyTrigger updated) ''update'' name)))))"

definition DeleteTrigger_prog ::
  "env \<Rightarrow> DeleteRequest \<Rightarrow> Operation prog" where
  "DeleteTrigger_prog e req =
     (let name = dq_Name req; parent = parentFromName name
      in p_seq (p_require name ''name'') (\<lambda>_.
         p_seq (p_authorize e ''DeleteTrigger'' name) (\<lambda>_.
         if dq_ValidateOnly req
         then p_seq (p_query (GetTrigger name)) (\<lambda>_. p_done e parent AnyEmpty ''delete'' name)
         else p_catch (p_query (GetTrigger name))
           (\<lambda>err. if dq_AllowMissing req \<and> isNotFound err
                  then p_done e parent AnyEmpty ''delete'' name
                  else Ret (Err err))
           (\<lambda>existing.
              if dq_Etag req \<noteq> [] \<and> tr_Etag existing \<noteq> dq_Etag req
              then Ret (Err (etagMismatch (dq_Etag req) (tr_Etag existing)))
              else p_seq (p_apply (DeleteTrigger name)) (\<lambda>_.
                   p_done e parent (AnyTrigger existing) ''delete'' name)))))"

definition GetProvider_prog :: "env \<Rightarrow> GetRequest \<Rightarrow> Provider prog" where
  "GetProvider_prog e req =
     p_seq (p_require (gr_Name req) ''name'') (\<lambda>_.
     p_seq (p_authorize e ''GetProvider'' (gr_Name req)) (\<lambda>_.
     p_query (GetProvider (gr_Name req))))"

definition ListProviders_prog ::
  "env \<Rightarrow> ListRequest \<Rightarrow> (Provider list \<times> string) prog" where
  "ListProviders_prog e req =
     p_seq (p_require (lr_Parent req) ''parent'') (\<lambda>_.
     p_seq (p_authorize e ''ListProviders'' (lr_Parent req)) (\<lambda>_.
     p_query (ListProviders e (lr_Parent req) (lr_PageSize req) (lr_PageToken req)
       (lr_Filter req) (lr_OrderBy req))))"

section \<open>Channels, connections and configs\<close>

definition GetChannel_prog :: "env \<Rightarrow> GetRequest \<Rightarrow> Channel prog" where
  "GetChannel_prog e req =
     p_seq (p_require (gr_Name req) ''name'') (\<lambda>_.
     p_seq (p_authorize e ''GetChannel'' (gr_Name req)) (\<lambda>_.
     p_query (GetChannel (gr_Name req))))"

definition ListChannels_prog ::
  "env \<Rightarrow> ListRequest \<Rightarrow> (Channel list \<times> string) prog" where
  "ListChannels_prog e req =
     p_seq (p_require (lr_Parent req) ''parent'') (\<lambda>_.
     p_seq (p_authorize e ''ListChannels'' (lr_Parent req)) (\<lambda>_.
     p_query (ListChannels e (lr_Parent req) (lr_PageSize req) (lr_PageToken req)
       (lr_OrderBy req))))"

definition CreateChannel_prog ::
  "env \<Rightarrow> Channel CreateRequest \<Rightarrow> Operation prog" where
  "CreateChannel_prog e req =
     p_seq (p_require (cq_Parent req) ''parent'') (\<lambda>_.
     p_seq (p_require (cq_Id req) ''channel_id'') (\<lambda>_.
     p_seq (Ret (validateResourceID (cq_Id req) ''channel_id'')) (\<lambda>_.
     case cq_Resource req of
       None \<Rightarrow> Ret (Err (errorf InvalidArgument ''channel is required''))
     | Some channel \<Rightarrow>
         p_seq (p_authorize e ''CreateChannel'' (cq_Parent req)) (\<lambda>_.
         if cq_ValidateOnly req
         then (let synthetic = channel\<lparr>ch_Name := cq_Parent req @ ''/channels/'' @ cq_Id req\<rparr>
               in p_done e (cq_Parent req) (AnyChannel synthetic) ''create'' (ch_Name synthetic))
         else p_seq (p_apply (CreateChannel e (cq_Parent req) (cq_Id req) channel)) (\<lambda>created.
              p_done e (cq_Parent req) (AnyChannel created) ''create'' (ch_Name created))))))"

definition UpdateChannel_prog ::
  "env \<Rightarrow> Channel UpdateRequest \<Rightarrow> Operation prog" where
  "UpdateChannel_prog e req =
     (let name = nilsafe (uq_Resource req) ch_Name; parent = parentFromResource name
      in p_seq (p_require name ''channel.name'') (\<lambda>_.
         p_seq (p_authorize e ''UpdateChannel'' name) (\<lambda>_.
         if uq_ValidateOnly req
         then p_seq (p_query (GetChannel name)) (\<lambda>existing.
              p_done e parent (AnyChannel existing) ''update'' name)
         else p_seq (p_deref (uq_Resource req)) (\<lambda>channel.
              p_seq (p_apply (UpdateChannel e channel (uq_UpdateMask req))) (\<lambda>updated.
              p_done e parent (AnyChannel updated) ''update'' (ch_Name updated))))))"

definition DeleteChannel_prog ::
  "env \<Rightarrow> DeleteRequest \<Rightarrow> Operation prog" where
  "DeleteChannel_prog e req =
     (let name = dq_Name req; parent = parentFromResource name
      in p_seq (p_require name ''name'') (\<lambda>_.
         p_seq (p_authorize e ''DeleteChannel'' name) (\<lambda>_.
         if dq_ValidateOnly req
         then p_seq (p_query (GetChannel name)) (\<lambda>_. p_done e parent AnyEmpty ''delete'' name)
         else p_seq (p_query (GetChannel name)) (\<lambda>existing.
              p_seq (p_apply (DeleteChannel name)) (\<lambda>_.
              p_done e parent (AnyChannel existing) ''delete'' (ch_Name existing))))))"

definition GetChannelConnection_prog ::
  "env \<Rightarrow> GetRequest \<Rightarrow> ChannelConnection prog" where
  "GetChannelConnection_prog e req =
     p_seq (p_require (gr_Name req) ''name'') (\<lambda>_.
     p_seq (p_authorize e ''GetChannelConnection'' (gr_Name req)) (\<lambda>_.
     p_query (GetChannelConnection (gr_Name req))))"

definition ListChannelConnections_prog ::
  "env \<Rightarrow> ListRequest \<Rightarrow> (ChannelConnection list \<times> string) prog" where
  "ListChannelConnections_prog e req =
     p_seq (p_require (lr_Parent req) ''parent'') (\<lambda>_.
     p_seq (p_authorize e ''ListChannelConnections'' (lr_Parent req)) (\<lambda>_.
     p_query (ListChannelConnections e (lr_Parent req) (lr_PageSize req) (lr_PageToken req))))"

definition CreateChannelConnection_prog ::
  "env \<Rightarrow> ChannelConnection CreateRequest \<Rightarrow> Operation prog" where
  "CreateChannelConnection_prog e req =
     p_seq (p_require (cq_Parent req) ''parent'') (\<lambda>_.
     p_seq (p_require (cq_Id req) ''channel_connection_id'') (\<lambda>_.
     p_seq (Ret (validateResourceID (cq_Id req) ''channel_connection_id'')) (\<lambda>_.
     case cq_Resource req of
       None \<Rightarrow> Ret (Err (errorf InvalidArgument ''channel_connection is required''))
     | Some conn \<Rightarrow>
         p_seq (p_authorize e ''CreateChannelConnection'' (cq_Parent req)) (\<lambda>_.
         p_seq (p_apply (CreateChannelConnection e (cq_Parent req) (cq_Id req) conn)) (\<lambda>created.
              p_done e (cq_Parent req) (AnyChannelConnection created) ''create'' (cc_Name created))))))"

definition DeleteChannelConnection_prog ::
  "env \<Rightarrow> DeleteRequest \<Rightarrow> Operation prog" where
  "DeleteChannelConnection_prog e req =
     (let name = dq_Name req; parent = parentFromResource name
      in p_seq (p_require name ''name'') (\<lambda>_.
         p_seq (p_authorize e ''DeleteChannelConnection'' name) (\<lambda>_.
         p_seq (p_query (GetChannelConnection name)) (\<lambda>existing.
              p_seq (p_apply (DeleteChannelConnection name)) (\<lambda>_.
              p_done e parent (AnyChannelConnection existing) ''delete'' (cc_Name existing))))))"

definition GetGoogleChannelConfig_prog ::
  "env \<Rightarrow> GetRequest \<Rightarrow> GoogleChannelConfig prog" where
  "GetGoogleChannelConfig_prog e req =
     p_seq (p_require (gr_Name req) ''name'') (\<lambda>_.
     p_seq (p_authorize e ''GetGoogleChannelConfig'' (gr_Name req)) (\<lambda>_.
     p_config e (gr_Name req)))"

definition UpdateGoogleChannelConfig_prog ::
  "env \<Rightarrow> GoogleChannelConfig UpdateRequest \<Rightarrow> GoogleChannelConfig prog" where
  "UpdateGoogleChannelConfig_prog e req =
     (case uq_Resource req of
        None \<Rightarrow> Ret (Err (errorf InvalidArgument ''google_channel_config is required''))
      | Some cfg \<Rightarrow>
          if gc_Name cfg = []
          then Ret (Err (errorf InvalidArgument ''google_channel_config.name is required''))
          else p_seq (p_authorize e ''UpdateGoogleChannelConfig'' (gc_Name cfg)) (\<lambda>_.
               p_apply (UpdateGoogleChannelConfig e cfg (uq_UpdateMask req))))"

section \<open>Message buses and enrollments\<close>

definition GetMessageBus_prog ::
  "env \<Rightarrow> GetRequest \<Rightarrow> MessageBus prog" where
  "GetMessageBus_prog e req =
     p_seq (p_require (gr_Name req) ''name'') (\<lambda>_.
     p_seq (p_authorize e ''GetMessageBus'' (gr_Name req)) (\<lambda>_.
     p_query (GetMessageBus (gr_Name req))))"

definition ListMessageBuses_prog ::
  "env \<Rightarrow> ListRequest \<Rightarrow> (MessageBus list \<times> string) prog" where
  "ListMessageBuses_prog e req =
     p_seq (p_require (lr_Parent req) ''parent'') (\<lambda>_.
     p_seq (p_authorize e ''ListMessageBuses'' (lr_Parent req)) (\<lambda>_.
     p_query (ListMessageBuses e (lr_Parent req) (lr_PageSize req) (lr_PageToken req)
       (lr_OrderBy req))))"

definition ListMessageBusEnrollments_prog ::
  "env \<Rightarrow> ListRequest \<Rightarrow> (string list \<times> string) prog" where
  "ListMessageBusEnrollments_prog e req =
     p_seq (p_require (lr_Parent req) ''parent'') (\<lambda>_.
     p_seq (p_authorize e ''ListMessageBusEnrollments'' (lr_Parent req)) (\<lambda>_.
     p_query (ListMessageBusEnrollments e (lr_Parent req) (lr_PageSize req) (lr_PageToken req))))"

definition CreateMessageBus_prog ::
  "env \<Rightarrow> MessageBus CreateRequest \<Rightarrow> Operation prog" where
  "CreateMessageBus_prog e req =
     p_seq (p_require (cq_Parent req) ''parent'') (\<lambda>_.
     p_seq (p_require (cq_Id req) ''message_bus_id'') (\<lambda>_.
     p_seq (Ret (validateResourceID (cq_Id req) ''message_bus_id'')) (\<lambda>_.
     case cq_Resource req of
       None \<Rightarrow> Ret (Err (errorf InvalidArgument ''message_bus is required''))
     | Some mb \<Rightarrow>
         p_seq (p_authorize e ''CreateMessageBus'' (cq_Parent req)) (\<lambda>_.
         if cq_ValidateOnly req
         then (let synthetic = mb\<lparr>mb_Name := cq_Parent req @ ''/messageBuses/'' @ cq_Id req\<rparr>
               in p_done e (cq_Parent req) (AnyMessageBus synthetic) ''create'' (mb_Name synthetic))
         else p_seq (p_apply (CreateMessageBus e (cq_Parent req) (cq_Id req) mb)) (\<lambda>created.
              p_done e (cq_Parent req) (AnyMessageBus created) ''create'' (mb_Name created))))))"

definition UpdateMessageBus_prog ::
  "env \<Rightarrow> MessageBus UpdateRequest \<Rightarrow> Operation prog" where
  "UpdateMessageBus_prog e req =
     (let name = nilsafe (uq_Resource req) mb_Name; parent = parentFromResource name
      in p_seq (p_require name ''message_bus.name'') (\<lambda>_.
         p_seq (p_authorize e ''UpdateMessageBus'' name) (\<lambda>_.
         if uq_ValidateOnly req
         then p_seq (p_query (GetMessageBus name)) (\<lambda>existing.
              p_done e parent (AnyMessageBus existing) ''update'' name)
         else p_seq (p_deref (uq_Resource req)) (\<lambda>mb.
              p_seq (p_catch (p_apply (UpdateMessageBus e mb (uq_UpdateMask req)))
                     (\<lambda>err. if uq_AllowMissing req \<and> isNotFound err
                            then p_apply (CreateMessageBus e parent (lastSegment name) mb)
                            else Ret (Err err))
                     (\<lambda>updated. Ret (Ok updated)))
                (\<lambda>updated. p_done e parent (AnyMessageBus updated) ''update'' name)))))"

definition DeleteMessageBus_prog ::
  "env \<Rightarrow> DeleteRequest \<Rightarrow> Operation prog" where
  "DeleteMessageBus_prog e req =
     (let name = dq_Name req; parent = parentFromResource name
      in p_seq (p_require name ''name'') (\<lambda>_.
         p_seq (p_authorize e ''DeleteMessageBus'' name) (\<lambda>_.
         if dq_ValidateOnly req
         then p_seq (p_query (GetMessageBus name)) (\<lambda>_. p_done e parent AnyEmpty ''delete'' name)
         else p_catch (p_query (GetMessageBus name))
           (\<lambda>err. if dq_AllowMissing req \<and> isNotFound err
                  then p_done e parent AnyEmpty ''delete'' name
                  else Ret (Err err))
           (\<lambda>existing.
              if dq_Etag req \<noteq> [] \<and> mb_Etag existing \<noteq> dq_Etag req
              then Ret (Err (etagMismatch (dq_Etag req) (mb_Etag existing)))
              else p_seq (p_apply (DeleteMessageBus name)) (\<lambda>_.
                   p_done e parent (AnyMessageBus existing) ''delete'' name)))))"

definition GetEnrollment_prog ::
  "env \<Rightarrow> GetRequest \<Rightarrow> Enrollment prog" where
  "GetEnrollment_prog e req =
     p_seq (p_require (gr_Name req) ''name'') (\<lambda>_.
     p_seq (p_authorize e ''GetEnrollment'' (gr_Name req)) (\<lambda>_.
     p_query (GetEnrollment (gr_Name req))))"

definition ListEnrollments_prog ::
  "env \<Rightarrow> ListRequest \<Rightarrow> (Enrollment list \<times> string) prog" where
  "ListEnrollments_prog e req =
     p_seq (p_require (lr_Parent req) ''parent'') (\<lambda>_.
     p_seq (p_authorize e ''ListEnrollments'' (lr_Parent req)) (\<lambda>_.
     p_query (ListEnrollments e (lr_Parent req) (lr_PageSize req) (lr_PageToken req)
       (lr_OrderBy req))))"

definition CreateEnrollment_prog ::
  "env \<Rightarrow> Enrollment CreateRequest \<Rightarrow> Operation prog" where
  "CreateEnrollment_prog e req =
     p_seq (p_require (cq_Parent req) ''parent'') (\<lambda>_.
     p_seq (p_require (cq_Id req) ''enrollment_id'') (\<lambda>_.
     p_seq (Ret (validateResourceID (cq_Id req) ''enrollment_id'')) (\<lambda>_.
     case cq_Resource req of
       None \<Rightarrow> Ret (Err (errorf InvalidArgument ''enrollment is required''))
     | Some en \<Rightarrow>
         if en_CelMatch en = [] then Ret (Err (errorf InvalidArgument ''enrollment.cel_match is required''))
         else
         p_seq (p_authorize e ''CreateEnrollment'' (cq_Parent req)) (\<lambda>_.
         if cq_ValidateOnly req
         then (let synthetic = en\<lparr>en_Name := cq_Parent req @ ''/enrollments/'' @ cq_Id req\<rparr>
               in p_done e (cq_Parent req) (AnyEnrollment synthetic) ''create'' (en_Name synthetic))
         else p_seq (p_apply (CreateEnrollment e (cq_Parent req) (cq_Id req) en)) (\<lambda>created.
              p_done e (cq_Parent req) (AnyEnrollment created) ''create'' (en_Name created))))))"

definition UpdateEnrollment_prog ::
  "env \<Rightarrow> Enrollment UpdateRequest \<Rightarrow> Operation prog" where
  "UpdateEnrollment_prog e req =
     (let name = nilsafe (uq_Resource req) en_Name; parent = parentFromResource name
      in p_seq (p_require name ''enrollment.name'') (\<lambda>_.
         p_seq (p_authorize e ''UpdateEnrollment'' name) (\<lambda>_.
         if uq_ValidateOnly req
         then p_seq (p_query (GetEnrollment name)) (\<lambda>existing.
              p_done e parent (AnyEnrollment existing) ''update'' name)
         else p_seq (p_deref (uq_Resource req)) (\<lambda>en.
              p_seq (p_catch (p_apply (UpdateEnrollment e en (uq_UpdateMask req)))
                     (\<lambda>err. if uq_AllowMissing req \<and> isNotFound err
                            then p_apply (CreateEnrollment e parent (lastSegment name) en)
                            else Ret (Err err))
                     (\<lambda>updated. Ret (Ok updated)))
                (\<lambda>updated. p_done e parent (AnyEnrollment updated) ''update'' name)))))"

definition DeleteEnrollment_prog ::
  "env \<Rightarrow> DeleteRequest \<Rightarrow> Operation prog" where
  "DeleteEnrollment_prog e req =
     (let name = dq_Name req; parent = parentFromResource name
      in p_seq (p_require name ''name'') (\<lambda>_.
         p_seq (p_authorize e ''DeleteEnrollment'' name) (\<lambda>_.
         if dq_ValidateOnly req
         then p_seq (p_query (GetEnrollment name)) (\<lambda>_. p_done e parent AnyEmpty ''delete'' name)
         else p_catch (p_query (GetEnrollment name))
           (\<lambda>err. if dq_AllowMissing req \<and> isNotFound err
                  then p_done e parent AnyEmpty ''delete'' name
                  else Ret (Err err))
           (\<lambda>existing.
              if dq_Etag req \<noteq> [] \<and> en_Etag existing \<noteq> dq_Etag req
              then Ret (Err (etagMismatch (dq_Etag req) (en_Etag existing)))
              else p_seq (p_apply (DeleteEnrollment name)) (\<lambda>_.
                   p_done e parent (AnyEnrollment existing) ''delete'' name)))))"

section \<open>Pipelines and Google API sources\<close>

definition GetPipeline_prog :: "env \<Rightarrow> GetRequest \<Rightarrow> Pipeline prog" where
  "GetPipeline_prog e req =
     p_seq (p_require (gr_Name req) ''name'') (\<lambda>_.
     p_seq (p_authorize e ''GetPipeline'' (gr_Name req)) (\<lambda>_.
     p_query (GetPipeline (gr_Name req))))"

definition ListPipelines_prog ::
  "env \<Rightarrow> ListRequest \<Rightarrow> (Pipeline list \<times> string) prog" where
  "ListPipelines_prog e req =
     p_seq (p_require (lr_Parent req) ''parent'') (\<lambda>_.
     p_seq (p_authorize e ''ListPipelines'' (lr_Parent req)) (\<lambda>_.
     p_query (ListPipelines e (lr_Parent req) (lr_PageSize req) (lr_PageToken req)
       (lr_OrderBy req))))"

definition CreatePipeline_prog ::
  "env \<Rightarrow> Pipeline CreateRequest \<Rightarrow> Operation prog" where
  "CreatePipeline_prog e req =
     p_seq (p_require (cq_Parent req) ''parent'') (\<lambda>_.
     p_seq (p_require (cq_Id req) ''pipeline_id'') (\<lambda>_.
     p_seq (Ret (validateResourceID (cq_Id req) ''pipeline_id'')) (\<lambda>_.
     case cq_Resource req of
       None \<Rightarrow> Ret (Err (errorf InvalidArgument ''pipeline is required''))
     | Some pl \<Rightarrow>
         if pl_Destinations pl = [] then Ret (Err (errorf InvalidArgument ''pipeline.destinations must not be empty''))
         else
         p_seq (p_authorize e ''CreatePipeline'' (cq_Parent req)) (\<lambda>_.
         if cq_ValidateOnly req
         then (let synthetic = pl\<lparr>pl_Name := cq_Parent req @ ''/pipelines/'' @ cq_Id req\<rparr>
               in p_done e (cq_Parent req) (AnyPipeline synthetic) ''create'' (pl_Name synthetic))
         else p_seq (p_apply (CreatePipeline e (cq_Parent req) (cq_Id req) pl)) (\<lambda>created.
              p_done e (cq_Parent req) (AnyPipeline created) ''create'' (pl_Name created))))))"

definition UpdatePipeline_prog ::
  "env \<Rightarrow> Pipeline UpdateRequest \<Rightarrow> Operation prog" where
  "UpdatePipeline_prog e req =
     (let name = nilsafe (uq_Resource req) pl_Name; parent = parentFromResource name
      in p_seq (p_require name ''pipeline.name'') (\<lambda>_.
         p_seq (p_authorize e ''UpdatePipeline'' name) (\<lambda>_.
         if uq_ValidateOnly req
         then p_seq (p_query (GetPipeline name)) (\<lambda>existing.
              p_done e parent (AnyPipeline existing) ''update'' name)
         else p_seq (p_deref (uq_Resource req)) (\<lambda>pl.
              p_seq (p_catch (p_apply (UpdatePipeline e pl (uq_UpdateMask req)))
                     (\<lambda>err. if uq_AllowMissing req \<and> isNotFound err
                            then p_apply (CreatePipeline e parent (lastSegment name) pl)
                            else Ret (Err err))
                     (\<lambda>updated. Ret (Ok updated)))
                (\<lambda>updated. p_done e parent (AnyPipeline updated) ''update'' name)))))"

definition DeletePipeline_prog ::
  "env \<Rightarrow> DeleteRequest \<Rightarrow> Operation prog" where
  "DeletePipeline_prog e req =
     (let name = dq_Name req; parent = parentFromResource name
      in p_seq (p_require name ''name'') (\<lambda>_.
         p_seq (p_authorize e ''DeletePipeline'' name) (\<lambda>_.
         if dq_ValidateOnly req
         then p_seq (p_query (GetPipeline name)) (\<lambda>_. p_done e parent AnyEmpty ''delete'' name)
         else p_catch (p_query (GetPipeline name))
           (\<lambda>err. if dq_AllowMissing req \<and> isNotFound err
                  then p_done e parent AnyEmpty ''delete'' name
                  else Ret (Err err))
           (\<lambda>existing.
              if dq_Etag req \<noteq> [] \<and> pl_Etag existing \<noteq> dq_Etag req
              then Ret (Err (etagMismatch (dq_Etag req) (pl_Etag existing)))
              else p_seq (p_apply (DeletePipeline name)) (\<lambda>_.
                   p_done e parent (AnyPipeline existing) ''delete'' name)))))"

definition GetGoogleApiSource_prog ::
  "env \<Rightarrow> GetRequest \<Rightarrow> GoogleApiSource prog" where
  "GetGoogleApiSource_prog e req =
     p_seq (p_require (gr_Name req) ''name'') (\<lambda>_.
     p_seq (p_authorize e ''GetGoogleApiSource'' (gr_Name req)) (\<lambda>_.
     p_query (GetGoogleApiSource (gr_Name req))))"

definition ListGoogleApiSources_prog ::
  "env \<Rightarrow> ListRequest \<Rightarrow> (GoogleApiSource list \<times> string) prog" where
  "ListGoogleApiSources_prog e req =
     p_seq (p_require (lr_Parent req) ''parent'') (\<lambda>_.
     p_seq (p_authorize e ''ListGoogleApiSources'' (lr_Parent req)) (\<lambda>_.
     p_query (ListGoogleApiSources e (lr_Parent req) (lr_PageSize req) (lr_PageToken req)
       (lr_OrderBy req))))"

definition CreateGoogleApiSource_prog ::
  "env \<Rightarrow> GoogleApiSource CreateRequest \<Rightarrow> Operation prog" where
  "CreateGoogleApiSource_prog e req =
     p_seq (p_require (cq_Parent req) ''parent'') (\<lambda>_.
     p_seq (p_require (cq_Id req) ''google_api_source_id'') (\<lambda>_.
     p_seq (Ret (validateResourceID (cq_Id req) ''google_api_source_id'')) (\<lambda>_.
     case cq_Resource req of
       None \<Rightarrow> Ret (Err (errorf InvalidArgument ''google_api_source is required''))
     | Some source \<Rightarrow>
         if gs_Destination source = [] then Ret (Err (errorf InvalidArgument ''google_api_source.destination is required''))
         else
         p_seq (p_authorize e ''CreateGoogleApiSource'' (cq_Parent req)) (\<lambda>_.
         if cq_ValidateOnly req
         then (let synthetic = source\<lparr>gs_Name := cq_Parent req @ ''/googleApiSources/'' @ cq_Id req\<rparr>
               in p_done e (cq_Parent req) (AnyGoogleApiSource synthetic) ''create'' (gs_Name synthetic))
         else p_seq (p_apply (CreateGoogleApiSource e (cq_Parent req) (cq_Id req) source)) (\<lambda>created.
              p_done e (cq_Parent req) (AnyGoogleApiSource created) ''create'' (gs_Name created))))))"

definition UpdateGoogleApiSource_prog ::
  "env \<Rightarrow> GoogleApiSource UpdateRequest \<Rightarrow> Operation prog" where
  "UpdateGoogleApiSource_prog e req =
     (let name = nilsafe (uq_Resource req) gs_Name; parent = parentFromResource name
      in p_seq (p_require name ''google_api_source.name'') (\<lambda>_.
         p_seq (p_authorize e ''UpdateGoogleApiSource'' name) (\<lambda>_.
         if uq_ValidateOnly req
         then p_seq (p_query (GetGoogleApiSource name)) (\<lambda>existing.
              p_done e parent (AnyGoogleApiSource existing) ''update'' name)
         else p_seq (p_deref (uq_Resource req)) (\<lambda>source.
              p_seq (p_catch (p_apply (UpdateGoogleApiSource e source (uq_UpdateMask req)))
                     (\<lambda>err. if uq_AllowMissing req \<and> isNotFound err
                            then p_apply (CreateGoogleApiSource e parent (lastSegment name) source)
                            else Ret (Err err))
                     (\<lambda>updated. Ret (Ok updated)))
                (\<lambda>updated. p_done e parent (AnyGoogleApiSource updated) ''update'' name)))))"

definition DeleteGoogleApiSource_prog ::
  "env \<Rightarrow> DeleteRequest \<Rightarrow> Operation prog" where
  "DeleteGoogleApiSource_prog e req =
     (let name = dq_Name req; parent = parentFromResource name
      in p_seq (p_require name ''name'') (\<lambda>_.
         p_seq (p_authorize e ''DeleteGoogleApiSource'' name) (\<lambda>_.
         if dq_ValidateOnly req
         then p_seq (p_query (GetGoogleApiSource name)) (\<lambda>_. p_done e parent AnyEmpty ''delete'' name)
         else p_catch (p_query (GetGoogleApiSource name))
           (\<lambda>err. if dq_AllowMissing req \<and> isNotFound err
                  then p_done e parent AnyEmpty ''delete'' name
                  else Ret (Err err))
           (\<lambda>existing.
              if dq_Etag req \<noteq> [] \<and> gs_Etag existing \<noteq> dq_Etag req
              then Ret (Err (etagMismatch (dq_Etag req) (gs_Etag existing)))
              else p_seq (p_apply (DeleteGoogleApiSource name)) (\<lambda>_.
                   p_done e parent (AnyGoogleApiSource existing) ''delete'' name)))))"

section \<open>Dispatch\<close>

fun handleTrigger_prog :: "env \<Rightarrow> Trigger rpc \<Rightarrow> Response prog" where
  "handleTrigger_prog e (GetRPC q) = p_answer TriggerResp (GetTrigger_prog e q)"
| "handleTrigger_prog e (ListRPC q) = p_answer (case_prod TriggersResp) (ListTriggers_prog e q)"
| "handleTrigger_prog e (CreateRPC q) = p_answer OperationResp (CreateTrigger_prog e q)"
| "handleTrigger_prog e (UpdateRPC q) = p_answer OperationResp (UpdateTrigger_prog e q)"
| "handleTrigger_prog e (DeleteRPC q) = p_answer OperationResp (DeleteTrigger_prog e q)"

fun handleChannel_prog :: "env \<Rightarrow> Channel rpc \<Rightarrow> Response prog" where
  "handleChannel_prog e (GetRPC q) = p_answer ChannelResp (GetChannel_prog e q)"
| "handleChannel_prog e (ListRPC q) = p_answer (case_prod ChannelsResp) (ListChannels_prog e q)"
| "handleChannel_prog e (CreateRPC q) = p_answer OperationResp (CreateChannel_prog e q)"
| "handleChannel_prog e (UpdateRPC q) = p_answer OperationResp (UpdateChannel_prog e q)"
| "handleChannel_prog e (DeleteRPC q) = p_answer OperationResp (DeleteChannel_prog e q)"

fun handleMessageBus_prog :: "env \<Rightarrow> MessageBus rpc \<Rightarrow> Response prog" where
  "handleMessageBus_prog e (GetRPC q) = p_answer MessageBusResp (GetMessageBus_prog e q)"
| "handleMessageBus_prog e (ListRPC q) =
     p_answer (case_prod MessageBusesResp) (ListMessageBuses_prog e q)"
| "handleMessageBus_prog e (CreateRPC q) = p_answer OperationResp (CreateMessageBus_prog e q)"
| "handleMessageBus_prog e (UpdateRPC q) = p_answer OperationResp (UpdateMessageBus_prog e q)"
| "handleMessageBus_prog e (DeleteRPC q) = p_answer OperationResp (DeleteMessageBus_prog e q)"

fun handleEnrollment_prog :: "env \<Rightarrow> Enrollment rpc \<Rightarrow> Response prog" where
  "handleEnrollment_prog e (GetRPC q) = p_answer EnrollmentResp (GetEnrollment_prog e q)"
| "handleEnrollment_prog e (ListRPC q) =
     p_answer (case_prod EnrollmentsResp) (ListEnrollments_prog e q)"
| "handleEnrollment_prog e (CreateRPC q) = p_answer OperationResp (CreateEnrollment_prog e q)"
| "handleEnrollment_prog e (UpdateRPC q) = p_answer OperationResp (UpdateEnrollment_prog e q)"
| "handleEnrollment_prog e (DeleteRPC q) = p_answer OperationResp (DeleteEnrollment_prog e q)"

fun handlePipeline_prog :: "env \<Rightarrow> Pipeline rpc \<Rightarrow> Response prog" where
  "handlePipeline_prog e (GetRPC q) = p_answer PipelineResp (GetPipeline_prog e q)"
| "handlePipeline_prog e (ListRPC q) =
     p_answer (case_prod PipelinesResp) (ListPipelines_prog e q)"
| "handlePipeline_prog e (CreateRPC q) = p_answer OperationResp (CreatePipeline_prog e q)"
| "handlePipeline_prog e (UpdateRPC q) = p_answer OperationResp (UpdatePipeline_prog e q)"
| "handlePipeline_prog e (DeleteRPC q) = p_answer OperationResp (DeletePipeline_prog e q)"

fun handleGoogleApiSource_prog :: "env \<Rightarrow> GoogleApiSource rpc \<Rightarrow> Response prog" where
  "handleGoogleApiSource_prog e (GetRPC q) =
     p_answer GoogleApiSourceResp (GetGoogleApiSource_prog e q)"
| "handleGoogleApiSource_prog e (ListRPC q) =
     p_answer (case_prod GoogleApiSourcesResp) (ListGoogleApiSources_prog e q)"
| "handleGoogleApiSource_prog e (CreateRPC q) =
     p_answer OperationResp (CreateGoogleApiSource_prog e q)"
| "handleGoogleApiSource_prog e (UpdateRPC q) =
     p_answer OperationResp (UpdateGoogleApiSource_prog e q)"
| "handleGoogleApiSource_prog e (DeleteRPC q) =
     p_answer OperationResp (DeleteGoogleApiSource_prog e q)"

fun handle_prog :: "env \<Rightarrow> Request \<Rightarrow> Response prog" where
  "handle_prog e (TriggerRPC q) = handleTrigger_prog e q"
| "handle_prog e (ChannelRPC q) = handleChannel_prog e q"
| "handle_prog e (MessageBusRPC q) = handleMessageBus_prog e q"
| "handle_prog e (EnrollmentRPC q) = handleEnrollment_prog e q"
| "handle_prog e (PipelineRPC q) = handlePipeline_prog e q"
| "handle_prog e (GoogleApiSourceRPC q) = handleGoogleApiSource_prog e q"
| "handle_prog e (GetProviderRPC q1) = p_answer ProviderResp (GetProvider_prog e q1)"
| "handle_prog e (ListProvidersRPC q2) =
     p_answer (case_prod ProvidersResp) (ListProviders_prog e q2)"
| "handle_prog e (GetChannelConnectionRPC q1) =
     p_answer ChannelConnectionResp (GetChannelConnection_prog e q1)"
| "handle_prog e (ListChannelConnectionsRPC q2) =
     p_answer (case_prod ChannelConnectionsResp) (ListChannelConnections_prog e q2)"
| "handle_prog e (CreateChannelConnectionRPC q3) =
     p_answer OperationResp (CreateChannelConnection_prog e q3)"
| "handle_prog e (DeleteChannelConnectionRPC q4) =
     p_answer OperationResp (DeleteChannelConnection_prog e q4)"
| "handle_prog e (GetGoogleChannelConfigRPC q1) =
     p_answer GoogleChannelConfigResp (GetGoogleChannelConfig_prog e q1)"
| "handle_prog e (UpdateGoogleChannelConfigRPC q5) =
     p_answer GoogleChannelConfigResp (UpdateGoogleChannelConfig_prog e q5)"
| "handle_prog e (ListMessageBusEnrollmentsRPC q2) =
     p_answer (case_prod EnrollmentNamesResp) (ListMessageBusEnrollments_prog e q2)"
| "handle_prog e (GetOperationRPC q1) =
     p_answer OperationResp (p_atomic (lro_query (GetOperation q1)))"
| "handle_prog e (ListOperationsRPC q1) =
     p_answer OperationsResp (p_atomic (lro_query (ListOperations e q1)))"
| "handle_prog e (DeleteOperationRPC q1) =
     p_answer (\<lambda>_. EmptyResp) (p_atomic (lro_op (DeleteOperation q1)))"
| "handle_prog e (CancelOperationRPC q1) =
     p_answer (\<lambda>_. EmptyResp) (p_atomic (lro_op (CancelOperation q1)))"
| "handle_prog e (WaitOperationRPC q1) =
     p_answer OperationResp (p_atomic (lro_query (WaitOperation q1)))"

section \<open>The programs alone are the handlers\<close>

lemmas prog_reads_defs = GetTrigger_prog_def ListTriggers_prog_def GetProvider_prog_def
  ListProviders_prog_def GetChannel_prog_def ListChannels_prog_def GetChannelConnection_prog_def
  ListChannelConnections_prog_def GetGoogleChannelConfig_prog_def GetMessageBus_prog_def
  ListMessageBuses_prog_def ListMessageBusEnrollments_prog_def GetEnrollment_prog_def
  ListEnrollments_prog_def GetPipeline_prog_def ListPipelines_prog_def GetGoogleApiSource_prog_def
  ListGoogleApiSources_prog_def

lemmas rpc_reads_defs = GetTrigger_rpc_def ListTriggers_rpc_def GetProvider_rpc_def
  ListProviders_rpc_def GetChannel_rpc_def ListChannels_rpc_def GetChannelConnection_rpc_def
  ListChannelConnections_rpc_def GetGoogleChannelConfig_rpc_def GetMessageBus_rpc_def
  ListMessageBuses_rpc_def ListMessageBusEnrollments_rpc_def GetEnrollment_rpc_def
  ListEnrollments_rpc_def GetPipeline_rpc_def ListPipelines_rpc_def GetGoogleApiSource_rpc_def
  ListGoogleApiSources_rpc_def

lemma exec_reads [exec_simps]:
  "exec (GetTrigger_prog e q0) = GetTrigger_rpc e q0"
  "exec (ListTriggers_prog e q1) = ListTriggers_rpc e q1"
  "exec (GetProvider_prog e q2) = GetProvider_rpc e q2"
  "exec (ListProviders_prog e q3) = ListProviders_rpc e q3"
  "exec (GetChannel_prog e q4) = GetChannel_rpc e q4"
  "exec (ListChannels_prog e q5) = ListChannels_rpc e q5"
  "exec (GetChannelConnection_prog e q6) = GetChannelConnection_rpc e q6"
  "exec (ListChannelConnections_prog e q7) = ListChannelConnections_rpc e q7"
  "exec (GetGoogleChannelConfig_prog e q8) = GetGoogleChannelConfig_rpc e q8"
  "exec (GetMessageBus_prog e q9) = GetMessageBus_rpc e q9"
  "exec (ListMessageBuses_prog e q10) = ListMessageBuses_rpc e q10"
  "exec (ListMessageBusEnrollments_prog e q11) = ListMessageBusEnrollments_rpc e q11"
  "exec (GetEnrollment_prog e q12) = GetEnrollment_rpc e q12"
  "exec (ListEnrollments_prog e q13) = ListEnrollments_rpc e q13"
  "exec (GetPipeline_prog e q14) = GetPipeline_rpc e q14"
  "exec (ListPipelines_prog e q15) = ListPipelines_rpc e q15"
  "exec (GetGoogleApiSource_prog e q16) = GetGoogleApiSource_rpc e q16"
  "exec (ListGoogleApiSources_prog e q17) = ListGoogleApiSources_rpc e q17"
  by (simp_all add: prog_reads_defs rpc_reads_defs exec_simps Let_def cong: if_cong option.case_cong list.case_cong)

lemmas prog_creates_defs = CreateTrigger_prog_def CreateChannel_prog_def
  CreateChannelConnection_prog_def CreateMessageBus_prog_def CreateEnrollment_prog_def
  CreatePipeline_prog_def CreateGoogleApiSource_prog_def

lemmas rpc_creates_defs = CreateTrigger_rpc_def CreateChannel_rpc_def
  CreateChannelConnection_rpc_def CreateMessageBus_rpc_def CreateEnrollment_rpc_def
  CreatePipeline_rpc_def CreateGoogleApiSource_rpc_def

lemma exec_creates [exec_simps]:
  "exec (CreateTrigger_prog e q0) = CreateTrigger_rpc e q0"
  "exec (CreateChannel_prog e q1) = CreateChannel_rpc e q1"
  "exec (CreateChannelConnection_prog e q2) = CreateChannelConnection_rpc e q2"
  "exec (CreateMessageBus_prog e q3) = CreateMessageBus_rpc e q3"
  "exec (CreateEnrollment_prog e q4) = CreateEnrollment_rpc e q4"
  "exec (CreatePipeline_prog e q5) = CreatePipeline_rpc e q5"
  "exec (CreateGoogleApiSource_prog e q6) = CreateGoogleApiSource_rpc e q6"
  by (simp_all add: prog_creates_defs rpc_creates_defs exec_simps Let_def cong: if_cong option.case_cong list.case_cong)

lemmas prog_updates_defs = UpdateTrigger_prog_def UpdateChannel_prog_def
  UpdateGoogleChannelConfig_prog_def UpdateMessageBus_prog_def UpdateEnrollment_prog_def
  UpdatePipeline_prog_def UpdateGoogleApiSource_prog_def

lemmas rpc_updates_defs = UpdateTrigger_rpc_def UpdateChannel_rpc_def
  UpdateGoogleChannelConfig_rpc_def UpdateMessageBus_rpc_def UpdateEnrollment_rpc_def
  UpdatePipeline_rpc_def UpdateGoogleApiSource_rpc_def

lemma exec_updates [exec_simps]:
  "exec (UpdateTrigger_prog e q0) = UpdateTrigger_rpc e q0"
  "exec (UpdateChannel_prog e q1) = UpdateChannel_rpc e q1"
  "exec (UpdateGoogleChannelConfig_prog e q2) = UpdateGoogleChannelConfig_rpc e q2"
  "exec (UpdateMessageBus_prog e q3) = UpdateMessageBus_rpc e q3"
  "exec (UpdateEnrollment_prog e q4) = UpdateEnrollment_rpc e q4"
  "exec (UpdatePipeline_prog e q5) = UpdatePipeline_rpc e q5"
  "exec (UpdateGoogleApiSource_prog e q6) = UpdateGoogleApiSource_rpc e q6"
  by (simp_all add: prog_updates_defs rpc_updates_defs exec_simps Let_def cong: if_cong option.case_cong list.case_cong)

lemmas prog_deletes_defs = DeleteTrigger_prog_def DeleteChannel_prog_def
  DeleteChannelConnection_prog_def DeleteMessageBus_prog_def DeleteEnrollment_prog_def
  DeletePipeline_prog_def DeleteGoogleApiSource_prog_def

lemmas rpc_deletes_defs = DeleteTrigger_rpc_def DeleteChannel_rpc_def
  DeleteChannelConnection_rpc_def DeleteMessageBus_rpc_def DeleteEnrollment_rpc_def
  DeletePipeline_rpc_def DeleteGoogleApiSource_rpc_def

lemma exec_deletes [exec_simps]:
  "exec (DeleteTrigger_prog e q0) = DeleteTrigger_rpc e q0"
  "exec (DeleteChannel_prog e q1) = DeleteChannel_rpc e q1"
  "exec (DeleteChannelConnection_prog e q2) = DeleteChannelConnection_rpc e q2"
  "exec (DeleteMessageBus_prog e q3) = DeleteMessageBus_rpc e q3"
  "exec (DeleteEnrollment_prog e q4) = DeleteEnrollment_rpc e q4"
  "exec (DeletePipeline_prog e q5) = DeletePipeline_rpc e q5"
  "exec (DeleteGoogleApiSource_prog e q6) = DeleteGoogleApiSource_rpc e q6"
  by (simp_all add: prog_deletes_defs rpc_deletes_defs exec_simps Let_def cong: if_cong option.case_cong list.case_cong)

lemma exec_families [exec_simps]:
  "exec (handleTrigger_prog e r0) = handleTrigger e r0"
  "exec (handleChannel_prog e r1) = handleChannel e r1"
  "exec (handleMessageBus_prog e r2) = handleMessageBus e r2"
  "exec (handleEnrollment_prog e r3) = handleEnrollment e r3"
  "exec (handlePipeline_prog e r4) = handlePipeline e r4"
  "exec (handleGoogleApiSource_prog e r5) = handleGoogleApiSource e r5"
  subgoal by (cases r0) (simp_all add: exec_simps)
  subgoal by (cases r1) (simp_all add: exec_simps)
  subgoal by (cases r2) (simp_all add: exec_simps)
  subgoal by (cases r3) (simp_all add: exec_simps)
  subgoal by (cases r4) (simp_all add: exec_simps)
  subgoal by (cases r5) (simp_all add: exec_simps)
  done

lemma exec_handle: "exec (handle_prog e q) = handle e q"
  by (cases q) (simp_all add: exec_simps)

end
