(* ===== verification/InterleaveProps.thy ===== *)
theory InterleaveProps
  imports InterleaveRpc ServerProps
begin

text \<open>
  What holds of every call under any interleaving: each of its steps keeps the invariant of the server,
  it does not panic, and it returns after at most four steps of its own.
\<close>

section \<open>The two sections of a config read\<close>

lemma storage_inv_init [storage_inv_rules]:
  "storage_inv s \<Longrightarrow> storage_inv (snd (initGoogleChannelConfig e n s))"
  by (auto simp: storage_inv_def initGoogleChannelConfig_def Let_def split: option.split)

lemma init_no_panic: "\<not> is_panic (fst (initGoogleChannelConfig e n s))"
  by (simp add: initGoogleChannelConfig_def Let_def split: option.split)

lemma keeps_config [keeps_rules]: "keeps server_inv (p_config e n)"
  unfolding p_config_def by (intro keeps_rules storage_inv_rules)

lemma calm_config [calm_rules]: "calm P (p_config e n)"
  unfolding p_config_def by (intro calm_rules) (simp_all add: init_no_panic)

section \<open>The invariant\<close>

lemma keeps_reads [keeps_rules]:
  "keeps server_inv (GetTrigger_prog e q0)"
  "keeps server_inv (ListTriggers_prog e q1)"
  "keeps server_inv (GetProvider_prog e q2)"
  "keeps server_inv (ListProviders_prog e q3)"
  "keeps server_inv (GetChannel_prog e q4)"
  "keeps server_inv (ListChannels_prog e q5)"
  "keeps server_inv (GetChannelConnection_prog e q6)"
  "keeps server_inv (ListChannelConnections_prog e q7)"
  "keeps server_inv (GetGoogleChannelConfig_prog e q8)"
  "keeps server_inv (GetMessageBus_prog e q9)"
  "keeps server_inv (ListMessageBuses_prog e q10)"
  "keeps server_inv (ListMessageBusEnrollments_prog e q11)"
  "keeps server_inv (GetEnrollment_prog e q12)"
  "keeps server_inv (ListEnrollments_prog e q13)"
  "keeps server_inv (GetPipeline_prog e q14)"
  "keeps server_inv (ListPipelines_prog e q15)"
  "keeps server_inv (GetGoogleApiSource_prog e q16)"
  "keeps server_inv (ListGoogleApiSources_prog e q17)"
  unfolding prog_reads_defs Let_def by (auto intro!: keeps_rules storage_inv_rules)

lemma keeps_creates [keeps_rules]:
  "keeps server_inv (CreateTrigger_prog e q0)"
  "keeps server_inv (CreateChannel_prog e q1)"
  "keeps server_inv (CreateChannelConnection_prog e q2)"
  "keeps server_inv (CreateMessageBus_prog e q3)"
  "keeps server_inv (CreateEnrollment_prog e q4)"
  "keeps server_inv (CreatePipeline_prog e q5)"
  "keeps server_inv (CreateGoogleApiSource_prog e q6)"
  unfolding prog_creates_defs Let_def by (auto intro!: keeps_rules storage_inv_rules)

lemma keeps_updates [keeps_rules]:
  "keeps server_inv (UpdateTrigger_prog e q0)"
  "keeps server_inv (UpdateChannel_prog e q1)"
  "keeps server_inv (UpdateGoogleChannelConfig_prog e q2)"
  "keeps server_inv (UpdateMessageBus_prog e q3)"
  "keeps server_inv (UpdateEnrollment_prog e q4)"
  "keeps server_inv (UpdatePipeline_prog e q5)"
  "keeps server_inv (UpdateGoogleApiSource_prog e q6)"
  unfolding prog_updates_defs Let_def by (auto intro!: keeps_rules storage_inv_rules)

lemma keeps_deletes [keeps_rules]:
  "keeps server_inv (DeleteTrigger_prog e q0)"
  "keeps server_inv (DeleteChannel_prog e q1)"
  "keeps server_inv (DeleteChannelConnection_prog e q2)"
  "keeps server_inv (DeleteMessageBus_prog e q3)"
  "keeps server_inv (DeleteEnrollment_prog e q4)"
  "keeps server_inv (DeletePipeline_prog e q5)"
  "keeps server_inv (DeleteGoogleApiSource_prog e q6)"
  unfolding prog_deletes_defs Let_def by (auto intro!: keeps_rules storage_inv_rules)

section \<open>No panic\<close>

lemma calm_gets [calm_rules]:
  "calm P (GetTrigger_prog e q0)"
  "calm P (GetProvider_prog e q1)"
  "calm P (GetChannel_prog e q2)"
  "calm P (GetChannelConnection_prog e q3)"
  "calm P (GetGoogleChannelConfig_prog e q4)"
  "calm P (GetMessageBus_prog e q5)"
  "calm P (GetEnrollment_prog e q6)"
  "calm P (GetPipeline_prog e q7)"
  "calm P (GetGoogleApiSource_prog e q8)"
  by (auto intro!: calm_rules simp: storage_no_panic prog_reads_defs)

lemma calm_lists [calm_rules]:
  assumes "iter_order (e_order e)"
  shows
  "calm (\<lambda>s. server_inv s \<and> small s) (ListTriggers_prog e q0)"
  "calm (\<lambda>s. server_inv s \<and> small s) (ListProviders_prog e q1)"
  "calm (\<lambda>s. server_inv s \<and> small s) (ListChannels_prog e q2)"
  "calm (\<lambda>s. server_inv s \<and> small s) (ListChannelConnections_prog e q3)"
  "calm (\<lambda>s. server_inv s \<and> small s) (ListMessageBuses_prog e q4)"
  "calm (\<lambda>s. server_inv s \<and> small s) (ListMessageBusEnrollments_prog e q5)"
  "calm (\<lambda>s. server_inv s \<and> small s) (ListEnrollments_prog e q6)"
  "calm (\<lambda>s. server_inv s \<and> small s) (ListPipelines_prog e q7)"
  "calm (\<lambda>s. server_inv s \<and> small s) (ListGoogleApiSources_prog e q8)"
  using assms unfolding prog_reads_defs
  by (auto intro!: calm_rules simp: lists_no_panic server_inv_def small_def Let_def)

lemma calm_creates [calm_rules]:
  "calm P (CreateTrigger_prog e q0)"
  "calm P (CreateChannel_prog e q1)"
  "calm P (CreateChannelConnection_prog e q2)"
  "calm P (CreateMessageBus_prog e q3)"
  "calm P (CreateEnrollment_prog e q4)"
  "calm P (CreatePipeline_prog e q5)"
  "calm P (CreateGoogleApiSource_prog e q6)"
  by (auto intro!: calm_rules simp: storage_no_panic triggerViolations_Nil prog_creates_defs Let_def
      split: list.split)

lemma calm_updates [calm_rules]:
  "calm P (UpdateTrigger_prog e q0)"
  "calm P (UpdateChannel_prog e q1)"
  "calm P (UpdateGoogleChannelConfig_prog e q2)"
  "calm P (UpdateMessageBus_prog e q3)"
  "calm P (UpdateEnrollment_prog e q4)"
  "calm P (UpdatePipeline_prog e q5)"
  "calm P (UpdateGoogleApiSource_prog e q6)"
  by (auto intro!: calm_rules simp: storage_no_panic prog_updates_defs Let_def)

lemma calm_deletes [calm_rules]:
  "calm P (DeleteTrigger_prog e q0)"
  "calm P (DeleteChannel_prog e q1)"
  "calm P (DeleteChannelConnection_prog e q2)"
  "calm P (DeleteMessageBus_prog e q3)"
  "calm P (DeleteEnrollment_prog e q4)"
  "calm P (DeletePipeline_prog e q5)"
  "calm P (DeleteGoogleApiSource_prog e q6)"
  by (auto intro!: calm_rules simp: storage_no_panic prog_deletes_defs Let_def)

section \<open>Steps\<close>

lemma within_reads [within_rules]:
  "within (GetTrigger_prog e q0) 4"
  "within (ListTriggers_prog e q1) 4"
  "within (GetProvider_prog e q2) 4"
  "within (ListProviders_prog e q3) 4"
  "within (GetChannel_prog e q4) 4"
  "within (ListChannels_prog e q5) 4"
  "within (GetChannelConnection_prog e q6) 4"
  "within (ListChannelConnections_prog e q7) 4"
  "within (GetGoogleChannelConfig_prog e q8) 4"
  "within (GetMessageBus_prog e q9) 4"
  "within (ListMessageBuses_prog e q10) 4"
  "within (ListMessageBusEnrollments_prog e q11) 4"
  "within (GetEnrollment_prog e q12) 4"
  "within (ListEnrollments_prog e q13) 4"
  "within (GetPipeline_prog e q14) 4"
  "within (ListPipelines_prog e q15) 4"
  "within (GetGoogleApiSource_prog e q16) 4"
  "within (ListGoogleApiSources_prog e q17) 4"
  unfolding prog_reads_defs part_defs Let_def by (intro within_rules; simp)+

lemma within_creates [within_rules]:
  "within (CreateTrigger_prog e q0) 4"
  "within (CreateChannel_prog e q1) 4"
  "within (CreateChannelConnection_prog e q2) 4"
  "within (CreateMessageBus_prog e q3) 4"
  "within (CreateEnrollment_prog e q4) 4"
  "within (CreatePipeline_prog e q5) 4"
  "within (CreateGoogleApiSource_prog e q6) 4"
  unfolding prog_creates_defs part_defs Let_def by (intro within_rules; simp)+

lemma within_updates [within_rules]:
  "within (UpdateTrigger_prog e q0) 4"
  "within (UpdateChannel_prog e q1) 4"
  "within (UpdateGoogleChannelConfig_prog e q2) 4"
  "within (UpdateMessageBus_prog e q3) 4"
  "within (UpdateEnrollment_prog e q4) 4"
  "within (UpdatePipeline_prog e q5) 4"
  "within (UpdateGoogleApiSource_prog e q6) 4"
  unfolding prog_updates_defs part_defs Let_def by (intro within_rules; simp)+

lemma within_deletes [within_rules]:
  "within (DeleteTrigger_prog e q0) 4"
  "within (DeleteChannel_prog e q1) 4"
  "within (DeleteChannelConnection_prog e q2) 4"
  "within (DeleteMessageBus_prog e q3) 4"
  "within (DeleteEnrollment_prog e q4) 4"
  "within (DeletePipeline_prog e q5) 4"
  "within (DeleteGoogleApiSource_prog e q6) 4"
  unfolding prog_deletes_defs part_defs Let_def by (intro within_rules; simp)+

section \<open>Every call\<close>

lemma keeps_lro [keeps_rules]:
  "keeps server_inv (p_atomic (lro_query f))"
  "keeps server_inv (p_atomic (lro_op (DeleteOperation q)))"
  "keeps server_inv (p_atomic (lro_op (CancelOperation q)))"
  using safe_lro(4,5) by (auto intro!: keeps_atomic dest: safeD(1) simp: lro_query_def)

lemma calm_lro [calm_rules]:
  "(\<And>st. \<not> is_panic (f st)) \<Longrightarrow> calm P (p_atomic (lro_query f))"
  "(\<And>st. \<not> is_panic (fst (g st))) \<Longrightarrow> calm P (p_atomic (lro_op g))"
  by (simp_all add: calm_atomic lro_query_def lro_op_def case_prod_unfold)

lemma keeps_families [keeps_rules]:
  "keeps server_inv (handleTrigger_prog e r0)"
  "keeps server_inv (handleChannel_prog e r1)"
  "keeps server_inv (handleMessageBus_prog e r2)"
  "keeps server_inv (handleEnrollment_prog e r3)"
  "keeps server_inv (handlePipeline_prog e r4)"
  "keeps server_inv (handleGoogleApiSource_prog e r5)"
  subgoal by (cases r0) (auto intro!: keeps_rules)
  subgoal by (cases r1) (auto intro!: keeps_rules)
  subgoal by (cases r2) (auto intro!: keeps_rules)
  subgoal by (cases r3) (auto intro!: keeps_rules)
  subgoal by (cases r4) (auto intro!: keeps_rules)
  subgoal by (cases r5) (auto intro!: keeps_rules)
  done

lemma keeps_handle: "keeps server_inv (handle_prog e q)"
  by (cases q) (auto intro!: keeps_rules)

lemma calm_families [calm_rules]:
  "iter_order (e_order e) \<Longrightarrow> calm (\<lambda>s. server_inv s \<and> small s) (handleTrigger_prog e r0)"
  "iter_order (e_order e) \<Longrightarrow> calm (\<lambda>s. server_inv s \<and> small s) (handleChannel_prog e r1)"
  "iter_order (e_order e) \<Longrightarrow> calm (\<lambda>s. server_inv s \<and> small s) (handleMessageBus_prog e r2)"
  "iter_order (e_order e) \<Longrightarrow> calm (\<lambda>s. server_inv s \<and> small s) (handleEnrollment_prog e r3)"
  "iter_order (e_order e) \<Longrightarrow> calm (\<lambda>s. server_inv s \<and> small s) (handlePipeline_prog e r4)"
  "iter_order (e_order e) \<Longrightarrow> calm (\<lambda>s. server_inv s \<and> small s) (handleGoogleApiSource_prog e r5)"
  subgoal by (cases r0) (auto intro!: calm_rules)
  subgoal by (cases r1) (auto intro!: calm_rules)
  subgoal by (cases r2) (auto intro!: calm_rules)
  subgoal by (cases r3) (auto intro!: calm_rules)
  subgoal by (cases r4) (auto intro!: calm_rules)
  subgoal by (cases r5) (auto intro!: calm_rules)
  done

lemma calm_handle: "iter_order (e_order e) \<Longrightarrow> calm (\<lambda>s. server_inv s \<and> small s) (handle_prog e q)"
  by (cases q) (auto intro!: calm_rules simp: lro_no_panic)

lemma within_families [within_rules]:
  "within (handleTrigger_prog e r0) 4"
  "within (handleChannel_prog e r1) 4"
  "within (handleMessageBus_prog e r2) 4"
  "within (handleEnrollment_prog e r3) 4"
  "within (handlePipeline_prog e r4) 4"
  "within (handleGoogleApiSource_prog e r5) 4"
  subgoal by (cases r0) (auto intro!: within_rules)
  subgoal by (cases r1) (auto intro!: within_rules)
  subgoal by (cases r2) (auto intro!: within_rules)
  subgoal by (cases r3) (auto intro!: within_rules)
  subgoal by (cases r4) (auto intro!: within_rules)
  subgoal by (cases r5) (auto intro!: within_rules)
  done

lemma within_handle: "within (handle_prog e q) 4"
  by (cases q) (auto intro!: within_rules)

end
