(* ===== verification/InterleaveRun.thy ===== *)
theory InterleaveRun
  imports InterleaveProps
begin

text \<open>
  Schedules of several calls: when each of them has returned, what it has returned if it ran alone, and
  which of several calls for the same name can succeed.
\<close>

definition programs :: "(env \<times> Request) list \<Rightarrow> Response threads" where
  "programs calls = map (\<lambda>(e, q). handle_prog e q) calls"

lemma programs_nth [simp]: "i < length calls \<Longrightarrow> programs calls ! i = (case calls ! i of (e, q) \<Rightarrow> handle_prog e q)"
  by (simp add: programs_def)

lemma length_programs [simp]: "length (programs calls) = length calls"
  by (simp add: programs_def)

section \<open>No panic\<close>

lemma run_schedule_calm:
  assumes "\<And>k. k < length sched \<Longrightarrow> P (fst (run_schedule (take k sched) (s, ts)))"
    and "\<forall>m \<in> set ts. calm P m"
  shows "\<forall>m \<in> set (snd (run_schedule sched (s, ts))). calm P m"
  using assms
proof (induction sched arbitrary: s ts)
  case (Cons i sched)
  obtain s' ts' where step: "thread_step i (s, ts) = (s', ts')" by (cases "thread_step i (s, ts)")
  have "P s" using Cons.prems(1) [of 0] by simp
  then have "\<forall>m \<in> set ts'. calm P m"
    using Cons.prems(2) step
    by (auto simp: thread_step_def split: if_splits prog.splits prod.splits
        dest!: set_update_subset_insert [THEN subsetD] dest: nth_mem) (metis calm.simps(2) comp_apply fst_conv fst_map_prod nth_mem)
  then show ?case
    using Cons.IH [of s' ts'] Cons.prems(1) [of "Suc _"] step by auto
qed simp

section \<open>Calls return\<close>

lemma thread_step_other: "i \<noteq> j \<Longrightarrow> snd (thread_step j c) ! i = snd c ! i"
  by (auto simp: thread_step_def split: prod.split prog.split)

lemma thread_step_length [simp]: "length (snd (thread_step i c)) = length (snd c)"
  by (auto simp: thread_step_def split: prod.split prog.split)

lemma run_schedule_returns:
  assumes "within (snd c ! i) n" and "n \<le> count_list sched i" and "i < length (snd c)"
  shows "\<exists>r. snd (run_schedule sched c) ! i = Ret r"
  using assms
proof (induction sched arbitrary: c n)
  case Nil
  then show ?case by (cases "snd c ! i") auto
next
  case (Cons j sched)
  show ?case
  proof (cases "j = i")
    case True
    have "within (snd (thread_step i c) ! i) (n - 1)"
      using Cons.prems by (cases c; cases "snd c ! i")
        (auto simp: thread_step_def split: prod.split, metis fst_conv)
    then show ?thesis
      using Cons.IH [of "thread_step i c" "n - 1"] Cons.prems(2,3) True by simp
  next
    case False
    then show ?thesis
      using Cons.IH [of "thread_step j c" n] Cons.prems thread_step_other [of i j c] by simp
  qed
qed

section \<open>One call after another\<close>

lemma run_schedule_alone:
  assumes "within (ts ! i) n" and "i < length ts"
  shows "run_schedule (replicate n i) (s, ts) =
    (case exec (ts ! i) s of (r, s') \<Rightarrow> (s', ts[i := Ret r]))"
  using assms
proof (induction n arbitrary: s ts)
  case 0
  then show ?case by (cases "ts ! i") (auto simp: give_def, metis list_update_id)
next
  case (Suc n)
  show ?case
  proof (cases "ts ! i")
    case (Ret r)
    have stay: "run_schedule (replicate k i) (s, ts) = (s, ts)" for k
      using Ret Suc.prems(2) by (induction k) (simp_all add: thread_step_def)
    show ?thesis
      unfolding stay Ret using Ret by (simp add: give_def) (metis list_update_id)
  next
    case (Step f)
    obtain p s' where f: "f s = (p, s')" by (cases "f s")
    have "within p n" using Suc.prems(1) Step f by (auto dest!: spec [of _ s])
    then show ?thesis
      using Suc.IH [of "ts[i := p]" s'] Suc.prems(2) Step f by (simp add: thread_step_def exec_Step)
  qed
qed

text \<open>The calls in their order, each to its end: the results and the last state.\<close>

fun in_turn :: "(env \<times> Request) list \<Rightarrow> Server \<Rightarrow> Response result list \<times> Server" where
  "in_turn [] s = ([], s)"
| "in_turn ((e, q) # calls) s =
     (case handle e q s of (r, s1) \<Rightarrow> (case in_turn calls s1 of (rs, s2) \<Rightarrow> (r # rs, s2)))"

lemma run_schedule_in_turn:
  "run_schedule (concat (map (replicate 4) [length old ..< length old + length calls]))
     (s, old @ programs calls) =
   (case in_turn calls s of (rs, s') \<Rightarrow> (s', old @ map Ret rs))"
proof (induction calls arbitrary: old s)
  case Nil
  then show ?case by (simp add: programs_def)
next
  case (Cons call calls)
  obtain e q where call: "call = (e, q)" by (cases call)
  obtain r s1 where r: "handle e q s = (r, s1)" by (cases "handle e q s")
  let ?ts = "old @ programs (call # calls)"
  have i: "?ts ! length old = handle_prog e q" by (simp add: programs_def call)
  have "run_schedule (replicate 4 (length old)) (s, ?ts) = (s1, ?ts[length old := Ret r])"
    using run_schedule_alone [of ?ts "length old" 4 s] within_handle [of e q]
    unfolding i exec_handle by (simp add: r)
  also have "?ts[length old := Ret r] = (old @ [Ret r]) @ programs calls"
    by (simp add: programs_def list_update_append)
  finally show ?case
    using Cons.IH [of "old @ [Ret r]" s1]
    by (simp add: upt_rec [of "length old"] run_schedule_append call r del: upt_Suc split: prod.split)
qed

section \<open>One winner\<close>

text \<open>
  \<open>contender N m\<close>: \<open>m\<close> returns a value only after a step of its own that has made \<open>N\<close> true. If nobody makes
  \<open>N\<close> false again, at most one of several contenders succeeds.
\<close>

primrec contender :: "(Server \<Rightarrow> bool) \<Rightarrow> 'a prog \<Rightarrow> bool" where
  "contender N (Ret r) \<longleftrightarrow> \<not> is_ok r"
| "contender N (Step f) \<longleftrightarrow>
     (\<forall>s. fst ((map_prod (contender N) id \<circ> f) s) \<or> (\<not> N s \<and> N (snd (f s))))"

lemma contender_seq:
  assumes "\<And>s a s'. m s = (Ok a, s') \<Longrightarrow> contender N (f a) \<or> (\<not> N s \<and> N s')"
  shows "contender N (p_seq (p_atomic m) f)"
  using assms by (auto simp: p_seq_def p_atomic_def split: prod.split result.split)

lemma contender_guard: "(\<And>a. contender N (f a)) \<Longrightarrow> contender N (p_seq (p_atomic m) f)"
  by (rule contender_seq) simp

lemma contender_seq_Ret: "(\<And>a. contender N (f a)) \<Longrightarrow> contender N (p_seq (Ret r) f)"
  by (cases r) (simp_all add: p_seq_def)

lemma contender_answer: "contender N m \<Longrightarrow> contender N (p_answer f m)"
proof (induction m)
  case (Ret r)
  then show ?case by (cases r) simp_all
next
  case (Step g)
  then show ?case by (simp add: fsts.simps) blast
qed

lemma one_winner:
  assumes "\<forall>m \<in> set ts. contender N m \<and> keeps N m"
    and "run_schedule sched (s, ts) = (s', ts')"
    and "i < length ts'" "ts' ! i = Ret (Ok a)" and "j < length ts'" "ts' ! j = Ret (Ok b)"
  shows "i = j"
proof -
  let ?Q = "\<lambda>(s, ts). (\<forall>m \<in> set ts. keeps N m) \<and>
    ((\<forall>m \<in> set ts. contender N m) \<or> (N s \<and> (\<exists>k. \<forall>l < length ts. l \<noteq> k \<longrightarrow> contender N (ts ! l))))"
  have "?Q (run_schedule sched (s, ts))"
  proof (rule run_schedule_induct)
    fix i s ts f p s'
    assume Q: "?Q (s, ts)" and i: "i < length ts" and f: "ts ! i = Step f" "f s = (p, s')"
    have "keeps N (Step f)" using Q i f(1) by (metis (no_types, lifting) case_prod_conv nth_mem)
    then have kp: "N s \<Longrightarrow> N s'" "keeps N p" using f(2) by (auto dest!: spec [of _ s])
    then have "\<forall>m \<in> set (ts[i := p]). keeps N m"
      using Q by (auto dest!: set_update_subset_insert [THEN subsetD])
    moreover have "(\<forall>m \<in> set (ts[i := p]). contender N m) \<or>
        (N s' \<and> (\<exists>k. \<forall>l < length ts. l \<noteq> k \<longrightarrow> contender N (ts[i := p] ! l)))"
    proof (cases "contender N (ts ! i)")
      case True
      then consider "contender N p" | "\<not> N s" "N s'" using f by (auto dest!: spec [of _ s])
      then show ?thesis
      proof cases
        case 1
        consider "\<forall>m \<in> set ts. contender N m" |
          k where "N s" "\<forall>l < length ts. l \<noteq> k \<longrightarrow> contender N (ts ! l)"
          using Q by auto
        then show ?thesis
        proof cases
          case 1
          with \<open>contender N p\<close> show ?thesis
            by (auto dest!: set_update_subset_insert [THEN subsetD])
        next
          case 2
          with \<open>contender N p\<close> have "\<forall>l < length ts. l \<noteq> k \<longrightarrow> contender N (ts[i := p] ! l)"
            using i by (simp add: nth_list_update)
          with kp(1) 2(1) show ?thesis by blast
        qed
      next
        case 2
        then have "\<forall>m \<in> set ts. contender N m" using Q by simp
        with 2 show ?thesis by (auto simp: nth_list_update intro!: exI [of _ i])
      qed
    next
      case False
      then have "N s" "\<exists>k. \<forall>l < length ts. l \<noteq> k \<longrightarrow> contender N (ts ! l)"
        using Q i nth_mem by auto
      then have "\<forall>l < length ts. l \<noteq> i \<longrightarrow> contender N (ts ! l)" using False i by metis
      with kp(1) \<open>N s\<close> show ?thesis by (auto simp: nth_list_update intro!: exI [of _ i])
    qed
    ultimately show "?Q (s', ts[i := p])" by simp
  qed (use assms in simp)
  then have "(\<forall>m \<in> set ts'. contender N m) \<or> (\<exists>k. \<forall>l < length ts'. l \<noteq> k \<longrightarrow> contender N (ts' ! l))"
    using assms(2) by auto
  then show ?thesis
    using assms(3-6) by (metis contender.simps(1) is_ok.simps(1) nth_mem)
qed

text \<open>A creation contends for its name, whatever table it is in.\<close>

context resource_api
begin

lemma contender_create:
  "contender (\<lambda>s. map_of (tab (storage s)) (p @ coll @ i) \<noteq> None) (p_seq (p_apply (create e p i r)) f)"
  unfolding p_apply_def
proof (rule contender_seq)
  fix s a s'
  assume "apply_op (create e p i r) s = (Ok a, s')"
  then have c: "create e p i r (storage s) = (Ok a, storage s')"
    by (auto simp: apply_op_def split: prod.splits)
  show "contender (\<lambda>s. map_of (tab (storage s)) (p @ coll @ i) \<noteq> None) (f a) \<or>
      (\<not> map_of (tab (storage s)) (p @ coll @ i) \<noteq> None \<and> map_of (tab (storage s')) (p @ coll @ i) \<noteq> None)"
    using create_Ok [OF c] by (simp add: map_simps)
qed

lemma keeps_taken_create:
  "keeps (\<lambda>s. map_of (tab (storage s)) n \<noteq> None) (p_apply (create e p i r))"
  unfolding p_apply_def
proof (rule keeps_atomic)
  fix s :: Server
  assume n: "map_of (tab (storage s)) n \<noteq> None"
  show "map_of (tab (storage (snd (apply_op (create e p i r) s)))) n \<noteq> None"
    using n create_taken [of "storage s" p i _ e r] create_free [of "storage s" p i e r]
    by (cases "map_of (tab (storage s)) (p @ coll @ i)")
      (auto simp: apply_op_def case_prod_unfold map_simps)
qed

end

lemma keeps_storage_done [keeps_rules]: "keeps (\<lambda>s. P (storage s)) (p_done e p a v t)"
  unfolding p_done_def by (rule keeps_atomic) simp

lemma create_trigger_contends:
  assumes "\<not> cq_ValidateOnly q"
  shows "contender (\<lambda>s. map_of (triggers (storage s)) (cq_Parent q @ ''/triggers/'' @ cq_Id q) \<noteq> None)
      (CreateTrigger_prog e q)"
proof (cases "triggerViolations q")
  case Nil
  show ?thesis
    unfolding CreateTrigger_prog_def p_authorize_def p_deref_def Nil list.case if_not_P [OF assms]
    by (intro contender_guard contender_seq_Ret trig_api.contender_create)
qed (simp add: CreateTrigger_prog_def)

lemma create_trigger_keeps:
  "keeps (\<lambda>s. map_of (triggers (storage s)) n \<noteq> None) (CreateTrigger_prog e q)"
  unfolding CreateTrigger_prog_def Let_def
  by (intro keeps_rules trig_api.keeps_taken_create)

end
