(* ===== verification/Wiring.thy ===== *)
theory Wiring
  imports RestGateway
begin

text \<open>
  How the parts are put together: register.go, internal/server/grpc.go, the constructors of the
  router, the dispatcher and the publisher, and the stop of the gateway.
\<close>

section \<open>Constructors\<close>

text \<open>The optional logger of a constructor: the first of a variadic argument, or none; either may be nil.\<close>

definition variadic :: "Logger option list \<Rightarrow> Logger option" where
  "variadic log = (case log of [] \<Rightarrow> None | l # ls \<Rightarrow> l)"

definition NewRouter ::
  "('c, 'a, 'p) cel \<Rightarrow> (string \<Rightarrow> Trigger list result) \<Rightarrow> Logger option list \<Rightarrow> matcher" where
  "NewRouter c listAll log = Match c (OrDefault (variadic log)) listAll"

text \<open>A dispatcher without a client makes one of its own; the client is part of the library's parameter.\<close>

definition NewDispatcher :: "http_lib \<Rightarrow> order \<Rightarrow> Logger option list \<Rightarrow> sender" where
  "NewDispatcher h ord log = Dispatch h ord (OrDefault (variadic log))"

record PublisherServer =
  pb_router :: matcher
  pb_dispatcher :: sender
  pb_channels :: "string \<Rightarrow> bool result"
  pb_logger :: Logger

definition NewPublisher ::
  "matcher \<Rightarrow> sender \<Rightarrow> (string \<Rightarrow> bool result) \<Rightarrow> Logger option list \<Rightarrow> PublisherServer" where
  "NewPublisher router dispatcher checker log =
     \<lparr>pb_router = router, pb_dispatcher = dispatcher, pb_channels = checker,
      pb_logger = OrDefault (variadic log)\<rparr>"

text \<open>A publication on the server's storage is the method of a publisher made from these parts.\<close>

lemma publishEvents_wired:
  "publishEvents lib c h lg ord e s q =
     (let log = [Some (OrDefault lg)];
          p = NewPublisher (NewRouter c (\<lambda>n. ListAllTriggers e n (storage s)) log) (NewDispatcher h ord log)
                (\<lambda>n. GetChannelExists n (storage s)) log
      in PublishEvents lib ord (pb_channels p) (pb_router p) (pb_dispatcher p) (pb_logger p) q)"
  by (simp add: publishEvents_def NewPublisher_def NewRouter_def NewDispatcher_def variadic_def OrDefault_def
      Let_def)

section \<open>Registration\<close>

record options =
  o_logger :: "Logger option"

definition WithLogger :: "Logger option \<Rightarrow> options \<Rightarrow> options" where
  "WithLogger l opts = opts\<lparr>o_logger := l\<rparr>"

text \<open>The server whose services are registered and the logger they share, or the error of \<open>NewServer\<close>.\<close>

definition Register ::
  "(string \<Rightarrow> bool) \<Rightarrow> (string \<Rightarrow> string option) \<Rightarrow> string \<Rightarrow> (options \<Rightarrow> options) list \<Rightarrow>
   (Server \<times> Logger) result" where
  "Register is_enabled connect mode opts =
     (let o1 = fold (\<lambda>opt. opt) opts \<lparr>o_logger = None\<rparr>;
          lgr = OrDefault (o_logger o1)
      in case NewServer is_enabled connect mode of
           Ok srv \<Rightarrow> Ok (srv, lgr)
         | Err x \<Rightarrow> Err x
         | Panic p \<Rightarrow> Panic p)"

lemma Register_reachable: "Register is_enabled connect mode opts = Ok (srv, lgr) \<Longrightarrow> reachable srv"
  by (auto simp: Register_def Let_def split: result.splits intro: reachable.start)

text \<open>The last option decides.\<close>

lemma Register_last: "Register is_enabled connect mode (opts @ [WithLogger l]) = Ok (srv, lgr) \<Longrightarrow>
    lgr = OrDefault l"
  by (auto simp: Register_def WithLogger_def Let_def split: result.splits)

section \<open>The debug interceptor\<close>

text \<open>
  \<open>NewGRPCServer\<close> intercepts every call when it is given a logger at debug level. The full name of a
  method is a constant of the generated service, and a parameter.
\<close>

definition interceptor :: "(Call \<Rightarrow> string) \<Rightarrow> Logger \<Rightarrow> World conn \<Rightarrow> World conn" where
  "interceptor fullMethod lgr handler call w =
     (case handler call w of
        (Err err, w') \<Rightarrow> (Err err, w'\<lparr>w_log := w_log w' @ Debug lgr
          ([Txt ''grpc: '', Txt (fullMethod call), Txt '' '', Txt [CHR 0xE2, CHR 0x86, CHR 0x92],
            Txt '' error: ''] @ err_Error err)\<rparr>)
      | (Ok resp, w') \<Rightarrow> (Ok resp, w'\<lparr>w_log := w_log w' @ Debug lgr
          [Txt ''grpc: '', Txt (fullMethod call), Txt '' '', Txt [CHR 0xE2, CHR 0x86, CHR 0x92],
           Txt '' ok'']\<rparr>)
      | (Panic p, w') \<Rightarrow> (Panic p, w'))"

definition NewGRPCServer :: "(Call \<Rightarrow> string) \<Rightarrow> Logger option list \<Rightarrow> World conn \<Rightarrow> World conn" where
  "NewGRPCServer fullMethod log handler =
     (case variadic log of
        Some lgr \<Rightarrow> (if IsDebug lgr then interceptor fullMethod lgr handler else handler)
      | None \<Rightarrow> handler)"

text \<open>A call through the server has the result of the handler, and differs from it in the log only.\<close>

lemma NewGRPCServer_transparent:
  assumes "NewGRPCServer fullMethod log handler call w = (r, w')"
  shows "\<exists>l. handler call w = (r, w'\<lparr>w_log := l\<rparr>)"
proof (cases "handler call w")
  case (Pair r1 w1)
  then show ?thesis
    using assms by (cases r1)
      (auto simp: NewGRPCServer_def interceptor_def split: option.splits if_splits intro: exI [of _ "w_log w1"])
qed

lemma NewGRPCServer_reachable:
  assumes "reachable (w_server w)" and "NewGRPCServer fullMethod log (serve lib c h lg ord e) call w = (r, w')"
  shows "reachable (w_server w')"
  using NewGRPCServer_transparent [OF assms(2)] serve_reachable [OF assms(1)] by fastforce

lemma NewGRPCServer_no_panic:
  assumes "reachable (w_server w)" and "small (w_server w)" and "iter_order (e_order e)"
  shows "\<not> is_panic (fst (NewGRPCServer fullMethod log (serve lib c h lg ord e) call w))"
proof -
  obtain r w' where run: "NewGRPCServer fullMethod log (serve lib c h lg ord e) call w = (r, w')"
    by (cases "NewGRPCServer fullMethod log (serve lib c h lg ord e) call w")
  from NewGRPCServer_transparent [OF run] serve_no_panic [OF assms, of lib c h lg ord call] run
  show ?thesis by auto
qed

section \<open>The life of the gateway\<close>

text \<open>
  A \<open>Gateway\<close> holds its connection and, once it is started, its HTTP server, here the address. What
  the libraries report is an argument: the dial, the three registrations and \<open>HandlePath\<close>.
\<close>

record Gateway =
  g_httpSrv :: "string option"
  g_conn :: bool

record gateway_lib =
  gl_NewClient :: "string \<Rightarrow> err option"
  gl_RegisterEventarc :: "err option"
  gl_RegisterPublisher :: "err option"
  gl_RegisterOperations :: "err option"
  gl_HandlePath :: "string \<Rightarrow> err option"

text \<open>The first error of a sequence of calls, each made only after the ones before it.\<close>

fun first_error :: "err option list \<Rightarrow> err option" where
  "first_error [] = None"
| "first_error (Some x # xs) = Some x"
| "first_error (None # xs) = first_error xs"

lemma first_error_None [simp]: "first_error xs = None \<longleftrightarrow> set xs \<subseteq> {None}"
  by (induction xs rule: first_error.induct) auto

text \<open>The gateway or the error, and whether a connection stays open.\<close>

definition New_Gateway :: "gateway_lib \<Rightarrow> string \<Rightarrow> Gateway result \<times> bool" where
  "New_Gateway lib grpcAddr =
     (case gl_NewClient lib grpcAddr of
        Some x \<Rightarrow> (Err x, False)
      | None \<Rightarrow>
          (case first_error [gl_RegisterEventarc lib, gl_RegisterPublisher lib, gl_RegisterOperations lib,
                  gl_HandlePath lib ''/healthz'', gl_HandlePath lib ''/readyz''] of
             Some x \<Rightarrow> (Err x, False)
           | None \<Rightarrow> (Ok \<lparr>g_httpSrv = None, g_conn = True\<rparr>, True)))"

text \<open>gateway.go at the root: the handler of a new gateway, to be mounted elsewhere.\<close>

definition NewGatewayHandler ::
  "gateway_lib \<Rightarrow> mux \<Rightarrow> runtimes \<Rightarrow> (string \<Rightarrow> 's conn) \<Rightarrow> string \<Rightarrow>
   (RestRequest \<Rightarrow> ('s, RestReply) op) result" where
  "NewGatewayHandler lib mx rts dial grpcAddr =
     map_result (\<lambda>gw. Handler mx rts (dial grpcAddr)) (fst (New_Gateway lib grpcAddr))"

definition Start :: "(string \<Rightarrow> err option) \<Rightarrow> string \<Rightarrow> Gateway \<Rightarrow> err option \<times> Gateway" where
  "Start listen httpAddr g =
     (case listen httpAddr of
        Some x \<Rightarrow> (Some x, g)
      | None \<Rightarrow> (None, g\<lparr>g_httpSrv := Some httpAddr\<rparr>))"

text \<open>
  \<open>Stop\<close>, given whether the HTTP server was started and what its shutdown and the close of the
  connection report: both are made, and the first error is returned.
\<close>

definition Stop :: "bool \<Rightarrow> err option \<Rightarrow> bool \<Rightarrow> err option \<Rightarrow> err option" where
  "Stop started shutdown_err connected close_err =
     (let httpErr = (if started then shutdown_err else None)
      in if connected \<and> close_err \<noteq> None \<and> httpErr = None then close_err else httpErr)"

lemma Stop_first:
  "Stop started shutdown_err connected close_err = None \<longleftrightarrow>
     (started \<longrightarrow> shutdown_err = None) \<and> (connected \<longrightarrow> close_err = None)"
  by (auto simp: Stop_def Let_def)

text \<open>A gateway that could not be made leaves no connection behind.\<close>

lemma New_Gateway_open: "snd (New_Gateway lib a) \<longleftrightarrow> is_ok (fst (New_Gateway lib a))"
  by (auto simp: New_Gateway_def simp del: first_error_None split: option.split)

end
