(* ===== verification/Programs.thy ===== *)
theory Programs
  imports Cmd Wiring
begin

text \<open>
  The three programs after their flags are parsed: cmd/server, cmd/server-dual and cmd/server-rest as
  goroutines that start, serve, and shut down on a signal, in any interleaving.
\<close>

section \<open>The texts\<close>

text \<open>
  A goroutine is the list of the calls it still makes. \<open>Serve\<close> is the call of \<open>grpc.Server.Serve\<close> and
  \<open>Served\<close> its return; the string of a call that can fail is what \<open>log.Fatalf\<close> says of its error.
\<close>

datatype task =
    Info_line msg
  | Print_line string
  | Listen_grpc string string
  | New_server string
  | IAM_line
  | Spawn "task list"
  | Addr_line string string
  | Close_ready
  | Serve string
  | Served string
  | Gateway_new string string
  | Gateway_start string string
  | Wait_ready
  | Notify
  | Wait_signal
  | Gateway_stop string
  | Graceful_stop

text \<open>
  Between the server and its goroutine the code makes the router, the dispatcher, the publisher and
  the gRPC server (\<open>Wiring\<close>), which touches nothing else. First the address of a port and the line
  about the bearer token.
\<close>

definition port_addr :: "string \<Rightarrow> goint \<Rightarrow> string" where
  "port_addr host p = host @ '':'' @ Itoa p"

definition token_line :: "(string \<Rightarrow> string) \<Rightarrow> task list" where
  "token_line env = (if env ''EVENTARC_EMULATOR_TOKEN'' \<noteq> []
     then [Info_line [Txt ''Bearer token injection: enabled'']] else [])"

definition triggers_line :: "goint \<Rightarrow> task" where
  "triggers_line p = Info_line [Txt (''REST: http://localhost:'' @ Itoa p @
     ''/v1/projects/my-project/locations/us-central1/triggers'')]"

definition bodyServer :: "(string \<Rightarrow> string) \<Rightarrow> string \<Rightarrow> goint \<Rightarrow> task list" where
  "bodyServer env logLevel listenPort =
     [Info_line [Txt (''GCP Eventarc Emulator v'' @ version)],
      Info_line [Txt (''Log level: '' @ logLevel)],
      Listen_grpc (port_addr [] listenPort) ''Failed to listen: '',
      New_server ''Failed to create server: '',
      IAM_line] @ token_line env @
     [Spawn [Addr_line ''gRPC server listening at '' [], Close_ready,
        Serve ''Failed to serve: '', Served ''Failed to serve: ''],
      Wait_ready,
      Info_line [Txt ''Ready to accept gRPC connections''],
      Info_line [Txt (''gRPC: localhost:'' @ Itoa listenPort)],
      Notify, Wait_signal,
      Print_line ''Shutting down server...'',
      Graceful_stop,
      Print_line ''Server stopped'']"

definition bodyDual :: "(string \<Rightarrow> string) \<Rightarrow> string \<Rightarrow> goint \<Rightarrow> goint \<Rightarrow> task list" where
  "bodyDual env logLevel grpcPort httpPort =
     [Info_line [Txt (''GCP Eventarc Emulator v'' @ version @ '' (gRPC + REST)'')],
      Info_line [Txt (''Log level: '' @ logLevel)],
      Listen_grpc (port_addr [] grpcPort) ''Failed to listen on gRPC port: '',
      New_server ''Failed to create server: '',
      IAM_line] @ token_line env @
     [Spawn [Addr_line ''gRPC server listening at '' [], Close_ready,
        Serve ''Failed to serve gRPC: '', Served ''Failed to serve gRPC: ''],
      Gateway_new (port_addr ''localhost'' grpcPort) ''Failed to create REST gateway: '',
      Spawn [Info_line [Txt (''HTTP gateway listening at '' @ port_addr [] httpPort)],
        Gateway_start (port_addr [] httpPort) ''Failed to serve HTTP: ''],
      Wait_ready,
      Info_line [Txt ''Ready to accept both gRPC and REST requests''],
      Info_line [Txt (''gRPC: localhost:'' @ Itoa grpcPort)],
      triggers_line httpPort,
      Notify, Wait_signal,
      Print_line ''Shutting down servers...'',
      Gateway_stop ''Error stopping HTTP gateway: '',
      Graceful_stop,
      Print_line ''Servers stopped'']"

definition bodyRest :: "(string \<Rightarrow> string) \<Rightarrow> string \<Rightarrow> goint \<Rightarrow> goint \<Rightarrow> task list" where
  "bodyRest env logLevel grpcPort httpPort =
     [Info_line [Txt (''GCP Eventarc Emulator v'' @ version @ '' (REST)'')],
      Info_line [Txt (''Log level: '' @ logLevel)],
      Info_line [Txt (''Starting gRPC backend on internal port '' @ Itoa grpcPort)],
      Info_line [Txt (''Starting HTTP gateway on port '' @ Itoa httpPort)],
      Listen_grpc (port_addr ''localhost'' grpcPort) ''Failed to listen on gRPC port: '',
      New_server ''Failed to create server: '',
      IAM_line] @ token_line env @
     [Spawn [Addr_line ''gRPC backend listening at '' '' (internal)'', Close_ready,
        Serve ''Failed to serve gRPC: '', Served ''Failed to serve gRPC: ''],
      Gateway_new (port_addr ''localhost'' grpcPort) ''Failed to create REST gateway: '',
      Spawn [Info_line [Txt (''HTTP gateway listening at '' @ port_addr [] httpPort)],
        Gateway_start (port_addr [] httpPort) ''Failed to serve HTTP: ''],
      Wait_ready,
      Info_line [Txt ''Ready to accept REST requests''],
      triggers_line httpPort,
      Notify, Wait_signal,
      Print_line ''Shutting down servers...'',
      Gateway_stop ''Error stopping HTTP gateway: '',
      Graceful_stop,
      Print_line ''Servers stopped'']"

section \<open>The process\<close>

text \<open>
  What the surroundings answer: listening on an address, the address a listener reports, the parts of
  \<open>NewServer\<close>, the error of \<open>Serve\<close> (given whether the server was stopped before the call), the
  gateway's libraries, the errors of its shutdown and of closing its connection, and whether the calls
  in flight at a graceful stop end.
\<close>

record host =
  ho_Listen :: "string \<Rightarrow> err option"
  ho_Addr :: "string \<Rightarrow> string"
  ho_IsEnabled :: "string \<Rightarrow> bool"
  ho_Connect :: "string \<Rightarrow> string option"
  ho_Mode :: string
  ho_Serve :: "bool \<Rightarrow> err option"
  ho_Gateway :: gateway_lib
  ho_Shutdown :: "err option"
  ho_Close :: "err option"
  ho_Drains :: bool

text \<open>A process ends with a status, or is killed by a signal it has not asked for.\<close>

datatype ending = ExitStatus int | Killed

record Process =
  ps_tasks :: "task list list"
  ps_lines :: "line list"
  ps_grpc :: "string option"
  ps_server :: "Server option"
  ps_gateway :: "Gateway option"
  ps_ready :: bool
  ps_stopped :: bool
  ps_notified :: bool
  ps_signalled :: bool
  ps_end :: "ending option"

definition print :: "log \<Rightarrow> Process \<Rightarrow> Process" where
  "print l p = p\<lparr>ps_lines := ps_lines p @ map Log l\<rparr>"

definition Fatalf :: "string \<Rightarrow> err \<Rightarrow> Process \<Rightarrow> Process" where
  "Fatalf m x p = (print [Txt m # err_Error x] p)\<lparr>ps_end := Some (ExitStatus 1)\<rparr>"

definition fatal_if :: "string \<Rightarrow> err option \<Rightarrow> Process \<Rightarrow> Process" where
  "fatal_if m r p = (case r of None \<Rightarrow> p | Some x \<Rightarrow> Fatalf m x p)"

text \<open>The call at the head of a goroutine, \<open>None\<close> while it blocks.\<close>

fun run_task :: "host \<Rightarrow> Logger \<Rightarrow> task \<Rightarrow> Process \<Rightarrow> Process option" where
  "run_task h lgr (Info_line m) p = Some (print (Info lgr m) p)"
| "run_task h lgr (Print_line m) p = Some (print [[Txt m]] p)"
| "run_task h lgr (Listen_grpc a m) p =
     Some (fatal_if m (ho_Listen h a) (p\<lparr>ps_grpc := (if ho_Listen h a = None then Some a else None)\<rparr>))"
| "run_task h lgr (New_server m) p =
     (case NewServer (ho_IsEnabled h) (ho_Connect h) (ho_Mode h) of
        Ok srv \<Rightarrow> Some (p\<lparr>ps_server := Some srv\<rparr>)
      | Err x \<Rightarrow> Some (Fatalf m x p)
      | Panic w \<Rightarrow> None)"
| "run_task h lgr IAM_line p =
     (case ps_server p of
        Some srv \<Rightarrow> Some (print (Info lgr [Txt (''IAM mode: '' @ IAMMode srv)]) p)
      | None \<Rightarrow> None)"
| "run_task h lgr (Spawn ts) p = Some (p\<lparr>ps_tasks := ps_tasks p @ [ts]\<rparr>)"
| "run_task h lgr (Addr_line m n) p =
     (case ps_grpc p of
        Some a \<Rightarrow> Some (print (Info lgr [Txt (m @ ho_Addr h a @ n)]) p)
      | None \<Rightarrow> None)"
| "run_task h lgr Close_ready p = Some (p\<lparr>ps_ready := True\<rparr>)"
| "run_task h lgr (Serve m) p =
     Some (if ps_stopped p then fatal_if m (ho_Serve h True) p else p)"
| "run_task h lgr (Served m) p =
     (if ps_stopped p then Some p
      else case ho_Serve h False of None \<Rightarrow> None | Some x \<Rightarrow> Some (Fatalf m x p))"
| "run_task h lgr (Gateway_new a m) p =
     (case fst (New_Gateway (ho_Gateway h) a) of
        Ok g \<Rightarrow> Some (p\<lparr>ps_gateway := Some g\<rparr>)
      | Err x \<Rightarrow> Some (Fatalf m x p)
      | Panic w \<Rightarrow> None)"
| "run_task h lgr (Gateway_start a m) p =
     (case ps_gateway p of
        None \<Rightarrow> None
      | Some g \<Rightarrow> (case Start (ho_Listen h) a g of (r, g') \<Rightarrow>
          Some (fatal_if m r (p\<lparr>ps_gateway := Some g'\<rparr>))))"
| "run_task h lgr Wait_ready p = (if ps_ready p then Some p else None)"
| "run_task h lgr Notify p = Some (p\<lparr>ps_notified := True\<rparr>)"
| "run_task h lgr Wait_signal p = (if ps_signalled p then Some p else None)"
| "run_task h lgr (Gateway_stop m) p =
     (case ps_gateway p of
        None \<Rightarrow> None
      | Some g \<Rightarrow> Some (print (case Stop (g_httpSrv g \<noteq> None) (ho_Shutdown h) (g_conn g) (ho_Close h) of
            None \<Rightarrow> [] | Some x \<Rightarrow> [Txt m # err_Error x])
          (p\<lparr>ps_gateway := Some \<lparr>g_httpSrv = None, g_conn = False\<rparr>\<rparr>)))"
| "run_task h lgr Graceful_stop p =
     (if ho_Drains h then Some (p\<lparr>ps_stopped := True\<rparr>) else None)"

text \<open>
  A goroutine makes its call; \<open>main\<close> returns, which ends the process; or a signal arrives. The labels
  of a run are the calls that were made, each with the number of its goroutine.
\<close>

definition take_task :: "host \<Rightarrow> Logger \<Rightarrow> nat \<Rightarrow> Process \<Rightarrow> (task \<times> Process) option" where
  "take_task h lgr i p =
     (if ps_end p = None \<and> i < length (ps_tasks p)
      then (case ps_tasks p ! i of
              [] \<Rightarrow> None
            | t # ts \<Rightarrow> map_option (Pair t) (run_task h lgr t (p\<lparr>ps_tasks := (ps_tasks p)[i := ts]\<rparr>)))
      else None)"

definition receive :: "Process \<Rightarrow> Process" where
  "receive p = (if ps_notified p then p\<lparr>ps_signalled := True\<rparr> else p\<lparr>ps_end := Some Killed\<rparr>)"

inductive runs :: "host \<Rightarrow> Logger \<Rightarrow> Process \<Rightarrow> (nat \<times> task) list \<Rightarrow> Process \<Rightarrow> bool"
  for h :: host and lgr :: Logger and p :: Process where
  stay: "runs h lgr p [] p"
| call: "runs h lgr p tr q \<Longrightarrow> take_task h lgr i q = Some (t, q') \<Longrightarrow> runs h lgr p (tr @ [(i, t)]) q'"
| return: "runs h lgr p tr q \<Longrightarrow> ps_end q = None \<Longrightarrow> ps_tasks q ! 0 = [] \<Longrightarrow>
    runs h lgr p tr (q\<lparr>ps_end := Some (ExitStatus 0)\<rparr>)"
| signal: "runs h lgr p tr q \<Longrightarrow> ps_end q = None \<Longrightarrow> \<not> ps_signalled q \<Longrightarrow> runs h lgr p tr (receive q)"

section \<open>The programs\<close>

datatype program = Cmd_server | Cmd_server_dual | Cmd_server_rest

fun body_of :: "program \<Rightarrow> (string \<Rightarrow> string) \<Rightarrow> Startup \<Rightarrow> task list" where
  "body_of Cmd_server env (Listen p l) = bodyServer env l p"
| "body_of Cmd_server_dual env (ListenBoth g h l) = bodyDual env l g h"
| "body_of Cmd_server_rest env (ListenBoth g h l) = bodyRest env l g h"
| "body_of k env r = []"

fun level_of :: "Startup \<Rightarrow> string" where
  "level_of (Exit n) = []"
| "level_of (Listen p l) = l"
| "level_of (ListenBoth g h l) = l"

fun ended :: "Startup \<Rightarrow> ending option" where
  "ended (Exit n) = Some (ExitStatus n)"
| "ended (Listen p l) = None"
| "ended (ListenBoth g h l) = None"

fun start_program :: "program \<Rightarrow> (string \<Rightarrow> string) \<Rightarrow> string list \<Rightarrow> line list \<times> Startup" where
  "start_program Cmd_server env args = startServer env args"
| "start_program Cmd_server_dual env args = startDual env args"
| "start_program Cmd_server_rest env args = startRest env args"

definition process :: "line list \<Rightarrow> task list \<Rightarrow> ending option \<Rightarrow> Process" where
  "process ls ts e = \<lparr>ps_tasks = [ts], ps_lines = ls, ps_grpc = None, ps_server = None,
     ps_gateway = None, ps_ready = False, ps_stopped = False, ps_notified = False,
     ps_signalled = False, ps_end = e\<rparr>"

text \<open>A run of a program, from its start with an environment and arguments.\<close>

definition program_runs :: "host \<Rightarrow> program \<Rightarrow> (string \<Rightarrow> string) \<Rightarrow> string list \<Rightarrow>
    (nat \<times> task) list \<Rightarrow> Process \<Rightarrow> bool" where
  "program_runs h k env args tr q =
     (case start_program k env args of (ls, r) \<Rightarrow>
        runs h (New (level_of r)) (process ls (body_of k env r) (ended r)) tr q)"

section \<open>Runs\<close>

text \<open>The calls a goroutine has made, and the goroutines a list of calls starts.\<close>

definition proj :: "nat \<Rightarrow> (nat \<times> task) list \<Rightarrow> task list" where
  "proj i tr = map snd (filter (\<lambda>x. fst x = i) tr)"

fun spawns :: "task list \<Rightarrow> task list list" where
  "spawns [] = []"
| "spawns (Spawn us # ts) = us # spawns ts"
| "spawns (t # ts) = spawns ts"

lemma proj_append [simp]:
  "proj i (tr @ [(j, t)]) = proj i tr @ (if i = j then [t] else [])" "proj i [] = []"
  by (simp_all add: proj_def)

lemma proj_mem: "(i, t) \<in> set tr \<longleftrightarrow> t \<in> set (proj i tr)"
  by (force simp: proj_def)

lemma spawns_append [simp]: "spawns (xs @ ys) = spawns xs @ spawns ys"
  by (induction xs rule: spawns.induct) auto

definition flat :: "task list \<Rightarrow> bool" where
  "flat ts \<longleftrightarrow> list_all (\<lambda>us. spawns us = []) (spawns ts)"

lemma print_simps [simp]:
  "ps_tasks (print l p) = ps_tasks p" "ps_end (print l p) = ps_end p" "ps_ready (print l p) = ps_ready p"
  "ps_stopped (print l p) = ps_stopped p" "ps_notified (print l p) = ps_notified p"
  "ps_signalled (print l p) = ps_signalled p" "ps_grpc (print l p) = ps_grpc p"
  "ps_server (print l p) = ps_server p" "ps_gateway (print l p) = ps_gateway p"
  "ps_lines (print l p) = ps_lines p @ map Log l"
  by (simp_all add: print_def)

lemma Fatalf_simps [simp]:
  "ps_tasks (Fatalf m x p) = ps_tasks p" "ps_end (Fatalf m x p) = Some (ExitStatus 1)"
  "ps_ready (Fatalf m x p) = ps_ready p"
  "ps_stopped (Fatalf m x p) = ps_stopped p" "ps_notified (Fatalf m x p) = ps_notified p"
  "ps_signalled (Fatalf m x p) = ps_signalled p" "ps_grpc (Fatalf m x p) = ps_grpc p"
  "ps_server (Fatalf m x p) = ps_server p" "ps_gateway (Fatalf m x p) = ps_gateway p"
  "ps_lines (Fatalf m x p) = ps_lines p @ [Log (Txt m # err_Error x)]"
  by (simp_all add: Fatalf_def)

lemma fatal_if_simps [simp]:
  "ps_tasks (fatal_if m r p) = ps_tasks p" "ps_ready (fatal_if m r p) = ps_ready p"
  "ps_stopped (fatal_if m r p) = ps_stopped p" "ps_notified (fatal_if m r p) = ps_notified p"
  "ps_signalled (fatal_if m r p) = ps_signalled p" "ps_grpc (fatal_if m r p) = ps_grpc p"
  "ps_server (fatal_if m r p) = ps_server p" "ps_gateway (fatal_if m r p) = ps_gateway p"
  "fatal_if m None p = p"
  by (simp_all add: fatal_if_def split: option.split)

lemma receive_simps [simp]:
  "ps_tasks (receive p) = ps_tasks p" "ps_ready (receive p) = ps_ready p"
  "ps_stopped (receive p) = ps_stopped p" "ps_notified (receive p) = ps_notified p"
  "ps_grpc (receive p) = ps_grpc p" "ps_server (receive p) = ps_server p"
  "ps_gateway (receive p) = ps_gateway p" "ps_lines (receive p) = ps_lines p"
  by (simp_all add: receive_def)

text \<open>What one call does to the parts of a process.\<close>

lemma run_task_frame:
  assumes "run_task h lgr t p = Some q"
  shows "ps_tasks q = ps_tasks p @ spawns [t]"
    and "ps_ready q \<longleftrightarrow> ps_ready p \<or> t = Close_ready"
    and "ps_stopped q \<longleftrightarrow> ps_stopped p \<or> t = Graceful_stop"
    and "ps_notified q \<longleftrightarrow> ps_notified p \<or> t = Notify"
    and "ps_signalled q = ps_signalled p"
  using assms
  by (cases t; auto split: option.splits result.splits if_splits prod.splits)+

text \<open>A call, taken apart.\<close>

lemma take_taskE:
  assumes "take_task h lgr i q = Some (t, q')"
  obtains ts where "ps_end q = None" "i < length (ps_tasks q)" "ps_tasks q ! i = t # ts"
    "run_task h lgr t (q\<lparr>ps_tasks := (ps_tasks q)[i := ts]\<rparr>) = Some q'"
  using assms by (auto simp: take_task_def split: if_splits list.splits)

lemma take_task_frame:
  assumes "take_task h lgr i q = Some (t, q')"
  shows "ps_ready q' \<longleftrightarrow> ps_ready q \<or> t = Close_ready"
    and "ps_stopped q' \<longleftrightarrow> ps_stopped q \<or> t = Graceful_stop"
    and "ps_notified q' \<longleftrightarrow> ps_notified q \<or> t = Notify"
    and "ps_signalled q' = ps_signalled q"
proof -
  from assms obtain ts where
    r: "run_task h lgr t (q\<lparr>ps_tasks := (ps_tasks q)[i := ts]\<rparr>) = Some q'" by (rule take_taskE)
  note frame = run_task_frame [OF r]
  show "ps_ready q' \<longleftrightarrow> ps_ready q \<or> t = Close_ready" using frame(2) by simp
  show "ps_stopped q' \<longleftrightarrow> ps_stopped q \<or> t = Graceful_stop" using frame(3) by simp
  show "ps_notified q' \<longleftrightarrow> ps_notified q \<or> t = Notify" using frame(4) by simp
  show "ps_signalled q' = ps_signalled q" using frame(5) by simp
qed

text \<open>Each goroutine has made a part of its text, and what is left is the rest of it.\<close>

lemma runs_split:
  assumes "runs h lgr (process ls ts e) tr q" and "flat ts"
  shows "length (ps_tasks q) = Suc (length (spawns (proj 0 tr))) \<and>
    (\<forall>i < length (ps_tasks q). proj i tr @ ps_tasks q ! i = (ts # spawns ts) ! i) \<and>
    (\<forall>i \<ge> length (ps_tasks q). proj i tr = [])"
  using assms(1)
proof induction
  case stay
  then show ?case by (simp add: process_def)
next
  case (call tr q i t q')
  from call.hyps(2) obtain us where us: "ps_end q = None" "i < length (ps_tasks q)" "ps_tasks q ! i = t # us"
    and r: "run_task h lgr t (q\<lparr>ps_tasks := (ps_tasks q)[i := us]\<rparr>) = Some q'" by (rule take_taskE)
  have tasks: "ps_tasks q' = (ps_tasks q)[i := us] @ spawns [t]"
    using run_task_frame(1) [OF r] by simp
  have old: "proj j tr @ ps_tasks q ! j = (ts # spawns ts) ! j" if "j < length (ps_tasks q)" for j
    using call.IH that by blast
  show ?case
  proof (cases i)
    case 0
    have main: "proj 0 tr @ t # us = ts" using old [of 0] us(2,3) 0 by simp
    have sp: "spawns ts = spawns (proj 0 tr) @ spawns [t] @ spawns us"
      using arg_cong [OF main, of spawns] by (cases t) (simp_all del: append_assoc)
    have le: "length (spawns [t]) \<le> 1" by (cases t) simp_all
    have "proj j (tr @ [(i, t)]) @ ps_tasks q' ! j = (ts # spawns ts) ! j" if "j < length (ps_tasks q')" for j
    proof (cases "j < length (ps_tasks q)")
      case True
      then show ?thesis using old [OF True] main tasks 0 by (cases j) (auto simp: nth_append)
    next
      case False
      then have "j = length (ps_tasks q)" "spawns [t] \<noteq> []" using that tasks le by auto
      then show ?thesis using tasks call.IH sp 0 le by (cases "spawns [t]") (auto simp: nth_append)
    qed
    then show ?thesis using tasks call.IH 0 us(2) by (cases t) auto
  next
    case (Suc k)
    then have "proj i tr @ t # us \<in> set (spawns ts)"
    proof -
      have "i < Suc (length (spawns ts))"
      proof -
        have "proj 0 tr @ ps_tasks q ! 0 = ts" using old [of 0] us(2) by force
        then have "length (spawns (proj 0 tr)) + length (spawns (ps_tasks q ! 0)) = length (spawns ts)"
          by (metis length_append spawns_append)
        then show ?thesis using call.IH us(2) by linarith
      qed
      then show ?thesis using old [OF us(2)] us(3) Suc by simp
    qed
    then have "spawns (proj i tr @ t # us) = []"
      using assms(2) by (auto simp: flat_def list_all_iff)
    then have "spawns [t] = []" by (cases t) auto
    moreover have "proj j (tr @ [(i, t)]) @ ps_tasks q' ! j = (ts # spawns ts) ! j"
      if "j < length (ps_tasks q')" for j
      using that old [of j] us tasks \<open>spawns [t] = []\<close> by (cases "i = j") auto
    ultimately show ?thesis using tasks call.IH Suc us(2) by auto
  qed
qed simp_all

text \<open>The state follows from the calls that were made.\<close>

abbreviation made :: "task \<Rightarrow> (nat \<times> task) list \<Rightarrow> bool" where
  "made t tr \<equiv> t \<in> snd ` set tr"

lemma made_snoc: "made t (tr @ [(i, t')]) \<longleftrightarrow> made t tr \<or> t = t'"
  by auto

lemma runs_flags:
  assumes "runs h lgr (process ls ts e) tr q"
  shows "(ps_ready q \<longleftrightarrow> made Close_ready tr) \<and> (ps_stopped q \<longleftrightarrow> made Graceful_stop tr) \<and>
    (ps_notified q \<longleftrightarrow> made Notify tr) \<and> (ps_signalled q \<longrightarrow> ps_notified q)"
  using assms
proof induction
  case (call tr q i t q')
  then show ?case using take_task_frame [OF call.hyps(2)] by auto
qed (auto simp: process_def receive_def)

lemma runs_waited:
  assumes "runs h lgr (process ls ts e) tr q"
  shows "(made Wait_ready tr \<longrightarrow> ps_ready q) \<and> (made Wait_signal tr \<longrightarrow> ps_signalled q)"
  using assms
proof induction
  case (call tr q i t q')
  then have "t = Wait_ready \<Longrightarrow> ps_ready q" "t = Wait_signal \<Longrightarrow> ps_signalled q"
    by (auto elim!: take_taskE split: if_splits)
  then show ?case using take_task_frame [OF call.hyps(2)] call.IH by auto
qed (auto simp: process_def receive_def)

text \<open>What a call has produced, unless it has ended the process.\<close>

definition failed :: "Process \<Rightarrow> bool" where
  "failed q \<longleftrightarrow> ps_end q = Some (ExitStatus 1)"

lemma run_task_results:
  assumes "run_task h lgr t p = Some q" and "\<not> failed q"
  shows "ps_grpc q \<noteq> None \<longleftrightarrow> ps_grpc p \<noteq> None \<or> (\<exists>a m. t = Listen_grpc a m)"
    and "ps_server q \<noteq> None \<longleftrightarrow> ps_server p \<noteq> None \<or> (\<exists>m. t = New_server m)"
    and "ps_gateway q \<noteq> None \<longleftrightarrow> ps_gateway p \<noteq> None \<or> (\<exists>a m. t = Gateway_new a m)"
  using assms
  by (cases t; auto simp: failed_def fatal_if_def split: option.splits result.splits if_splits prod.splits)+

lemma runs_results:
  assumes "runs h lgr (process ls ts e) tr q" and "\<not> failed q"
  shows "(ps_grpc q \<noteq> None \<longleftrightarrow> (\<exists>a m. made (Listen_grpc a m) tr)) \<and>
    (ps_server q \<noteq> None \<longleftrightarrow> (\<exists>m. made (New_server m) tr)) \<and>
    (ps_gateway q \<noteq> None \<longleftrightarrow> (\<exists>a m. made (Gateway_new a m) tr))"
  using assms
proof induction
  case (call tr q i t q')
  obtain us where us: "ps_end q = None"
    and r: "run_task h lgr t (q\<lparr>ps_tasks := (ps_tasks q)[i := us]\<rparr>) = Some q'"
    using call.hyps(2) by (rule take_taskE)
  have "\<not> failed q" using us by (simp add: failed_def)
  note old = call.IH [OF this]
  have "ps_grpc q' \<noteq> None \<longleftrightarrow> ps_grpc q \<noteq> None \<or> (\<exists>a m. Listen_grpc a m = t)"
    "ps_server q' \<noteq> None \<longleftrightarrow> ps_server q \<noteq> None \<or> (\<exists>m. New_server m = t)"
    "ps_gateway q' \<noteq> None \<longleftrightarrow> ps_gateway q \<noteq> None \<or> (\<exists>a m. Gateway_new a m = t)"
    using run_task_results [OF r call.prems] by (simp_all add: eq_commute [of _ t])
  with old show ?case unfolding made_snoc by (simp add: ex_disj_distrib)
qed (auto simp: process_def failed_def receive_def split: if_splits)

lemma runs_server: "runs h lgr (process ls ts e) tr q \<Longrightarrow> ps_server q = Some srv \<Longrightarrow> reachable srv"
proof (induction rule: runs.induct)
  case (call tr q i t q')
  obtain us where "run_task h lgr t (q\<lparr>ps_tasks := (ps_tasks q)[i := us]\<rparr>) = Some q'"
    using call.hyps(2) by (rule take_taskE)
  then show ?case using call
    by (cases t) (auto split: option.splits result.splits if_splits prod.splits intro: reachable.start)
qed (auto simp: process_def)

lemma runs_end:
  assumes "runs h lgr (process ls ts e) tr q" and "ps_end q = Some x" and "e = None"
  shows "x = ExitStatus 1 \<or> (x = ExitStatus 0 \<and> ps_tasks q ! 0 = []) \<or> (x = Killed \<and> \<not> ps_notified q)"
  using assms
proof (induction arbitrary: x)
  case (call tr q i t q')
  then show ?case
    by (elim take_taskE; cases t)
      (auto simp: fatal_if_def split: option.splits result.splits if_splits prod.splits)
qed (auto simp: process_def receive_def split: if_splits)

text \<open>What a call prints stays printed.\<close>

fun shows_line :: "host \<Rightarrow> Logger \<Rightarrow> Process \<Rightarrow> task \<Rightarrow> log" where
  "shows_line h lgr p (Info_line m) = Info lgr m"
| "shows_line h lgr p (Print_line m) = [[Txt m]]"
| "shows_line h lgr p (Addr_line m n) =
     (case ps_grpc p of Some a \<Rightarrow> Info lgr [Txt (m @ ho_Addr h a @ n)] | None \<Rightarrow> [])"
| "shows_line h lgr p t = []"

lemma run_task_lines:
  assumes "run_task h lgr t p = Some q"
  shows "set (ps_lines p) \<subseteq> set (ps_lines q)" and "Log ` set (shows_line h lgr p t) \<subseteq> set (ps_lines q)"
  using assms
  by (cases t; auto simp: fatal_if_def split: option.splits result.splits if_splits prod.splits)+

lemma runs_lines:
  assumes "runs h lgr (process ls ts e) tr q" and "made t tr" and "\<And>p. shows_line h lgr p t = l"
  shows "Log ` set l \<subseteq> set (ps_lines q)"
  using assms
proof induction
  case (call tr q i t' q')
  obtain us where "run_task h lgr t' (q\<lparr>ps_tasks := (ps_tasks q)[i := us]\<rparr>) = Some q'"
    using call.hyps(2) by (rule take_taskE)
  note new = run_task_lines [OF this]
  show ?case
  proof (cases "made t tr")
    case True
    then have "Log ` set l \<subseteq> set (ps_lines q)" using call.IH call.prems(2) by blast
    also have "\<dots> \<subseteq> set (ps_lines q')" using new(1) by simp
    finally show ?thesis .
  next
    case False
    then have "t = t'" using call.prems(1) unfolding made_snoc by blast
    then show ?thesis using new(2) call.prems(2) by simp
  qed
qed auto

text \<open>The number of calls is bounded by the text of a program.\<close>

fun task_work :: "task \<Rightarrow> nat" where
  "task_work (Spawn ts) = Suc (sum_list (map task_work ts))"
| "task_work t = 1"

definition work :: "task list list \<Rightarrow> nat" where
  "work tss = sum_list (map (\<lambda>ts. sum_list (map task_work ts)) tss)"

lemma work_step:
  assumes "take_task h lgr i q = Some (t, q')"
  shows "work (ps_tasks q) = Suc (work (ps_tasks q'))"
proof -
  from assms obtain us where us: "i < length (ps_tasks q)" "ps_tasks q ! i = t # us"
    and r: "run_task h lgr t (q\<lparr>ps_tasks := (ps_tasks q)[i := us]\<rparr>) = Some q'" by (rule take_taskE)
  have "work ((ps_tasks q)[i := us]) + task_work t = work (ps_tasks q)"
  proof -
    have "sum_list (map task_work (ps_tasks q ! i)) \<le> work (ps_tasks q)"
      unfolding work_def using us(1) by (intro member_le_sum_list) auto
    then show ?thesis
      using us by (simp add: work_def map_update sum_list_update)
  qed
  moreover have "work (ps_tasks q') = work ((ps_tasks q)[i := us]) + work (spawns [t])"
    using run_task_frame(1) [OF r] by (simp add: work_def)
  moreover have "task_work t = Suc (work (spawns [t]))"
    by (cases t) (simp_all add: work_def)
  ultimately show ?thesis by simp
qed

lemma runs_work:
  assumes "runs h lgr (process ls ts e) tr q"
  shows "length tr + work (ps_tasks q) = work [ts]"
  using assms
proof induction
  case (call tr q i t q')
  then show ?case using work_step [OF call.hyps(2)] by simp
qed (simp_all add: process_def)

section \<open>The order of a text\<close>

text \<open>In a list, \<open>a\<close> comes before the first \<open>b\<close>; so it does in every prefix that has a \<open>b\<close>.\<close>

definition precedes :: "task \<Rightarrow> task \<Rightarrow> task list \<Rightarrow> bool" where
  "precedes a b xs \<longleftrightarrow> (b \<in> set xs \<longrightarrow> a \<in> set (takeWhile (\<lambda>x. x \<noteq> b) xs))"

lemma precedes_prefix:
  assumes "precedes a b xs" and "ys @ zs = xs" and "b \<in> set ys"
  shows "a \<in> set ys"
proof -
  have "takeWhile (\<lambda>x. x \<noteq> b) (ys @ zs) = takeWhile (\<lambda>x. x \<noteq> b) ys"
    using assms(3) by (intro takeWhile_append1) auto
  then show ?thesis using assms by (auto simp: precedes_def dest: set_takeWhileD)
qed

definition ready_msg :: "program \<Rightarrow> msg" where
  "ready_msg k = [Txt (case k of
     Cmd_server \<Rightarrow> ''Ready to accept gRPC connections''
   | Cmd_server_dual \<Rightarrow> ''Ready to accept both gRPC and REST requests''
   | Cmd_server_rest \<Rightarrow> ''Ready to accept REST requests'')]"

abbreviation ready_line :: "program \<Rightarrow> task" where
  "ready_line k \<equiv> Info_line (ready_msg k)"

definition grpc_text :: "program \<Rightarrow> task list" where
  "grpc_text k =
     (case k of Cmd_server_rest \<Rightarrow> [Addr_line ''gRPC backend listening at '' '' (internal)'']
      | _ \<Rightarrow> [Addr_line ''gRPC server listening at '' []]) @
     Close_ready #
     (case k of Cmd_server \<Rightarrow> [Serve ''Failed to serve: '', Served ''Failed to serve: '']
      | _ \<Rightarrow> [Serve ''Failed to serve gRPC: '', Served ''Failed to serve gRPC: ''])"

lemmas body_defs = bodyServer_def bodyDual_def bodyRest_def token_line_def triggers_line_def

lemma precedes_simps [simp]:
  "precedes a b []"
  "precedes a b (x # xs) \<longleftrightarrow> x \<noteq> b \<and> (x = a \<or> precedes a b xs)"
  by (simp add: precedes_def) (cases "x = b"; auto simp: precedes_def)

lemma precedes_append [simp]:
  "b \<notin> set xs \<Longrightarrow> precedes a b (xs @ ys) \<longleftrightarrow> a \<in> set xs \<or> precedes a b ys"
  by (induction xs) (auto simp: precedes_def)

text \<open>A program that has not ended at its start has one of the three texts, and all have this shape.\<close>

lemma body_cases:
  assumes "start_program k env args = (ls, r)" and "ended r = None"
  obtains p l where "k = Cmd_server" "r = Listen p l"
    | g hp l where "k = Cmd_server_dual" "r = ListenBoth g hp l"
    | g hp l where "k = Cmd_server_rest" "r = ListenBoth g hp l"
  using assms
  by (cases k) (auto simp: startServer_def startDual_def startRest_def start_def mainServer_def mainDual_def
      mainRest_def Let_def split: sum.splits flag_error.splits if_splits result.splits)

definition gateway_shape :: "program \<Rightarrow> task list \<Rightarrow> task list \<Rightarrow> bool" where
  "gateway_shape k gws stops \<longleftrightarrow>
     (if k = Cmd_server then gws = [] \<and> stops = []
      else (\<exists>a m i ha n m'. gws = [Gateway_new a m, Spawn [Info_line i, Gateway_start ha n]] \<and>
        stops = [Gateway_stop m']))"

definition text_shape :: "program \<Rightarrow> task list \<Rightarrow> msg list \<Rightarrow> msg list \<Rightarrow> msg list \<Rightarrow> task list \<Rightarrow>
    task list \<Rightarrow> bool" where
  "text_shape k ts xs tk ys gws stops \<longleftrightarrow> gateway_shape k gws stops \<and>
     ready_msg k \<notin> set xs \<union> set tk \<and>
     (\<exists>ga m1 m2 o1 o2. ts = map Info_line xs @ [Listen_grpc ga m1, New_server m2, IAM_line] @
       map Info_line tk @ [Spawn (grpc_text k)] @ gws @ [Wait_ready, ready_line k] @ map Info_line ys @
       [Notify, Wait_signal, Print_line o1] @ stops @ [Graceful_stop, Print_line o2])"

definition token_msgs :: "(string \<Rightarrow> string) \<Rightarrow> msg list" where
  "token_msgs env = (if env ''EVENTARC_EMULATOR_TOKEN'' \<noteq> []
     then [[Txt ''Bearer token injection: enabled'']] else [])"

lemma token_line_msgs: "token_line env = map Info_line (token_msgs env)"
  by (simp add: token_line_def token_msgs_def)

lemma server_shape:
  "text_shape Cmd_server (bodyServer env l p)
     [[Txt (''GCP Eventarc Emulator v'' @ version)], [Txt (''Log level: '' @ l)]] (token_msgs env)
     [[Txt (''gRPC: localhost:'' @ Itoa p)]] [] []"
  by (simp add: text_shape_def gateway_shape_def bodyServer_def token_line_msgs grpc_text_def
      ready_msg_def token_msgs_def)

lemma dual_shape:
  "text_shape Cmd_server_dual (bodyDual env l g hp)
     [[Txt (''GCP Eventarc Emulator v'' @ version @ '' (gRPC + REST)'')], [Txt (''Log level: '' @ l)]]
     (token_msgs env) [[Txt (''gRPC: localhost:'' @ Itoa g)],
       [Txt (''REST: http://localhost:'' @ Itoa hp @
         ''/v1/projects/my-project/locations/us-central1/triggers'')]]
     [Gateway_new (port_addr ''localhost'' g) ''Failed to create REST gateway: '',
      Spawn [Info_line [Txt (''HTTP gateway listening at '' @ port_addr [] hp)],
        Gateway_start (port_addr [] hp) ''Failed to serve HTTP: '']]
     [Gateway_stop ''Error stopping HTTP gateway: '']"
  by (simp add: text_shape_def gateway_shape_def bodyDual_def token_line_msgs grpc_text_def
      ready_msg_def token_msgs_def triggers_line_def)

lemma rest_shape:
  "text_shape Cmd_server_rest (bodyRest env l g hp)
     [[Txt (''GCP Eventarc Emulator v'' @ version @ '' (REST)'')], [Txt (''Log level: '' @ l)],
      [Txt (''Starting gRPC backend on internal port '' @ Itoa g)],
      [Txt (''Starting HTTP gateway on port '' @ Itoa hp)]]
     (token_msgs env) [[Txt (''REST: http://localhost:'' @ Itoa hp @
         ''/v1/projects/my-project/locations/us-central1/triggers'')]]
     [Gateway_new (port_addr ''localhost'' g) ''Failed to create REST gateway: '',
      Spawn [Info_line [Txt (''HTTP gateway listening at '' @ port_addr [] hp)],
        Gateway_start (port_addr [] hp) ''Failed to serve HTTP: '']]
     [Gateway_stop ''Error stopping HTTP gateway: '']"
  by (simp add: text_shape_def gateway_shape_def bodyRest_def token_line_msgs grpc_text_def
      ready_msg_def token_msgs_def triggers_line_def)

lemma body_shape:
  assumes "start_program k env args = (ls, r)" and "ended r = None"
  obtains xs tk ys gws stops where "text_shape k (body_of k env r) xs tk ys gws stops"
    and "length xs + length tk + length ys \<le> 7"
proof -
  have tk: "length (token_msgs env) \<le> 1" by (simp add: token_msgs_def)
  from assms show ?thesis
  proof (cases rule: body_cases)
    case (1 p l)
    then show ?thesis using tk server_shape [of env l p] by (intro that) auto
  next
    case (2 g hp l)
    then show ?thesis using tk dual_shape [of env l g hp] by (intro that) auto
  next
    case (3 g hp l)
    then show ?thesis using tk rest_shape [of env l g hp] by (intro that) auto
  qed
qed

lemma spawns_info [simp]: "spawns (map Info_line ms) = []" "spawns (grpc_text k) = []"
  by (induction ms) (simp_all add: grpc_text_def split: program.split)

text \<open>What the shape says of the goroutines and of the order of the calls of \<open>main\<close>.\<close>

lemma shape_text:
  assumes "text_shape k ts xs tk ys gws stops"
  shows "flat ts" and "spawns ts ! 0 = grpc_text k" and "0 < length (spawns ts)"
    and "\<forall>us \<in> set (tl (spawns ts)). Close_ready \<notin> set us"
    and "\<forall>us \<in> set (spawns ts). Graceful_stop \<notin> set us" and "Close_ready \<notin> set ts"
    and "Graceful_stop \<in> set ts"
    and "\<forall>t \<in> set ts. (\<forall>m n. t \<noteq> Addr_line m n) \<and> (\<forall>m. t \<noteq> Served m) \<and> (\<forall>a m. t \<noteq> Gateway_start a m)"
    and "work [ts] \<le> length xs + length tk + length ys + 23"
  using assms
  by (auto simp: text_shape_def gateway_shape_def flat_def grpc_text_def work_def
      sum_list_triv comp_def split: if_splits program.splits)

lemma shape_order:
  assumes "text_shape k ts xs tk ys gws stops"
  shows "precedes Wait_ready (ready_line k) ts" and "precedes Wait_signal Graceful_stop ts"
    and "\<exists>a m. precedes (Listen_grpc a m) Wait_ready ts" and "\<exists>m. precedes (New_server m) Wait_ready ts"
    and "\<exists>m. precedes (New_server m) IAM_line ts" and "precedes (Spawn (grpc_text k)) Wait_ready ts"
    and "k \<noteq> Cmd_server \<Longrightarrow> \<exists>m. precedes (Gateway_stop m) Graceful_stop ts"
    and "Gateway_stop m \<in> set ts \<Longrightarrow> \<exists>a n. precedes (Gateway_new a n) (Gateway_stop m) ts"
  using assms
  by (auto simp: text_shape_def gateway_shape_def image_iff split: if_splits)



section \<open>What holds of every run\<close>

text \<open>A run of a program that has not ended at its start: its text, and what \<open>main\<close> has made of it.\<close>

lemma program_runsE:
  assumes "program_runs h k env args tr q" and "\<forall>n. snd (start_program k env args) \<noteq> Exit n"
  obtains ls r xs tk ys gws stops where "start_program k env args = (ls, r)" "ended r = None"
    "text_shape k (body_of k env r) xs tk ys gws stops" "length xs + length tk + length ys \<le> 7"
    "runs h (New (level_of r)) (process ls (body_of k env r) None) tr q"
    "proj 0 tr @ ps_tasks q ! 0 = body_of k env r"
proof -
  obtain ls r where st: "start_program k env args = (ls, r)" by fastforce
  have e: "ended r = None" using assms(2) st by (cases r) auto
  obtain xs tk ys gws stops where shape: "text_shape k (body_of k env r) xs tk ys gws stops"
    and len: "length xs + length tk + length ys \<le> 7" using body_shape [OF st e] .
  have run: "runs h (New (level_of r)) (process ls (body_of k env r) None) tr q"
    using assms(1) st e by (simp add: program_runs_def)
  have "proj 0 tr @ ps_tasks q ! 0 = body_of k env r"
    using runs_split [OF run shape_text(1) [OF shape]] by force
  from that [OF st e shape len run this] show ?thesis .
qed

text \<open>No more goroutines run than the text starts.\<close>

lemma spawned:
  assumes "runs h lgr (process ls ts e) tr q" and "flat ts"
  shows "length (ps_tasks q) \<le> Suc (length (spawns ts))"
proof -
  note split = runs_split [OF assms]
  then have "proj 0 tr @ ps_tasks q ! 0 = ts" by force
  then have "length (spawns (proj 0 tr)) \<le> length (spawns ts)"
    by (metis le_add1 length_append spawns_append)
  then show ?thesis using split by simp
qed

text \<open>\<open>Close_ready\<close> is made by the gRPC goroutine only, after its line about the listener.\<close>

lemma ready_by_grpc:
  assumes "text_shape k ts xs tk ys gws stops"
    and "runs h lgr (process ls ts None) tr q" and "made Close_ready tr"
  shows "Close_ready \<in> set (proj 1 tr)"
proof -
  note shape = shape_text [OF assms(1)]
  note split = runs_split [OF assms(2) shape(1)]
  obtain i where i: "Close_ready \<in> set (proj i tr)"
    using assms(3) by (auto simp: proj_mem [symmetric])
  then have len: "i < length (ps_tasks q)" using split by (metis empty_iff list.set(1) not_less)
  then have at: "Close_ready \<in> set ((ts # spawns ts) ! i)"
    using i split by (metis Un_iff set_append)
  show ?thesis
  proof (cases i)
    case (Suc j)
    have "i < Suc (length (spawns ts))" using spawned [OF assms(2) shape(1)] len by simp
    then have "j = 0"
      using at shape(4) Suc by (cases j; cases "spawns ts") auto
    then show ?thesis using i Suc by simp
  qed (use at shape(6) in simp)
qed

lemma grpc_goroutine:
  assumes "text_shape k ts xs tk ys gws stops" and "runs h lgr (process ls ts None) tr q"
    and "1 < length (ps_tasks q)"
  shows "proj 1 tr @ ps_tasks q ! 1 = grpc_text k"
  using runs_split [OF assms(2) shape_text(1) [OF assms(1)]] assms(3) shape_text(2,3) [OF assms(1)] by simp

lemma program_ready:
  assumes "program_runs h k env args tr q" and "\<forall>n. snd (start_program k env args) \<noteq> Exit n"
    and "(0, ready_line k) \<in> set tr"
  shows "(1, hd (grpc_text k)) \<in> set tr" and "ps_ready q"
    and "failed q \<or> (ps_grpc q \<noteq> None \<and> (\<exists>srv. ps_server q = Some srv \<and> reachable srv))"
proof -
  from assms(1,2) obtain ls r xs tk ys gws stops where
    shape: "text_shape k (body_of k env r) xs tk ys gws stops"
    and run: "runs h (New (level_of r)) (process ls (body_of k env r) None) tr q"
    and main: "proj 0 tr @ ps_tasks q ! 0 = body_of k env r" by (rule program_runsE)
  have w: "Wait_ready \<in> set (proj 0 tr)"
    using precedes_prefix [OF shape_order(1) [OF shape] main] assms(3) by (simp add: proj_mem)
  then have "made Wait_ready tr" by (force simp: proj_def)
  then show r: "ps_ready q" using runs_waited [OF run] by blast
  then have c: "Close_ready \<in> set (proj 1 tr)"
    using ready_by_grpc [OF shape run] runs_flags [OF run] by blast
  then have "1 < length (ps_tasks q)"
    using runs_split [OF run shape_text(1) [OF shape]] by (metis empty_iff list.set(1) not_less)
  from grpc_goroutine [OF shape run this] c have "hd (grpc_text k) \<in> set (proj 1 tr)"
    by (cases "proj 1 tr") (auto simp: grpc_text_def split: program.splits)
  then show "(1, hd (grpc_text k)) \<in> set tr" by (simp add: proj_mem)
  have "made t tr" if "precedes t Wait_ready (body_of k env r)" for t
    using precedes_prefix [OF that main w] by (force simp: proj_def)
  then have "(\<exists>a m. made (Listen_grpc a m) tr) \<and> (\<exists>m. made (New_server m) tr)"
    using shape_order(3,4) [OF shape] by blast
  then show "failed q \<or> (ps_grpc q \<noteq> None \<and> (\<exists>srv. ps_server q = Some srv \<and> reachable srv))"
    using runs_results [OF run] runs_server [OF run] by auto
qed

text \<open>Where a process that has not ended can stand still.\<close>

definition waiting :: "host \<Rightarrow> Process \<Rightarrow> bool" where
  "waiting h q \<longleftrightarrow> (\<exists>ts. ps_tasks q ! 0 = Wait_signal # ts \<and> \<not> ps_signalled q \<or>
     ps_tasks q ! 0 = Graceful_stop # ts \<and> \<not> ho_Drains h)"

lemma NewServer_no_panic: "NewServer a b c \<noteq> Panic w"
  by (simp add: NewServer_def Let_def split: option.split)

lemma New_Gateway_no_panic: "fst (New_Gateway l a) \<noteq> Panic w"
  by (simp add: New_Gateway_def del: first_error_None split: option.split)

text \<open>The calls before the one at the head of \<open>main\<close> have been made.\<close>

lemma made_before:
  assumes "proj 0 tr @ t # us = ts" and "precedes x t ts"
  shows "made x tr"
proof -
  have "x \<in> set (proj 0 tr)"
  proof (cases "t \<in> set (proj 0 tr)")
    case True
    then show ?thesis by (rule precedes_prefix [OF assms(2,1)])
  next
    case False
    then have "precedes x t (t # us) \<or> x \<in> set (proj 0 tr)"
      using assms precedes_append by blast
    then show ?thesis by simp
  qed
  then show ?thesis by (force simp: proj_def)
qed

text \<open>The calls of \<open>main\<close> that can block.\<close>

lemma main_blocks:
  assumes "text_shape k ts xs tk ys gws stops" and "runs h lgr (process ls ts None) tr q"
    and "ps_end q = None" and "ps_tasks q ! 0 = t # us" and "take_task h lgr 0 q = None"
  shows "waiting h q \<or> t = Wait_ready \<and> \<not> ps_ready q"
proof -
  note split = runs_split [OF assms(2) shape_text(1) [OF assms(1)]]
  have len: "0 < length (ps_tasks q)" using split by simp
  have main: "proj 0 tr @ t # us = ts" using split len assms(4) by force
  have stuck: "run_task h lgr t (q\<lparr>ps_tasks := (ps_tasks q)[0 := us]\<rparr>) = None"
    using assms(3,4,5) len by (simp add: take_task_def)
  have ok: "\<not> failed q" using assms(3) by (simp add: failed_def)
  note results = runs_results [OF assms(2) ok]
  have iam: "t = IAM_line \<Longrightarrow> ps_server q \<noteq> None"
    using made_before [OF main] shape_order(5) [OF assms(1)] results by blast
  have inside: "t \<in> set ts" using arg_cong [OF main, of set] by auto
  have gw: "ps_gateway q \<noteq> None" if g: "t = Gateway_stop m" for m
  proof -
    obtain a n where "precedes (Gateway_new a n) t ts"
      using shape_order(8) [OF assms(1)] inside unfolding g by blast
    from made_before [OF main this] show ?thesis using results by blast
  qed
  show ?thesis
    using stuck iam gw assms(4) NewServer_no_panic New_Gateway_no_panic shape_text(8) [OF assms(1)] inside
    by (cases t) (auto simp: waiting_def split: result.splits option.splits if_splits prod.splits)
qed

text \<open>The gRPC goroutine reaches \<open>Close_ready\<close> without waiting for anyone.\<close>

lemma grpc_reaches_ready:
  assumes "text_shape k ts xs tk ys gws stops" and "runs h lgr (process ls ts None) tr q"
    and "ps_end q = None" and "ps_tasks q ! 0 = Wait_ready # us" and "\<not> ps_ready q"
  shows "take_task h lgr 1 q \<noteq> None"
proof -
  note split = runs_split [OF assms(2) shape_text(1) [OF assms(1)]]
  have main: "proj 0 tr @ Wait_ready # us = ts" using split assms(4) by force
  have wait: "Wait_ready \<notin> set (proj 0 tr)"
    using runs_waited [OF assms(2)] assms(5) by (force simp: proj_mem [symmetric])
  have "Spawn (grpc_text k) \<in> set (proj 0 tr)"
    using shape_order(6) [OF assms(1)] wait unfolding main [symmetric] by simp
  then have "0 < length (spawns (proj 0 tr))"
    by (metis in_set_conv_decomp length_greater_0_conv list.distinct(1) append_is_Nil_conv
        spawns.simps(2) spawns_append)
  then have one: "1 < length (ps_tasks q)" using split by simp
  have "Close_ready \<notin> set (proj 1 tr)"
    using runs_flags [OF assms(2)] assms(5) by (force simp: proj_mem [symmetric])
  then obtain t vs where at: "ps_tasks q ! 1 = t # vs" "t = Close_ready \<or> t = hd (grpc_text k)"
    using grpc_goroutine [OF assms(1,2) one] by (cases "proj 1 tr"; cases "tl (proj 1 tr)")
      (auto simp: grpc_text_def split: program.splits)
  have ok: "\<not> failed q" using assms(3) by (simp add: failed_def)
  obtain a m where "precedes (Listen_grpc a m) Wait_ready ts" using shape_order(3) [OF assms(1)] by blast
  from made_before [OF main this] have "ps_grpc q \<noteq> None"
    using runs_results [OF assms(2) ok] by blast
  then show ?thesis
    using at one assms(3) by (auto simp: take_task_def grpc_text_def split: program.splits)
qed

lemma program_progress:
  assumes "program_runs h k env args tr q" and "\<forall>n. snd (start_program k env args) \<noteq> Exit n"
    and "ps_end q = None"
  shows "(\<exists>lgr i t q'. take_task h lgr i q = Some (t, q') \<and> program_runs h k env args (tr @ [(i, t)]) q') \<or>
    ps_tasks q ! 0 = [] \<or> waiting h q"
proof -
  from assms(1,2) obtain ls r xs tk ys gws stops where
    st: "start_program k env args = (ls, r)" "ended r = None"
    and shape: "text_shape k (body_of k env r) xs tk ys gws stops"
    and run: "runs h (New (level_of r)) (process ls (body_of k env r) None) tr q"
    by (rule program_runsE)
  have goes: ?thesis if "take_task h (New (level_of r)) i q \<noteq> None" for i
  proof -
    from that obtain t q' where t: "take_task h (New (level_of r)) i q = Some (t, q')" by auto
    then have "program_runs h k env args (tr @ [(i, t)]) q'"
      using runs.call [OF run t] st by (simp add: program_runs_def)
    then show ?thesis using t by blast
  qed
  show ?thesis
  proof (cases "ps_tasks q ! 0")
    case (Cons t ts)
    show ?thesis
      using goes main_blocks [OF shape run assms(3) Cons] grpc_reaches_ready [OF shape run assms(3)] Cons
      by blast
  qed simp
qed

lemma program_bounded:
  assumes "program_runs h k env args tr q" and "\<forall>n. snd (start_program k env args) \<noteq> Exit n"
  shows "length tr \<le> 30"
proof -
  from assms obtain ls r xs tk ys gws stops where
    shape: "text_shape k (body_of k env r) xs tk ys gws stops" "length xs + length tk + length ys \<le> 7"
    and run: "runs h (New (level_of r)) (process ls (body_of k env r) None) tr q"
    by (rule program_runsE)
  show ?thesis using runs_work [OF run] shape_text(9) [OF shape(1)] shape(2) by linarith
qed

lemma program_end:
  assumes "program_runs h k env args tr q" and "\<forall>n. snd (start_program k env args) \<noteq> Exit n"
    and "ps_end q = Some x"
  shows "x = ExitStatus 1 \<or> (x = Killed \<and> \<not> ps_notified q) \<or>
    (x = ExitStatus 0 \<and> ps_signalled q \<and> ps_stopped q)"
proof -
  from assms(1,2) obtain ls r xs tk ys gws stops where
    shape: "text_shape k (body_of k env r) xs tk ys gws stops"
    and run: "runs h (New (level_of r)) (process ls (body_of k env r) None) tr q"
    and main: "proj 0 tr @ ps_tasks q ! 0 = body_of k env r" by (rule program_runsE)
  have "ps_signalled q \<and> ps_stopped q" if "ps_tasks q ! 0 = []"
  proof -
    have g: "Graceful_stop \<in> set (proj 0 tr)" using main that shape_text(7) [OF shape] by simp
    have "Wait_signal \<in> set (proj 0 tr)"
      by (rule precedes_prefix [OF shape_order(2) [OF shape] main g])
    then show ?thesis
      using g runs_flags [OF run] runs_waited [OF run] by (auto simp: proj_def)
  qed
  then show ?thesis using runs_end [OF run assms(3)] by blast
qed

text \<open>The gateway is stopped before the gRPC server it calls.\<close>

lemma gateway_stops_first:
  assumes "program_runs h k env args tr q" and "\<forall>n. snd (start_program k env args) \<noteq> Exit n"
    and "ps_stopped q" and "k \<noteq> Cmd_server"
  shows "\<exists>m. (0, Gateway_stop m) \<in> set tr"
proof -
  from assms(1,2) obtain ls r xs tk ys gws stops where
    shape: "text_shape k (body_of k env r) xs tk ys gws stops"
    and run: "runs h (New (level_of r)) (process ls (body_of k env r) None) tr q"
    and main: "proj 0 tr @ ps_tasks q ! 0 = body_of k env r" by (rule program_runsE)
  note split = runs_split [OF run shape_text(1) [OF shape]]
  obtain i where i: "Graceful_stop \<in> set (proj i tr)"
    using runs_flags [OF run] assms(3) by (auto simp: proj_mem [symmetric])
  then have len: "i < length (ps_tasks q)" using split by (metis empty_iff list.set(1) not_less)
  have "i = 0"
  proof (rule ccontr)
    assume "i \<noteq> 0"
    then have "(body_of k env r # spawns (body_of k env r)) ! i \<in> set (spawns (body_of k env r))"
      using len spawned [OF run shape_text(1) [OF shape]] by (cases i) auto
    moreover have "Graceful_stop \<in> set ((body_of k env r # spawns (body_of k env r)) ! i)"
      using i len split by (metis Un_iff set_append)
    ultimately show False using shape_text(5) [OF shape] by blast
  qed
  then show ?thesis
    using precedes_prefix [OF _ main] i shape_order(7) [OF shape assms(4)] by (metis proj_mem)
qed

section \<open>Chosen interleavings\<close>

text \<open>A schedule: the turn of a goroutine, a signal, or the return of \<open>main\<close>.\<close>

datatype event = Turn nat | Signal | Return

fun follow :: "host \<Rightarrow> Logger \<Rightarrow> event list \<Rightarrow> Process \<Rightarrow> Process option" where
  "follow h lgr [] q = Some q"
| "follow h lgr (Turn i # es) q =
     (case take_task h lgr i q of Some (t, q') \<Rightarrow> follow h lgr es q' | None \<Rightarrow> None)"
| "follow h lgr (Signal # es) q =
     (if ps_end q = None \<and> \<not> ps_signalled q then follow h lgr es (receive q) else None)"
| "follow h lgr (Return # es) q =
     (if ps_end q = None \<and> ps_tasks q ! 0 = []
      then follow h lgr es (q\<lparr>ps_end := Some (ExitStatus 0)\<rparr>) else None)"

lemma sched_runs:
  "runs h lgr p tr q \<Longrightarrow> follow h lgr es q = Some q' \<Longrightarrow> \<exists>tr'. runs h lgr p (tr @ tr') q'"
proof (induction es arbitrary: tr q)
  case Nil
  then show ?case by (metis append_Nil2 option.inject follow.simps(1))
next
  case (Cons e es)
  show ?case
  proof (cases e)
    case (Turn i)
    then obtain t q1 where t: "take_task h lgr i q = Some (t, q1)" "follow h lgr es q1 = Some q'"
      using Cons.prems(2) by (auto split: option.splits)
    from Cons.IH [OF runs.call [OF Cons.prems(1) t(1)] t(2)] show ?thesis by auto
  next
    case Signal
    then show ?thesis
      using Cons.prems Cons.IH [OF runs.signal [OF Cons.prems(1)]] by (auto split: if_splits)
  next
    case Return
    then show ?thesis
      using Cons.prems Cons.IH [OF runs.return [OF Cons.prems(1)]] by (auto split: if_splits)
  qed
qed

lemma sched_program:
  assumes "start_program k env args = (ls, r)" and "ended r = None"
    and "follow h (New (level_of r)) es (process ls (body_of k env r) None) = Some q"
  shows "\<exists>tr. program_runs h k env args tr q"
  using sched_runs [OF runs.stay assms(3)] assms(1,2) by (auto simp: program_runs_def)

lemma sched_append: "follow h lgr es q = Some q1 \<Longrightarrow> follow h lgr (es @ fs) q = follow h lgr fs q1"
  by (induction h lgr es q rule: follow.induct) (auto split: option.splits if_splits)

definition turns :: "nat \<Rightarrow> nat \<Rightarrow> event list" where
  "turns i n = replicate n (Turn i)"

lemma turns_simps [simp]: "turns i 0 = []" "turns i (Suc n) = Turn i # turns i n"
  "turns i (numeral m) = Turn i # turns i (pred_numeral m)"
  by (simp_all add: turns_def numeral_eq_Suc)

lemma turns_add: "turns i (m + n) = turns i m @ turns i n"
  by (simp add: turns_def replicate_add)

lemma take_task_simp [simp]:
  "ps_end p = None \<Longrightarrow> i < length (ps_tasks p) \<Longrightarrow> ps_tasks p ! i = t # ts \<Longrightarrow>
     take_task h lgr i p = map_option (Pair t) (run_task h lgr t (p\<lparr>ps_tasks := (ps_tasks p)[i := ts]\<rparr>))"
  by (simp add: take_task_def)

lemma sched_infos:
  "ps_end q = None \<Longrightarrow> ps_tasks q = (map Info_line ms @ ts) # us \<Longrightarrow>
     \<exists>l. follow h lgr (turns 0 (length ms)) q = Some (q\<lparr>ps_tasks := ts # us, ps_lines := l\<rparr>)"
proof (induction ms arbitrary: q)
  case Nil
  then show ?case by (intro exI [of _ "ps_lines q"]) simp
next
  case (Cons m ms)
  let ?q = "print (Info lgr m) (q\<lparr>ps_tasks := (map Info_line ms @ ts) # us\<rparr>)"
  obtain l where "follow h lgr (turns 0 (length ms)) ?q = Some (?q\<lparr>ps_tasks := ts # us, ps_lines := l\<rparr>)"
    using Cons.IH [of ?q] Cons.prems by auto
  then show ?case using Cons.prems by (auto simp: print_def)
qed

text \<open>The start of \<open>main\<close>, up to the gRPC goroutine, when nothing fails.\<close>

lemma sched_start:
  assumes "ho_Listen h ga = None" and "NewServer (ho_IsEnabled h) (ho_Connect h) (ho_Mode h) = Ok srv"
  obtains q where "follow h lgr (turns 0 (length xs) @ turns 0 3 @ turns 0 (length tk) @ turns 0 1)
      (process ls (map Info_line xs @ [Listen_grpc ga m1, New_server m2, IAM_line] @ map Info_line tk @
        [Spawn g] @ ts) None) = Some q"
    and "ps_tasks q = [ts, g]" "ps_grpc q = Some ga" "ps_gateway q = None" "\<not> ps_ready q"
    "\<not> ps_stopped q" "\<not> ps_notified q" "\<not> ps_signalled q" "ps_end q = None"
proof -
  let ?rest = "map Info_line tk @ [Spawn g] @ ts"
  let ?p = "process ls (map Info_line xs @ [Listen_grpc ga m1, New_server m2, IAM_line] @ ?rest) None"
  obtain l where one: "follow h lgr (turns 0 (length xs)) ?p =
      Some (?p\<lparr>ps_tasks := [[Listen_grpc ga m1, New_server m2, IAM_line] @ ?rest], ps_lines := l\<rparr>)"
    using sched_infos [of ?p xs _ "[]" h lgr] by (auto simp: process_def)
  obtain q2 where "follow h lgr (turns 0 3)
      (?p\<lparr>ps_tasks := [[Listen_grpc ga m1, New_server m2, IAM_line] @ ?rest], ps_lines := l\<rparr>) = Some q2"
    and q2: "ps_tasks q2 = [?rest]" "ps_grpc q2 = Some ga" "ps_gateway q2 = None" "\<not> ps_ready q2"
    "\<not> ps_stopped q2" "\<not> ps_notified q2" "\<not> ps_signalled q2" "ps_end q2 = None"
    using assms by (simp add: process_def)
  then have two: "follow h lgr (turns 0 (length xs) @ turns 0 3) ?p = Some q2"
    by (simp only: sched_append [OF one])
  obtain l' where three: "follow h lgr (turns 0 (length tk)) q2 =
      Some (q2\<lparr>ps_tasks := [Spawn g # ts], ps_lines := l'\<rparr>)"
    using sched_infos [of q2 tk "Spawn g # ts" "[]" h lgr] q2 by auto
  show ?thesis
  proof (rule that)
    show "follow h lgr (turns 0 (length xs) @ turns 0 3 @ turns 0 (length tk) @ turns 0 1) ?p =
        Some (q2\<lparr>ps_tasks := [ts, g], ps_lines := l'\<rparr>)"
      unfolding append_assoc [symmetric, of _ "turns 0 3"] sched_append [OF two] sched_append [OF three]
      using q2 by (simp add: turns_def)
  qed (use q2 in simp_all)
qed

text \<open>
  \<open>main\<close> of cmd/server-dual does not wait for the HTTP listener: it can report that it is ready for
  REST requests, and then the process ends because the HTTP port is taken.
\<close>

lemma dual_ready_first:
  assumes "start_program Cmd_server_dual env args = (ls, ListenBoth g p l)"
    and "ho_Listen h (port_addr [] g) = None"
    and "NewServer (ho_IsEnabled h) (ho_Connect h) (ho_Mode h) = Ok srv"
    and "fst (New_Gateway (ho_Gateway h) (port_addr ''localhost'' g)) = Ok gw"
    and "ho_Listen h (port_addr [] p) = Some x"
  shows "\<exists>tr q. program_runs h Cmd_server_dual env args tr q \<and> (0, ready_line Cmd_server_dual) \<in> set tr \<and>
    ps_end q = Some (ExitStatus 1)"
proof -
  define web where "web = [Info_line [Txt (''HTTP gateway listening at '' @ port_addr [] p)],
    Gateway_start (port_addr [] p) ''Failed to serve HTTP: '']"
  define tl where "tl = [Info_line [Txt (''gRPC: localhost:'' @ Itoa g)], triggers_line p, Notify, Wait_signal,
    Print_line ''Shutting down servers...'', Gateway_stop ''Error stopping HTTP gateway: '', Graceful_stop,
    Print_line ''Servers stopped'']"
  let ?xs = "[[Txt (''GCP Eventarc Emulator v'' @ version @ '' (gRPC + REST)'')], [Txt (''Log level: '' @ l)]]"
  let ?ts = "[Gateway_new (port_addr ''localhost'' g) ''Failed to create REST gateway: '', Spawn web, Wait_ready,
    ready_line Cmd_server_dual] @ tl"
  have body_eq: "body_of Cmd_server_dual env (ListenBoth g p l) = map Info_line ?xs @
      [Listen_grpc (port_addr [] g) ''Failed to listen on gRPC port: '',
       New_server ''Failed to create server: '', IAM_line] @ map Info_line (token_msgs env) @
      [Spawn (grpc_text Cmd_server_dual)] @ ?ts"
    by (simp add: bodyDual_def token_line_msgs grpc_text_def ready_msg_def web_def tl_def)
  let ?start = "turns 0 (length ?xs) @ turns 0 3 @ turns 0 (length (token_msgs env)) @ turns 0 1"
  obtain q where q: "follow h (New l) ?start (process ls (body_of Cmd_server_dual env (ListenBoth g p l)) None) = Some q"
    "ps_tasks q = [?ts, grpc_text Cmd_server_dual]" "ps_grpc q = Some (port_addr [] g)" "ps_end q = None"
    unfolding body_eq by (rule sched_start [OF assms(2,3)])
  have "\<exists>q'. follow h (New l) (turns 1 2 @ turns 0 4 @ turns 2 2) q = Some q' \<and>
      ps_tasks q' ! 0 = tl \<and> ps_end q' = Some (ExitStatus 1)"
    using q(2-4) assms(4,5) by (simp add: grpc_text_def web_def Start_def fatal_if_def)
  then obtain q' where q': "follow h (New l) (?start @ turns 1 2 @ turns 0 4 @ turns 2 2)
      (process ls (body_of Cmd_server_dual env (ListenBoth g p l)) None) = Some q'"
    "ps_tasks q' ! 0 = tl" "ps_end q' = Some (ExitStatus 1)"
    by (metis sched_append [OF q(1)])
  obtain tr where run: "program_runs h Cmd_server_dual env args tr q'"
    using sched_program [OF assms(1), where q = q'] q'(1) by (metis ended.simps(3) level_of.simps(3))
  have "\<forall>n. snd (start_program Cmd_server_dual env args) \<noteq> Exit n" using assms(1) by simp
  from run this have "proj 0 tr @ tl = body_of Cmd_server_dual env (ListenBoth g p l)"
    using assms(1) q'(2) by (auto elim!: program_runsE)
  also have "\<dots> = (map Info_line ?xs @
      [Listen_grpc (port_addr [] g) ''Failed to listen on gRPC port: '',
       New_server ''Failed to create server: '', IAM_line] @ map Info_line (token_msgs env) @
      [Spawn (grpc_text Cmd_server_dual)] @ [Gateway_new (port_addr ''localhost'' g)
       ''Failed to create REST gateway: '', Spawn web, Wait_ready, ready_line Cmd_server_dual]) @ tl"
    unfolding body_eq by (simp only: append_assoc)
  finally have "ready_line Cmd_server_dual \<in> set (proj 0 tr)"
    by (simp only: append_same_eq) simp
  then show ?thesis using run q'(3) by (auto simp: proj_mem)
qed

text \<open>
  cmd/server has told that it is ready before \<open>Serve\<close> is called: a signal may stop the server first,
  and then \<open>Serve\<close> fails and takes the process with it. After \<open>Serve\<close> the stop is clean.
\<close>

lemma server_signal:
  assumes "start_program Cmd_server env args = (ls, Listen p l)"
    and "ho_Listen h (port_addr [] p) = None"
    and "NewServer (ho_IsEnabled h) (ho_Connect h) (ho_Mode h) = Ok srv" and "ho_Drains h"
  shows "\<exists>tr q. program_runs h Cmd_server env args tr q \<and> (0, ready_line Cmd_server) \<in> set tr \<and>
      ps_end q = Some (ExitStatus 0)"
    and "ho_Serve h True \<noteq> None \<Longrightarrow>
      \<exists>tr q. program_runs h Cmd_server env args tr q \<and> ps_signalled q \<and> ps_end q = Some (ExitStatus 1)"
proof -
  let ?xs = "[[Txt (''GCP Eventarc Emulator v'' @ version)], [Txt (''Log level: '' @ l)]]"
  let ?ts = "[Wait_ready, ready_line Cmd_server, Info_line [Txt (''gRPC: localhost:'' @ Itoa p)], Notify,
    Wait_signal, Print_line ''Shutting down server...'', Graceful_stop, Print_line ''Server stopped'']"
  have body_eq: "body_of Cmd_server env (Listen p l) = map Info_line ?xs @
      [Listen_grpc (port_addr [] p) ''Failed to listen: '', New_server ''Failed to create server: '',
       IAM_line] @ map Info_line (token_msgs env) @ [Spawn (grpc_text Cmd_server)] @ ?ts"
    by (simp add: bodyServer_def token_line_msgs grpc_text_def ready_msg_def)
  let ?start = "turns 0 (length ?xs) @ turns 0 3 @ turns 0 (length (token_msgs env)) @ turns 0 1"
  obtain q where q: "follow h (New l) ?start (process ls (body_of Cmd_server env (Listen p l)) None) = Some q"
    "ps_tasks q = [?ts, grpc_text Cmd_server]" "ps_grpc q = Some (port_addr [] p)" "ps_end q = None"
    "\<not> ps_stopped q" "\<not> ps_notified q" "\<not> ps_signalled q"
    unfolding body_eq by (rule sched_start [OF assms(2,3)])
  have runs: "\<exists>tr. program_runs h Cmd_server env args tr q'"
    if "follow h (New l) es q = Some q'" for es q'
    using sched_program [OF assms(1), of h "?start @ es" q'] sched_append [OF q(1), of es] that
    by (metis ended.simps(2) level_of.simps(2))
  have "\<exists>q'. follow h (New l) (turns 1 3 @ turns 0 4 @ [Signal] @ turns 0 4 @ [Return]) q = Some q' \<and>
      ps_tasks q' ! 0 = [] \<and> ps_end q' = Some (ExitStatus 0)"
    using q(2-7) assms(4) by (simp add: grpc_text_def receive_def)
  then obtain tr q' where run: "program_runs h Cmd_server env args tr q'"
    and q': "ps_tasks q' ! 0 = []" "ps_end q' = Some (ExitStatus 0)" using runs by blast
  have "\<forall>n. snd (start_program Cmd_server env args) \<noteq> Exit n" using assms(1) by simp
  from run this have "proj 0 tr = body_of Cmd_server env (Listen p l)"
    using assms(1) q'(1) by (auto elim!: program_runsE)
  then have "ready_line Cmd_server \<in> set (proj 0 tr)" unfolding body_eq by simp
  then show "\<exists>tr q. program_runs h Cmd_server env args tr q \<and> (0, ready_line Cmd_server) \<in> set tr \<and>
      ps_end q = Some (ExitStatus 0)"
    using run q'(2) by (auto simp: proj_mem)
  show "\<exists>tr q. program_runs h Cmd_server env args tr q \<and> ps_signalled q \<and> ps_end q = Some (ExitStatus 1)"
    if "ho_Serve h True \<noteq> None"
  proof -
    have "\<exists>q'. follow h (New l) (turns 1 2 @ turns 0 4 @ [Signal] @ turns 0 3 @ turns 1 1) q = Some q' \<and>
        ps_signalled q' \<and> ps_end q' = Some (ExitStatus 1)"
      using q(2-7) assms(4) that by (auto simp: grpc_text_def receive_def fatal_if_def)
    then show ?thesis using runs by blast
  qed
qed

section \<open>An example\<close>

text \<open>A host on which only the HTTP port of cmd/server-dual is taken, and a start without arguments.\<close>

definition host0 :: host where
  "host0 = \<lparr>ho_Listen = (\<lambda>a. if a = '':8085'' then Some (GoError [Txt ''address already in use'']) else None),
     ho_Addr = (\<lambda>a. a), ho_IsEnabled = (\<lambda>m. False), ho_Connect = (\<lambda>m. None), ho_Mode = ''off'',
     ho_Serve = (\<lambda>stopped. if stopped then Some (GoError [Txt ''grpc: the server has been stopped'']) else None),
     ho_Gateway = \<lparr>gl_NewClient = (\<lambda>a. None), gl_RegisterEventarc = None, gl_RegisterPublisher = None,
       gl_RegisterOperations = None, gl_HandlePath = (\<lambda>p. None)\<rparr>,
     ho_Shutdown = None, ho_Close = None, ho_Drains = True\<rparr>"

definition noenv :: "string \<Rightarrow> string" where
  "noenv k = []"

lemma noenv_defaults: "getEnv noenv k x = x" "getEnvPort noenv k n = n" "getEnvInt noenv k n = n"
  by (simp_all add: noenv_def getEnv_def getEnvPort_def getEnvInt_def)

lemma default_ports: "\<not> badPort 9085" "\<not> badPort 8085"
  by (simp_all add: badPort_def word_sless_alt)

lemma noenv_start:
  "start_program Cmd_server noenv [] = ([], Listen 9085 ''info'')"
  "start_program Cmd_server_dual noenv [] = ([], ListenBoth 9085 8085 ''info'')"
  by (simp_all add: startServer_def startDual_def start_def Parse.simps [of _ "[]"] mainServer_def
      mainDual_def flagsServer_def flagsDual_def noenv_defaults default_ports int_flag_def string_flag_def
      bool_flag_def was_set_def validateLogLevel_def Let_def)

lemma port_addr_http: "port_addr [] 8085 = '':8085''" "port_addr [] 9085 \<noteq> '':8085''"
  by (simp_all add: port_addr_def Itoa_def nat_digits.simps digit_def char_of_def bit_0)

lemma host0_start:
  "ho_Listen host0 (port_addr [] 9085) = None" "ho_Listen host0 (port_addr [] 8085) \<noteq> None"
  "NewServer (ho_IsEnabled host0) (ho_Connect host0) (ho_Mode host0) =
     Ok \<lparr>storage = NewStorage, lroStore = NewStore, iamClient = False, iamMode = ''off''\<rparr>"
  "fst (New_Gateway (ho_Gateway host0) a) = Ok \<lparr>g_httpSrv = None, g_conn = True\<rparr>"
  "ho_Drains host0" "ho_Serve host0 True \<noteq> None"
  using port_addr_http by (simp_all add: host0_def NewServer_def New_Gateway_def)

end
