(* ===== verification/Receiver.thy ===== *)
theory Receiver
  imports Dispatcher
begin

text \<open>
  examples/webhook-receiver/main.go: an HTTP server that prints the CloudEvents it is sent, the
  receiving end of the dispatcher.
\<close>

section \<open>The handler\<close>

text \<open>A request as the HTTP server hands it over; a header name may have several values.\<close>

record Incoming =
  in_Method :: string
  in_Path :: string
  in_Header :: "string list gomap"
  in_Body :: string

text \<open>\<open>r.Header.Get\<close>: the first value under the canonical form of the name, or the empty string.\<close>

definition Header_Get :: "Incoming \<Rightarrow> string \<Rightarrow> string" where
  "Header_Get r k = (case map_of (in_Header r) (CanonicalHeaderKey k) of Some (v # vs) \<Rightarrow> v | _ \<Rightarrow> [])"

definition double_line :: string where
  "double_line = concat (replicate 47 [CHR 0xE2, CHR 0x95, CHR 0x90])"

text \<open>The names that begin with \<open>ce-\<close> in any case, collected in the order of the range, and sorted.\<close>

definition ceHeaders :: "order \<Rightarrow> Incoming \<Rightarrow> string list" where
  "ceHeaders ord r =
     sort (filter (\<lambda>k. HasPrefix (ToLower k) ''ce-'') (map fst (range_map ord (in_Header r))))"

definition header_line :: "Incoming \<Rightarrow> string \<Rightarrow> string" where
  "header_line r k = ''    '' @ k @ '': '' @ Header_Get r k"

text \<open>The lines printed, and the status and body of the answer.\<close>

definition receive_event :: "order \<Rightarrow> Incoming \<Rightarrow> string list \<times> int \<times> string" where
  "receive_event ord r =
     (let ks = ceHeaders ord r;
          auth = Header_Get r ''Authorization''
      in ([[], double_line,
           ''  CloudEvent received  ('' @ in_Method r @ '' '' @ in_Path r @ '')'', double_line] @
          (if 0 < length ks then ''  CloudEvent Headers:'' # map (header_line r) ks else []) @
          (if auth \<noteq> [] then [''  Authorization: '' @ auth] else []) @
          [''  Content-Type: '' @ Header_Get r ''Content-Type''] @
          (if 0 < length (in_Body r) then [''  Body:'', ''    '' @ in_Body r] else []) @
          [double_line, []],
          200, ''{'' @ [CHR 0x22] @ ''status'' @ [CHR 0x22, CHR 0x3A, CHR 0x22] @ ''received'' @
            [CHR 0x22] @ ''}''))"

text \<open>The address the receiver listens on, and the line it logs.\<close>

definition receiver_main :: "(string \<Rightarrow> string) \<Rightarrow> string \<times> string" where
  "receiver_main env =
     (let port = (if env ''PORT'' \<noteq> [] then env ''PORT'' else ''3000'')
      in (CHR '':'' # port, ''Webhook receiver listening on :'' @ port))"

section \<open>Canonical names\<close>

text \<open>A canonical name is its own canonical form.\<close>

definition cap :: "bool \<Rightarrow> char \<Rightarrow> char" where
  "cap upper c = (if upper \<and> is_lower_ascii c then char_of (of_char c - 32 :: nat)
     else if \<not> upper \<and> is_upper_ascii c then char_of (of_char c + 32 :: nat) else c)"

lemma capitalize_Cons [simp]: "capitalize u (c # s) = cap u c # capitalize (cap u c = CHR ''-'') s"
  by (simp add: cap_def Let_def)

declare capitalize.simps(2) [simp del]

lemma shift_letter:
  "is_lower_ascii c \<Longrightarrow> is_upper_ascii (char_of (of_char c - 32 :: nat))"
  "is_upper_ascii c \<Longrightarrow> is_lower_ascii (char_of (of_char c + 32 :: nat))"
proof -
  assume "is_lower_ascii c"
  then have c: "97 \<le> (of_char c :: nat)" "(of_char c :: nat) \<le> 122"
    by (simp_all add: is_lower_ascii_def Let_def)
  then have "(of_char c - 32 :: nat) mod 256 = of_char c - 32" by simp
  moreover have "65 \<le> (of_char c - 32 :: nat) \<and> (of_char c - 32 :: nat) \<le> 90" using c by linarith
  ultimately show "is_upper_ascii (char_of (of_char c - 32 :: nat))"
    by (simp add: is_upper_ascii_def Let_def)
next
  assume "is_upper_ascii c"
  then have c: "65 \<le> (of_char c :: nat)" "(of_char c :: nat) \<le> 90"
    by (simp_all add: is_upper_ascii_def Let_def)
  then have "(of_char c + 32 :: nat) mod 256 = of_char c + 32" by simp
  then show "is_lower_ascii (char_of (of_char c + 32 :: nat))"
    using c by (simp add: is_lower_ascii_def Let_def)
qed

lemma upper_not_lower: "is_upper_ascii c \<Longrightarrow> \<not> is_lower_ascii c"
  by (auto simp: is_lower_ascii_def is_upper_ascii_def Let_def)

lemma cap_cases:
  obtains "cap u c = c" | "u" "is_upper_ascii (cap u c)" | "\<not> u" "is_lower_ascii (cap u c)"
proof -
  have "cap u c = c \<or> (u \<and> is_upper_ascii (cap u c)) \<or> (\<not> u \<and> is_lower_ascii (cap u c))"
    by (simp add: cap_def shift_letter)
  then show ?thesis using that by blast
qed

lemma cap_cap [simp]: "cap u (cap u c) = cap u c"
proof (cases rule: cap_cases [of u c])
  case 2
  then show ?thesis unfolding cap_def [of u "cap u c"] by (simp add: upper_not_lower)
next
  case 3
  then show ?thesis unfolding cap_def [of u "cap u c"] using upper_not_lower by auto
qed simp

lemma cap_valid: "validHeaderFieldByte c \<Longrightarrow> validHeaderFieldByte (cap u c)"
  by (cases rule: cap_cases [of u c]) (simp_all add: validHeaderFieldByte_def Let_def)

lemma capitalize_capitalize: "capitalize u (capitalize u s) = capitalize u s"
  by (induction s arbitrary: u) simp_all

lemma capitalize_valid: "list_all validHeaderFieldByte s \<Longrightarrow> list_all validHeaderFieldByte (capitalize u s)"
  by (induction s arbitrary: u) (simp_all add: cap_valid)

lemma Canonical_Canonical [simp]: "CanonicalHeaderKey (CanonicalHeaderKey k) = CanonicalHeaderKey k"
  by (simp add: CanonicalHeaderKey_def capitalize_capitalize capitalize_valid)

section \<open>What arrives of an event\<close>

text \<open>
  HTTP between the two: the method, the body and every header of the request arrive, and no other
  header whose name begins with \<open>ce-\<close>.
\<close>

definition carries :: "HttpRequest \<Rightarrow> Incoming \<Rightarrow> bool" where
  "carries q r \<longleftrightarrow> in_Method r = ''POST'' \<and> in_Body r = rq_Body q \<and> distinct (map fst (in_Header r)) \<and>
     (\<forall>k v. map_of (rq_Header q) k = Some v \<longrightarrow> map_of (in_Header r) k = Some [v]) \<and>
     (\<forall>k. HasPrefix (ToLower k) ''ce-'' \<longrightarrow>
        (map_of (in_Header r) k = None \<longleftrightarrow> map_of (rq_Header q) k = None))"

lemma extHeader_ce: "\<exists>x. extHeader k = ''Ce-'' @ x"
proof -
  have "cap True (CHR ''C'') = CHR ''C''" "cap False (CHR ''e'') = CHR ''e''"
    "cap False (CHR ''-'') = CHR ''-''"
    by (simp_all add: cap_def is_lower_ascii_def is_upper_ascii_def Let_def)
  then have "capitalize True (''Ce-'' @ k) = ''Ce-'' @ capitalize True k" by simp
  then show ?thesis by (auto simp: extHeader_def CanonicalHeaderKey_def)
qed

lemma ToLower_ascii: "a \<noteq> CHR 0xC4 \<Longrightarrow> a \<noteq> CHR 0xE2 \<Longrightarrow> ToLower (a # s) = lower_char a # ToLower s"
  by (cases s; cases "tl s") simp_all

lemma lower_ce: "HasPrefix (ToLower (''Ce-'' @ x)) ''ce-''"
proof -
  have "lower_char (CHR ''C'') = CHR ''c''" "lower_char (CHR ''e'') = CHR ''e''"
    "lower_char (CHR ''-'') = CHR ''-''" by code_simp+
  then show ?thesis by (simp add: ToLower_ascii HasPrefix_def)
qed

text \<open>The headers of an event have canonical names.\<close>

definition canonical :: "string gomap \<Rightarrow> bool" where
  "canonical h \<longleftrightarrow> (\<forall>k \<in> fst ` set h. CanonicalHeaderKey k = k)"

lemma canonical_Set_header: "canonical h \<Longrightarrow> canonical (Set_header k v h)"
  by (simp add: canonical_def Set_header_def dom_update)

lemma canonical_fold: "canonical h \<Longrightarrow>
    canonical (fold (\<lambda>(k, v) m. Set_header (''Ce-'' @ k) (Sprintf_v v) m) xs h)"
  by (induction xs arbitrary: h) (auto intro: canonical_Set_header)

lemma canonical_eventHeaders: "canonical (eventHeaders h ord ev)"
proof -
  have "canonical []" by (simp add: canonical_def)
  then show ?thesis
    unfolding eventHeaders_def Let_def
    by (auto intro!: canonical_Set_header canonical_fold [simplified] split: option.split)
qed

text \<open>The order in which the runtime ranges over the headers does not show.\<close>

lemma ceHeaders_sorted:
  assumes "distinct (map fst (in_Header r))" and "iter_order ord"
  shows "ceHeaders ord r =
    sort (filter (\<lambda>k. HasPrefix (ToLower k) ''ce-'') (map fst (in_Header r)))"
proof -
  let ?f = "\<lambda>xs. filter (\<lambda>k. HasPrefix (ToLower k) ''ce-'') (map fst xs)"
  have "mset (?f (range_map ord (in_Header r))) = mset (?f (in_Header r))"
    using mset_range_map [OF assms] by (simp only: mset_filter mset_map)
  then show ?thesis
    unfolding ceHeaders_def sorted_list_of_multiset_mset [symmetric] by (simp only:)
qed

lemma receive_event_order:
  assumes "distinct (map fst (in_Header r))" and "iter_order ord" and "iter_order ord'"
  shows "receive_event ord r = receive_event ord' r"
  using ceHeaders_sorted [OF assms(1,2)] ceHeaders_sorted [OF assms(1,3)] by (simp add: receive_event_def)

lemma printed_header:
  assumes "carries q r" and "iter_order ord" and "canonical (rq_Header q)"
    and "map_of (rq_Header q) k = Some v" and "HasPrefix (ToLower k) ''ce-''"
  shows "''    '' @ k @ '': '' @ v \<in> set (fst (receive_event ord r))"
proof -
  have here: "map_of (in_Header r) k = Some [v]" and dist: "distinct (map fst (in_Header r))"
    using assms(1,4) by (auto simp: carries_def)
  have "CanonicalHeaderKey k = k"
    using assms(3,4) by (auto simp: canonical_def dest!: map_of_SomeD intro: rev_image_eqI)
  then have line: "header_line r k = ''    '' @ k @ '': '' @ v"
    using here by (simp add: header_line_def Header_Get_def)
  have k: "k \<in> set (ceHeaders ord r)"
    using ceHeaders_sorted [OF dist assms(2)] here assms(5) by (auto dest!: map_of_SomeD intro: rev_image_eqI)
  have "header_line r k \<in> header_line r ` set (ceHeaders ord r)" using k by (rule imageI)
  then have "header_line r k \<in> set (fst (receive_event ord r))"
    using length_pos_if_in_set [OF k] by (auto simp: receive_event_def Let_def simp del: length_greater_0_conv)
  then show ?thesis by (simp only: line)
qed

lemma find_ext:
  "distinct (map (extHeader \<circ> fst) xs) \<Longrightarrow> (k, v) \<in> set xs \<Longrightarrow>
     find (\<lambda>(k', v'). extHeader k' = extHeader k) xs = Some (k, v)"
  by (induction xs) (auto simp: rev_image_eqI)

lemma receive_shows_event:
  assumes "carries \<lparr>rq_URL = url, rq_Header = eventHeaders h ord ev, rq_Body = body\<rparr> r"
    and "iter_order ord" and "iter_order ord'"
    and "distinct (map fst (ev_Extensions ev))" and "clean_extensions ev"
  shows "{''    Ce-Id: '' @ ev_ID ev, ''    Ce-Type: '' @ ev_Type ev, ''    Ce-Source: '' @ ev_Source ev,
      ''    Ce-Specversion: '' @ ev_SpecVersion ev} \<subseteq> set (fst (receive_event ord' r))"
    and "(k, v) \<in> set (ev_Extensions ev) \<Longrightarrow>
      ''    '' @ extHeader k @ '': '' @ Sprintf_v v \<in> set (fst (receive_event ord' r))"
    and "body \<noteq> [] \<Longrightarrow> ''    '' @ body \<in> set (fst (receive_event ord' r))"
proof -
  let ?q = "\<lparr>rq_URL = url, rq_Header = eventHeaders h ord ev, rq_Body = body\<rparr>"
  have clean: "distinct (map (extHeader \<circ> fst) (ev_Extensions ev))"
    and apart: "\<And>k. k \<in> fst ` set (ev_Extensions ev) \<Longrightarrow> extHeader k \<notin> {''Content-Type'',
      ''Ce-Specversion'', ''Ce-Type'', ''Ce-Source'', ''Ce-Id'', ''Ce-Subject'', ''Ce-Time'', ''Ce-Dataschema'',
      ''Authorization''}"
    using assms(5) by (auto simp: clean_extensions_def)
  note get = eventHeaders_get [OF assms(4) clean assms(2), of h]
  have shown: "''    '' @ n @ '': '' @ x \<in> set (fst (receive_event ord' r))"
    if "map_of (eventHeaders h ord ev) n = Some x" "n = ''Ce-'' @ m" for n x m
    using printed_header [OF assms(1,3) _ _ lower_ce [of m, folded that(2)]] canonical_eventHeaders that(1)
    by simp
  have none: "find (\<lambda>(k, v). extHeader k = n) (ev_Extensions ev) = None"
    if "n \<in> {''Ce-Specversion'', ''Ce-Type'', ''Ce-Source'', ''Ce-Id''}" for n
    using apart that by (force simp: find_None_iff)
  show "{''    Ce-Id: '' @ ev_ID ev, ''    Ce-Type: '' @ ev_Type ev, ''    Ce-Source: '' @ ev_Source ev,
      ''    Ce-Specversion: '' @ ev_SpecVersion ev} \<subseteq> set (fst (receive_event ord' r))"
  proof -
    have std: "map_of (eventHeaders h ord ev) ''Ce-Id'' = Some (ev_ID ev)"
      "map_of (eventHeaders h ord ev) ''Ce-Type'' = Some (ev_Type ev)"
      "map_of (eventHeaders h ord ev) ''Ce-Source'' = Some (ev_Source ev)"
      "map_of (eventHeaders h ord ev) ''Ce-Specversion'' = Some (ev_SpecVersion ev)"
      by (simp_all add: get none standardHeaders_get)
    from shown [OF std(1), of "''Id''"] shown [OF std(2), of "''Type''"] shown [OF std(3), of "''Source''"]
      shown [OF std(4), of "''Specversion''"]
    show ?thesis by (simp only: append.simps insert_subset empty_subsetI simp_thms)
  qed
  show "''    '' @ extHeader k @ '': '' @ Sprintf_v v \<in> set (fst (receive_event ord' r))"
    if kv: "(k, v) \<in> set (ev_Extensions ev)"
  proof -
    obtain m where m: "extHeader k = ''Ce-'' @ m" using extHeader_ce by blast
    have "find (\<lambda>(k', v'). extHeader k' = extHeader k) (ev_Extensions ev) = Some (k, v)"
      using find_ext [OF clean kv] .
    moreover have "extHeader k \<noteq> ''Authorization''" using apart kv by force
    ultimately have "map_of (eventHeaders h ord ev) (extHeader k) = Some (Sprintf_v v)"
      by (simp add: get)
    from shown [OF this m] show ?thesis .
  qed
  show "''    '' @ body \<in> set (fst (receive_event ord' r))" if "body \<noteq> []"
    using that assms(1) by (simp add: receive_event_def Let_def carries_def)
qed

end
