(* ===== verification/Demo.thy ===== *)
theory Demo
  imports RestGateway ServerProps
begin

text \<open>
  examples/sdk-demo/main.go: a client of the emulator, over the SDK's clients as a parameter. The
  locale says what those clients promise over a connection.
\<close>

section \<open>The clients\<close>

text \<open>
  The methods of \<open>eventarc.Client\<close> and \<open>publishing.PublisherClient\<close> the demo calls. An iterator gives
  the items \<open>Next\<close> returns, and the error it ends with, \<open>None\<close> for \<open>iterator.Done\<close>. A \<open>Wait\<close> gives the
  message of a finished operation.
\<close>

record 'w client =
  cl_ListProviders :: "ListRequest \<Rightarrow> 'w \<Rightarrow> (Provider list \<times> err option) \<times> 'w"
  cl_GetProvider :: "GetRequest \<Rightarrow> ('w, Provider) op"
  cl_CreateTrigger :: "Trigger CreateRequest \<Rightarrow> ('w, Operation) op"
  cl_Wait :: "Operation \<Rightarrow> ('w, Trigger) op"
  cl_GetTrigger :: "GetRequest \<Rightarrow> ('w, Trigger) op"
  cl_ListTriggers :: "ListRequest \<Rightarrow> 'w \<Rightarrow> (Trigger list \<times> err option) \<times> 'w"
  cl_UpdateTrigger :: "Trigger UpdateRequest \<Rightarrow> ('w, Operation) op"
  cl_CreateChannel :: "Channel CreateRequest \<Rightarrow> ('w, Operation) op"
  cl_PublishEvents :: "PublishRequest \<Rightarrow> ('w, unit) op"
  cl_DeleteTrigger :: "DeleteRequest \<Rightarrow> ('w, Operation) op"

text \<open>
  What the program asks of its surroundings besides: the errors of the three constructors, the clock
  in seconds and in nanoseconds, and \<open>anypb.New\<close>.
\<close>

record surroundings =
  su_NewConn :: "string \<Rightarrow> err option"
  su_NewClient :: "err option"
  su_NewPublisherClient :: "err option"
  su_Unix :: int
  su_UnixNano :: int
  su_anypb :: "ProtoEvent \<Rightarrow> err + encoded"

section \<open>Printing and errors\<close>

text \<open>The program runs on the world and on what it has printed; an error is the line of \<open>log.Fatalf\<close>.\<close>

type_synonym 'w terminal = "'w \<times> string list"

definition println :: "string list \<Rightarrow> ('w terminal, unit) op" where
  "println ls s = (Ok (), (fst s, snd s @ ls))"

definition remote :: "('w, 'a) op \<Rightarrow> ('w terminal, 'a) op" where
  "remote f s = (case f (fst s) of (r, w) \<Rightarrow> (r, (w, snd s)))"

definition must :: "string \<Rightarrow> ('s, 'a) op \<Rightarrow> ('s, 'a) op" where
  "must m f s = (case f s of
      (Err x, s') \<Rightarrow> (Err (GoError (Txt (''ERROR '' @ m @ '': '') # err_Error x)), s')
    | (r, s') \<Rightarrow> (r, s'))"

definition check :: "err option \<Rightarrow> ('s, unit) op" where
  "check r = give (case r of None \<Rightarrow> Ok () | Some x \<Rightarrow> Err x)"

definition envOr :: "(string \<Rightarrow> string) \<Rightarrow> string \<Rightarrow> string \<Rightarrow> string" where
  "envOr env key def = (if env key \<noteq> [] then env key else def)"

text \<open>A loop over an iterator: a line for each item, then the end or the error.\<close>

definition drain :: "string \<Rightarrow> ('a \<Rightarrow> string) \<Rightarrow> ('w \<Rightarrow> ('a list \<times> err option) \<times> 'w) \<Rightarrow>
    ('w terminal, nat) op" where
  "drain m line next s = (case next (fst s) of
     ((items, end), w) \<Rightarrow>
        seq (println (map line items)) (\<lambda>_.
        seq (must m (check end)) (\<lambda>_. give (Ok (length items)))) (w, snd s))"

text \<open>\<open>%v\<close> of a map: its entries in the order of the keys.\<close>

definition Sprintf_map :: "string gomap \<Rightarrow> string" where
  "Sprintf_map m = ''map['' @ Join (map (\<lambda>(k, v). k @ '':'' @ v) (sort_key fst m)) (CHR '' '') @ '']''"

definition bar :: string where
  "bar = concat (replicate 2 [CHR 0xE2, CHR 0x94, CHR 0x80])"

definition arrow :: string where
  "arrow = [CHR 0xE2, CHR 0x86, CHR 0x92]"

definition heading :: "string \<Rightarrow> string list" where
  "heading t = [[], bar @ '' '' @ t]"

definition http_uri :: "Trigger \<Rightarrow> string" where
  "http_uri t = (case tr_Destination t of Some (HttpEndpoint u) \<Rightarrow> u | _ \<Rightarrow> [])"

section \<open>The requests\<close>

definition demo_project :: string where
  "demo_project = ''my-project''"

definition demo_location :: string where
  "demo_location = ''us-central1''"

definition demo_parent :: string where
  "demo_parent = ''projects/'' @ demo_project @ ''/locations/'' @ demo_location"

definition list_request :: ListRequest where
  "list_request = \<lparr>lr_Parent = demo_parent, lr_PageSize = 0, lr_PageToken = [], lr_OrderBy = [],
     lr_Filter = []\<rparr>"

definition trigger_id :: "surroundings \<Rightarrow> string" where
  "trigger_id su = ''sdk-trigger-'' @ int_string (su_Unix su)"

definition demo_trigger :: "string \<Rightarrow> Trigger" where
  "demo_trigger webhookURI = \<lparr>tr_Name = [], tr_Uid = [], tr_CreateTime = None, tr_UpdateTime = None,
     tr_EventFilters = [\<lparr>ef_Attribute = ''type'',
       ef_Value = ''google.cloud.pubsub.topic.v1.messagePublished'', ef_Operator = []\<rparr>],
     tr_ServiceAccount = [], tr_Destination = Some (HttpEndpoint webhookURI), tr_Labels = [],
     tr_Channel = [], tr_Conditions = [], tr_Etag = [], tr_Other = []\<rparr>"

definition create_request :: "surroundings \<Rightarrow> string \<Rightarrow> Trigger CreateRequest" where
  "create_request su webhookURI = \<lparr>cq_Parent = demo_parent, cq_Id = trigger_id su,
     cq_Resource = Some (demo_trigger webhookURI), cq_ValidateOnly = False\<rparr>"

definition update_request :: "string \<Rightarrow> string \<Rightarrow> Trigger UpdateRequest" where
  "update_request name webhookURI = \<lparr>uq_Resource = Some ((demo_trigger webhookURI)
       \<lparr>tr_Name := name, tr_Labels := [(''env'', ''local''), (''demo'', ''sdk'')]\<rparr>),
     uq_UpdateMask = None, uq_ValidateOnly = False, uq_AllowMissing = False\<rparr>"

definition channel_request :: "Channel CreateRequest" where
  "channel_request = \<lparr>cq_Parent = demo_parent, cq_Id = ''my-channel'',
     cq_Resource = Some \<lparr>ch_Name = [], ch_Uid = [], ch_CreateTime = None, ch_UpdateTime = None,
       ch_State = STATE_UNSPECIFIED, ch_ActivationToken = [], ch_CryptoKeyName = [], ch_Labels = [],
       ch_Other = []\<rparr>, cq_ValidateOnly = False\<rparr>"

definition demo_event :: "surroundings \<Rightarrow> ProtoEvent" where
  "demo_event su = \<lparr>pe_Id = ''sdk-evt-'' @ int_string (su_UnixNano su),
     pe_Source = ''//pubsub.googleapis.com/projects/'' @ demo_project @ ''/topics/my-topic'',
     pe_SpecVersion = ''1.0'', pe_Type = ''google.cloud.pubsub.topic.v1.messagePublished'',
     pe_Attributes = [(''subject'', Some (CeString ''my-subject''))],
     pe_Data = TextData (''{'' @ [CHR 0x22] @ ''subscription'' @ [CHR 0x22, CHR 0x3A, CHR 0x22] @
       ''projects/my-project/subscriptions/my-sub'' @ [CHR 0x22, CHR 0x2C, CHR 0x22] @ ''message'' @
       [CHR 0x22, CHR 0x3A] @ ''{'' @ [CHR 0x22] @ ''data'' @ [CHR 0x22, CHR 0x3A, CHR 0x22] @
       ''SGVsbG8gZnJvbSB0aGUgR0NQIEV2ZW50YXJjIFNESyE='' @ [CHR 0x22] @ ''}}'')\<rparr>"

definition publish_request :: "encoded \<Rightarrow> PublishRequest" where
  "publish_request ceAny = \<lparr>pr_Channel = demo_parent @ ''/channels/my-channel'',
     pr_Events = [Some ceAny]\<rparr>"

definition delete_request :: "string \<Rightarrow> DeleteRequest" where
  "delete_request name = \<lparr>dq_Name = name, dq_Etag = [], dq_AllowMissing = False, dq_ValidateOnly = False\<rparr>"

section \<open>The program\<close>

text \<open>The parts of \<open>main\<close>, in order; the one about the channel goes on when the channel exists.\<close>

definition connect_part :: "surroundings \<Rightarrow> string \<Rightarrow> ('w terminal, unit) op" where
  "connect_part su emulatorAddr =
     seq (must ''dial emulator'' (check (su_NewConn su emulatorAddr))) (\<lambda>_.
     seq (must ''create eventarc client'' (check (su_NewClient su))) (\<lambda>_.
     must ''create publisher client'' (check (su_NewPublisherClient su))))"

definition providers_part :: "'w client \<Rightarrow> ('w terminal, unit) op" where
  "providers_part cl =
     seq (println (heading ''1. List providers (seeded at startup)'')) (\<lambda>_.
     seq (drain ''list providers'' (\<lambda>p. ''   provider: '' @ pv_Name p) (cl_ListProviders cl list_request))
       (\<lambda>count.
     seq (println [''   '' @ arrow @ '' '' @ nat_digits count @ '' providers'']) (\<lambda>_.
     seq (println (heading ''2. Get provider: pubsub'')) (\<lambda>_.
     seq (must ''get provider'' (remote (cl_GetProvider cl
            \<lparr>gr_Name = demo_parent @ ''/providers/pubsub.googleapis.com''\<rparr>))) (\<lambda>p.
     println [''   name:        '' @ pv_Name p, ''   displayName: '' @ pv_DisplayName p])))))"

definition create_part :: "'w client \<Rightarrow> surroundings \<Rightarrow> string \<Rightarrow> ('w terminal, Trigger) op" where
  "create_part cl su webhookURI =
     seq (println (heading ''3. Create trigger'')) (\<lambda>_.
     seq (must ''create trigger LRO'' (remote (cl_CreateTrigger cl (create_request su webhookURI)))) (\<lambda>opn.
     seq (must ''wait for trigger creation'' (remote (cl_Wait cl opn))) (\<lambda>trigger.
     seq (println [''   created: '' @ tr_Name trigger, ''   uid:     '' @ tr_Uid trigger]) (\<lambda>_.
     seq (println (heading ''4. Get trigger'')) (\<lambda>_.
     seq (must ''get trigger'' (remote (cl_GetTrigger cl \<lparr>gr_Name = tr_Name trigger\<rparr>))) (\<lambda>got.
     seq (println [''   name:        '' @ tr_Name got, ''   destination: '' @ http_uri got]) (\<lambda>_.
     seq (println (heading ''5. List triggers'')) (\<lambda>_.
     seq (drain ''list triggers'' (\<lambda>t. ''   trigger: '' @ tr_Name t) (cl_ListTriggers cl list_request)) (\<lambda>_.
     give (Ok trigger))))))))))"

definition update_part :: "'w client \<Rightarrow> string \<Rightarrow> Trigger \<Rightarrow> ('w terminal, unit) op" where
  "update_part cl webhookURI trigger =
     seq (println (heading ''6. Update trigger (add label)'')) (\<lambda>_.
     seq (must ''update trigger LRO''
            (remote (cl_UpdateTrigger cl (update_request (tr_Name trigger) webhookURI)))) (\<lambda>updateOp.
     seq (must ''wait for update'' (remote (cl_Wait cl updateOp))) (\<lambda>updated.
     println [''   labels: '' @ Sprintf_map (tr_Labels updated)])))"

definition channel_part :: "'w client \<Rightarrow> ('w terminal, unit) op" where
  "channel_part cl =
     seq (println (heading ''3b. Ensure channel my-channel exists'')) (\<lambda>_.
     catch (remote (cl_CreateChannel cl channel_request))
       (\<lambda>err. if status_Code err \<noteq> AlreadyExists
              then must ''create channel my-channel'' (give (Err err))
              else println [''   channel already exists, continuing''])
       (\<lambda>opn. println [''   created channel my-channel'']))"

definition publish_part :: "'w client \<Rightarrow> surroundings \<Rightarrow> ('w terminal, unit) op" where
  "publish_part cl su =
     (let ce = demo_event su
      in seq (println (heading ''7. Publish CloudEvent via Publisher SDK'')) (\<lambda>_.
         seq (must ''marshal CloudEvent to Any''
                (give (case su_anypb su ce of Inl x \<Rightarrow> Err x | Inr a \<Rightarrow> Ok a))) (\<lambda>ceAny.
         seq (must ''publish events'' (remote (cl_PublishEvents cl (publish_request ceAny)))) (\<lambda>_.
         println [''   published event id: '' @ pe_Id ce, ''   event type: '' @ pe_Type ce,
           ''   '' @ arrow @ '' to find delivery in webhook logs: grep for Ce-Id: '' @ pe_Id ce]))))"

definition delete_part :: "'w client \<Rightarrow> Trigger \<Rightarrow> ('w terminal, unit) op" where
  "delete_part cl trigger =
     seq (println (heading ''8. Delete trigger'')) (\<lambda>_.
     seq (must ''delete trigger LRO'' (remote (cl_DeleteTrigger cl (delete_request (tr_Name trigger)))))
       (\<lambda>deleteOp.
     seq (must ''wait for delete'' (remote (cl_Wait cl deleteOp))) (\<lambda>_.
     println [''   deleted: '' @ tr_Name trigger, [],
       [CHR 0xE2, CHR 0x9C, CHR 0x93] @ '' SDK demo complete'',
       ''  If using Docker:  docker compose logs webhook'',
       ''  If running local: check your webhook receiver'' @ [CHR 0x27] @ ''s stdout'',
       ''  to see the delivered CloudEvent with Ce-* headers.'', []])))"

definition sdk_demo ::
  "'w client \<Rightarrow> surroundings \<Rightarrow> (string \<Rightarrow> string) \<Rightarrow> ('w terminal, unit) op" where
  "sdk_demo cl su env =
     (let emulatorAddr = envOr env ''EVENTARC_EMULATOR_HOST'' ''localhost:9085'';
          webhookURI = envOr env ''WEBHOOK_URI'' ''http://webhook:3000/events''
      in seq (connect_part su emulatorAddr) (\<lambda>_.
         seq (providers_part cl) (\<lambda>_.
         seq (create_part cl su webhookURI) (\<lambda>trigger.
         seq (update_part cl webhookURI trigger) (\<lambda>_.
         seq (channel_part cl) (\<lambda>_.
         seq (publish_part cl su) (\<lambda>_.
         delete_part cl trigger)))))))"

end
