(* ===== verification/DemoRun.thy ===== *)
theory DemoRun
  imports Demo
begin

text \<open>
  What the SDK's clients promise, as a locale over a connection; clients that call the connection
  directly, which keep the promise; and a run of the demo against the emulator.
\<close>

section \<open>The contract of the clients\<close>

text \<open>
  Each method makes its call and gives its response or its error; an iterator whose first page has
  no next token gives the items of that page; \<open>Wait\<close> on an operation that is done makes no call and
  gives its message.
\<close>

locale sdk_client =
  fixes cl :: "'w client" and conn :: "'w conn"
  assumes list_providers: "conn (Eventarc (ListProvidersRPC q1)) w = (Ok (Answer (ProvidersResp ps [])), w') \<Longrightarrow>
      cl_ListProviders cl q1 w = ((ps, None), w')"
    and get_provider: "conn (Eventarc (GetProviderRPC q2)) w = (Ok (Answer (ProviderResp p)), w') \<Longrightarrow>
      cl_GetProvider cl q2 w = (Ok p, w')"
    and create_trigger: "conn (Eventarc (TriggerRPC (CreateRPC q3))) w = (Ok (Answer (OperationResp opn)), w') \<Longrightarrow>
      cl_CreateTrigger cl q3 w = (Ok opn, w')"
    and wait_done: "op_Done opn \<Longrightarrow> op_Response opn = AnyTrigger t \<Longrightarrow> cl_Wait cl opn w = (Ok t, w)"
    and get_trigger: "conn (Eventarc (TriggerRPC (GetRPC q2))) w = (Ok (Answer (TriggerResp t)), w') \<Longrightarrow>
      cl_GetTrigger cl q2 w = (Ok t, w')"
    and list_triggers: "conn (Eventarc (TriggerRPC (ListRPC q1))) w = (Ok (Answer (TriggersResp ts [])), w') \<Longrightarrow>
      cl_ListTriggers cl q1 w = ((ts, None), w')"
    and update_trigger: "conn (Eventarc (TriggerRPC (UpdateRPC q4))) w = (Ok (Answer (OperationResp opn)), w') \<Longrightarrow>
      cl_UpdateTrigger cl q4 w = (Ok opn, w')"
    and create_channel: "conn (Eventarc (ChannelRPC (CreateRPC q5))) w = (Ok (Answer (OperationResp opn)), w') \<Longrightarrow>
      cl_CreateChannel cl q5 w = (Ok opn, w')"
    and create_channel_fails: "conn (Eventarc (ChannelRPC (CreateRPC q5))) w = (Err x, w') \<Longrightarrow>
      cl_CreateChannel cl q5 w = (Err x, w')"
    and publish_events: "conn (PublishEventsCall q6) w = (Ok Published, w') \<Longrightarrow>
      cl_PublishEvents cl q6 w = (Ok (), w')"
    and delete_trigger: "conn (Eventarc (TriggerRPC (DeleteRPC q7))) w = (Ok (Answer (OperationResp opn)), w') \<Longrightarrow>
      cl_DeleteTrigger cl q7 w = (Ok opn, w')"

text \<open>
  Direct clients. An iterator asks for page after page, here at most a thousand, with the token of
  the page before; a reply of another kind is an error.
\<close>

definition unexpected :: err where
  "unexpected = GoError [Txt ''unexpected reply'']"

definition unary :: "'w conn \<Rightarrow> Call \<Rightarrow> (Reply \<Rightarrow> 'a option) \<Rightarrow> ('w, 'a) op" where
  "unary conn call f w = (case conn call w of
      (Ok r, w') \<Rightarrow> ((case f r of Some a \<Rightarrow> Ok a | None \<Rightarrow> Err unexpected), w')
    | (Err x, w') \<Rightarrow> (Err x, w')
    | (Panic p, w') \<Rightarrow> (Err unexpected, w'))"

fun pages_of :: "nat \<Rightarrow> (ListRequest \<Rightarrow> ('w, 'a list \<times> string) op) \<Rightarrow> ListRequest \<Rightarrow> 'w \<Rightarrow>
    ('a list \<times> err option) \<times> 'w" where
  "pages_of 0 f q w = (([], Some unexpected), w)"
| "pages_of (Suc n) f q w = (case f q w of
      (Ok (items, tok), w') \<Rightarrow>
        (if tok = [] then ((items, None), w')
         else (case pages_of n f (q\<lparr>lr_PageToken := tok\<rparr>) w' of
                 ((rest, end), w'') \<Rightarrow> ((items @ rest, end), w'')))
    | (Err x, w') \<Rightarrow> (([], Some x), w')
    | (Panic p, w') \<Rightarrow> (([], Some unexpected), w'))"

definition to_operation :: "Reply \<Rightarrow> Operation option" where
  "to_operation r = (case r of Answer (OperationResp opn) \<Rightarrow> Some opn | _ \<Rightarrow> None)"

definition direct :: "'w conn \<Rightarrow> 'w client" where
  "direct conn = \<lparr>
     cl_ListProviders = pages_of 1000 (\<lambda>q. unary conn (Eventarc (ListProvidersRPC q))
       (\<lambda>r. case r of Answer (ProvidersResp ps tok) \<Rightarrow> Some (ps, tok) | _ \<Rightarrow> None)),
     cl_GetProvider = (\<lambda>q. unary conn (Eventarc (GetProviderRPC q))
       (\<lambda>r. case r of Answer (ProviderResp p) \<Rightarrow> Some p | _ \<Rightarrow> None)),
     cl_CreateTrigger = (\<lambda>q. unary conn (Eventarc (TriggerRPC (CreateRPC q))) to_operation),
     cl_Wait = (\<lambda>opn w. (case op_Response opn of
       AnyTrigger t \<Rightarrow> (if op_Done opn then Ok t else Err unexpected) | _ \<Rightarrow> Err unexpected, w)),
     cl_GetTrigger = (\<lambda>q. unary conn (Eventarc (TriggerRPC (GetRPC q)))
       (\<lambda>r. case r of Answer (TriggerResp t) \<Rightarrow> Some t | _ \<Rightarrow> None)),
     cl_ListTriggers = pages_of 1000 (\<lambda>q. unary conn (Eventarc (TriggerRPC (ListRPC q)))
       (\<lambda>r. case r of Answer (TriggersResp ts tok) \<Rightarrow> Some (ts, tok) | _ \<Rightarrow> None)),
     cl_UpdateTrigger = (\<lambda>q. unary conn (Eventarc (TriggerRPC (UpdateRPC q))) to_operation),
     cl_CreateChannel = (\<lambda>q. unary conn (Eventarc (ChannelRPC (CreateRPC q))) to_operation),
     cl_PublishEvents = (\<lambda>q. unary conn (PublishEventsCall q)
       (\<lambda>r. case r of Published \<Rightarrow> Some () | _ \<Rightarrow> None)),
     cl_DeleteTrigger = (\<lambda>q. unary conn (Eventarc (TriggerRPC (DeleteRPC q))) to_operation)\<rparr>"

lemma pages_of_one: "f q w = (Ok (items, []), w') \<Longrightarrow> 0 < n \<Longrightarrow> pages_of n f q w = ((items, None), w')"
  by (cases n) simp_all

interpretation direct: sdk_client "direct conn" conn for conn
  by unfold_locales (auto simp: direct_def unary_def to_operation_def intro!: pages_of_one)

section \<open>The emulator as the connection\<close>

text \<open>Each call has an environment of its own, counted by the number of the calls before it.\<close>

definition serving :: "sdk \<Rightarrow> ('c, 'a, 'p) cel \<Rightarrow> http_lib \<Rightarrow> Logger option \<Rightarrow> order \<Rightarrow> (nat \<Rightarrow> env) \<Rightarrow>
    (World \<times> nat) conn" where
  "serving lib c h lg ord es call x =
     (case serve lib c h lg ord (es (snd x)) call (fst x) of (r, w) \<Rightarrow> (r, (w, Suc (snd x))))"

lemma serving_Ok: "handle (es n) q (w_server w) = (Ok r, s') \<Longrightarrow>
    serving lib c h lg ord es (Eventarc q) (w, n) = (Ok (Answer r), (w\<lparr>w_server := s'\<rparr>, Suc n))"
  by (simp add: serving_def serve_def)

lemma serving_Err: "handle (es n) q (w_server w) = (Err x, s') \<Longrightarrow>
    serving lib c h lg ord es (Eventarc q) (w, n) = (Err x, (w\<lparr>w_server := s'\<rparr>, Suc n))"
  by (simp add: serving_def serve_def)

section \<open>The handlers on the demo's requests\<close>

text \<open>The state the demo starts from and comes back to, and an environment in which nothing fails.\<close>

definition demo_ready :: "Server \<Rightarrow> bool" where
  "demo_ready s \<longleftrightarrow> reachable s \<and> \<not> iamClient s \<and> triggers (storage s) = [] \<and>
     providers (storage s) = providers NewStorage"

definition fair :: "env \<Rightarrow> bool" where
  "fair e \<longleftrightarrow> iter_order (e_order e) \<and> lro_works e"

text \<open>Such an environment.\<close>

definition fair_env :: env where
  "fair_env = \<lparr>e_principal = [], e_iam = (\<lambda>principal resource permission. Inr True), e_details = True,
     e_now = \<lparr>ts_Seconds = 0, ts_Nanos = 0\<rparr>, e_uid = 0, e_token = 1, e_etag = 2,
     e_op_now = \<lparr>ts_Seconds = 0, ts_Nanos = 0\<rparr>, e_rand = Inr (\<lambda>i. 0), e_anypb = (\<lambda>m. None),
     e_order = rev\<rparr>"

lemma fair_env_fair: "fair fair_env"
  by (simp add: fair_def fair_env_def lro_works_def)

lemma done_op_works:
  assumes "fair e"
  obtains opn where "done_op e p r v t s =
      (Ok opn, s\<lparr>lroStore := lroStore s\<lparr>ops := AList.update (op_Name opn) opn (ops (lroStore s))\<rparr>\<rparr>)"
    "op_Done opn" "op_Response opn = r"
proof -
  have "lro_works e" using assms by (simp add: fair_def)
  from CreateDone_works [OF this] obtain opn where
    c: "CreateDone e p r v t (lroStore s) =
      (Ok opn, lroStore s\<lparr>ops := AList.update (op_Name opn) opn (ops (lroStore s))\<rparr>)" by blast
  then have d: "done_op e p r v t s =
      (Ok opn, s\<lparr>lroStore := lroStore s\<lparr>ops := AList.update (op_Name opn) opn (ops (lroStore s))\<rparr>\<rparr>)"
    by (simp add: done_op_def)
  show ?thesis by (rule that [OF d done_op_Ok(1,2) [OF d]])
qed

text \<open>At most a hundred items are one page.\<close>

lemma one_page: "length items \<le> 100 \<Longrightarrow> PaginatePage items [] 0 = Ok (items, [])"
  using PaginatePage_at [of items 0 "[]" 0] by (simp add: page_offset_def page_size_default)

lemma demo_parent_not_Nil [simp]: "demo_parent \<noteq> []"
  by (simp add: demo_parent_def)

lemmas part_simps = seq_def println_def drain_def must_def check_def give_def remote_def

lemmas open_simps = seq_def require_apply authorize_apply query_apply checkPermission_off apply_op_def
  answer_def catch_def

lemma demo_list_providers:
  assumes "fair e" and "\<not> iamClient s" and "providers (storage s) = providers NewStorage"
  shows "\<exists>ps. handle e (ListProvidersRPC list_request) s = (Ok (ProvidersResp ps []), s)"
proof -
  have "distinct (map fst (providers NewStorage))" by code_simp
  then have "length (range_map (e_order e) (providers NewStorage)) = length (providers NewStorage)"
    using assms(1) mset_range_map by (metis fair_def size_mset)
  also have "\<dots> = 5" by code_simp
  finally have len: "length (range_map (e_order e) (providers NewStorage)) \<le> 100" by simp
  have "\<exists>ps. ListProviders e demo_parent 0 [] [] [] (storage s) = Ok (ps, [])"
    unfolding ListProviders_def Let_def assms(3)
    by (rule exI, rule one_page) (use len in \<open>auto intro: order_trans [OF length_filter_le]\<close>)
  then show ?thesis
    using assms(2) by (auto simp: ListProviders_rpc_def list_request_def open_simps)
qed

lemma demo_get_provider:
  assumes "\<not> iamClient s" and "providers (storage s) = providers NewStorage"
  shows "\<exists>p. handle e (GetProviderRPC \<lparr>gr_Name = demo_parent @ ''/providers/pubsub.googleapis.com''\<rparr>) s =
    (Ok (ProviderResp p), s)"
proof -
  let ?n = "demo_parent @ ''/providers/pubsub.googleapis.com''"
  have "is_ok (GetProvider ?n NewStorage)" by code_simp
  moreover have "GetProvider ?n (storage s) = GetProvider ?n NewStorage"
    unfolding GetProvider_def assms(2) by (rule refl)
  ultimately obtain p where "GetProvider ?n (storage s) = Ok p" by (auto simp: is_ok_iff)
  then show ?thesis using assms(1) by (auto simp: GetProvider_rpc_def open_simps)
qed

text \<open>The name of the demo's trigger, whose ID is a valid one for every time of a Go clock.\<close>

definition trigger_name :: "surroundings \<Rightarrow> string" where
  "trigger_name su = demo_parent @ ''/triggers/'' @ trigger_id su"

lemma nat_digits_length: "n < 10 ^ k \<Longrightarrow> 0 < k \<Longrightarrow> length (nat_digits n) \<le> k"
proof (induction k arbitrary: n)
  case (Suc k)
  show ?case
  proof (cases "n < 10")
    case True
    then show ?thesis by (subst nat_digits.simps) simp
  next
    case False
    then have "0 < k" using Suc.prems by (cases k) auto
    moreover have "n div 10 < 10 ^ k" using Suc.prems(1) by (simp add: less_mult_imp_div_less mult.commute)
    ultimately have "length (nat_digits (n div 10)) \<le> k" using Suc.IH by blast
    then show ?thesis using False by (subst nat_digits.simps) simp
  qed
qed simp

lemma nat_digits_chars: "list_all is_id_end (nat_digits n)"
proof (induction n rule: nat_digits.induct)
  case (1 n)
  have d: "is_id_end (digit m)" if "m < 10" for m
    using of_char_digit [OF that] that by (simp add: is_id_end_def)
  show ?case
    using 1 d by (subst nat_digits.simps) auto
qed

lemma trigger_id_valid:
  assumes "0 \<le> su_Unix su" and "su_Unix su < 2 ^ 63"
  shows "resourceIDRe (trigger_id su)"
proof -
  let ?ds = "nat_digits (nat (su_Unix su))"
  have "nat (su_Unix su) < 10 ^ 19" using assms by (simp add: nat_less_iff)
  then have len: "length ?ds \<le> 19" by (rule nat_digits_length) simp
  have ends: "is_id_end (last ?ds)" and chars: "list_all is_id_char (butlast ?ds)"
    using nat_digits_chars [of "nat (su_Unix su)"]
    by (auto simp: list_all_iff is_id_char_def dest: in_set_butlastD)
  have "list_all is_id_char ''dk-trigger-''" "is_lower (CHR ''s'')" by code_simp+
  then show ?thesis
    using len ends chars assms(1)
    by (simp add: resourceIDRe_def trigger_id_def int_string_def butlast_append)
qed

definition same_rest :: "Server \<Rightarrow> Server \<Rightarrow> bool" where
  "same_rest s s' \<longleftrightarrow> iamClient s' = iamClient s \<and> providers (storage s') = providers (storage s) \<and>
     channels (storage s') = channels (storage s)"

lemma demo_create:
  assumes "fair e" and "\<not> iamClient s" and "triggers (storage s) = []" and "resourceIDRe (trigger_id su)"
  obtains opn s' r where
    "handle e (TriggerRPC (CreateRPC (create_request su uri))) s = (Ok (OperationResp opn), s')"
    "op_Done opn" "op_Response opn = AnyTrigger r" "triggers (storage s') = [(trigger_name su, r)]"
    "tr_Name r = trigger_name su" "same_rest s s'"
proof -
  let ?q = "create_request su uri"
  define r where "r = (demo_trigger uri)\<lparr>tr_Name := trigger_name su, tr_Uid := newUID (e_uid e),
    tr_CreateTime := Some (e_now e), tr_UpdateTime := Some (e_now e), tr_Etag := newEtag (e_etag e),
    tr_Conditions := readyCondition\<rparr>"
  let ?s = "s\<lparr>storage := storage s\<lparr>triggers := [(trigger_name su, r)]\<rparr>\<rparr>"
  have name: "tr_Name r = trigger_name su" by (simp add: r_def)
  have none: "triggerViolations ?q = []"
    using assms(4) by (simp add: triggerViolations_Nil create_request_def demo_trigger_def)
  have stored: "CreateTrigger e demo_parent (trigger_id su) (demo_trigger uri) (storage s) =
      (Ok r, storage s\<lparr>triggers := [(trigger_name su, r)]\<rparr>)"
    using assms(3) by (simp add: CreateTrigger_def trigger_name_def r_def Let_def)
  obtain opn where opn: "done_op e demo_parent (AnyTrigger r) ''create'' (tr_Name r) ?s =
      (Ok opn, ?s\<lparr>lroStore := lroStore ?s\<lparr>ops := AList.update (op_Name opn) opn (ops (lroStore ?s))\<rparr>\<rparr>)"
    "op_Done opn" "op_Response opn = AnyTrigger r"
    by (rule done_op_works [OF assms(1)])
  show ?thesis
  proof (rule that)
    show "handle e (TriggerRPC (CreateRPC ?q)) s = (Ok (OperationResp opn),
        ?s\<lparr>lroStore := lroStore ?s\<lparr>ops := AList.update (op_Name opn) opn (ops (lroStore ?s))\<rparr>\<rparr>)"
      using none stored opn(1) assms(2)
      by (simp add: CreateTrigger_rpc_def open_simps) (simp add: create_request_def open_simps)
  qed (use opn name in \<open>simp_all add: same_rest_def\<close>)
qed

text \<open>The demo's trigger is the only one; the requests that name it.\<close>

lemma demo_get:
  assumes "\<not> iamClient s" and "triggers (storage s) = [(n, r)]" and "n \<noteq> []"
  shows "handle e (TriggerRPC (GetRPC \<lparr>gr_Name = n\<rparr>)) s = (Ok (TriggerResp r), s)"
  using assms by (simp add: GetTrigger_rpc_def GetTrigger_def open_simps)

lemma demo_list:
  assumes "fair e" and "\<not> iamClient s" and "triggers (storage s) = [(n, r)]"
    and "HasPrefix n (demo_parent @ ''/triggers/'')"
  shows "handle e (TriggerRPC (ListRPC list_request)) s = (Ok (TriggersResp [r] []), s)"
proof -
  have "mset (range_map (e_order e) [(n, r)]) = {#(n, r)#}"
    using assms(1) mset_range_map [of "[(n, r)]" "e_order e"] by (simp add: fair_def)
  then have "range_map (e_order e) [(n, r)] = [(n, r)]" by simp
  then have "collect (e_order e) (demo_parent @ ''/triggers/'') (triggers (storage s)) = [r]"
    using assms(3,4) by (simp add: collect_def)
  then have "ListTriggers e demo_parent 0 [] [] [] (storage s) = Ok ([r], [])"
    by (simp add: ListTriggers_def Let_def sortByOrder_def one_page)
  then show ?thesis
    using assms(2) by (simp add: ListTriggers_rpc_def list_request_def open_simps)
qed

lemma demo_update:
  assumes "fair e" and "\<not> iamClient s" and "triggers (storage s) = [(n, r)]" and "n \<noteq> []"
    and "tr_Name r = n"
  obtains opn s' r' where
    "handle e (TriggerRPC (UpdateRPC (update_request n uri))) s = (Ok (OperationResp opn), s')"
    "op_Done opn" "op_Response opn = AnyTrigger r'" "triggers (storage s') = [(n, r')]"
    "tr_Name r' = n" "same_rest s s'" "tr_EventFilters r' = tr_EventFilters (demo_trigger uri)"
    "tr_Destination r' = Some (HttpEndpoint uri)" "tr_Labels r' = [(''env'', ''local''), (''demo'', ''sdk'')]"
proof -
  let ?q = "update_request n uri"
  define t where "t = (demo_trigger uri)\<lparr>tr_Name := n, tr_Labels := [(''env'', ''local''), (''demo'', ''sdk'')]\<rparr>"
  have t: "tr_Name t = n" "tr_EventFilters t = tr_EventFilters (demo_trigger uri)"
    "tr_Destination t = Some (HttpEndpoint uri)" "tr_Labels t = [(''env'', ''local''), (''demo'', ''sdk'')]"
    by (simp_all add: t_def demo_trigger_def)
  define r' where "r' = (setTriggerAll t r)\<lparr>tr_UpdateTime := Some (e_now e), tr_Etag := newEtag (e_etag e),
    tr_Conditions := readyCondition\<rparr>"
  have r': "tr_Name r' = n" "tr_EventFilters r' = tr_EventFilters (demo_trigger uri)"
    "tr_Destination r' = Some (HttpEndpoint uri)" "tr_Labels r' = [(''env'', ''local''), (''demo'', ''sdk'')]"
    using assms(5) t by (simp_all add: r'_def setTriggerAll_def)
  let ?s = "s\<lparr>storage := storage s\<lparr>triggers := [(n, r')]\<rparr>\<rparr>"
  have q: "?q = \<lparr>uq_Resource = Some t, uq_UpdateMask = None, uq_ValidateOnly = False, uq_AllowMissing = False\<rparr>"
    by (simp add: update_request_def t_def)
  have stored: "UpdateTrigger e t None (storage s) = (Ok r', storage s\<lparr>triggers := [(n, r')]\<rparr>)"
    using assms(3) t(1) by (simp add: UpdateTrigger_def Let_def r'_def)
  obtain opn where opn: "done_op e (parentFromName n) (AnyTrigger r') ''update'' n ?s =
      (Ok opn, ?s\<lparr>lroStore := lroStore ?s\<lparr>ops := AList.update (op_Name opn) opn (ops (lroStore ?s))\<rparr>\<rparr>)"
    "op_Done opn" "op_Response opn = AnyTrigger r'"
    by (rule done_op_works [OF assms(1)])
  show ?thesis
  proof (rule that)
    show "handle e (TriggerRPC (UpdateRPC ?q)) s = (Ok (OperationResp opn),
        ?s\<lparr>lroStore := lroStore ?s\<lparr>ops := AList.update (op_Name opn) opn (ops (lroStore ?s))\<rparr>\<rparr>)"
      unfolding q using stored opn(1) assms(2,4) t(1)
      by (simp add: UpdateTrigger_rpc_def nilsafe_def deref_def give_def open_simps Let_def)
  qed (use opn r' in \<open>simp_all add: same_rest_def\<close>)
qed

lemma demo_channel:
  assumes "fair e" and "\<not> iamClient s"
  obtains (created) opn s' where
      "handle e (ChannelRPC (CreateRPC channel_request)) s = (Ok (OperationResp opn), s')"
      "iamClient s' = iamClient s" "providers (storage s') = providers (storage s)"
      "triggers (storage s') = triggers (storage s)"
      "map_of (channels (storage s')) (demo_parent @ ''/channels/my-channel'') \<noteq> None"
    | (exists) x where
      "handle e (ChannelRPC (CreateRPC channel_request)) s = (Err x, s)" "status_Code x = AlreadyExists"
      "map_of (channels (storage s)) (demo_parent @ ''/channels/my-channel'') \<noteq> None"
proof -
  let ?n = "demo_parent @ ''/channels/my-channel''"
  have valid: "resourceIDRe ''my-channel''" by code_simp
  show ?thesis
  proof (cases "map_of (channels (storage s)) ?n")
    case None
    let ?ch = "the (cq_Resource channel_request)"
    obtain r st where stored: "CreateChannel e demo_parent ''my-channel'' ?ch (storage s) = (Ok r, st)"
      and st: "\<exists>v. st = storage s\<lparr>channels := AList.update ?n v (channels (storage s))\<rparr>"
      using None by (auto simp: CreateChannel_def Let_def)
    obtain opn where opn: "done_op e demo_parent (AnyChannel r) ''create'' (ch_Name r) (s\<lparr>storage := st\<rparr>) =
      (Ok opn, (s\<lparr>storage := st\<rparr>)\<lparr>lroStore := lroStore (s\<lparr>storage := st\<rparr>)
         \<lparr>ops := AList.update (op_Name opn) opn (ops (lroStore (s\<lparr>storage := st\<rparr>)))\<rparr>\<rparr>)"
      by (rule done_op_works [OF assms(1)])
    show ?thesis
    proof (rule created)
      show "handle e (ChannelRPC (CreateRPC channel_request)) s = (Ok (OperationResp opn),
          (s\<lparr>storage := st\<rparr>)\<lparr>lroStore := lroStore (s\<lparr>storage := st\<rparr>)
         \<lparr>ops := AList.update (op_Name opn) opn (ops (lroStore (s\<lparr>storage := st\<rparr>)))\<rparr>\<rparr>)"
        using stored opn valid assms(2)
        by (simp add: CreateChannel_rpc_def channel_request_def validateResourceID_def
          give_def open_simps)
    qed (use st in \<open>auto simp: update_conv'\<close>)
  next
    case (Some v)
    show ?thesis
    proof (rule exists)
      show "handle e (ChannelRPC (CreateRPC channel_request)) s = (Err (alreadyExists ''Channel'' ?n), s)"
        using Some valid assms(2)
        by (simp add: CreateChannel_rpc_def CreateChannel_def channel_request_def validateResourceID_def
          give_def open_simps)
    qed (use Some in \<open>simp_all add: alreadyExists_def\<close>)
  qed
qed

lemma demo_delete:
  assumes "fair e" and "\<not> iamClient s" and "triggers (storage s) = [(n, r)]" and "n \<noteq> []"
  obtains opn s' where
    "handle e (TriggerRPC (DeleteRPC (delete_request n))) s = (Ok (OperationResp opn), s')"
    "op_Done opn" "op_Response opn = AnyTrigger r" "triggers (storage s') = []" "same_rest s s'"
proof -
  let ?s = "s\<lparr>storage := storage s\<lparr>triggers := []\<rparr>\<rparr>"
  obtain opn where opn: "done_op e (parentFromName n) (AnyTrigger r) ''delete'' n ?s =
      (Ok opn, ?s\<lparr>lroStore := lroStore ?s\<lparr>ops := AList.update (op_Name opn) opn (ops (lroStore ?s))\<rparr>\<rparr>)"
    "op_Done opn" "op_Response opn = AnyTrigger r"
    by (rule done_op_works [OF assms(1)])
  show ?thesis
  proof (rule that)
    show "handle e (TriggerRPC (DeleteRPC (delete_request n))) s = (Ok (OperationResp opn),
        ?s\<lparr>lroStore := lroStore ?s\<lparr>ops := AList.update (op_Name opn) opn (ops (lroStore ?s))\<rparr>\<rparr>)"
      using opn(1) assms(2-4)
      by (simp add: DeleteTrigger_rpc_def DeleteTrigger_def GetTrigger_def delete_request_def open_simps Let_def)
  qed (use opn in \<open>simp_all add: same_rest_def\<close>)
qed

section \<open>The run\<close>

text \<open>Without permission checks and with the providers as seeded, the emulator holds these triggers.\<close>

definition holds :: "Trigger gomap \<Rightarrow> Server \<Rightarrow> bool" where
  "holds ts s \<longleftrightarrow> reachable s \<and> \<not> iamClient s \<and> triggers (storage s) = ts \<and>
     providers (storage s) = providers NewStorage"

lemma demo_ready_holds: "demo_ready s \<longleftrightarrow> holds [] s"
  by (auto simp: demo_ready_def holds_def)

lemma holds_step:
  assumes "holds ts s" and "handle e q s = (r, s')" and "triggers (storage s') = ts'" and "same_rest s s'"
  shows "holds ts' s'"
  using assms reachable.call by (auto simp: holds_def same_rest_def)

definition my_channel :: "Server \<Rightarrow> bool" where
  "my_channel s \<longleftrightarrow> map_of (channels (storage s)) (demo_parent @ ''/channels/my-channel'') \<noteq> None"

lemma same_rest_channel: "same_rest s s' \<Longrightarrow> my_channel s' = my_channel s"
  by (simp add: same_rest_def my_channel_def)

text \<open>An event of the demo's type is taken by the demo's trigger, and sent to its destination.\<close>

lemma demo_takes:
  assumes "tr_EventFilters r = tr_EventFilters (demo_trigger uri)"
    and "tr_Labels r = [(''env'', ''local''), (''demo'', ''sdk'')]"
    and "ev_Type ev = ''google.cloud.pubsub.topic.v1.messagePublished''"
  shows "takes c ev r"
proof -
  have "map_of (tr_Labels r) conditionLabelKey = None" unfolding assms(2) by code_simp
  then show ?thesis
    using assms(1,3) by (simp add: takes_def triggerMatches_def demo_trigger_def filterMatches_def attrValue_def)
qed

lemma demo_posts: "tr_Destination r = tr_Destination (demo_trigger uri) \<Longrightarrow> posts h ord r ev = posts h ord (demo_trigger uri) ev"
  by (simp add: posts_def destinationURL_def)

lemma demo_publish:
  fixes c :: "('c, 'a, 'p) cel"
  assumes "fair e" and "holds [(trigger_name su, r)] s" and "my_channel s" and "tr_Name r = trigger_name su"
    and "takes c ev r" and "unpackCloudEvent lib ord a = Ok ev"
  shows "\<exists>l. publishEvents lib c h lg ord e s (publish_request a) = (Ok (), posts h ord r ev, l)"
proof -
  have inv: "storage_inv (storage s)" and order: "iter_order (e_order e)"
    using assms(1,2) reachable_inv by (auto simp: holds_def fair_def server_inv_def)
  let ?lgr = "OrDefault lg"
  obtain reqs l where run: "processAnySlice lib ord (Match c ?lgr (\<lambda>p. ListAllTriggers e p (storage s)))
      (Dispatch h ord ?lgr) ?lgr demo_parent [Some a] = (Ok (), reqs, l)"
    and sent: "mset reqs = mset (concat (map (expected c h ord s demo_parent) (decoded lib ord [Some a])))"
    using slice_posts [OF inv order] by blast
  have "children tr_Name (demo_parent @ ''/triggers/'') (triggers (storage s)) = [r]"
    using assms(2,4) by (simp add: children_def holds_def trigger_name_def HasPrefix_iff)
  then have "expected c h ord s demo_parent ev = posts h ord r ev"
    using assms(5) by (simp add: expected_def)
  then have "mset reqs = mset (posts h ord r ev)"
    using sent assms(6) by (simp add: decoded_def List.map_filter_simps)
  moreover have "length (posts h ord r ev) \<le> 1" by (simp add: posts_def split: result.split)
  ultimately have "reqs = posts h ord r ev"
    by (cases "posts h ord r ev" rule: remdups_adj.cases) auto
  moreover have "GetChannelExists (demo_parent @ ''/channels/my-channel'') (storage s) = Ok True"
    using assms(3) by (auto simp: GetChannelExists_def my_channel_def)
  moreover have "parentFromChannel (demo_parent @ ''/channels/my-channel'') = demo_parent"
    using parentFromChannel_join [of "''my-channel''" demo_parent] by simp
  ultimately show ?thesis
    using run by (simp add: publishEvents_def PublishEvents_def publish_request_def Let_def)
qed

text \<open>Where the demo says the delivery of its event can be found.\<close>

abbreviation delivery_hint :: "surroundings \<Rightarrow> string" where
  "delivery_hint su \<equiv> ''   '' @ arrow @ '' to find delivery in webhook logs: grep for Ce-Id: '' @ pe_Id (demo_event su)"

text \<open>The clients of the demo, over the emulator.\<close>

locale emulator_client = sdk_client cl "serving lib c h lg ord es"
  for cl :: "(World \<times> nat) client" and lib :: sdk and c :: "('c, 'a, 'p) cel" and h :: http_lib
    and lg :: "Logger option" and ord :: order and es :: "nat \<Rightarrow> env" +
  assumes fair_calls: "fair (es n)"
begin

lemma demo_providers_part:
  assumes "holds ts (w_server w)"
  shows "\<exists>n' out'. providers_part cl ((w, n), out) = (Ok (), ((w, n'), out'))"
proof -
  have off: "\<not> iamClient (w_server w)" and seeded: "providers (storage (w_server w)) = providers NewStorage"
    using assms by (simp_all add: holds_def)
  obtain ps where "handle (es n) (ListProvidersRPC list_request) (w_server w) =
      (Ok (ProvidersResp ps []), w_server w)"
    using demo_list_providers [OF fair_calls off seeded] by blast
  note l = list_providers [OF serving_Ok [where es = es, OF this]]
  obtain p where "handle (es (Suc n)) (GetProviderRPC \<lparr>gr_Name = demo_parent @ ''/providers/pubsub.googleapis.com''\<rparr>)
      (w_server w) = (Ok (ProviderResp p), w_server w)"
    using demo_get_provider [OF off seeded] by blast
  note g = get_provider [OF serving_Ok [where es = es, OF this]]
  show ?thesis
    using l g by (simp add: providers_part_def part_simps)
qed

lemma demo_create_part:
  assumes "holds [] (w_server w)" and "resourceIDRe (trigger_id su)"
  shows "\<exists>r w' n' out'. create_part cl su uri ((w, n), out) = (Ok r, ((w', n'), out')) \<and>
    tr_Name r = trigger_name su \<and> holds [(trigger_name su, r)] (w_server w') \<and> w_sent w' = w_sent w"
proof -
  have off: "\<not> iamClient (w_server w)" and none: "triggers (storage (w_server w)) = []"
    using assms(1) by (simp_all add: holds_def)
  obtain opn s1 r where run: "handle (es n) (TriggerRPC (CreateRPC (create_request su uri))) (w_server w) =
      (Ok (OperationResp opn), s1)"
    and opn: "op_Done opn" "op_Response opn = AnyTrigger r" "triggers (storage s1) = [(trigger_name su, r)]"
      "tr_Name r = trigger_name su" "same_rest (w_server w) s1"
    by (rule demo_create [OF fair_calls off none assms(2)])
  let ?w = "w\<lparr>w_server := s1\<rparr>"
  have s1: "holds [(trigger_name su, r)] (w_server ?w)"
    using holds_step [OF assms(1) run opn(3,5)] by simp
  then have off1: "\<not> iamClient (w_server ?w)" and only: "triggers (storage (w_server ?w)) = [(trigger_name su, r)]"
    by (simp_all add: holds_def)
  note c = create_trigger [OF serving_Ok [where es = es, OF run]]
  note w = wait_done [OF opn(1,2)]
  have "trigger_name su \<noteq> []" by (simp add: trigger_name_def)
  from demo_get [OF off1 only this]
  have "handle (es (Suc n)) (TriggerRPC (GetRPC \<lparr>gr_Name = tr_Name r\<rparr>)) (w_server ?w) = (Ok (TriggerResp r), s1)"
    using opn(4) by simp
  note g = get_trigger [OF serving_Ok [where es = es, OF this]]
  have "HasPrefix (trigger_name su) (demo_parent @ ''/triggers/'')" by (simp add: trigger_name_def HasPrefix_iff)
  from demo_list [OF fair_calls [of "Suc (Suc n)"] off1 only this]
  have "handle (es (Suc (Suc n))) (TriggerRPC (ListRPC list_request)) (w_server ?w) = (Ok (TriggersResp [r] []), s1)"
    by simp
  note l = list_triggers [OF serving_Ok [where es = es, OF this]]
  show ?thesis
    using c w g l s1 opn(4) by (simp add: create_part_def part_simps)
qed

lemma demo_update_part:
  assumes "holds [(trigger_name su, r)] (w_server w)" and "tr_Name r = trigger_name su"
  shows "\<exists>r' w' n' out'. update_part cl uri r ((w, n), out) = (Ok (), ((w', n'), out')) \<and>
    tr_Name r' = trigger_name su \<and> holds [(trigger_name su, r')] (w_server w') \<and> w_sent w' = w_sent w \<and>
    tr_EventFilters r' = tr_EventFilters (demo_trigger uri) \<and> tr_Destination r' = tr_Destination (demo_trigger uri) \<and>
    tr_Labels r' = [(''env'', ''local''), (''demo'', ''sdk'')]"
proof -
  have off: "\<not> iamClient (w_server w)" and only: "triggers (storage (w_server w)) = [(trigger_name su, r)]"
    using assms(1) by (simp_all add: holds_def)
  have named: "trigger_name su \<noteq> []" by (simp add: trigger_name_def)
  obtain opn s1 r' where run: "handle (es n) (TriggerRPC (UpdateRPC (update_request (trigger_name su) uri)))
      (w_server w) = (Ok (OperationResp opn), s1)"
    and opn: "op_Done opn" "op_Response opn = AnyTrigger r'" "triggers (storage s1) = [(trigger_name su, r')]"
      "tr_Name r' = trigger_name su" "same_rest (w_server w) s1"
      "tr_EventFilters r' = tr_EventFilters (demo_trigger uri)" "tr_Destination r' = Some (HttpEndpoint uri)"
      "tr_Labels r' = [(''env'', ''local''), (''demo'', ''sdk'')]"
    by (rule demo_update [OF fair_calls off only named assms(2)])
  note u = update_trigger [OF serving_Ok [where es = es, OF run]]
  note w = wait_done [OF opn(1,2)]
  have d: "tr_Destination (demo_trigger uri) = Some (HttpEndpoint uri)" by (simp add: demo_trigger_def)
  show ?thesis
    using u w holds_step [OF assms(1) run opn(3,5)] opn(4,6-8) assms(2) d
    by (intro exI [of _ r']) (simp add: update_part_def part_simps)
qed

lemma demo_channel_part:
  assumes "holds ts (w_server w)"
  shows "\<exists>w' n' out'. channel_part cl ((w, n), out) = (Ok (), ((w', n'), out')) \<and>
    holds ts (w_server w') \<and> my_channel (w_server w') \<and> w_sent w' = w_sent w"
proof -
  have off: "\<not> iamClient (w_server w)" using assms by (simp add: holds_def)
  show ?thesis
  proof (cases rule: demo_channel [OF fair_calls [of n] off])
    case (1 opn s1)
    have "holds ts s1" using assms 1 reachable.call [OF _ 1(1)] by (simp add: holds_def)
    then show ?thesis
      using create_channel [OF serving_Ok [where es = es, OF 1(1)]] 1(5)
      by (simp add: channel_part_def part_simps catch_def my_channel_def)
  next
    case (2 x)
    then show ?thesis
      using create_channel_fails [OF serving_Err [where es = es, OF 2(1)]] assms
      by (simp add: channel_part_def part_simps catch_def my_channel_def)
  qed
qed

lemma demo_publish_part:
  assumes "holds [(trigger_name su, r)] (w_server w)" and "my_channel (w_server w)"
    and "tr_Name r = trigger_name su" and "takes c ev r"
    and "su_anypb su (demo_event su) = Inr a" and "unpackCloudEvent lib ord a = Ok ev"
  shows "\<exists>w' n' out'. publish_part cl su ((w, n), out) = (Ok (), ((w', n'), out')) \<and>
    w_server w' = w_server w \<and> w_sent w' = w_sent w @ posts h ord r ev \<and> delivery_hint su \<in> set out'"
proof -
  obtain l where "publishEvents lib c h lg ord (es n) (w_server w) (publish_request a) =
      (Ok (), posts h ord r ev, l)"
    using demo_publish [OF fair_calls assms(1-4,6)] by blast
  then have "serving lib c h lg ord es (PublishEventsCall (publish_request a)) (w, n) =
      (Ok Published, (w\<lparr>w_sent := w_sent w @ posts h ord r ev, w_log := w_log w @ l\<rparr>, Suc n))"
    by (simp add: serving_def serve_def published_def)
  from publish_events [OF this] show ?thesis
    using assms(5) by (simp add: publish_part_def part_simps Let_def)
qed

lemma demo_delete_part:
  assumes "holds [(trigger_name su, r)] (w_server w)" and "my_channel (w_server w)"
    and "tr_Name t = trigger_name su"
  shows "\<exists>w' n' out'. delete_part cl t ((w, n), out) = (Ok (), ((w', n'), out')) \<and>
    holds [] (w_server w') \<and> my_channel (w_server w') \<and> w_sent w' = w_sent w \<and> set out \<subseteq> set out'"
proof -
  have off: "\<not> iamClient (w_server w)" and only: "triggers (storage (w_server w)) = [(trigger_name su, r)]"
    using assms(1) by (simp_all add: holds_def)
  have named: "trigger_name su \<noteq> []" by (simp add: trigger_name_def)
  obtain opn s1 where run: "handle (es n) (TriggerRPC (DeleteRPC (delete_request (trigger_name su)))) (w_server w) =
      (Ok (OperationResp opn), s1)"
    and opn: "op_Done opn" "op_Response opn = AnyTrigger r" "triggers (storage s1) = []"
      "same_rest (w_server w) s1"
    by (rule demo_delete [OF fair_calls off only named])
  note d = delete_trigger [OF serving_Ok [where es = es, OF run]]
  note w = wait_done [OF opn(1,2)]
  show ?thesis
    using d w holds_step [OF assms(1) run opn(3,4)] same_rest_channel [OF opn(4)] assms(2,3)
    by (simp add: delete_part_def part_simps) blast
qed

lemma demo_completes:
  assumes "demo_ready (w_server w)" and "0 \<le> su_Unix su" "su_Unix su < 2 ^ 63"
    and "su_NewConn su = (\<lambda>addr. None)" "su_NewClient su = None" "su_NewPublisherClient su = None"
    and "su_anypb su (demo_event su) = Inr a" and "unpackCloudEvent lib ord a = Ok ev"
    and "ev_Type ev = pe_Type (demo_event su)"
  shows "\<exists>w' n' out'. sdk_demo cl su vars ((w, n), out) = (Ok (), ((w', n'), out')) \<and>
    demo_ready (w_server w') \<and> my_channel (w_server w') \<and>
    w_sent w' = w_sent w @ posts h ord (demo_trigger (envOr vars ''WEBHOOK_URI'' ''http://webhook:3000/events'')) ev \<and>
    delivery_hint su \<in> set out'"
proof -
  let ?uri = "envOr vars ''WEBHOOK_URI'' ''http://webhook:3000/events''"
  have w0: "holds [] (w_server w)" using assms(1) by (simp add: demo_ready_holds)
  have conn: "connect_part su addr s = (Ok (), s)" for addr and s :: "(World \<times> nat) terminal"
    using assms(4-6) by (simp add: connect_part_def part_simps)
  obtain n1 out1 where 1: "providers_part cl ((w, n), out) = (Ok (), ((w, n1), out1))"
    using demo_providers_part [OF w0] by blast
  obtain r w2 n2 out2 where 2: "create_part cl su ?uri ((w, n1), out1) = (Ok r, ((w2, n2), out2))"
    "tr_Name r = trigger_name su" "holds [(trigger_name su, r)] (w_server w2)" "w_sent w2 = w_sent w"
    using demo_create_part [OF w0 trigger_id_valid [OF assms(2,3)]] by blast
  obtain r' w3 n3 out3 where 3: "update_part cl ?uri r ((w2, n2), out2) = (Ok (), ((w3, n3), out3))"
    "tr_Name r' = trigger_name su" "holds [(trigger_name su, r')] (w_server w3)" "w_sent w3 = w_sent w2"
    "tr_EventFilters r' = tr_EventFilters (demo_trigger ?uri)"
    "tr_Destination r' = tr_Destination (demo_trigger ?uri)"
    "tr_Labels r' = [(''env'', ''local''), (''demo'', ''sdk'')]"
    using demo_update_part [OF 2(3,2)] by blast
  obtain w4 n4 out4 where 4: "channel_part cl ((w3, n3), out3) = (Ok (), ((w4, n4), out4))"
    "holds [(trigger_name su, r')] (w_server w4)" "my_channel (w_server w4)" "w_sent w4 = w_sent w3"
    using demo_channel_part [OF 3(3)] by blast
  have "takes c ev r'" using assms(9) demo_takes [OF 3(5,7)] by (simp add: demo_event_def)
  from demo_publish_part [OF 4(2,3) 3(2) this assms(7,8)]
  obtain w5 n5 out5 where 5: "publish_part cl su ((w4, n4), out4) = (Ok (), ((w5, n5), out5))"
    "w_server w5 = w_server w4" "w_sent w5 = w_sent w4 @ posts h ord r' ev"
    "delivery_hint su \<in> set out5" by blast
  obtain w6 n6 out6 where 6: "delete_part cl r ((w5, n5), out5) = (Ok (), ((w6, n6), out6))"
    "holds [] (w_server w6)" "my_channel (w_server w6)" "w_sent w6 = w_sent w5"
    "set out5 \<subseteq> set out6"
    using demo_delete_part [of su r' w5 r n5 out5] 4(2,3) 5(2) 2(2) by auto
  have "sdk_demo cl su vars ((w, n), out) = (Ok (), ((w6, n6), out6))"
    using 1 2(1) 3(1) 4(1) 5(1) 6(1) conn by (simp add: sdk_demo_def seq_def Let_def)
  then show ?thesis
    using 2(4) 3(4) 4(4) 5(3) 6(2-4) subsetD [OF 6(5) 5(4)] demo_posts [OF 3(6)]
    by (simp add: demo_ready_holds)
qed

end

interpretation emulated: emulator_client "direct (serving lib c h lg ord (\<lambda>n. if fair (es n) then es n else fair_env))"
    lib c h lg ord "\<lambda>n. if fair (es n) then es n else fair_env" for lib c h lg ord es
  by unfold_locales (simp add: fair_env_fair)

end
