(* ===== verification/DemoExamples.thy ===== *)
theory DemoExamples
  imports Examples Receiver DemoRun
begin

text \<open>A request that arrives at the webhook receiver, and surroundings and an SDK for the demo.\<close>

definition incoming0 :: Incoming where
  "incoming0 = \<lparr>in_Method = ''POST'', in_Path = ''/events'', in_Header =
     [(''User-Agent'', [''Go-http-client/1.1'']), (''Content-Type'', [''text/plain'']),
      (''Ce-Specversion'', [''1.0'']), (''Ce-Type'', [''t1'']), (''Ce-Source'', [''s'']),
      (''Ce-Id'', [''1'']), (''Ce-Zone'', [''b'']), (''Ce-Region'', [''eu''])],
     in_Body = ''x''\<rparr>"

definition surroundings0 :: surroundings where
  "surroundings0 = \<lparr>su_NewConn = (\<lambda>addr. None), su_NewClient = None, su_NewPublisherClient = None,
     su_Unix = 7, su_UnixNano = 8, su_anypb = (\<lambda>p. Inr ''any'')\<rparr>"

definition sdk1 :: sdk where
  "sdk1 = sdk0\<lparr>sdk_NewEvent := event0\<lparr>ev_Extensions := []\<rparr>, sdk_Unmarshal := (\<lambda>a. Inr (demo_event surroundings0))\<rparr>"

end
