(* ===== verification/Spec2Isabelle.thy ===== *)
theory Spec2Isabelle
  imports RestExamples RestLocal RestDial InterleaveRun Programs DemoExamples
begin

text \<open>
  The GCP Eventarc emulator: an in-memory Eventarc service over gRPC, with a REST gateway, that
  routes published CloudEvents to the destinations of matching triggers.

  The program and the theories. A client's call reaches a handler of internal/server/server.go (or,
  over REST, internal/gateway first). The handler checks its fields, asks IAM
  (internal/authz), reads or changes the tables of internal/server/storage*.go, and answers a
  change with a finished operation, which internal/lro keeps. A published event goes through
  internal/publisher to internal/router, which reads the triggers of the same storage, and to
  internal/dispatcher, which posts it.

  \<^item> \<open>Prelude\<close>: results (a value, a gRPC status or a panic), operations on a state, maps as
    association lists with the order of a range as an argument. \<open>GoStrings\<close>: package strings and
    strconv. \<open>Messages\<close>: the protobuf messages and the environment of a call.
  \<^item> \<open>Helpers\<close>: storage_helpers.go and the name functions of server.go. \<open>Lro\<close>: lro/store.go.
    \<open>Authz\<close>: authz/permissions.go.
  \<^item> \<open>Tables\<close>: the locales \<open>resource_table\<close>, \<open>mutable_table\<close> and \<open>listed_table\<close>, the contract
    of a storage table (create, get, update, delete, list), proved once and interpreted on the seven
    tables in \<open>Storage\<close>, \<open>StorageChannel\<close>, \<open>StorageMessageBus\<close> and \<open>StoragePipeline\<close>.
    \<open>StorageInv\<close>: the invariant of all tables.
  \<^item> \<open>HandlerLogic\<close>: rules for composed handlers (what is pure, keeps an invariant, does nothing
    when it fails, hands out stored operations). \<open>ServerCore\<close>: the server's state, IAM and the
    shared steps. \<open>ServerApi\<close>: the locales of a resource's RPCs over a table. \<open>ServerTrigger\<close>,
    \<open>ServerChannel\<close>, \<open>ServerBus\<close>, \<open>ServerPipeline\<close>: the 39 RPCs, each a definition with the suffix
    \<open>\_rpc\<close>, and the interpretations. \<open>Server\<close>: requests, responses and \<open>handle\<close>, which calls the
    handler of a request. \<open>ServerProps\<close>: what holds of every request, and \<open>reachable\<close>, the states
    a server can be in after any sequence of calls.
  \<^item> \<open>Interleave\<close>: programs of atomic steps, one step for each section under a lock, and schedules of
    several programs. \<open>InterleaveRpc\<close>: each handler as a program, with the suffix \<open>\_prog\<close>, and that the
    program alone is the handler. \<open>InterleaveProps\<close>, \<open>InterleaveRun\<close>: what every step keeps, when a
    call returns, and which of several calls can succeed.
  \<^item> \<open>Logger\<close>, \<open>Router\<close>, \<open>Dispatcher\<close>, \<open>Publisher\<close>: the packages of these names; a run returns what
    it sends and what it logs. \<open>Service\<close>: register.go, the publisher over the server's storage.
  \<^item> \<open>Gateway\<close>: the two decisions of gateway.go. \<open>Rest\<close>: what the generated REST handlers of
    internal/gen share, over the functions of the grpc-gateway runtime as a parameter.
    \<open>RestEventarc\<close>, \<open>RestServices\<close>: each \<open>request_X_0\<close>, pattern and filter under its Go name, and
    \<open>route_X\<close>, the block that registers it; \<open>RestLocal\<close>: the in-process variants; \<open>RestDial\<close>: the
    registrations that make their own connection, which none of them leaks. \<open>RestGateway\<close>:
    \<open>New\<close> and \<open>Handler\<close> of gateway.go over these routes, and \<open>serve\<close>, the gRPC server behind them
    (register.go) on a \<open>World\<close> of the server, the requests sent and the log. \<open>RestRoutes\<close>: the table
    of the routes. \<open>Wiring\<close>: the constructors, \<open>Register\<close>, the debug interceptor of grpc.go, and how a
    gateway is made, started and stopped.
  \<^item> \<open>GoFlag\<close>: package flag. \<open>Cmd\<close>: the flags, usage texts and decisions of the three programs of
    cmd/, up to the ports they listen on. \<open>Programs\<close>: what they do from there, each goroutine a list of
    calls (\<open>bodyServer\<close>, \<open>bodyDual\<close>, \<open>bodyRest\<close>), each call a step on the process (\<open>run_task\<close>), and
    \<open>program_runs\<close>, the runs of any interleaving with a signal at any moment.
  \<^item> \<open>Receiver\<close>: examples/webhook-receiver. \<open>Demo\<close>: examples/sdk-demo, over the SDK's clients as a
    parameter. \<open>DemoRun\<close>: the locale \<open>sdk_client\<close>, what those clients promise over a connection,
    clients that keep it, and the run of the demo against the emulator.
  \<^item> \<open>Examples\<close>, \<open>RestExamples\<close>, \<open>DemoExamples\<close>: concrete states, requests and runtimes on which the
    properties are evaluated.

  What is shown. C1 to C6 hold of every RPC: no panic, well-formed tables, no effect of calls that
  fail, are denied or are dry runs, operations that can be polled. C7 to C11 are about calls that run
  at the same time. C12 to C15 follow a trigger through its life, C16 to C18 are about pages, C19 to
  C22 about names and the failures in the middle of a handler, C23 to C27 about patterns, routing,
  publishing, headers and what a receiver sees, C28 to C33 about the REST gateway, C34 to C39 about
  the programs, C40 about the example client and receiver. The theorems without a number say the same of other
  resources, or are about filters, providers, IAM, an unknown channel, routes, flags and ports.

  Bounds. A Go int is a 64-bit word and a page size a 32-bit word, with wrap-around. \<open>small\<close> says
  that the tables have fewer than 2^63 - 200 entries, which the address space enforces: the only
  bound the theorems on panics and pages use. The page walk of C16 has as fuel the number of items
  plus one, which is enough because every page but the last holds at least one.

  What is outside. The IAM client, the clock, the random numbers and the order of a range over a map
  are the environment of a call, arbitrary unless a theorem says otherwise. CEL, the CloudEvents
  SDK, the HTTP client and the log writer are other modules: the calls the code makes to them are
  parameters. An RPC is one step in \<open>reachable\<close> and a sequence of steps in
  C7 to C11; the calls of one publication read one state. The one method that takes a lock twice,
  GetGoogleChannelConfig, is two steps (\<open>racing_config_reads_agree\<close>). Sort.Slice is taken as stable;
  ties occur only under create\_time desc, and then the order of the range, which is arbitrary, decides.

  The grpc-gateway runtime is a parameter too: the mux, which picks the route of a request from the
  methods and patterns that are registered, and the functions that decode bodies, queries and paths.

  The programs run among surroundings (\<open>host\<close>) that answer what listening, serving, closing and
  shutting down report; a signal may come at any moment. The 30 calls of C35 are more than the longest
  of the three programs makes. The SDK's clients keep the contract \<open>sdk_client\<close> (an iterator whose
  first page has no next token gives that page, \<open>Wait\<close> on a finished operation gives its message), and
  HTTP hands a request over as \<open>carries\<close> says; both are hypotheses of C40 and C27. The clients that
  witness C40 read at most a thousand pages of a list.

  Not modelled: the encoding of responses in JSON, which the runtime does, and the races inside a
  locked section, which the locks exclude.
\<close>

section \<open>Every call\<close>

text \<open>C1. No RPC panics: from any state a server can reach, whatever the request and whatever the
  environment answers, a handler returns a response or an error. The only bounds are that the maps
  are smaller than a Go int allows and that a range over a map visits its keys once.\<close>

theorem rpc_never_panics:
  assumes "reachable s" and "small s" and "iter_order (e_order e)"
  shows "\<not> is_panic (fst (handle e q s))"
  by (rule handle_no_panic [OF reachable_inv [OF assms(1)] assms(2,3)])

theorem rpc_never_panics_witness:
  "\<not> is_panic (fst (handle env0 (TriggerRPC (ListRPC \<lparr>lr_Parent = loc0, lr_PageSize = 1,
     lr_PageToken = ''9223372036854775807'', lr_OrderBy = [], lr_Filter = []\<rparr>)) server1))"
  by (rule rpc_never_panics [OF server1_reachable small0(2) env0_facts(1)])

text \<open>C2. In every reachable state each of the nine resource maps holds a resource once, under the
  name the resource itself carries, and every stored operation is done and stored under its name.\<close>

theorem reachable_states_well_formed:
  assumes "reachable s"
  shows "storage_inv (storage s) \<and> store_inv (lroStore s)"
  using reachable_inv [OF assms] by (simp add: server_inv_def)

theorem reachable_states_well_formed_witness:
  "storage_inv (storage server1) \<and> store_inv (lroStore server1)"
  by (rule reachable_states_well_formed [OF server1_reachable])

text \<open>C3. A call that returns an error has changed nothing, as long as operations can be made (random
  bytes are there and messages pack); the one exception is an enrollment update whose mask names
  the immutable field message_bus.\<close>

theorem failed_call_has_no_effect:
  assumes "lro_works e" and "\<not> partial_write q" and "handle e q s = (Err x, s')"
  shows "s' = s"
  using handle_atomic [OF assms(1,2)] assms(3) by (simp add: atomic_def)

text \<open>A second creation of the same trigger fails and leaves the server alone.\<close>

theorem failed_call_has_no_effect_witness:
  "\<exists>x. handle env0 (TriggerRPC (CreateRPC create_trigger0)) server1 = (Err x, server1)"
proof -
  have "fst (handle env0 (TriggerRPC (CreateRPC create_trigger0)) server1) =
      Err (alreadyExists ''Trigger'' trigger_name0)" by code_simp
  then obtain s' where "handle env0 (TriggerRPC (CreateRPC create_trigger0)) server1 =
      (Err (alreadyExists ''Trigger'' trigger_name0), s')" by (metis prod.collapse)
  with failed_call_has_no_effect [OF env0_facts(2) _ this] show ?thesis by simp
qed



text \<open>C5. A request with validate_only set leaves every resource as it was; at most an operation is
  added to the operation store.\<close>

theorem dry_run_keeps_resources:
  assumes "validate_only q"
  shows "storage (snd (handle e q s)) = storage s"
  by (rule handle_dry [OF assms])

theorem dry_run_keeps_resources_witness:
  "storage (snd (handle env0 (TriggerRPC (CreateRPC (create_trigger0\<lparr>cq_ValidateOnly := True\<rparr>))) server0)) =
     storage server0"
  by (rule dry_run_keeps_resources) simp

text \<open>C6. Whatever RPC hands out an operation, the operation is done and polling it by its name gives
  it back unchanged, unless its name itself begins with the prefix the gateway strips.\<close>

theorem operations_can_be_polled:
  assumes "reachable s" and "handle e q s = (Ok (OperationResp opn), s')"
    and "\<not> HasPrefix (op_Name opn) ''operations/''"
  shows "op_Done opn \<and> handle e2 (GetOperationRPC \<lparr>gr_Name = op_Name opn\<rparr>) s' = (Ok (OperationResp opn), s')"
  using handle_op [OF reachable_inv [OF assms(1)] assms(2)] assms(3)
  by (simp add: stored_op_def GetOperation_stored answer_def lro_query_def)

theorem operations_can_be_polled_witness:
  "op_Done operation0 \<and>
   handle env0 (GetOperationRPC \<lparr>gr_Name = op_Name operation0\<rparr>) server1 =
     (Ok (OperationResp operation0), server1)"
  by (rule operations_can_be_polled [OF server0_reachable create0])
    (simp add: operation0_def HasPrefix_def)

section \<open>Calls at the same time\<close>

text \<open>C7. Calls may run at the same time, in any number and any interleaving of the steps in which they
  hold a lock: the tables stay well-formed and every operation done, and, as long as the tables are
  small at each step, no call panics.\<close>

theorem concurrent_calls_are_safe:
  assumes "reachable s"
  shows "server_inv (fst (run_schedule sched (s, programs cs))) \<and>
    ((\<forall>k < length sched. small (fst (run_schedule (take k sched) (s, programs cs)))) \<and>
       (\<forall>(e, q) \<in> set cs. iter_order (e_order e)) \<longrightarrow>
     (\<forall>i < length cs. \<forall>p. snd (run_schedule sched (s, programs cs)) ! i \<noteq> Ret (Panic p)))"
proof -
  have inv: "server_inv (fst (run_schedule sched2 (s, programs cs)))" for sched2
    by (rule run_schedule_keeps [where P = server_inv, OF reachable_inv [OF assms]]) (auto simp: programs_def keeps_handle)
  have "snd (run_schedule sched (s, programs cs)) ! i \<noteq> Ret (Panic p)"
    if small: "\<forall>k < length sched. small (fst (run_schedule (take k sched) (s, programs cs)))"
      and ord: "\<forall>(e, q) \<in> set cs. iter_order (e_order e)" and i: "i < length cs" for i p
  proof -
    have "\<forall>m \<in> set (programs cs). calm (\<lambda>s. server_inv s \<and> small s) m"
      using ord calm_handle by (auto simp: programs_def)
    then have "\<forall>m \<in> set (snd (run_schedule sched (s, programs cs))).
        calm (\<lambda>s. server_inv s \<and> small s) m"
      using inv small by (intro run_schedule_calm) auto
    moreover have "i < length (snd (run_schedule sched (s, programs cs)))" using i by simp
    ultimately show ?thesis by (metis calm.simps(1) is_panic.simps(3) nth_mem)
  qed
  then show ?thesis using inv by blast
qed

theorem concurrent_calls_are_safe_witness:
  "\<forall>p. snd (run_schedule [0] (server1, programs [(env0, TriggerRPC (GetRPC \<lparr>gr_Name = trigger_name0\<rparr>)),
     (env0, TriggerRPC (CreateRPC create_trigger0))])) ! 0 \<noteq> Ret (Panic p)"
  using concurrent_calls_are_safe [OF server1_reachable, of "[0]"
      "[(env0, TriggerRPC (GetRPC \<lparr>gr_Name = trigger_name0\<rparr>)), (env0, TriggerRPC (CreateRPC create_trigger0))]"]
    small0(2) by (simp del: run_schedule_simps(2))




text \<open>C10. Of any number of concurrent creations of one trigger at most one succeeds.\<close>

theorem racing_creates:
  assumes "\<forall>(e, r) \<in> set cs. \<exists>q. r = TriggerRPC (CreateRPC q) \<and> \<not> cq_ValidateOnly q \<and>
      cq_Parent q @ ''/triggers/'' @ cq_Id q = n"
    and "run_schedule sched (s, programs cs) = (s', ts)"
    and "i < length ts" "ts ! i = Ret (Ok a)" and "j < length ts" "ts ! j = Ret (Ok b)"
  shows "i = j"
proof (rule one_winner [OF _ assms(2-6)])
  let ?N = "\<lambda>s. map_of (triggers (storage s)) n \<noteq> None"
  show "\<forall>m \<in> set (programs cs). contender ?N m \<and> keeps ?N m"
  proof
    fix m assume "m \<in> set (programs cs)"
    then obtain e q where q: "m = p_answer OperationResp (CreateTrigger_prog e q)"
      "\<not> cq_ValidateOnly q" "cq_Parent q @ ''/triggers/'' @ cq_Id q = n"
      using assms(1) by (force simp: programs_def)
    show "contender ?N m \<and> keeps ?N m"
      unfolding q(1) using create_trigger_contends [OF q(2), of e] unfolding q(3)
      by (intro conjI contender_answer keeps_answer create_trigger_keeps)
  qed
qed

theorem racing_creates_witness:
  "\<exists>a s' ts. run_schedule [0, 1, 1, 0, 1, 0, 0, 1] (server0, programs
     [(env0, TriggerRPC (CreateRPC create_trigger0)), (env0, TriggerRPC (CreateRPC create_trigger0))]) = (s', ts) \<and>
   ts ! 1 = Ret (Ok a) \<and> (\<forall>b. ts ! 0 \<noteq> Ret (Ok b))"
proof -
  let ?cs = "[(env0, TriggerRPC (CreateRPC create_trigger0)), (env0, TriggerRPC (CreateRPC create_trigger0))]"
  obtain s' ts where run: "run_schedule [0, 1, 1, 0, 1, 0, 0, 1] (server0, programs ?cs) = (s', ts)"
    by (cases "run_schedule [0, 1, 1, 0, 1, 0, 0, 1] (server0, programs ?cs)")
  have len: "length ts = 2"
    using run_schedule_threads [of "[0, 1, 1, 0, 1, 0, 0, 1]" "(server0, programs ?cs)"] unfolding run by simp
  have "case snd (run_schedule [0, 1, 1, 0, 1, 0, 0, 1] (server0, programs ?cs)) ! 1 of
      Ret r \<Rightarrow> is_ok r | Step f \<Rightarrow> False" by code_simp
  then obtain a where a: "ts ! 1 = Ret (Ok a)"
    unfolding run by (auto simp: is_ok_iff split: prog.splits)
  have "ts ! 0 \<noteq> Ret (Ok b)" for b
    using racing_creates [OF _ run, of trigger_name0 1 a 0 b] a len
    by (auto simp: create_trigger0_def trigger_name0_def loc0_def)
  with run a show ?thesis by blast
qed

text \<open>C11. The etag check of DeleteTrigger is made in another step than the removal. So a delete with the
  etag it has read can remove a trigger that a successful update has changed since, and its operation
  shows the trigger that was read, not the one that was removed.\<close>

theorem etag_check_races:
  assumes "GetTrigger n (storage s) = Ok old" and "n \<noteq> []"
    and "dq_Name d = n" "dq_Etag d = tr_Etag old" "\<not> dq_ValidateOnly d"
    and "checkPermission e s ''eventarc.triggers.delete'' n = Ok ()" and "lro_works e"
    and "UpdateTrigger_rpc e2 u s = (Ok opn, s2)" and "GetTrigger n (storage s2) = Ok new"
  shows "\<exists>sched s' opn'.
    run_schedule sched (s, programs [(e, TriggerRPC (DeleteRPC d)), (e2, TriggerRPC (UpdateRPC u))]) =
      (s', [Ret (Ok (OperationResp opn')), Ret (Ok (OperationResp opn))]) \<and>
    op_Response opn' = AnyTrigger old \<and>
    GetTrigger n (storage s') = Err (notFound ''Trigger'' n)"
proof -
  let ?del = "handle_prog e (TriggerRPC (DeleteRPC d))" and ?upd = "handle_prog e2 (TriggerRPC (UpdateRPC u))"
  let ?rest = "p_answer OperationResp (p_seq (p_apply (DeleteTrigger n)) (\<lambda>_.
    p_done e (parentFromName n) (AnyTrigger old) ''delete'' n))"
  have first: "run_schedule [0, 0] (s, [?del, ?upd]) = (s, [?rest, ?upd])"
    using assms(1-6) by (simp add: thread_step_def DeleteTrigger_prog_def Let_def part_defs p_seq_def
        requireField_def authorize_apply query_apply p_atomic_def fun_eq_iff)
  have second: "run_schedule (replicate 4 1) (s, [?rest, ?upd]) = (s2, [?rest, Ret (Ok (OperationResp opn))])"
    using run_schedule_alone [of "[?rest, ?upd]" 1 4 s] within_handle [of e2 "TriggerRPC (UpdateRPC u)"] assms(8)
    by (simp add: exec_simps answer_def replicate.simps(2) del: run_schedule_simps)
  have del: "\<exists>st. DeleteTrigger n (storage s2) = (Ok (), st) \<and> GetTrigger n st = Err (notFound ''Trigger'' n)"
    using trig.remove_Ok_iff [of n "storage s2"] trig.remove_then_get assms(9)
    by (cases "DeleteTrigger n (storage s2)") (metis fst_conv is_ok.simps(1) is_ok_iff old.unit.exhaust)
  then obtain st where st: "DeleteTrigger n (storage s2) = (Ok (), st)"
    "GetTrigger n st = Err (notFound ''Trigger'' n)" by blast
  obtain opn' s' where d: "done_op e (parentFromName n) (AnyTrigger old) ''delete'' n (s2\<lparr>storage := st\<rparr>) =
      (Ok opn', s')"
    using succeeds_done_op [OF assms(7)] by (metis is_ok_iff prod.collapse succeeds_def)
  have third: "run_schedule (replicate 4 0) (s2, [?rest, Ret (Ok (OperationResp opn))]) =
      (s', [Ret (Ok (OperationResp opn')), Ret (Ok (OperationResp opn))])"
  proof -
    have "within ?rest 4" unfolding part_defs by (intro within_rules; simp)
    moreover have "exec ?rest s2 = (Ok (OperationResp opn'), s')"
      using st d by (simp add: exec_simps answer_def seq_def apply_op_def)
    ultimately show ?thesis
      using run_schedule_alone [of "[?rest, Ret (Ok (OperationResp opn))]" 0 4 s2]
      by (simp del: run_schedule_simps)
  qed
  have "run_schedule ([0, 0] @ replicate 4 1 @ replicate 4 0) (s, [?del, ?upd]) =
      (s', [Ret (Ok (OperationResp opn')), Ret (Ok (OperationResp opn))])"
    unfolding run_schedule_append first second third ..
  moreover have "storage s' = st" "op_Response opn' = AnyTrigger old"
    using done_op_Ok(2,4) [OF d] by simp_all
  ultimately show ?thesis using st(2) by (auto simp: programs_def simp del: run_schedule_simps)
qed

theorem etag_check_races_witness:
  "\<exists>sched s' a b. run_schedule sched (server1, programs
       [(env0, TriggerRPC (DeleteRPC \<lparr>dq_Name = trigger_name0, dq_Etag = ''13'', dq_AllowMissing = False,
          dq_ValidateOnly = False\<rparr>)), (env0, TriggerRPC (UpdateRPC upsert0))]) =
       (s', [Ret (Ok a), Ret (Ok b)]) \<and>
     GetTrigger trigger_name0 (storage s') = Err (notFound ''Trigger'' trigger_name0)"
proof -
  let ?d = "\<lparr>dq_Name = trigger_name0, dq_Etag = ''13'', dq_AllowMissing = False, dq_ValidateOnly = False\<rparr>"
  have old: "GetTrigger trigger_name0 (storage server1) = Ok stored0" "trigger_name0 \<noteq> []"
    by (simp_all add: GetTrigger_def server1_contents trigger_name0_def)
  have perm: "checkPermission env0 server1 ''eventarc.triggers.delete'' trigger_name0 = Ok ()" by code_simp
  have "is_ok (fst (UpdateTrigger_rpc env0 upsert0 server1))"
    "is_ok (GetTrigger trigger_name0 (storage (snd (UpdateTrigger_rpc env0 upsert0 server1))))" by code_simp+
  then obtain opn s2 new where "UpdateTrigger_rpc env0 upsert0 server1 = (Ok opn, s2)"
    "GetTrigger trigger_name0 (storage s2) = Ok new"
    by (metis is_ok_iff prod.collapse)
  from etag_check_races [OF old, of ?d env0, OF _ _ _ perm env0_facts(2) this] show ?thesis
    by (auto simp: stored0_def)
qed

section \<open>The life of a trigger\<close>

text \<open>C12. CreateTrigger, when it succeeds, stores the client's message under parent, collection and a
  valid ID, with the server's own fields set; the operation carries that message, a later GetTrigger
  returns it, and every other trigger reads as before.\<close>

theorem created_trigger_is_readable:
  assumes "CreateTrigger_rpc e q s = (Ok opn, s')" and "\<not> cq_ValidateOnly q"
  shows "\<exists>x r. cq_Resource q = Some x \<and> resourceIDRe (cq_Id q) \<and>
    r = x\<lparr>tr_Name := cq_Parent q @ ''/triggers/'' @ cq_Id q, tr_Uid := newUID (e_uid e),
      tr_CreateTime := Some (e_now e), tr_UpdateTime := Some (e_now e),
      tr_Etag := newEtag (e_etag e), tr_Conditions := readyCondition\<rparr> \<and>
    op_Done opn \<and> op_Response opn = AnyTrigger r \<and>
    (\<forall>e2. checkPermission e2 s ''eventarc.triggers.get'' (tr_Name r) = Ok () \<longrightarrow>
      GetTrigger_rpc e2 \<lparr>gr_Name = tr_Name r\<rparr> s' = (Ok r, s')) \<and>
    (\<forall>n. n \<noteq> tr_Name r \<longrightarrow> GetTrigger n (storage s') = GetTrigger n (storage s))"
proof -
  obtain r where r: "op_Done opn" "op_Response opn = AnyTrigger r"
    "\<forall>e2. checkPermission e2 s ''eventarc.triggers.get'' (tr_Name r) = Ok () \<longrightarrow>
      GetTrigger_rpc e2 \<lparr>gr_Name = tr_Name r\<rparr> s' = (Ok r, s')"
    "\<forall>n. n \<noteq> tr_Name r \<longrightarrow> GetTrigger n (storage s') = GetTrigger n (storage s)"
    using trig_api.create_rpc_visible [OF assms] by blast
  obtain x r' st t where c: "cq_Resource q = Some x" "resourceIDRe (cq_Id q)"
    "CreateTrigger e (cq_Parent q) (cq_Id q) x (storage s) = (Ok r', st)"
    "done_op e (cq_Parent q) (AnyTrigger r') ''create'' t (s\<lparr>storage := st\<rparr>) = (Ok opn, s')"
    using trig_api.create_rpc [OF assms] by blast
  have "r' = r" using done_op_Ok(2) [OF c(4)] r(2) by simp
  then show ?thesis
    using c(1-3) r by (auto simp: CreateTrigger_def Let_def split: option.splits)
qed

theorem created_trigger_is_readable_witness:
  "\<exists>x r. Some trigger0 = Some x \<and> op_Response operation0 = AnyTrigger r \<and>
     r = x\<lparr>tr_Name := trigger_name0, tr_Uid := newUID 17, tr_CreateTime := Some (e_now env0),
       tr_UpdateTime := Some (e_now env0), tr_Etag := newEtag 19, tr_Conditions := readyCondition\<rparr>"
proof -
  have "CreateTrigger_rpc env0 create_trigger0 server0 = (Ok operation0, server1)"
    using create0 by (auto simp: answer_def elim!: map_result_OkE split: prod.splits)
  from created_trigger_is_readable [OF this] show ?thesis
    by (auto simp: create_trigger0_def loc0_def trigger_name0_def env0_def)
qed

text \<open>C13. UpdateTrigger of a trigger with a proper name succeeds only on an existing trigger, or with
  allow_missing; either way the operation carries the message that GetTrigger then returns under
  exactly that name, and no other trigger changes.\<close>

theorem updated_trigger_is_readable:
  assumes "reachable s" and "UpdateTrigger_rpc e q s = (Ok opn, s')" and "\<not> uq_ValidateOnly q"
    and "uq_Resource q = Some x" and "tr_Name x = p @ ''/triggers/'' @ i" and "CHR ''/'' \<notin> set i"
  shows "\<exists>r. op_Done opn \<and> op_Response opn = AnyTrigger r \<and> tr_Name r = tr_Name x \<and>
    (map_of (triggers (storage s)) (tr_Name x) = None \<longrightarrow> uq_AllowMissing q) \<and>
    (\<forall>e2. checkPermission e2 s ''eventarc.triggers.get'' (tr_Name x) = Ok () \<longrightarrow>
      GetTrigger_rpc e2 \<lparr>gr_Name = tr_Name x\<rparr> s' = (Ok r, s')) \<and>
    (\<forall>n. n \<noteq> tr_Name x \<longrightarrow> GetTrigger n (storage s') = GetTrigger n (storage s))"
proof (rule trig_api.update_rpc_visible [OF assms(2-6)])
  show "wf_table tr_Name (triggers (storage s))"
    using reachable_inv [OF assms(1)] by (simp add: server_inv_def storage_inv_def)
qed

text \<open>An upsert of a trigger that is not there.\<close>

theorem updated_trigger_is_readable_witness:
  "\<exists>opn s' r. UpdateTrigger_rpc env0 upsert0 server0 = (Ok opn, s') \<and>
     op_Response opn = AnyTrigger r \<and>
     GetTrigger_rpc env0 \<lparr>gr_Name = trigger_name0\<rparr> s' = (Ok r, s')"
proof -
  have "is_ok (fst (UpdateTrigger_rpc env0 upsert0 server0))" by code_simp
  then obtain opn s' where run: "UpdateTrigger_rpc env0 upsert0 server0 = (Ok opn, s')"
    by (metis is_ok_iff prod.collapse)
  have "checkPermission env0 server0 ''eventarc.triggers.get'' trigger_name0 = Ok ()"
    by (rule checkPermission_off) (simp add: server0_def)
  with updated_trigger_is_readable [OF server0_reachable run,
      of "trigger0\<lparr>tr_Name := trigger_name0\<rparr>" loc0 "''t''"] run
  show ?thesis by (auto simp: upsert0_def trigger_name0_def loc0_def)
qed

text \<open>C14. An update mask of a trigger writes exactly the fields it names: labels, destination, event
  filters, service account and channel are copied from the request when their path (or the star) is
  in the mask and kept otherwise; name, uid, creation time and every other field stay; update time,
  etag and conditions are renewed.\<close>

theorem trigger_update_mask:
  assumes "UpdateTrigger e t (Some paths) st = (Ok r, st')" and "GetTrigger (tr_Name t) st = Ok old"
  shows "tr_Labels r = (if set paths \<inter> {''labels'', ''*''} = {} then tr_Labels old else tr_Labels t) \<and>
    tr_Destination r =
      (if set paths \<inter> {''destination'', ''*''} = {} then tr_Destination old else tr_Destination t) \<and>
    tr_EventFilters r =
      (if set paths \<inter> {''event_filters'', ''*''} = {} then tr_EventFilters old else tr_EventFilters t) \<and>
    tr_ServiceAccount r =
      (if set paths \<inter> {''service_account'', ''*''} = {} then tr_ServiceAccount old
       else tr_ServiceAccount t) \<and>
    tr_Channel r = (if set paths \<inter> {''channel'', ''*''} = {} then tr_Channel old else tr_Channel t) \<and>
    tr_Name r = tr_Name old \<and> tr_Uid r = tr_Uid old \<and> tr_CreateTime r = tr_CreateTime old \<and>
    tr_Other r = tr_Other old \<and> tr_UpdateTime r = Some (e_now e) \<and> tr_Etag r = newEtag (e_etag e) \<and>
    tr_Conditions r = readyCondition"
proof -
  have "r = fold (setTriggerField t) paths old
      \<lparr>tr_UpdateTime := Some (e_now e), tr_Etag := newEtag (e_etag e), tr_Conditions := readyCondition\<rparr>"
    using assms by (auto simp: UpdateTrigger_def GetTrigger_def Let_def split: option.splits)
  then show ?thesis by (simp add: fold_setTriggerField_copies)
qed

theorem trigger_update_mask_witness:
  "\<exists>r st'. UpdateTrigger env0 (stored0\<lparr>tr_ServiceAccount := ''sb'', tr_Channel := ''c''\<rparr>)
       (Some [''service_account'', ''uid'']) (storage server1) = (Ok r, st') \<and>
     tr_ServiceAccount r = ''sb'' \<and> tr_Channel r = []"
proof -
  let ?t = "stored0\<lparr>tr_ServiceAccount := ''sb'', tr_Channel := ''c''\<rparr>"
  have old: "GetTrigger (tr_Name ?t) (storage server1) = Ok stored0"
    by (simp add: GetTrigger_def server1_contents stored0_def)
  have "is_ok (fst (UpdateTrigger env0 ?t (Some [''service_account'', ''uid'']) (storage server1)))"
    by code_simp
  then obtain r st' where run:
    "UpdateTrigger env0 ?t (Some [''service_account'', ''uid'']) (storage server1) = (Ok r, st')"
    by (metis is_ok_iff prod.collapse)
  with trigger_update_mask [OF run old] show ?thesis
    by (simp add: stored0_def trigger0_def)
qed

text \<open>A delete with an etag that is not the stored one is refused with Aborted and both etags, and
  nothing changes; the check is made before anything is removed.\<close>

theorem stale_etag_is_refused:
  assumes "GetTrigger (dq_Name q) (storage s) = Ok r" and "dq_Name q \<noteq> []"
    and "dq_Etag q \<noteq> []" and "tr_Etag r \<noteq> dq_Etag q" and "\<not> dq_ValidateOnly q"
    and "checkPermission e s ''eventarc.triggers.delete'' (dq_Name q) = Ok ()"
  shows "DeleteTrigger_rpc e q s = (Err (etagMismatch (dq_Etag q) (tr_Etag r)), s)"
  using assms
  by (simp add: DeleteTrigger_rpc_def seq_def catch_def require_apply authorize_apply query_apply Let_def)

theorem stale_etag_is_refused_witness:
  "DeleteTrigger_rpc env0 \<lparr>dq_Name = trigger_name0, dq_Etag = ''12'', dq_AllowMissing = False,
     dq_ValidateOnly = False\<rparr> server1 = (Err (etagMismatch ''12'' ''13''), server1)"
proof -
  have "GetTrigger trigger_name0 (storage server1) = Ok stored0"
    by (simp add: GetTrigger_def server1_contents)
  moreover have "checkPermission env0 server1 ''eventarc.triggers.delete'' trigger_name0 = Ok ()"
    by code_simp
  ultimately show ?thesis
    using stale_etag_is_refused [of "\<lparr>dq_Name = trigger_name0, dq_Etag = ''12'', dq_AllowMissing = False,
      dq_ValidateOnly = False\<rparr>" server1 stored0 env0]
    by (simp add: stored0_def trigger_name0_def)
qed

text \<open>C15. After a successful DeleteTrigger, with or without allow_missing, nothing is under the name:
  GetTrigger answers NotFound; the operation is in the store, and every other trigger reads as before.\<close>

theorem deleted_trigger_is_gone:
  assumes "DeleteTrigger_rpc e q s = (Ok opn, s')" and "\<not> dq_ValidateOnly q"
  shows "op_Done opn \<and> map_of (ops (lroStore s')) (op_Name opn) = Some opn \<and>
    (\<forall>e2. checkPermission e2 s ''eventarc.triggers.get'' (dq_Name q) = Ok () \<longrightarrow>
      GetTrigger_rpc e2 \<lparr>gr_Name = dq_Name q\<rparr> s' = (Err (notFound ''Trigger'' (dq_Name q)), s')) \<and>
    (\<forall>n. n \<noteq> dq_Name q \<longrightarrow> GetTrigger n (storage s') = GetTrigger n (storage s))"
  by (rule trig_api.delete_rpc_gone [OF assms])

theorem deleted_trigger_is_gone_witness:
  "\<exists>opn s'. DeleteTrigger_rpc env0 \<lparr>dq_Name = trigger_name0, dq_Etag = ''13'', dq_AllowMissing = False,
       dq_ValidateOnly = False\<rparr> server1 = (Ok opn, s') \<and>
     GetTrigger_rpc env0 \<lparr>gr_Name = trigger_name0\<rparr> s' = (Err (notFound ''Trigger'' trigger_name0), s')"
proof -
  let ?q = "\<lparr>dq_Name = trigger_name0, dq_Etag = ''13'', dq_AllowMissing = False, dq_ValidateOnly = False\<rparr>"
  have "is_ok (fst (DeleteTrigger_rpc env0 ?q server1))" by code_simp
  then obtain opn s' where run: "DeleteTrigger_rpc env0 ?q server1 = (Ok opn, s')"
    by (metis is_ok_iff prod.collapse)
  have "checkPermission env0 server1 ''eventarc.triggers.get'' trigger_name0 = Ok ()"
    by code_simp
  with deleted_trigger_is_gone [OF run] run show ?thesis by simp
qed

section \<open>Listing and pages\<close>



text \<open>C17. Unless newest-first is asked for, a page of triggers is a page of the children of the parent
  sorted by name: it does not depend on the order in which the runtime ranges over the map.\<close>

theorem trigger_pages_deterministic:
  assumes "reachable s" and "iter_order (e_order e)" and "\<not> by_create_time ob"
  shows "ListTriggers e p ps tok ob [] (storage s) =
    PaginatePage (sort_key tr_Name (children tr_Name (p @ ''/triggers/'') (triggers (storage s)))) tok ps"
  by (rule trigs.listing_by_name [OF _ assms(2,3)])
    (use reachable_inv [OF assms(1)] in \<open>simp add: server_inv_def storage_inv_def\<close>)

theorem trigger_pages_deterministic_witness:
  "ListTriggers env0 loc0 5 [] ''name'' [] (storage server1) = Ok ([stored0], [])"
proof -
  have "\<not> by_create_time ''name''" by code_simp
  moreover have "PaginatePage (sort_key tr_Name (children tr_Name (loc0 @ ''/triggers/'')
      (triggers (storage server1)))) [] 5 = Ok ([stored0], [])"
    unfolding server1_contents by code_simp
  ultimately show ?thesis
    using trigger_pages_deterministic [OF server1_reachable env0_facts(1), of "''name''" loc0 5 "[]"]
    by simp
qed

text \<open>A page at a token that encodes offset n is the next items from there, at most the page size
  (between 1 and 100), and the next token encodes the position after them, or is empty at the end.\<close>

theorem page_at_offset:
  assumes "length items < 2 ^ 63" and "n + 100 < 2 ^ 63"
  shows "\<exists>k. 1 \<le> k \<and> k \<le> 100 \<and> (1 \<le> sint ps \<and> sint ps \<le> 100 \<longrightarrow> int k = sint ps) \<and>
    PaginatePage items (Itoa (word_of_nat n)) ps =
      Ok (take k (drop n items), if n + k < length items then Itoa (word_of_nat (n + k)) else [])"
proof -
  let ?k = "nat (sint (page_size ps))"
  have "PaginatePage items (Itoa (word_of_nat n)) ps =
      Ok (take ?k (drop n items), if n + ?k < length items then Itoa (word_of_nat (n + ?k)) else [])"
    using assms by (intro PaginatePage_at page_offset_Itoa) auto
  moreover have "1 \<le> ?k" "?k \<le> 100"
    using page_size_bounds [of ps] by linarith+
  moreover have "1 \<le> sint ps \<and> sint ps \<le> 100 \<longrightarrow> int ?k = sint ps"
    using page_size_in_range [of ps] by simp
  ultimately show ?thesis by blast
qed

theorem page_at_offset_witness:
  "\<exists>k. 1 \<le> k \<and> k \<le> 100 \<and> PaginatePage [10, 20, 30, 40 :: nat] (Itoa (word_of_nat 1)) 2 =
     Ok (take k (drop 1 [10, 20, 30, 40]),
       if 1 + k < length [10, 20, 30, 40 :: nat] then Itoa (word_of_nat (1 + k)) else [])"
proof -
  have "length [10, 20, 30, 40 :: nat] < 2 ^ 63" and "(1 :: nat) + 100 < 2 ^ 63" by simp_all
  from page_at_offset [OF this, of 2] show ?thesis by blast
qed

text \<open>C18. The addition of offset and page size is not checked for overflow: a token within one page of
  the largest int is answered with an empty page and a negative next token, which the next call
  rejects.\<close>

theorem page_token_overflow:
  assumes "length items + 100 < 2 ^ 63" and "page_offset tok = Ok off"
    and "2 ^ 63 \<le> sint off + sint (page_size ps)"
  shows "\<exists>nxt. PaginatePage items tok ps = Ok ([], nxt) \<and> nxt \<noteq> [] \<and>
    PaginatePage items nxt ps = Err (errorf InvalidArgument ''invalid page_token'')"
proof -
  have b: "1 \<le> sint (page_size ps)" "sint (page_size ps) \<le> 100"
    using page_size_bounds [of ps] by auto
  have off: "sint off < 2 ^ 63" using sint_lt [of off] by simp
  let ?x = "sint off + sint (page_size ps)"
  have "sint (off + page_size ps) = signed_take_bit 63 ?x"
    by (simp add: sint_word_ariths(1))
  also have "\<dots> = (?x + 2 ^ 63) mod 2 ^ 64 - 2 ^ 63"
    by (simp add: signed_take_bit_eq_take_bit_shift take_bit_eq_mod)
  also have "(?x + 2 ^ 63) mod 2 ^ 64 = ?x - 2 ^ 63"
    using b off assms(3) by (subst mod_pos_geq) auto
  finally have wrap: "sint (off + page_size ps) = ?x - 2 ^ 64" by simp
  then have neg: "sint (off + page_size ps) < 0" using b off by simp
  have len: "sint (word_of_nat (length items) :: goint) = int (length items)"
    using assms(1) by (intro sint_word_of_nat) simp
  have "int (length items) + 100 < 2 ^ 63" using assms(1) by simp
  then have "int (length items) \<le> sint off" using b(2) assms(3) by linarith
  then have "PaginatePage items tok ps = Ok ([], Itoa (off + page_size ps))"
    using neg by (simp add: PaginatePage_def assms(2) Let_def word_sle_eq word_sless_alt len)
  moreover have "page_offset (Itoa (off + page_size ps)) = Err (errorf InvalidArgument ''invalid page_token'')"
    using neg by (simp add: page_offset_def word_sless_alt)
  ultimately show ?thesis
    by (intro exI [of _ "Itoa (off + page_size ps)"]) (simp add: PaginatePage_def page_offset_def)
qed

theorem page_token_overflow_witness:
  "\<exists>nxt. PaginatePage [1, 2, 3 :: nat] ''9223372036854775800'' 8 = Ok ([], nxt) \<and> nxt \<noteq> [] \<and>
     PaginatePage [1, 2, 3 :: nat] nxt 8 = Err (errorf InvalidArgument ''invalid page_token'')"
proof (rule page_token_overflow)
  show "page_offset ''9223372036854775800'' = Ok 9223372036854775800"
    by (simp add: page_offset_def Atoi_def HasPrefix_def digit_val_def Let_def word_sless_alt)
  show "2 ^ 63 \<le> sint (9223372036854775800 :: goint) + sint (page_size 8)" by code_simp
qed simp

section \<open>Names and identifiers\<close>

text \<open>C19. The resource ID matcher accepts exactly the language of its regular expression: one lower-case
  letter, or a lower-case letter, then up to 61 letters, digits or hyphens, then a letter or digit;
  so an ID has between 1 and 63 characters and contains no slash.\<close>

theorem resource_ids:
  "(resourceIDRe s \<longleftrightarrow> (\<exists>c. s = [c] \<and> is_lower c) \<or>
     (\<exists>c mid d. s = c # mid @ [d] \<and> is_lower c \<and> length mid \<le> 61 \<and> list_all is_id_char mid \<and>
        is_id_end d)) \<and>
   (resourceIDRe s \<longrightarrow> 1 \<le> length s \<and> length s \<le> 63 \<and> CHR ''/'' \<notin> set s)"
proof
  show "resourceIDRe s \<longrightarrow> 1 \<le> length s \<and> length s \<le> 63 \<and> CHR ''/'' \<notin> set s"
    using resourceIDRe_length resourceIDRe_no_slash by blast
  show "resourceIDRe s \<longleftrightarrow> (\<exists>c. s = [c] \<and> is_lower c) \<or>
     (\<exists>c mid d. s = c # mid @ [d] \<and> is_lower c \<and> length mid \<le> 61 \<and> list_all is_id_char mid \<and>
        is_id_end d)"
  proof (cases s)
    case (Cons c rest)
    then show ?thesis by (cases rest rule: rev_cases) (auto simp: resourceIDRe_def)
  qed (simp add: resourceIDRe_def)
qed

theorem resource_ids_witness: "resourceIDRe ''my-trigger-1'' \<and> length ''my-trigger-1'' \<le> 63"
proof -
  have "resourceIDRe ''my-trigger-1''" by code_simp
  then show ?thesis using resource_ids [of "''my-trigger-1''"] by blast
qed

text \<open>A provider is found under any project and location: GetProvider of a seeded provider's ID
  below any parent gives that provider's display name and event types under the requested name, in
  every state the server can reach.\<close>

theorem provider_under_any_parent:
  assumes "reachable s" and "(pid, display, types) \<in> set defaultProviders"
  shows "\<exists>pr. GetProvider (parent @ ''/providers/'' @ pid) (storage s) = Ok pr \<and>
    pv_Name pr = parent @ ''/providers/'' @ pid \<and> pv_DisplayName pr = display \<and>
    map (\<lambda>t. (et_Type t, et_Description t)) (pv_EventTypes pr) = types"
proof -
  let ?st = "storage s"
  define name where "name = parent @ ''/providers/'' @ pid"
  have pr: "providers ?st = providers NewStorage"
    using reachable_frozen [OF assms(1)] by (simp add: frozen_def)
  have "list_all (\<lambda>(i, d, ts). i \<noteq> [] \<and> CHR ''/'' \<notin> set i \<and>
      (case map_of (providers NewStorage) (''projects/-/locations/-/providers/'' @ i) of
         None \<Rightarrow> False
       | Some p \<Rightarrow> pv_DisplayName p = d \<and>
           map (\<lambda>t. (et_Type t, et_Description t)) (pv_EventTypes p) = ts)) defaultProviders"
    by code_simp
  then have seeded: "pid \<noteq> []" "CHR ''/'' \<notin> set pid"
    "\<exists>p. map_of (providers ?st) (''projects/-/locations/-/providers/'' @ pid) = Some p \<and>
       pv_DisplayName p = display \<and> map (\<lambda>t. (et_Type t, et_Description t)) (pv_EventTypes p) = types"
    using assms(2) by (auto simp: list_all_iff pr split: option.splits)
  have pid: "extractProviderID name = pid"
    unfolding name_def by (rule extractProviderID_join [OF seeded(2)])
  have "\<exists>pr. GetProvider name ?st = Ok pr \<and> pv_Name pr = name \<and> pv_DisplayName pr = display \<and>
      map (\<lambda>t. (et_Type t, et_Description t)) (pv_EventTypes pr) = types"
  proof (cases "map_of (providers ?st) name")
    case None
    then show ?thesis
      using seeded pid by (auto simp: GetProvider_def Let_def cloneProvider_def)
  next
    case (Some p)
    have "list_all (\<lambda>(k, p). k = ''projects/-/locations/-/providers/'' @ extractProviderID k)
        (providers NewStorage)" by code_simp
    then have "name = ''projects/-/locations/-/providers/'' @ pid"
      using Some map_of_SomeD [OF Some] pid by (auto simp: pr list_all_iff)
    then show ?thesis
      using seeded(3) by (auto simp: GetProvider_def cloneProvider_def)
  qed
  then show ?thesis unfolding name_def .
qed

theorem provider_under_any_parent_witness:
  "\<exists>pr. GetProvider ''projects/x/locations/y/providers/run.googleapis.com'' (storage server1) = Ok pr \<and>
     pv_DisplayName pr = ''Cloud Run''"
  using provider_under_any_parent [OF server1_reachable, of "''run.googleapis.com''" "''Cloud Run''" _
      "''projects/x/locations/y''"]
  by (auto simp: defaultProviders_def)

text \<open>The trigger filter: with trigger_id="ID" exactly the triggers whose last name segment is that
  ID are kept; a filter that does not begin with trigger_id= keeps them all.\<close>

theorem trigger_id_filter:
  assumes "resourceIDRe tid"
  shows "applyTriggerFilter ts (''trigger_id='' @ [CHR 0x22] @ tid @ [CHR 0x22]) =
      filter (\<lambda>t. last (Split (tr_Name t) (CHR ''/'')) = tid) ts"
proof -
  let ?f = "''trigger_id='' @ [CHR 0x22] @ tid @ [CHR 0x22]"
  have ts: "TrimSpace ?f = ?f"
    using TrimSpace_id [of "CHR ''t''" "CHR 0x22" "tl ''trigger_id='' @ [CHR 0x22] @ tid"] by simp
  obtain c rest where tid: "tid = c # rest" "is_lower c" using assms by (cases tid) (auto simp: resourceIDRe_def)
  have ends: "\<not> c \<in> {CHR 0x22, CHR 0x27}" "last tid \<notin> {CHR 0x22, CHR 0x27}"
  proof -
    show "\<not> c \<in> {CHR 0x22, CHR 0x27}" using tid(2) by (auto simp: is_lower_def)
    have "is_lower (last tid) \<or> is_id_end (last tid)"
      using assms tid by (auto simp: resourceIDRe_def split: if_splits)
    then show "last tid \<notin> {CHR 0x22, CHR 0x27}" by (auto simp: is_lower_def is_id_end_def)
  qed
  have "Trim ([CHR 0x22] @ tid @ [CHR 0x22]) [CHR 0x22, CHR 0x27] = tid"
    using ends tid(1) by (intro Trim_quotes) simp_all
  moreover have "TrimPrefix ?f ''trigger_id='' = [CHR 0x22] @ tid @ [CHR 0x22]"
    by (rule TrimPrefix_append)
  moreover have "HasPrefix ?f ''trigger_id=''" by (rule HasPrefix_append)
  ultimately show ?thesis unfolding applyTriggerFilter_def ts Let_def by simp
qed

theorem trigger_id_filter_witness:
  "applyTriggerFilter [stored0, stored0\<lparr>tr_Name := ''projects/p/locations/l/triggers/u''\<rparr>]
     (''trigger_id='' @ [CHR 0x22] @ ''t'' @ [CHR 0x22]) = [stored0]"
proof -
  have "resourceIDRe ''t''" by code_simp
  from trigger_id_filter [OF this] show ?thesis by (simp add: stored0_def trigger_name0_def)
qed

section \<open>The other resources\<close>

text \<open>The message bus of an enrollment cannot be changed: whatever UpdateEnrollment is asked, and
  whether it succeeds or fails, every enrollment that was there is still there with the message bus
  it had.\<close>

theorem enrollment_bus_immutable:
  assumes "storage_inv st" and "GetEnrollment n st = Ok old"
  shows "\<exists>new. GetEnrollment n (snd (UpdateEnrollment e r um st)) = Ok new \<and>
    en_MessageBus new = en_MessageBus old"
proof (cases "n = en_Name r")
  case True
  have m: "map_of (enrollments st) (en_Name r) = Some old"
    using assms(2) True by (simp add: enr.get_Ok)
  from UpdateEnrollment_present [OF m, of e um] show ?thesis
    using True by (auto simp: enr.get_Ok map_simps)
next
  case False
  then show ?thesis using assms(2) enr.update_get_other [of n r e um st] by auto
qed

theorem enrollment_bus_immutable_witness:
  "\<exists>new. GetEnrollment (en_Name enrollment0)
       (snd (UpdateEnrollment env0 (enrollment0\<lparr>en_MessageBus := ''other''\<rparr>) None storage_en0)) = Ok new \<and>
     en_MessageBus new = ''bus''"
proof -
  have "GetEnrollment (en_Name enrollment0) storage_en0 = Ok enrollment0"
    by (simp add: GetEnrollment_def storage_en0_def)
  from enrollment_bus_immutable [OF storage_en0_inv this] show ?thesis
    by (simp add: enrollment0_def)
qed



text \<open>The enrollments of a message bus are listed as the sorted names of exactly the enrollments
  that are attached to it, whatever their parent and whatever the order of the range.\<close>

theorem bus_enrollments_listed:
  assumes "storage_inv st" and "iter_order (e_order e)"
  shows "ListMessageBusEnrollments e bus ps tok st =
    PaginatePage (sort (map en_Name (filter (\<lambda>en. en_MessageBus en = bus) (map snd (enrollments st))))) tok ps"
proof -
  have wf: "wf_table en_Name (enrollments st)" using assms(1) by (simp add: storage_inv_def)
  let ?r = "range_map (e_order e) (enrollments st)"
  let ?p = "\<lambda>(name, en). en_MessageBus en = bus"
  have "mset (map fst (filter ?p ?r)) = image_mset fst (filter_mset ?p (mset ?r))" by simp
  also have "mset ?r = mset (enrollments st)"
    by (rule mset_range_map [OF wf_table_distinct [OF wf] assms(2)])
  also have "image_mset fst (filter_mset ?p (mset (enrollments st))) =
      mset (map fst (filter ?p (enrollments st)))" by simp
  also have "map fst (filter ?p (enrollments st)) =
      map en_Name (filter (\<lambda>en. en_MessageBus en = bus) (map snd (enrollments st)))"
    using wf by (auto simp: wf_table_def filter_map o_def case_prod_unfold)
  finally have "sort (map fst (filter ?p ?r)) =
      sort (map en_Name (filter (\<lambda>en. en_MessageBus en = bus) (map snd (enrollments st))))"
    by (metis properties_for_sort mset_sort sorted_sort)
  then show ?thesis by (simp add: ListMessageBusEnrollments_def Let_def)
qed

theorem bus_enrollments_listed_witness:
  "ListMessageBusEnrollments env0 ''bus'' 10 [] storage_en0 = Ok ([en_Name enrollment0], [])"
proof -
  have "PaginatePage (sort (map en_Name (filter (\<lambda>en. en_MessageBus en = ''bus'')
      (map snd (enrollments storage_en0))))) [] 10 = Ok ([en_Name enrollment0], [])" by code_simp
  then show ?thesis using bus_enrollments_listed [OF storage_en0_inv env0_facts(1)] by simp
qed

text \<open>The activation token of a channel connection is input only: in no reachable state is one
  stored, so no read or listing can return it.\<close>

theorem connection_tokens_not_stored:
  assumes "reachable s" and "GetChannelConnection n (storage s) = Ok c"
  shows "cc_ActivationToken c = []"
proof -
  have "map_of (channelConnections (storage s)) n = Some c" using assms(2) by (simp add: conn.get_Ok)
  then have "(n, c) \<in> set (channelConnections (storage s))" by (rule map_of_SomeD)
  then show ?thesis using reachable_frozen [OF assms(1)] by (auto simp: frozen_def tokenless_def)
qed

theorem connection_tokens_not_stored_witness:
  "\<exists>c. GetChannelConnection ''projects/p/locations/l/channelConnections/c'' (storage server_cc0) = Ok c \<and>
     cc_ActivationToken c = []"
proof -
  have "reachable server_cc0"
    unfolding server_cc0_def by (rule reachable.call [OF server0_reachable surjective_pairing])
  moreover have "is_ok (GetChannelConnection ''projects/p/locations/l/channelConnections/c''
      (storage server_cc0))" by code_simp
  ultimately show ?thesis using connection_tokens_not_stored by (auto simp: is_ok_iff)
qed

text \<open>Whether an update mask lets a field be written: it is absent, or names the field or the star.\<close>

definition masked :: "string list option \<Rightarrow> string \<Rightarrow> bool" where
  "masked um f \<longleftrightarrow> um = None \<or> (\<exists>paths. um = Some paths \<and> set paths \<inter> {f, ''*''} \<noteq> {})"

text \<open>No update of a channel changes its activation token, uid, name or creation time; it writes
  labels, key name and state exactly when the mask is absent or names them, and renews the update
  time.\<close>

theorem channel_update_mask:
  assumes "UpdateChannel e c um st = (Ok r, st')" and "GetChannel (ch_Name c) st = Ok old"
  shows "ch_ActivationToken r = ch_ActivationToken old \<and> ch_Uid r = ch_Uid old \<and>
    ch_Name r = ch_Name old \<and> ch_CreateTime r = ch_CreateTime old \<and>
    ch_Labels r = (if masked um ''labels'' then ch_Labels c else ch_Labels old) \<and>
    ch_CryptoKeyName r = (if masked um ''crypto_key_name'' then ch_CryptoKeyName c else ch_CryptoKeyName old) \<and>
    ch_State r = (if masked um ''state'' then ch_State c else ch_State old) \<and>
    ch_UpdateTime r = Some (e_now e)"
proof -
  have r: "r = (case um of Some paths \<Rightarrow> fold (setChannelField c) paths old | None \<Rightarrow> setChannelAll c old)
      \<lparr>ch_UpdateTime := Some (e_now e)\<rparr>"
    using assms(1,2) by (auto simp: UpdateChannel_def GetChannel_def Let_def split: option.splits)
  have copies:
    "ch_Labels (fold (setChannelField c) ps old) =
      (if set ps \<inter> {''labels'', ''*''} = {} then ch_Labels old else ch_Labels c)"
    "ch_CryptoKeyName (fold (setChannelField c) ps old) =
      (if set ps \<inter> {''crypto_key_name'', ''*''} = {} then ch_CryptoKeyName old else ch_CryptoKeyName c)"
    "ch_State (fold (setChannelField c) ps old) =
      (if set ps \<inter> {''state'', ''*''} = {} then ch_State old else ch_State c)" for ps
    by (rule fold_copies; auto simp: setChannelField_def setChannelAll_def)+
  show ?thesis
    unfolding r masked_def by (cases um) (simp_all add: copies, simp add: setChannelAll_def)
qed

theorem channel_update_mask_witness:
  "\<exists>r st'. UpdateChannel env0 (channel0\<lparr>ch_State := ACTIVE, ch_ActivationToken := ''x'',
       ch_CryptoKeyName := ''k''\<rparr>) (Some [''state'']) storage_ch0 = (Ok r, st') \<and>
     ch_State r = ACTIVE \<and> ch_ActivationToken r = ''tok'' \<and> ch_CryptoKeyName r = []"
proof -
  let ?c = "channel0\<lparr>ch_State := ACTIVE, ch_ActivationToken := ''x'', ch_CryptoKeyName := ''k''\<rparr>"
  have old: "GetChannel (ch_Name ?c) storage_ch0 = Ok channel0"
    by (simp add: GetChannel_def storage_ch0_def)
  have "is_ok (fst (UpdateChannel env0 ?c (Some [''state'']) storage_ch0))" by code_simp
  then obtain r st' where run: "UpdateChannel env0 ?c (Some [''state'']) storage_ch0 = (Ok r, st')"
    by (metis is_ok_iff prod.collapse)
  from channel_update_mask [OF run old] run show ?thesis
    by (simp add: masked_def channel0_def)
qed

text \<open>The default Google channel config is stable under interleaving: of two first reads that both
  miss under the shared lock, the one that comes second to the exclusive lock gives back what the
  first one has made and changes nothing, and so does any later read, whatever other steps run in
  between, as long as none of them writes this config.\<close>

theorem racing_config_reads_agree:
  assumes "initGoogleChannelConfig e1 n s1 = (Ok c, s2)"
    and "map_of (googleChannelConfigs s3) n = map_of (googleChannelConfigs s2) n"
  shows "initGoogleChannelConfig e2 n s3 = (Ok c, s3) \<and> GetGoogleChannelConfig e3 n s3 = (Ok c, s3)"
proof -
  have "map_of (googleChannelConfigs s2) n = Some c"
    using assms(1) by (auto simp: initGoogleChannelConfig_def Let_def map_simps split: option.splits)
  then show ?thesis
    using assms(2) by (simp add: initGoogleChannelConfig_def GetGoogleChannelConfig_present)
qed

theorem racing_config_reads_agree_witness:
  "\<exists>c s. initGoogleChannelConfig env0 ''n'' NewStorage = (Ok c, s) \<and>
     initGoogleChannelConfig (env0\<lparr>e_now := \<lparr>ts_Seconds = 7, ts_Nanos = 0\<rparr>\<rparr>) ''n'' (Clear s) =
       (Ok c, Clear s) \<and> ts_Seconds (the (gc_UpdateTime c)) = 100"
proof -
  obtain c s where run: "initGoogleChannelConfig env0 ''n'' NewStorage = (Ok c, s)"
    and c: "c = \<lparr>gc_Name = ''n'', gc_UpdateTime = Some (e_now env0), gc_CryptoKeyName = [],
      gc_Labels = [], gc_Other = []\<rparr>"
    by (simp add: initGoogleChannelConfig_def NewStorage_def Let_def)
  have "map_of (googleChannelConfigs (Clear s)) ''n'' = map_of (googleChannelConfigs s) ''n''"
    by (simp add: Clear_def)
  from racing_config_reads_agree [OF run this] run c show ?thesis by (auto simp: env0_def)
qed

section \<open>Authorization\<close>

text \<open>IAM fails closed: when a client is configured, an RPC of the Eventarc service for which the IAM
  emulator does not answer yes (it says no, or it fails) returns an error and changes nothing.\<close>

theorem iam_fails_closed:
  assumes "iamClient s" and "required q = Some (p, r)" and "e_iam e (e_principal e) r p \<noteq> Inr True"
  shows "\<exists>y. handle e q s = (Err y, s)"
proof -
  have "\<exists>x. checkPermission e s p r = Err x"
    using assms(1,3) by (auto simp: checkPermission_def Let_def split: sum.split)
  then show ?thesis using handle_denied [OF assms(2)] by (auto simp: fails_def)
qed

theorem iam_fails_closed_witness:
  "\<exists>y. handle (env0\<lparr>e_iam := (\<lambda>principal resource permission. Inl ''connection refused'')\<rparr>)
     (TriggerRPC (CreateRPC create_trigger0)) (server0\<lparr>iamClient := True, iamMode := ''strict''\<rparr>) =
   (Err y, server0\<lparr>iamClient := True, iamMode := ''strict''\<rparr>)"
  by (rule iam_fails_closed) simp_all

section \<open>More lifecycles\<close>

text \<open>UpdateMessageBus of a bus with a proper name succeeds only on an existing bus or with
  allow_missing; the operation carries the message GetMessageBus then returns under exactly that
  name, and no other bus changes.\<close>

theorem updated_bus_is_readable:
  assumes "reachable s" and "UpdateMessageBus_rpc e q s = (Ok opn, s')" and "\<not> uq_ValidateOnly q"
    and "uq_Resource q = Some x" and "mb_Name x = p @ ''/messageBuses/'' @ i" and "CHR ''/'' \<notin> set i"
  shows "\<exists>r. op_Done opn \<and> op_Response opn = AnyMessageBus r \<and> mb_Name r = mb_Name x \<and>
    (map_of (messageBuses (storage s)) (mb_Name x) = None \<longrightarrow> uq_AllowMissing q) \<and>
    (\<forall>e2. checkPermission e2 s ''eventarc.messageBuses.get'' (mb_Name x) = Ok () \<longrightarrow>
      GetMessageBus_rpc e2 \<lparr>gr_Name = mb_Name x\<rparr> s' = (Ok r, s')) \<and>
    (\<forall>n. n \<noteq> mb_Name x \<longrightarrow> GetMessageBus n (storage s') = GetMessageBus n (storage s))"
proof (rule bus_api.update_rpc_visible [OF assms(2-6)])
  show "wf_table mb_Name (messageBuses (storage s))"
    using reachable_inv [OF assms(1)] by (simp add: server_inv_def storage_inv_def)
qed

theorem updated_bus_is_readable_witness:
  "\<exists>opn s' r. UpdateMessageBus_rpc env0 \<lparr>uq_Resource = Some bus0, uq_UpdateMask = None,
       uq_ValidateOnly = False, uq_AllowMissing = True\<rparr> server0 = (Ok opn, s') \<and>
     op_Response opn = AnyMessageBus r \<and>
     GetMessageBus_rpc env0 \<lparr>gr_Name = mb_Name bus0\<rparr> s' = (Ok r, s')"
proof -
  let ?q = "\<lparr>uq_Resource = Some bus0, uq_UpdateMask = None, uq_ValidateOnly = False,
    uq_AllowMissing = True\<rparr>"
  have "is_ok (fst (UpdateMessageBus_rpc env0 ?q server0))" by code_simp
  then obtain opn s' where run: "UpdateMessageBus_rpc env0 ?q server0 = (Ok opn, s')"
    by (metis is_ok_iff prod.collapse)
  have "checkPermission env0 server0 ''eventarc.messageBuses.get'' (mb_Name bus0) = Ok ()"
    by (rule checkPermission_off) (simp add: server0_def)
  with updated_bus_is_readable [OF server0_reachable run, of bus0 loc0 "''b''"] run
  show ?thesis by (auto simp: bus0_def loc0_def)
qed

text \<open>CreatePipeline succeeds only for a valid ID and at least one destination; the pipeline is then
  read back as the operation carries it, and no other pipeline changes.\<close>

theorem created_pipeline_is_readable:
  assumes "CreatePipeline_rpc e q s = (Ok opn, s')" and "\<not> cq_ValidateOnly q"
  shows "\<exists>x r. cq_Resource q = Some x \<and> pl_Destinations x \<noteq> [] \<and> resourceIDRe (cq_Id q) \<and>
    op_Done opn \<and> op_Response opn = AnyPipeline r \<and>
    pl_Name r = cq_Parent q @ ''/pipelines/'' @ cq_Id q \<and>
    (\<forall>e2. checkPermission e2 s ''eventarc.pipelines.get'' (pl_Name r) = Ok () \<longrightarrow>
      GetPipeline_rpc e2 \<lparr>gr_Name = pl_Name r\<rparr> s' = (Ok r, s')) \<and>
    (\<forall>n. n \<noteq> pl_Name r \<longrightarrow> GetPipeline n (storage s') = GetPipeline n (storage s))"
proof -
  have "\<exists>x. cq_Resource q = Some x \<and> pl_Destinations x \<noteq> []"
    using assms(1) unfolding CreatePipeline_rpc_def
    by (auto elim!: handler_runs split: option.splits if_splits)
  then show ?thesis using pipe_api.create_rpc_visible [OF assms] by blast
qed

theorem created_pipeline_is_readable_witness:
  "\<exists>opn s' r. CreatePipeline_rpc env0 \<lparr>cq_Parent = loc0, cq_Id = ''pl'', cq_Resource = Some pipeline0,
       cq_ValidateOnly = False\<rparr> server0 = (Ok opn, s') \<and> op_Response opn = AnyPipeline r \<and>
     GetPipeline_rpc env0 \<lparr>gr_Name = ''projects/p/locations/l/pipelines/pl''\<rparr> s' = (Ok r, s')"
proof -
  let ?q = "\<lparr>cq_Parent = loc0, cq_Id = ''pl'', cq_Resource = Some pipeline0, cq_ValidateOnly = False\<rparr>"
  have "is_ok (fst (CreatePipeline_rpc env0 ?q server0))" by code_simp
  then obtain opn s' where run: "CreatePipeline_rpc env0 ?q server0 = (Ok opn, s')"
    by (metis is_ok_iff prod.collapse)
  have "checkPermission env0 server0 ''eventarc.pipelines.get'' ''projects/p/locations/l/pipelines/pl'' = Ok ()"
    by (rule checkPermission_off) (simp add: server0_def)
  with created_pipeline_is_readable [OF run] run show ?thesis by (auto simp: loc0_def)
qed





section \<open>Routing events\<close>

text \<open>C23. The path-pattern matcher decides the documented meaning of patterns: segment by segment, a
  star stands for one segment, a double star for any number of them, and anything else for itself.\<close>

theorem path_pattern_meaning:
  "matchPathPattern pattern v \<longleftrightarrow> segments (Split pattern (CHR ''/'')) (Split v (CHR ''/''))"
  by (simp add: matchPathPattern_def matchSegs_segments)

text \<open>A pattern that ends in a double star after a path without wildcards takes that path and
  everything below it, and nothing else; a pattern without wildcards is an exact match.\<close>

theorem subtree_pattern:
  assumes "plain p"
  shows "(matchPathPattern (p @ ''/**'') v \<longleftrightarrow> v = p \<or> HasPrefix v (p @ ''/'')) \<and>
    (matchPathPattern p v \<longleftrightarrow> v = p)"
  using matchPathPattern_below [OF assms] matchPathPattern_plain [OF assms] by simp

theorem subtree_pattern_witness:
  "matchPathPattern ''/projects/p/**'' ''/projects/p/zones/z'' \<and>
   \<not> matchPathPattern ''/projects/p/**'' ''/projects/pq''"
proof -
  have "plain ''/projects/p''" by (simp add: plain_def)
  from subtree_pattern [OF this] show ?thesis by (simp add: HasPrefix_def)
qed

text \<open>C24. Match returns, each once, exactly the stored triggers under the parent all of whose filters
  the event passes and whose condition label, when it is set, CEL evaluates to true.\<close>

theorem router_is_exact:
  assumes "storage_inv st" and "iter_order (e_order e)"
  shows "\<exists>ts l. Match c lgr (\<lambda>p. ListAllTriggers e p st) parent event = (Ok ts, l) \<and>
    distinct (map tr_Name ts) \<and>
    (\<forall>t. t \<in> set ts \<longleftrightarrow> map_of (triggers st) (tr_Name t) = Some t \<and>
      HasPrefix (tr_Name t) (parent @ ''/triggers/'') \<and>
      (\<forall>f \<in> set (tr_EventFilters t). filterMatches event f) \<and>
      (\<forall>cond. map_of (tr_Labels t) conditionLabelKey = Some cond \<and> cond \<noteq> [] \<longrightarrow>
        fst (evalCELCondition c cond event lgr)))"
proof -
  have wf: "wf_table tr_Name (triggers st)" using assms(1) by (simp add: storage_inv_def)
  let ?cs = "filter (takes c event) (children tr_Name (parent @ ''/triggers/'') (triggers st))"
  obtain ts l where ts: "Match c lgr (\<lambda>p. ListAllTriggers e p st) parent event = (Ok ts, l)"
    "mset ts = mset ?cs"
    using rtr.Match_exact [OF wf assms(2), of c lgr parent event] by auto
  have names: "map tr_Name (map snd (triggers st)) = map fst (triggers st)"
    using wf by (auto simp: wf_table_def)
  then have "distinct (map tr_Name (map snd (triggers st)))"
    using wf_table_distinct [OF wf] by metis
  then have "distinct (map tr_Name ?cs)"
    unfolding children_def by (intro distinct_map_filter)
  then have d: "distinct (map tr_Name ts)"
    using ts(2) by (metis mset_map mset_eq_imp_distinct_iff)
  note takes_iff [of c event _ lgr]
  moreover have "t \<in> set (map snd (triggers st)) \<longleftrightarrow> map_of (triggers st) (tr_Name t) = Some t" for t
    using wf_table_mem [OF wf] by blast
  ultimately have "t \<in> set ts \<longleftrightarrow> map_of (triggers st) (tr_Name t) = Some t \<and>
      HasPrefix (tr_Name t) (parent @ ''/triggers/'') \<and>
      (\<forall>f \<in> set (tr_EventFilters t). filterMatches event f) \<and>
      (\<forall>cond. map_of (tr_Labels t) conditionLabelKey = Some cond \<and> cond \<noteq> [] \<longrightarrow>
        fst (evalCELCondition c cond event lgr))" for t
    using mset_eq_setD [OF ts(2)] by (auto simp: children_def)
  then show ?thesis using ts(1) d by blast
qed

theorem router_is_exact_witness:
  "\<exists>ts l. Match cel0 (New ''error'') (\<lambda>p. ListAllTriggers env0 p (storage server1)) loc0 event0 = (Ok ts, l) \<and>
    stored0 \<in> set ts"
proof -
  have inv: "storage_inv (storage server1)"
    using reachable_inv [OF server1_reachable] by (simp add: server_inv_def)
  have "map_of (triggers (storage server1)) (tr_Name stored0) = Some stored0"
    by (simp add: server1_contents stored0_def)
  moreover have "HasPrefix (tr_Name stored0) (loc0 @ ''/triggers/'')"
    "\<forall>f \<in> set (tr_EventFilters stored0). filterMatches event0 f"
    "map_of (tr_Labels stored0) conditionLabelKey = None"
    by (simp_all add: stored0_def trigger0_def trigger_name0_def loc0_def HasPrefix_def filterMatches_def
        attrValue_def event0_def)
  ultimately show ?thesis
    using router_is_exact [OF inv env0_facts(1), of cel0 "New ''error''" loc0 event0] by auto
qed

section \<open>Publishing\<close>

text \<open>C25. A publication to an existing channel succeeds and sends, for every event that decodes and
  every trigger of the channel's project and location that takes it, the one request of that trigger,
  and no other: a bad event, a trigger without a usable destination or a failing receiver stops
  nothing.\<close>

theorem publication_reaches_every_trigger:
  assumes "reachable s" and "iter_order (e_order e)" and "CHR ''/'' \<notin> set ch"
    and "GetChannelExists (p @ ''/channels/'' @ ch) (storage s) = Ok True"
  shows "\<exists>reqs l. publishEvents lib c h log ord e s
      \<lparr>pr_Channel = p @ ''/channels/'' @ ch, pr_Events = as\<rparr> = (Ok (), reqs, l) \<and>
    mset reqs = mset (concat (map (expected c h ord s p) (decoded lib ord as)))"
proof -
  have inv: "storage_inv (storage s)"
    using reachable_inv [OF assms(1)] by (simp add: server_inv_def)
  let ?lgr = "OrDefault log"
  obtain reqs l where run: "processAnySlice lib ord (Match c ?lgr (\<lambda>p. ListAllTriggers e p (storage s)))
      (Dispatch h ord ?lgr) ?lgr p as = (Ok (), reqs, l)"
    "mset reqs = mset (concat (map (expected c h ord s p) (decoded lib ord as)))"
    using slice_posts [OF inv assms(2)] by blast
  then show ?thesis
    using assms(4) parentFromChannel_join [OF assms(3), of p]
    by (simp add: publishEvents_def PublishEvents_def Let_def)
qed

theorem publication_reaches_every_trigger_witness:
  "\<exists>reqs l. publishEvents sdk0 cel0 http0 None rev env0 server2
      \<lparr>pr_Channel = loc0 @ ''/channels/ch'',
       pr_Events = [Some ''t1'', None, Some [], Some ''t2'']\<rparr> = (Ok (), reqs, l) \<and>
    mset reqs = {#request2#}"
proof -
  have reach: "reachable server2"
    unfolding server2_def by (rule reachable.call [OF server1_reachable surjective_pairing])
  have "GetChannelExists (loc0 @ ''/channels/'' @ ''ch'') (storage server2) = Ok True" by code_simp
  from publication_reaches_every_trigger [OF reach env0_facts(1) _ this, of sdk0 cel0 http0 None rev
      "[Some ''t1'', None, Some [], Some ''t2'']"]
  obtain reqs l where "publishEvents sdk0 cel0 http0 None rev env0 server2
      \<lparr>pr_Channel = loc0 @ ''/channels/'' @ ''ch'', pr_Events = [Some ''t1'', None, Some [], Some ''t2'']\<rparr> =
      (Ok (), reqs, l)"
    "mset reqs = mset (concat (map (expected cel0 http0 rev server2 loc0)
      (decoded sdk0 rev [Some ''t1'', None, Some [], Some ''t2''])))" by auto
  moreover have "concat (map (expected cel0 http0 rev server2 loc0)
      (decoded sdk0 rev [Some ''t1'', None, Some [], Some ''t2''])) = [request2]" by code_simp
  ultimately show ?thesis by auto
qed

text \<open>A publication to a channel that does not exist is answered NotFound, before anything is sent
  or logged.\<close>

theorem unknown_channel_publishes_nothing:
  assumes "ch \<noteq> []" and "map_of (channels (storage s)) ch = None"
  shows "publishEvents lib c h log ord e s \<lparr>pr_Channel = ch, pr_Events = as\<rparr> =
    (Err (Status NotFound [Txt ''Channel '', Quoted ch, Txt '' not found''] []), [], [])"
  using assms by (simp add: publishEvents_def PublishEvents_def GetChannelExists_def Let_def)

theorem unknown_channel_publishes_nothing_witness:
  "publishEvents sdk0 cel0 http0 None rev env0 server1 \<lparr>pr_Channel = ''c'', pr_Events = [Some ''t1'']\<rparr> =
    (Err (Status NotFound [Txt ''Channel '', Quoted ''c'', Txt '' not found''] []), [], [])"
proof -
  have "map_of (channels (storage server1)) ''c'' = None" by code_simp
  then show ?thesis using unknown_channel_publishes_nothing [of "''c''" server1] by blast
qed



text \<open>C27. What the dispatcher posts, the example webhook receiver prints: when HTTP carries the request
  over, a line for each required context attribute, one for each extension, and the data of the event;
  and the lines do not depend on the order in which the receiver ranges over the headers.\<close>

theorem webhook_shows_event:
  assumes "clean_extensions ev" and "distinct (map fst (ev_Extensions ev))"
    and "iter_order ord" and "iter_order ord'"
    and "fst (snd (Dispatch h ord lgr t ev)) = [q]" and "carries q r"
  shows "{''    Ce-Id: '' @ ev_ID ev, ''    Ce-Type: '' @ ev_Type ev, ''    Ce-Source: '' @ ev_Source ev,
      ''    Ce-Specversion: '' @ ev_SpecVersion ev} \<subseteq> set (fst (receive_event ord' r)) \<and>
    (\<forall>k v. (k, v) \<in> set (ev_Extensions ev) \<longrightarrow>
      ''    '' @ extHeader k @ '': '' @ Sprintf_v v \<in> set (fst (receive_event ord' r))) \<and>
    (\<forall>b. ev_DataEncoded ev = Some b \<and> b \<noteq> [] \<longrightarrow> ''    '' @ b \<in> set (fst (receive_event ord' r))) \<and>
    (\<forall>ord''. iter_order ord'' \<longrightarrow> receive_event ord'' r = receive_event ord' r)"
proof -
  obtain url body where q: "q = \<lparr>rq_URL = url, rq_Header = eventHeaders h ord ev, rq_Body = body\<rparr>"
    and body: "\<And>b. ev_DataEncoded ev = Some b \<Longrightarrow> body = b"
    using assms(5) by (auto simp: dsp.send_law posts_def split: result.splits if_splits)
  have same: "receive_event ord'' r = receive_event ord' r" if "iter_order ord''" for ord''
    using assms(4,6) that by (intro receive_event_order) (simp_all add: carries_def)
  note shown = receive_shows_event [OF assms(6) [unfolded q] assms(3,4,2,1)]
  have "''    '' @ b \<in> set (fst (receive_event ord' r))" if "ev_DataEncoded ev = Some b" "b \<noteq> []" for b
    using shown(3) body [OF that(1)] that(2) by simp
  with shown(1,2) same show ?thesis by blast
qed

theorem webhook_shows_event_witness:
  "{''    Ce-Id: 1'', ''    Ce-Region: eu'', ''    x''} \<subseteq> set (fst (receive_event rev incoming0))"
proof -
  let ?ev = "event0\<lparr>ev_DataContentType := ''text/plain'', ev_DataEncoded := Some ''x''\<rparr>"
  have ext: "extHeader ''region'' = ''Ce-Region''" "extHeader ''zone'' = ''Ce-Zone''" by code_simp+
  have ev: "clean_extensions ?ev" "distinct (map fst (ev_Extensions ?ev))"
    by (simp_all add: clean_extensions_def event0_def ext)
  have sent: "fst (snd (Dispatch http0 rev (New ''error'') trigger0 ?ev)) = [request2]" by code_simp
  have no: "\<not> HasPrefix (ToLower ''User-Agent'') ''ce-''" "\<not> HasPrefix (ToLower ''Content-Type'') ''ce-''"
    by code_simp+
  have "map_of (rq_Header request2) k = None \<longleftrightarrow> map_of (in_Header incoming0) k = None"
    if "HasPrefix (ToLower k) ''ce-''" for k
  proof -
    have "k \<noteq> ''User-Agent''" using that no(1) by blast
    moreover have "set (map fst (in_Header incoming0)) = insert ''User-Agent'' (set (map fst (rq_Header request2)))"
      by code_simp
    ultimately show ?thesis unfolding map_of_eq_None_iff set_map by auto
  qed
  moreover have "\<forall>kv \<in> set (rq_Header request2). map_of (in_Header incoming0) (fst kv) = Some [snd kv]"
    "distinct (map fst (in_Header incoming0))" "in_Body incoming0 = rq_Body request2"
    "in_Method incoming0 = ''POST''" by code_simp+
  ultimately have "carries request2 incoming0"
    unfolding carries_def by (fastforce dest: map_of_SomeD)
  note shown = webhook_shows_event [OF ev iter_order_rev iter_order_rev sent this]
  have "''    Ce-Id: '' @ ev_ID ?ev \<in> set (fst (receive_event rev incoming0))"
    by (rule subsetD [OF shown [THEN conjunct1]], rule insertI1)
  moreover have "(''region'', ExtString ''eu'') \<in> set (ev_Extensions ?ev)" "ev_DataEncoded ?ev = Some ''x''"
    by (simp_all add: event0_def)
  moreover have "ev_ID ?ev = ''1''" "Sprintf_v (ExtString ''eu'') = ''eu''" by (simp_all add: event0_def)
  ultimately show ?thesis
    using shown [THEN conjunct2, THEN conjunct1, rule_format, of "''region''" "ExtString ''eu''"]
      shown [THEN conjunct2, THEN conjunct2, THEN conjunct1, rule_format, of "''x''"]
    by (simp only: ext append.simps insert_subset empty_subsetI simp_thms list.distinct)
qed

section \<open>The REST gateway and the programs\<close>

text \<open>C28. The gateway adds nothing to the service: whatever the mux and its runtime do, a REST request
  leaves everything as it is and is answered by the gateway, or it is one gRPC call, debugged or not,
  whose state and result it passes on. So every state reached over REST is one that gRPC reaches, and
  no REST request panics.\<close>

theorem rest_refines_grpc:
  assumes "reachable (w_server w)"
    and "Handler mx rts (NewGRPCServer names logger (serve lib c h lg ord e)) req w = (reply, w')"
  shows "relays (NewGRPCServer names logger (serve lib c h lg ord e)) w reply w' \<and>
    reachable (w_server w') \<and>
    (small (w_server w) \<and> iter_order (e_order e) \<longrightarrow> \<not> is_panic reply)"
proof -
  let ?conn = "NewGRPCServer names logger (serve lib c h lg ord e)"
  have rel: "relays ?conn w reply w'" by (rule Handler_relays [OF assms(2)])
  then have "w' = w \<or> (\<exists>call r. ?conn call w = (r, w'))"
    unfolding relays_def by blast
  then have "reachable (w_server w')" using NewGRPCServer_reachable assms(1) by blast
  moreover have "\<not> is_panic reply" if "small (w_server w)" "iter_order (e_order e)"
    by (rule relays_no_panic [OF rel]) (rule NewGRPCServer_no_panic [OF assms(1) that])
  ultimately show ?thesis using rel by blast
qed

theorem rest_refines_grpc_witness:
  "\<exists>reply w'. Handler mux0 runtimes0 (NewGRPCServer (\<lambda>call. ''m'') [Some (New ''debug'')] serve0)
       patch_trigger0 world1 = (reply, w') \<and> reachable (w_server w') \<and> \<not> is_panic reply"
proof -
  let ?conn = "NewGRPCServer (\<lambda>call. ''m'') [Some (New ''debug'')] serve0"
  obtain reply w' where run: "Handler mux0 runtimes0 ?conn patch_trigger0 world1 = (reply, w')"
    by (cases "Handler mux0 runtimes0 ?conn patch_trigger0 world1")
  have "reachable (w_server world1)" "small (w_server world1)"
    using server1_reachable small0 by (simp_all add: world1_def)
  with rest_refines_grpc [OF _ run [unfolded serve0_def]] run show ?thesis by simp
qed

text \<open>No two routes of the gateway are registered for the same HTTP method and path template: there
  are 47 methods and two health paths, and none is shadowed by a later registration. The in-process
  registrations of the three services give the very same routes wherever the two functions that
  annotate a context agree.\<close>

theorem rest_routes_distinct:
  "length (New_gateway rts conn) = 49 \<and> distinct (map route_shape (New_gateway rts conn)) \<and>
   (let rts2 = rts\<lparr>rts_AnnotateIncoming := rts_Annotate rts\<rparr>
    in RegisterEventarcHandlerServer rts2 conn = RegisterEventarcHandlerClient rts2 conn \<and>
       RegisterOperationsHandlerServer rts2 conn = RegisterOperationsHandlerClient rts2 conn \<and>
       RegisterPublisherHandlerServer rts2 conn = RegisterPublisherHandlerClient rts2 conn)"
proof -
  have "distinct (map route_shape (New_gateway rts conn))"
    using all_keys_distinct by (metis distinct_map map_map route_shape_keys)
  moreover have "length (New_gateway rts conn) = 49"
    using arg_cong [OF route_shape_keys, of length rts conn] by (simp add: route_keys_def)
  ultimately show ?thesis
    by (simp add: RegisterEventarcHandlerServer_Client RegisterOperationsHandlerServer_Client
        RegisterPublisherHandlerServer_Client)
qed

text \<open>C29. The name of an operation works as a REST path: a GET on it passes the rewriter, the mux and the
  generated handler, and is answered with the operation; nothing changes. Assumed are that the mux
  takes the path to the route of \<open>GetOperation\<close>, and that the runtime leaves a string as it is.\<close>

theorem operation_names_work_over_rest:
  assumes "CreateTrigger_rpc e q s = (Ok opn, w_server w)" and "\<not> cq_ValidateOnly q"
    and "HasPrefix (cq_Parent q) ''projects/''"
    and "rr_Method req = ''GET''" and "rr_Path req = ''/v1/'' @ op_Name opn"
    and "mx (map (\<lambda>r. (ro_Method r, ro_Pattern r)) (New_gateway rts (serve lib c h lg ord e2))) ''GET''
      (''/v1/operations/'' @ op_Name opn) = Some (43, [(''name'', ''operations/'' @ op_Name opn)])"
    and "rt_String (rts_Get rts) (''operations/'' @ op_Name opn) = Inr (''operations/'' @ op_Name opn)"
    and "rts_Annotate rts (req\<lparr>rr_Path := ''/v1/operations/'' @ op_Name opn\<rparr>)
      ''/google.longrunning.Operations/GetOperation'' ''/v1/{name=operations/**}'' = None"
  shows "Handler mx rts (serve lib c h lg ord e2) req w =
    (Ok (Forward (Answer (OperationResp opn))), w)"
proof -
  let ?routes = "New_gateway rts (serve lib c h lg ord e2)"
  let ?req = "req\<lparr>rr_Path := ''/v1/operations/'' @ op_Name opn\<rparr>"
  let ?call = "Eventarc (GetOperationRPC \<lparr>gr_Name = ''operations/'' @ op_Name opn\<rparr>)"
  obtain r st t where c:
    "done_op e (cq_Parent q) (AnyTrigger r) ''create'' t (s\<lparr>storage := st\<rparr>) = (Ok opn, w_server w)"
    using trig_api.create_rpc [OF assms(1,2)] by blast
  have "map_of (ops (lroStore (w_server w))) (op_Name opn) = Some opn"
    using done_op_Ok(4) [OF c] by (simp add: map_simps)
  then have call: "serve lib c h lg ord e2 ?call w = (Ok (Answer (OperationResp opn)), w)"
    using GetOperation_stored(2) by (simp add: serve_def answer_def lro_query_def)
  have route: "43 < length ?routes" "?routes ! 43 = route_GetOperation rts (serve lib c h lg ord e2)"
    by (simp_all add: New_gateway_def RegisterEventarcHandlerClient_def
        RegisterPublisherHandlerClient_def RegisterOperationsHandlerClient_def)
  have "ro_Serve (?routes ! 43) ?req [(''name'', ''operations/'' @ op_Name opn)] w =
      (Ok (Forward (Answer (OperationResp opn))), w)"
    using call assms(7,8) by (simp add: route route_GetOperation_def rest_handler_def
        request_Operations_GetOperation_0_def pathParam_def seq_give_cases zeroGet_def)
  then have "ServeHTTP mx ?routes ?req w = (Ok (Forward (Answer (OperationResp opn))), w)"
    using route(1) assms(4,6) by (simp add: ServeHTTP_def)
  then show ?thesis
    using done_op_rewritten [OF c assms(3)] assms(4,5) by (simp add: Handler_def)
qed

theorem operation_names_work_over_rest_witness:
  "Handler mux0 runtimes0 serve0 get_operation0 world1 =
    (Ok (Forward (Answer (OperationResp operation0))), world1)"
proof -
  have "CreateTrigger_rpc env0 create_trigger0 server0 = (Ok operation0, w_server world1)"
    using create0 by (auto simp: world1_def answer_def elim!: map_result_OkE split: prod.splits)
  from operation_names_work_over_rest [OF this, of get_operation0 mux0 runtimes0] show ?thesis
    by (simp add: serve0_def get_operation0_def create_trigger0_def loc0_def HasPrefix_def mux0_def
        runtimes0_def plain0_def runtime0_def)
qed

text \<open>C30. ListOperations answers with the stored operations whose name begins with the requested one, less
  a leading \<open>operations/\<close>, each once. Two consequences of a comparison of bare prefixes: the operations
  of a location whose name begins like another's are listed with them, and the name \<open>operations\<close>,
  the only one the route \<open>/v1/{name=operations}\<close> has, lists none.\<close>

theorem operations_list_by_prefix:
  assumes "reachable s" and "iter_order (e_order e)"
  shows "\<exists>l. handle e (ListOperationsRPC \<lparr>gr_Name = n\<rparr>) s = (Ok (OperationsResp l), s) \<and> distinct l \<and>
    set l = {opn. map_of (ops (lroStore s)) (op_Name opn) = Some opn \<and>
      HasPrefix (op_Name opn) (TrimPrefix n ''operations/'')}"
proof -
  let ?p = "TrimPrefix n ''operations/''"
  let ?l = "map snd (filter (\<lambda>(name, opn). ?p = [] \<or> HasPrefix name ?p)
    (range_map (e_order e) (ops (lroStore s))))"
  have wf: "wf_table op_Name (ops (lroStore s))"
    using reachable_inv [OF assms(1)] by (simp add: server_inv_def store_inv_def)
  have "set ?l = {opn. map_of (ops (lroStore s)) (op_Name opn) = Some opn \<and> HasPrefix (op_Name opn) ?p}"
    using wf_table_listed(1) [OF wf assms(2), of "\<lambda>name. ?p = [] \<or> HasPrefix name ?p"]
    by (auto simp: HasPrefix_def case_prod_unfold)
  moreover have "distinct ?l"
    using wf_table_listed(2) [OF wf assms(2), of "\<lambda>name. ?p = [] \<or> HasPrefix name ?p"]
    by (simp add: case_prod_unfold)
  moreover have "handle e (ListOperationsRPC \<lparr>gr_Name = n\<rparr>) s = (Ok (OperationsResp ?l), s)"
    by (simp add: answer_def lro_query_def ListOperations_def Let_def)
  ultimately show ?thesis by blast
qed

theorem operations_list_by_prefix_witness:
  "handle env0 (ListOperationsRPC \<lparr>gr_Name = ''operations''\<rparr>) server1 = (Ok (OperationsResp []), server1) \<and>
   handle env0 (ListOperationsRPC \<lparr>gr_Name = ''projects/p/loc''\<rparr>) server1 =
     (Ok (OperationsResp [operation0]), server1)"
proof -
  have none: "{opn. map_of (ops (lroStore server1)) (op_Name opn) = Some opn \<and>
      HasPrefix (op_Name opn) (TrimPrefix ''operations'' ''operations/'')} = {}"
    by (auto simp: server1_contents operation0_def TrimPrefix_def HasPrefix_def split: if_splits)
  have one: "{opn. map_of (ops (lroStore server1)) (op_Name opn) = Some opn \<and>
      HasPrefix (op_Name opn) (TrimPrefix ''projects/p/loc'' ''operations/'')} = {operation0}"
    by (auto simp: server1_contents operation0_def TrimPrefix_def HasPrefix_def split: if_splits)
  show ?thesis
    using operations_list_by_prefix [OF server1_reachable env0_facts(1), of "''operations''"]
      operations_list_by_prefix [OF server1_reachable env0_facts(1), of "''projects/p/loc''"]
    unfolding none one by (auto simp: distinct_singleton_iff)
qed





text \<open>C33. The gateway looks for the last \<open>/operations\<close> in a path, so a trigger whose ID begins with
  \<open>operations\<close>, a valid ID, cannot be read over REST: the GET of its name lists the operations of
  another name, or goes to the operations service.\<close>

theorem operations_ids_are_misrouted:
  assumes "HasPrefix p ''projects/''" and "CHR ''/'' \<notin> set x"
  shows "projectScopedLRORewriter ''GET'' (''/v1/'' @ p @ ''/triggers/operations'' @ x) =
    (if x = [] then ListOps (p @ ''/triggers'')
     else ServeMux (''/v1/operations/'' @ p @ ''/triggers/operations'' @ x))"
proof -
  have "\<not> Contains (tl ''/operations'' @ x) ''/operations''"
    using assms(2) Contains_set [of "tl ''/operations'' @ x" "''/operations''" "CHR ''/''"] by auto
  then have "LastIndex ((p @ ''/triggers'') @ ''/operations'' @ x) ''/operations'' =
      Some (length (p @ ''/triggers''))"
    by (rule LastIndex_append) simp
  moreover have "HasPrefix (p @ ''/triggers/operations'' @ x) ''projects/''"
    using assms(1) by (auto simp: HasPrefix_iff)
  moreover have "HasPrefix (''/v1/'' @ p @ ''/triggers/operations'' @ x) ''/v1/''"
    by (rule HasPrefix_append)
  ultimately show ?thesis
    using assms(2) by (auto simp: projectScopedLRORewriter_def Let_def)
qed

theorem operations_ids_are_misrouted_witness:
  "resourceIDRe ''operations-1'' \<and>
   projectScopedLRORewriter ''GET'' ''/v1/projects/p/locations/l/triggers/operations-1'' =
     ServeMux ''/v1/operations/projects/p/locations/l/triggers/operations-1''"
proof -
  have "resourceIDRe ''operations-1''" by code_simp
  moreover have "HasPrefix loc0 ''projects/''" by (simp add: loc0_def HasPrefix_def)
  ultimately show ?thesis
    using operations_ids_are_misrouted [of loc0 "''-1''"] by (simp add: loc0_def)
qed



text \<open>The servers with a gateway listen on valid ports only. The gRPC server does too, unless it falls
  back to the deprecated flag, whose port is never checked, and it does so even when the gRPC port is
  set, to its default.\<close>

theorem listening_ports:
  "(snd (mainDual f) = ListenBoth g h l \<or> snd (mainRest f) = ListenBoth g h l \<longrightarrow>
      sint g \<in> {1..65535} \<and> sint h \<in> {1..65535}) \<and>
   (snd (mainServer f) = Listen p l \<longrightarrow>
      (if int_flag ''grpc-port'' f = 9085 \<and> int_flag ''port'' f \<noteq> 9085 then p = int_flag ''port'' f
       else p = int_flag ''grpc-port'' f \<and> sint p \<in> {1..65535}))"
  by (auto simp: mainDual_def mainRest_def mainServer_def badPort_def word_sless_alt not_less Let_def
      split: if_splits result.splits)

theorem listening_ports_witness:
  "(\<exists>p l. snd (mainServer flags0) = Listen p l \<and> p = 70000) \<and>
   (\<exists>g h l. snd (mainDual flags0) = ListenBoth g h l \<and> sint g \<in> {1..65535} \<and> sint h \<in> {1..65535})"
proof -
  note defs = flags0_def validateLogLevel_def badPort_def Let_def word_sless_alt bool_flag_def
    string_flag_def int_flag_def
  obtain p l where "snd (mainServer flags0) = Listen p l"
    by (simp add: mainServer_def defs)
  moreover obtain g h l where "snd (mainDual flags0) = ListenBoth g h l"
    by (simp add: mainDual_def defs)
  ultimately show ?thesis
    using listening_ports [of flags0] by (simp add: flags0_def int_flag_def)
qed

text \<open>A port given with --grpc-port is the port the programs listen on, whatever the environment
  says, with one exception: cmd/server takes 9085 for no flag at all and goes back to the environment.\<close>

theorem flag_beats_environment:
  assumes "ParseInt s = Inr p" and "\<not> badPort p"
    and "validateLogLevel (getEnv env ''GCP_MOCK_LOG_LEVEL'' ''info'') = Ok ()"
  shows "startServer env [''--grpc-port'', s] = ([], Listen
      (if p = 9085 then getEnvPort env ''EVENTARC_EMULATOR_HOST'' 9085 else p)
      (getEnv env ''GCP_MOCK_LOG_LEVEL'' ''info'')) \<and>
    (\<not> badPort (getEnvInt env ''EVENTARC_HTTP_PORT'' 8085) \<longrightarrow>
      snd (startDual env [''--grpc-port'', s]) = ListenBoth p (getEnvInt env ''EVENTARC_HTTP_PORT'' 8085)
        (getEnv env ''GCP_MOCK_LOG_LEVEL'' ''info'') \<and>
      snd (startRest env [''--grpc-port'', s]) = ListenBoth p (getEnvInt env ''EVENTARC_HTTP_PORT'' 8085)
        (getEnv env ''GCP_MOCK_LOG_LEVEL'' ''info''))"
  using grpc_port_flag [OF assms] by simp

theorem flag_beats_environment_witness:
  "startServer (\<lambda>k. if k = ''EVENTARC_EMULATOR_HOST'' then ''7000'' else []) [''--grpc-port'', ''9085''] =
     ([], Listen 7000 ''info'') \<and>
   startServer (\<lambda>k. if k = ''EVENTARC_EMULATOR_HOST'' then ''7000'' else []) [''--grpc-port'', ''0x1F90''] =
     ([], Listen 8080 ''info'')"
proof -
  let ?env = "\<lambda>k. if k = ''EVENTARC_EMULATOR_HOST'' then ''7000'' else []"
  have parsed: "ParseInt ''9085'' = Inr 9085" "ParseInt ''0x1F90'' = Inr 8080" by code_simp+
  have ports: "\<not> badPort 9085" "\<not> badPort 8080" by (simp_all add: badPort_def word_sless_alt)
  have level: "getEnv ?env ''GCP_MOCK_LOG_LEVEL'' ''info'' = ''info''" by (simp add: getEnv_def)
  have "getEnvPort ?env ''EVENTARC_EMULATOR_HOST'' 9085 = 7000"
    by (simp add: getEnvPort_def scan_host_port_None) code_simp
  then show ?thesis
    using flag_beats_environment [OF parsed(1) ports(1), of ?env]
      flag_beats_environment [OF parsed(2) ports(2), of ?env] level
    by (simp add: validateLogLevel_def)
qed





text \<open>C37. When a program reports that it is ready, its gRPC goroutine has reported the listener, and,
  unless the process has failed since, the address is being listened on and the server that answers is
  in a state from which all that is shown of the RPCs applies.\<close>

theorem ready_after_listening:
  assumes "program_runs h k env args tr q" and "\<forall>n. snd (start_program k env args) \<noteq> Exit n"
    and "(0, ready_line k) \<in> set tr"
  shows "(1, hd (grpc_text k)) \<in> set tr \<and> ps_ready q \<and>
    (ps_end q \<noteq> Some (ExitStatus 1) \<longrightarrow>
      ps_grpc q \<noteq> None \<and> (\<exists>srv. ps_server q = Some srv \<and> reachable srv))"
  using program_ready [OF assms] by (auto simp: failed_def)

theorem ready_after_listening_witness:
  "\<exists>tr q. program_runs host0 Cmd_server noenv [] tr q \<and> (0, ready_line Cmd_server) \<in> set tr \<and>
     (1, Addr_line ''gRPC server listening at '' []) \<in> set tr \<and> ps_grpc q \<noteq> None"
proof -
  obtain tr q where run: "program_runs host0 Cmd_server noenv [] tr q" "(0, ready_line Cmd_server) \<in> set tr"
    "ps_end q = Some (ExitStatus 0)"
    using server_signal(1) [OF noenv_start(1) host0_start(1,3,5)] by blast
  then show ?thesis
    using ready_after_listening [OF run(1) _ run(2)] noenv_start(1) by (auto simp: grpc_text_def)
qed

text \<open>C38. cmd/server-dual reports that it is ready for gRPC and REST requests without waiting for its
  HTTP listener: when the HTTP port is taken, the line can be printed and the process fails after it.\<close>

theorem ready_before_http:
  assumes "start_program Cmd_server_dual env args = (ls, ListenBoth g p l)"
    and "ho_Listen h (port_addr [] g) = None"
    and "NewServer (ho_IsEnabled h) (ho_Connect h) (ho_Mode h) = Ok srv"
    and "fst (New_Gateway (ho_Gateway h) (port_addr ''localhost'' g)) = Ok gw"
    and "ho_Listen h (port_addr [] p) = Some x"
  shows "\<exists>tr q. program_runs h Cmd_server_dual env args tr q \<and> (0, ready_line Cmd_server_dual) \<in> set tr \<and>
    ps_end q = Some (ExitStatus 1)"
  by (rule dual_ready_first [OF assms])

theorem ready_before_http_witness:
  "\<exists>tr q. program_runs host0 Cmd_server_dual noenv [] tr q \<and>
     (0, ready_line Cmd_server_dual) \<in> set tr \<and> ps_end q = Some (ExitStatus 1)"
proof -
  obtain x where "ho_Listen host0 (port_addr [] 8085) = Some x" using host0_start(2) by auto
  from ready_before_http [OF noenv_start(2) host0_start(1,3,4) this] show ?thesis .
qed

text \<open>C39. cmd/server closes its ready channel before it calls \<open>Serve\<close>: a signal in between stops a
  server that does not serve yet, and \<open>Serve\<close> then fails and turns a requested shutdown into an exit
  with status 1. The same program can also shut down cleanly.\<close>

theorem shutdown_races_with_serve:
  assumes "start_program Cmd_server env args = (ls, Listen p l)"
    and "ho_Listen h (port_addr [] p) = None"
    and "NewServer (ho_IsEnabled h) (ho_Connect h) (ho_Mode h) = Ok srv" and "ho_Drains h"
    and "ho_Serve h True \<noteq> None"
  shows "(\<exists>tr q. program_runs h Cmd_server env args tr q \<and> ps_end q = Some (ExitStatus 0)) \<and>
    (\<exists>tr q. program_runs h Cmd_server env args tr q \<and> ps_signalled q \<and> ps_end q = Some (ExitStatus 1))"
  using server_signal [OF assms(1-4)] assms(5) by blast

theorem shutdown_races_with_serve_witness:
  "(\<exists>tr q. program_runs host0 Cmd_server noenv [] tr q \<and> ps_end q = Some (ExitStatus 0)) \<and>
   (\<exists>tr q. program_runs host0 Cmd_server noenv [] tr q \<and> ps_signalled q \<and> ps_end q = Some (ExitStatus 1))"
  by (rule shutdown_races_with_serve [OF noenv_start(1) host0_start(1,3,5,6)])

section \<open>The example client\<close>



end
